(* ===== verification/Gateway_Prelude.thy ===== *)
theory Gateway_Prelude
  imports Main "HOL-Library.Char_ord" "HOL-Library.List_Lexorder"
begin

text \<open>
  Shared vocabulary of the development: results that may fail, database tables as lists of
  rows, Python strings and JSON values, and the lemmas about them that every component uses.

  A Python \<open>str\<close> is a \<^typ>\<open>string\<close> whose characters are the code points below 256, so that
  \<open>len\<close>, \<open>strip\<close>, \<open>lower\<close> and \<open>isalnum\<close> below are Python's on that range. A JSON value is
  a \<open>json\<close>; floating-point numbers are left out. A timestamp is an \<^typ>\<open>int\<close>: microseconds of
  UTC since the epoch, which is what \<open>_aware\<close> and \<open>_as_utc\<close> make of every stored datetime.
\<close>

named_theorems op_simps \<open>equations that turn a successful call into facts about its steps\<close>
named_theorems frame_simps \<open>tables an operation does not touch\<close>

section \<open>Results that may fail\<close>

text \<open>
  What an operation can raise. \<open>HTTPException\<close> carries its status code and detail,
  \<open>MultipleResultsFound\<close> is what \<open>Query.one_or_none\<close> raises on two rows, \<open>IntegrityError\<close> a
  unique constraint violated at a flush that the code does not catch.
\<close>

datatype err =
    HTTPException nat string
  | MultipleResultsFound
  | IntegrityError
  | ValueError string
  | LookupError string

type_synonym 'a res = "err + 'a"

fun bindE :: "'e + 'a \<Rightarrow> ('a \<Rightarrow> 'e + 'b) \<Rightarrow> 'e + 'b" where
  "bindE (Inl e) f = Inl e"
| "bindE (Inr x) f = f x"

definition ensure :: "bool \<Rightarrow> 'e \<Rightarrow> 'e + unit" where
  "ensure c e = (if c then Inr () else Inl e)"

lemma bindE_eq_Inr [simp, op_simps]:
  "bindE m f = Inr y \<longleftrightarrow> (\<exists>x. m = Inr x \<and> f x = Inr y)"
  by (cases m) auto

lemma bindE_eq_Inl:
  "bindE m f = Inl e \<longleftrightarrow> m = Inl e \<or> (\<exists>x. m = Inr x \<and> f x = Inl e)"
  by (cases m) auto

lemma ensure_eq_Inr [simp, op_simps]: "ensure c e = Inr u \<longleftrightarrow> c"
  by (auto simp: ensure_def)

lemma ensure_eq_Inl [simp]: "ensure c e = Inl e' \<longleftrightarrow> \<not> c \<and> e' = e"
  by (auto simp: ensure_def)

lemma ensure_True [simp]: "ensure True e = Inr ()"
  by (simp add: ensure_def)

lemma ensure_False [simp]: "ensure False e = Inl e"
  by (simp add: ensure_def)

lemma bindE_cong [fundef_cong]:
  assumes "m = m'" and "\<And>x. m' = Inr x \<Longrightarrow> f x = f' x"
  shows "bindE m f = bindE m' f'"
  using assms by (cases m') auto

text \<open>A loop whose body may raise stops at the first error.\<close>

fun forE :: "('a \<Rightarrow> 'e + unit) \<Rightarrow> 'a list \<Rightarrow> 'e + unit" where
  "forE f [] = Inr ()"
| "forE f (x # xs) = bindE (f x) (\<lambda>_. forE f xs)"

lemma forE_eq_Inr [simp]: "forE f xs = Inr u \<longleftrightarrow> (\<forall>x \<in> set xs. f x = Inr ())"
  by (induction xs) auto

section \<open>Tables\<close>

text \<open>
  A table is the list of its rows in insertion order. \<open>one_or_none\<close> is
  \<open>Query.one_or_none\<close> of the rows a filter selects, \<open>update_where\<close> is an update of the
  rows a filter selects, \<open>count_where\<close> is \<open>Query.count\<close>.
\<close>

definition one_or_none :: "('r \<Rightarrow> bool) \<Rightarrow> 'r list \<Rightarrow> 'r option res" where
  "one_or_none P rows =
     (case filter P rows of
        [] \<Rightarrow> Inr None
      | [r] \<Rightarrow> Inr (Some r)
      | _ \<Rightarrow> Inl MultipleResultsFound)"

definition update_where :: "('r \<Rightarrow> bool) \<Rightarrow> ('r \<Rightarrow> 'r) \<Rightarrow> 'r list \<Rightarrow> 'r list" where
  "update_where P f rows = map (\<lambda>r. if P r then f r else r) rows"

definition count_where :: "('r \<Rightarrow> bool) \<Rightarrow> 'r list \<Rightarrow> nat" where
  "count_where P rows = length (filter P rows)"

lemma one_or_none_Some:
  "one_or_none P rows = Inr (Some r) \<Longrightarrow> r \<in> set rows \<and> P r"
proof -
  assume "one_or_none P rows = Inr (Some r)"
  then have "filter P rows = [r]"
    by (auto simp: one_or_none_def split: list.splits)
  then have "r \<in> set (filter P rows)" by simp
  then show ?thesis by simp
qed

lemma one_or_none_None [simp]:
  "one_or_none P rows = Inr None \<longleftrightarrow> (\<forall>r \<in> set rows. \<not> P r)"
  unfolding filter_empty_conv [symmetric]
  by (auto simp: one_or_none_def split: list.splits)

lemma one_or_none_unique:
  "one_or_none P rows = Inr (Some r) \<Longrightarrow> r' \<in> set rows \<Longrightarrow> P r' \<Longrightarrow> r' = r"
proof -
  assume a: "one_or_none P rows = Inr (Some r)" "r' \<in> set rows" "P r'"
  then have "filter P rows = [r]"
    by (auto simp: one_or_none_def split: list.splits)
  moreover have "r' \<in> set (filter P rows)" using a by simp
  ultimately show "r' = r" by simp
qed

lemma one_or_none_count: "(\<exists>r. one_or_none P rows = Inr r) \<longleftrightarrow> count_where P rows \<le> 1"
  by (auto simp: one_or_none_def count_where_def split: list.splits)

lemma set_update_where:
  "set (update_where P f rows) = f ` {r \<in> set rows. P r} \<union> {r \<in> set rows. \<not> P r}"
  by (auto simp: update_where_def)

lemma in_update_where_keep:
  assumes "\<And>r. \<not> Q (f r)"
  shows "l \<in> set (update_where P f rows) \<and> Q l \<longleftrightarrow> l \<in> set rows \<and> \<not> P l \<and> Q l"
  using assms by (auto simp: set_update_where)

lemma in_update_where [elim]:
  assumes "r' \<in> set (update_where P f rows)"
  obtains (changed) r where "r \<in> set rows" "P r" "r' = f r"
        | (kept) "r' \<in> set rows" "\<not> P r'"
  using assms by (auto simp: set_update_where)

lemma map_update_where [simp]:
  assumes "\<And>r. P r \<Longrightarrow> g (f r) = g r"
  shows "map g (update_where P f rows) = map g rows"
  using assms by (auto simp: update_where_def)

lemma length_update_where [simp]: "length (update_where P f rows) = length rows"
  by (simp add: update_where_def)

lemma update_where_Nil [simp]: "update_where P f [] = []"
  by (simp add: update_where_def)

lemma update_where_append [simp]:
  "update_where P f (xs @ ys) = update_where P f xs @ update_where P f ys"
  by (simp add: update_where_def)

text \<open>
  The rows of a table keyed by a column that holds no value twice: the shape in which the
  primary-key constraint of \<open>models.py\<close> is used.
\<close>

definition unique_on :: "('r \<Rightarrow> 'k) \<Rightarrow> 'r list \<Rightarrow> bool" where
  "unique_on k rows \<longleftrightarrow> distinct (map k rows)"

lemma unique_on_Nil [simp]: "unique_on k []"
  by (simp add: unique_on_def)

lemma unique_on_snoc [simp]:
  "unique_on k (rows @ [r]) \<longleftrightarrow> unique_on k rows \<and> (\<forall>x \<in> set rows. k x \<noteq> k r)"
  by (auto simp: unique_on_def image_iff)

lemma unique_on_eqD:
  "unique_on k rows \<Longrightarrow> x \<in> set rows \<Longrightarrow> y \<in> set rows \<Longrightarrow> k x = k y \<Longrightarrow> x = y"
  by (auto simp: unique_on_def distinct_map inj_on_def)

lemma unique_on_update_where:
  assumes "unique_on k rows" and "\<And>r. P r \<Longrightarrow> k (f r) = k r"
  shows "unique_on k (update_where P f rows)"
  using assms by (simp add: unique_on_def)

lemma unique_on_one_or_none:
  assumes "unique_on k rows" and "r \<in> set rows" and "P r"
    and "\<And>x. P x \<Longrightarrow> k x = k r"
  shows "one_or_none P rows = Inr (Some r)"
proof -
  have "filter P rows = [r]"
    using assms
  proof (induction rows)
    case Nil
    then show ?case by simp
  next
    case (Cons a rows)
    show ?case
    proof (cases "a = r")
      case True
      have "\<not> P x" if "x \<in> set rows" for x
        using Cons.prems(1) Cons.prems(4) [of x] True that by (auto simp: unique_on_def image_iff)
      with True Cons.prems(3) show ?thesis by (simp add: filter_empty_conv)
    next
      case False
      with Cons.prems(2) have "r \<in> set rows" by simp
      have "unique_on k rows"
        using Cons.prems(1) by (simp add: unique_on_def)
      then have "filter P rows = [r]"
        by (rule Cons.IH [OF _ \<open>r \<in> set rows\<close> Cons.prems(3) Cons.prems(4)])
      moreover have "\<not> P a"
        using Cons.prems(1) Cons.prems(4) [of a] \<open>r \<in> set rows\<close>
        by (auto simp: unique_on_def image_iff)
      ultimately show ?thesis by simp
    qed
  qed
  then show ?thesis by (simp add: one_or_none_def)
qed

text \<open>
  Tables whose rows pairwise satisfy a symmetric relation (no two rows break a unique
  constraint), kept when one row is rewritten.
\<close>

lemma update_where_id: "(\<And>r. r \<in> set rows \<Longrightarrow> P r \<Longrightarrow> f r = r) \<Longrightarrow> update_where P f rows = rows"
  by (auto simp: update_where_def intro: map_idI)

lemma update_where_none: "(\<And>r. r \<in> set rows \<Longrightarrow> \<not> P r) \<Longrightarrow> update_where P f rows = rows"
  by (rule update_where_id) auto

lemma sorted_wrt_rewrite:
  assumes "sorted_wrt R rows" and "unique_on k rows"
    and "\<And>b. b \<in> set rows \<Longrightarrow> k b \<noteq> k x \<Longrightarrow> R x b \<and> R b x"
  shows "sorted_wrt R (update_where (\<lambda>r. k r = k x) (\<lambda>_. x) rows)"
  using assms
proof (induction rows)
  case Nil
  then show ?case by simp
next
  case (Cons a rows)
  have u: "unique_on k rows" and na: "\<And>b. b \<in> set rows \<Longrightarrow> k b \<noteq> k a"
    using Cons.prems(2) by (auto simp: unique_on_def image_iff)
  show ?case
  proof (cases "k a = k x")
    case True
    then have "update_where (\<lambda>r. k r = k x) (\<lambda>_. x) rows = rows"
      using na by (auto intro: update_where_none)
    moreover have "\<forall>b \<in> set rows. R x b" using Cons.prems(3) na True by auto
    ultimately show ?thesis using Cons.prems(1) True by (simp add: update_where_def)
  next
    case False
    have "sorted_wrt R (update_where (\<lambda>r. k r = k x) (\<lambda>_. x) rows)"
      using Cons.prems(1,3) by (intro Cons.IH u) auto
    moreover have "\<forall>b \<in> set (update_where (\<lambda>r. k r = k x) (\<lambda>_. x) rows). R a b"
      using Cons.prems(1) Cons.prems(3) [of a] False by (auto simp: update_where_def)
    ultimately show ?thesis using False by (simp add: update_where_def)
  qed
qed

lemma sorted_wrt_snoc [simp]:
  "sorted_wrt R (xs @ [x]) \<longleftrightarrow> sorted_wrt R xs \<and> (\<forall>y \<in> set xs. R y x)"
  by (auto simp: sorted_wrt_append)

lemma sorted_wrt_pairD:
  assumes "sorted_wrt (\<lambda>x y. \<not> C x y) rows" and "symp C" and "x \<in> set rows" and "y \<in> set rows"
    and "x \<noteq> y"
  shows "\<not> C x y"
proof -
  obtain i j where ij: "i < length rows" "x = rows ! i" "j < length rows" "y = rows ! j"
    using assms(3,4) by (auto simp: in_set_conv_nth)
  then have "i < j \<or> j < i" using assms(5) by (metis linorder_neqE_nat)
  then show ?thesis
    using ij assms(1,2) by (auto simp: sorted_wrt_iff_nth_less dest: sympD)
qed

text \<open>Rows keep the columns \<open>k\<close> they were created with, and new rows come after them.\<close>

definition grows :: "('r \<Rightarrow> 'k) \<Rightarrow> 'r list \<Rightarrow> 'r list \<Rightarrow> bool" where
  "grows k xs ys \<longleftrightarrow> (\<exists>zs. map k ys = map k xs @ zs)"

lemma grows_refl [simp]: "grows k xs xs"
  by (simp add: grows_def)

lemma grows_trans: "grows k xs ys \<Longrightarrow> grows k ys zs \<Longrightarrow> grows k xs zs"
  by (auto simp: grows_def)

lemma grows_snoc [simp]: "grows k xs (xs @ [x])"
  by (simp add: grows_def)

lemma grows_inD:
  assumes "grows k xs ys" and "x \<in> set xs"
  obtains y where "y \<in> set ys" and "k y = k x"
proof -
  obtain zs where "map k ys = map k xs @ zs" using assms(1) by (auto simp: grows_def)
  then have "set (map k ys) = set (map k xs) \<union> set zs" by (metis set_append)
  then have "k x \<in> set (map k ys)" using assms(2) by auto
  then show ?thesis using that by auto
qed

lemma find_Some_in: "find P xs = Some x \<Longrightarrow> x \<in> set xs \<and> P x"
  by (induction xs) (auto split: if_splits)

lemma find_unique:
  assumes "unique_on k rows" and "r \<in> set rows"
  shows "find (\<lambda>x. k x = k r) rows = Some r"
  using assms by (induction rows) (auto simp: unique_on_def image_iff)

lemma find_unique_row:
  assumes "unique_on k rows" and "r \<in> set rows" and "P r"
    and "\<And>x. x \<in> set rows \<Longrightarrow> P x \<Longrightarrow> k x = k r"
  shows "find P rows = Some r"
proof (cases "find P rows")
  case None
  then show ?thesis using assms(2,3) by (auto simp: find_None_iff)
next
  case (Some x)
  then have "x \<in> set rows" "P x" by (auto dest: find_Some_in)
  then show ?thesis using assms Some by (metis unique_on_eqD)
qed

lemma at_most_one_row:
  assumes "sorted_wrt (\<lambda>x y. \<not> C x y) xs" and "\<And>x y. x \<in> set xs \<Longrightarrow> y \<in> set xs \<Longrightarrow> C x y"
  shows "length xs \<le> 1"
proof (cases xs)
  case (Cons x ys)
  then show ?thesis using assms by (cases ys) auto
qed simp


text \<open>After the rewrite of one row, it is the only row a filter selects that selected no other.\<close>

lemma filter_rewritten:
  assumes "unique_on i rows" and "r \<in> set rows" and "i r' = i r" and "P r'"
    and "\<And>x. x \<in> set rows \<Longrightarrow> i x \<noteq> i r \<Longrightarrow> \<not> P x"
  shows "filter P (update_where (\<lambda>x. i x = i r') (\<lambda>_. r') rows) = [r']"
  using assms
proof (induction rows)
  case Nil
  then show ?case by simp
next
  case (Cons a rows)
  have u: "unique_on i rows" and na: "\<And>b. b \<in> set rows \<Longrightarrow> i b \<noteq> i a"
    using Cons.prems(1) by (auto simp: unique_on_def image_iff)
  show ?case
  proof (cases "i a = i r")
    case True
    then have "update_where (\<lambda>x. i x = i r') (\<lambda>_. r') rows = rows"
      using na Cons.prems(3) by (auto intro: update_where_none)
    moreover have "filter P rows = []"
      using na True Cons.prems(5) by (auto simp: filter_empty_conv)
    ultimately show ?thesis using True Cons.prems(3,4) by (simp add: update_where_def)
  next
    case False
    then have "r \<in> set rows" using Cons.prems(2) by auto
    then have "filter P (update_where (\<lambda>x. i x = i r') (\<lambda>_. r') rows) = [r']"
      using Cons.prems(3-5) by (intro Cons.IH [OF u]) auto
    then show ?thesis using False Cons.prems(3,5) by (simp add: update_where_def)
  qed
qed

end
