(* ===== verification/State_Result.thy ===== *)
theory State_Result
  imports Gateway_Prelude
begin

text \<open>
  Computations over a state that may raise and keep the state they reached: a service method
  works on a database session, and its caller decides whether what it did before an exception
  is committed or rolled back. \<open>wp\<close> states what such a computation guarantees on both
  outcomes, with one equation per combinator.
\<close>

type_synonym ('s, 'e, 'a) smon = "'s \<Rightarrow> ('e + 'a) \<times> 's"

definition ret :: "'a \<Rightarrow> ('s, 'e, 'a) smon" where
  "ret x = (\<lambda>s. (Inr x, s))"

definition raise :: "'e \<Rightarrow> ('s, 'e, 'a) smon" where
  "raise e = (\<lambda>s. (Inl e, s))"

definition bindS :: "('s, 'e, 'a) smon \<Rightarrow> ('a \<Rightarrow> ('s, 'e, 'b) smon) \<Rightarrow> ('s, 'e, 'b) smon" where
  "bindS m f = (\<lambda>s. case m s of (Inl e, s') \<Rightarrow> (Inl e, s') | (Inr x, s') \<Rightarrow> f x s')"

definition gets :: "('s \<Rightarrow> 'a) \<Rightarrow> ('s, 'e, 'a) smon" where
  "gets f = (\<lambda>s. (Inr (f s), s))"

definition modify :: "('s \<Rightarrow> 's) \<Rightarrow> ('s, 'e, unit) smon" where
  "modify f = (\<lambda>s. (Inr (), f s))"

definition guardS :: "bool \<Rightarrow> 'e \<Rightarrow> ('s, 'e, unit) smon" where
  "guardS c e = (if c then ret () else raise e)"

definition liftE :: "'e + 'a \<Rightarrow> ('s, 'e, 'a) smon" where
  "liftE r = (\<lambda>s. (r, s))"

text \<open>\<open>try: m except: h\<close>, with the state the exception was raised in.\<close>

definition catchS :: "('s, 'e, 'a) smon \<Rightarrow> ('e \<Rightarrow> ('s, 'e, 'a) smon) \<Rightarrow> ('s, 'e, 'a) smon" where
  "catchS m h = (\<lambda>s. case m s of (Inl e, s') \<Rightarrow> h e s' | (Inr x, s') \<Rightarrow> (Inr x, s'))"

fun forS :: "('a \<Rightarrow> ('s, 'e, unit) smon) \<Rightarrow> 'a list \<Rightarrow> ('s, 'e, unit) smon" where
  "forS f [] = ret ()"
| "forS f (x # xs) = bindS (f x) (\<lambda>_. forS f xs)"

section \<open>Outcomes\<close>

lemma ret_eq [simp]: "ret x s = (r, t) \<longleftrightarrow> r = Inr x \<and> t = s"
  by (auto simp: ret_def)

lemma raise_eq [simp]: "raise e s = (r, t) \<longleftrightarrow> r = Inl e \<and> t = s"
  by (auto simp: raise_def)

lemma gets_eq [simp]: "gets f s = (r, t) \<longleftrightarrow> r = Inr (f s) \<and> t = s"
  by (auto simp: gets_def)

lemma modify_eq [simp]: "modify f s = (r, t) \<longleftrightarrow> r = Inr () \<and> t = f s"
  by (auto simp: modify_def)

lemma liftE_eq [simp]: "liftE q s = (r, t) \<longleftrightarrow> r = q \<and> t = s"
  by (auto simp: liftE_def)

lemma guardS_eq [simp]:
  "guardS c e s = (r, t) \<longleftrightarrow> t = s \<and> r = (if c then Inr () else Inl e)"
  by (auto simp: guardS_def)

lemma bindS_Inr [simp]:
  "bindS m f s = (Inr y, t) \<longleftrightarrow> (\<exists>x s'. m s = (Inr x, s') \<and> f x s' = (Inr y, t))"
  by (auto simp: bindS_def split: prod.splits sum.splits)

lemma bindS_Inl:
  "bindS m f s = (Inl e, t) \<longleftrightarrow>
     m s = (Inl e, t) \<or> (\<exists>x s'. m s = (Inr x, s') \<and> f x s' = (Inl e, t))"
  by (auto simp: bindS_def split: prod.splits sum.splits)

text \<open>Evaluation of a computation at a given state, for concrete runs.\<close>

lemmas run_simps [code_unfold] = catchS_def ret_def raise_def bindS_def gets_def modify_def guardS_def liftE_def

text \<open>The continuation is evaluated only when its argument is known.\<close>

lemma bindS_weak_cong: "m = m' \<Longrightarrow> bindS m f = bindS m' f"
  by simp

lemma run_Inr: "\<not> isl (fst r) \<Longrightarrow> r = (Inr (projr (fst r)), snd r)"
  by (metis prod.collapse sum.collapse(2))

section \<open>Guarantees on both outcomes\<close>

text \<open>
  \<open>wp m Q E s\<close>: run at \<open>s\<close>, the computation ends in a value and state that satisfy \<open>Q\<close>, or
  raises in a state that satisfies \<open>E\<close>. The equations push it through the combinators;
  \<open>wp_mono\<close> applies the specification of a called method.
\<close>

named_theorems wp_simps \<open>weakest preconditions of the combinators\<close>

definition wp :: "('s, 'e, 'a) smon \<Rightarrow> ('a \<Rightarrow> 's \<Rightarrow> bool) \<Rightarrow> ('e \<Rightarrow> 's \<Rightarrow> bool) \<Rightarrow> 's \<Rightarrow> bool" where
  "wp m Q E s \<longleftrightarrow> (case m s of (Inr x, t) \<Rightarrow> Q x t | (Inl e, t) \<Rightarrow> E e t)"

lemma wpI:
  assumes "\<And>x t. m s = (Inr x, t) \<Longrightarrow> Q x t" and "\<And>e t. m s = (Inl e, t) \<Longrightarrow> E e t"
  shows "wp m Q E s"
  using assms by (auto simp: wp_def split: prod.splits sum.splits)

lemma wp_InrD: "wp m Q E s \<Longrightarrow> m s = (Inr x, t) \<Longrightarrow> Q x t"
  by (simp add: wp_def)

lemma wp_InlD: "wp m Q E s \<Longrightarrow> m s = (Inl e, t) \<Longrightarrow> E e t"
  by (simp add: wp_def)

lemma wp_mono:
  assumes "wp m Q' E' s" and "\<And>x t. Q' x t \<Longrightarrow> Q x t" and "\<And>e t. E' e t \<Longrightarrow> E e t"
  shows "wp m Q E s"
  using assms by (auto simp: wp_def split: prod.splits sum.splits)

lemma wp_ret [simp, wp_simps]: "wp (ret x) Q E s = Q x s"
  by (simp add: wp_def ret_def)

lemma wp_raise [simp, wp_simps]: "wp (raise e) Q E s = E e s"
  by (simp add: wp_def raise_def)

lemma wp_gets [simp, wp_simps]: "wp (gets f) Q E s = Q (f s) s"
  by (simp add: wp_def gets_def)

lemma wp_modify [simp, wp_simps]: "wp (modify f) Q E s = Q () (f s)"
  by (simp add: wp_def modify_def)

lemma wp_guard [simp, wp_simps]: "wp (guardS c e) Q E s = (if c then Q () s else E e s)"
  by (simp add: guardS_def)

lemma wp_lift [simp, wp_simps]:
  "wp (liftE r) Q E s = (case r of Inl e \<Rightarrow> E e s | Inr x \<Rightarrow> Q x s)"
  by (simp add: wp_def liftE_def split: sum.splits)

lemma wp_liftI:
  assumes "\<And>x. r = Inr x \<Longrightarrow> Q x s" and "\<And>e. r = Inl e \<Longrightarrow> E e s"
  shows "wp (liftE r) Q E s"
  using assms by (simp split: sum.splits)

lemma wp_guardI: "(c \<Longrightarrow> Q () s) \<Longrightarrow> (\<not> c \<Longrightarrow> E e s) \<Longrightarrow> wp (guardS c e) Q E s"
  by simp

lemma wp_bind [simp, wp_simps]: "wp (bindS m f) Q E s = wp m (\<lambda>x t. wp (f x) Q E t) E s"
  by (simp add: wp_def bindS_def split: prod.splits sum.splits)

lemma wp_catch: "wp (catchS m h) Q E s = wp m Q (\<lambda>e t. wp (h e) Q E t) s"
  by (simp add: wp_def catchS_def split: prod.splits sum.splits)

lemma catchS_Inr:
  "catchS m h s = (Inr x, t) \<longleftrightarrow>
     m s = (Inr x, t) \<or> (\<exists>e s'. m s = (Inl e, s') \<and> h e s' = (Inr x, t))"
  by (auto simp: catchS_def split: prod.splits sum.splits)

text \<open>
  A relation between the state before and after that holds on both outcomes and composes:
  frame conditions and monotonicity are proved with it.
\<close>

definition keeps :: "('s \<Rightarrow> 's \<Rightarrow> bool) \<Rightarrow> ('s, 'e, 'a) smon \<Rightarrow> bool" where
  "keeps R m \<longleftrightarrow> (\<forall>s. R s (snd (m s)))"

lemma keepsD: "keeps R m \<Longrightarrow> m s = (r, t) \<Longrightarrow> R s t"
  by (metis keeps_def snd_conv)

locale state_relation =
  fixes R :: "'s \<Rightarrow> 's \<Rightarrow> bool"
  assumes rel_refl: "R s s"
    and rel_trans: "R s t \<Longrightarrow> R t u \<Longrightarrow> R s u"
begin

lemma keeps_ret: "keeps R (ret x)"
  by (simp add: keeps_def ret_def rel_refl)

lemma keeps_raise: "keeps R (raise e)"
  by (simp add: keeps_def raise_def rel_refl)

lemma keeps_gets: "keeps R (gets f)"
  by (simp add: keeps_def gets_def rel_refl)

lemma keeps_guard: "keeps R (guardS c e)"
  by (simp add: keeps_def guardS_def ret_def raise_def rel_refl)

lemma keeps_lift: "keeps R (liftE r)"
  by (simp add: keeps_def liftE_def rel_refl)

lemma keeps_modify: "(\<And>s. R s (f s)) \<Longrightarrow> keeps R (modify f)"
  by (simp add: keeps_def modify_def)

lemma keeps_bind:
  assumes "keeps R m" and "\<And>x. keeps R (f x)"
  shows "keeps R (bindS m f)"
  unfolding keeps_def
proof
  fix s
  obtain r t where m: "m s = (r, t)" by (cases "m s")
  then have R: "R s t" using assms(1) by (simp add: keepsD)
  show "R s (snd (bindS m f s))"
  proof (cases r)
    case (Inl e)
    with m R show ?thesis by (simp add: bindS_def)
  next
    case (Inr x)
    have "R t (snd (f x t))" using assms(2) by (simp add: keeps_def)
    with m R Inr show ?thesis by (auto simp: bindS_def intro: rel_trans)
  qed
qed

lemma keeps_catch:
  assumes "keeps R m" and "\<And>e. keeps R (h e)"
  shows "keeps R (catchS m h)"
  unfolding keeps_def
proof
  fix s
  obtain r t where m: "m s = (r, t)" by (cases "m s")
  then have R: "R s t" using assms(1) by (simp add: keepsD)
  show "R s (snd (catchS m h s))"
  proof (cases r)
    case (Inl e)
    have "R t (snd (h e t))" using assms(2) by (simp add: keeps_def)
    with m R Inl show ?thesis by (auto simp: catchS_def intro: rel_trans)
  next
    case (Inr x)
    with m R show ?thesis by (simp add: catchS_def)
  qed
qed

lemma keeps_for: "(\<And>x. keeps R (f x)) \<Longrightarrow> keeps R (forS f xs)"
  by (induction xs) (auto intro: keeps_ret keeps_bind)

lemma keeps_option:
  "keeps R m \<Longrightarrow> (\<And>x. keeps R (f x)) \<Longrightarrow> keeps R (case o' of None \<Rightarrow> m | Some x \<Rightarrow> f x)"
  by (cases o') auto

lemmas keeps_intros = keeps_ret keeps_raise keeps_gets keeps_guard keeps_lift keeps_bind
  keeps_catch keeps_for keeps_option

end

end
