(* ===== verification/Py_Values.thy ===== *)
theory Py_Values
  imports Gateway_Prelude
begin

text \<open>
  The Python values the services work on: string methods on code points below 256, JSON
  values with their truth value, \<open>str\<close> and \<open>json.dumps\<close> text, and UTC timestamps with
  their \<open>isoformat\<close>.
\<close>

section \<open>Strings\<close>

definition py_isspace :: "char \<Rightarrow> bool" where
  "py_isspace c \<longleftrightarrow>
     (let n = (of_char c :: nat)
      in (9 \<le> n \<and> n \<le> 13) \<or> (28 \<le> n \<and> n \<le> 32) \<or> n = 133 \<or> n = 160)"

definition strip :: "string \<Rightarrow> string" where
  "strip s = rev (dropWhile py_isspace (rev (dropWhile py_isspace s)))"

definition py_lower_char :: "char \<Rightarrow> char" where
  "py_lower_char c =
     (let n = (of_char c :: nat)
      in if (65 \<le> n \<and> n \<le> 90) \<or> (192 \<le> n \<and> n \<le> 222 \<and> n \<noteq> 215)
         then char_of (n + 32) else c)"

definition py_isalnum :: "char \<Rightarrow> bool" where
  "py_isalnum c \<longleftrightarrow>
     (let n = (of_char c :: nat)
      in (48 \<le> n \<and> n \<le> 57) \<or> (65 \<le> n \<and> n \<le> 90) \<or> (97 \<le> n \<and> n \<le> 122) \<or>
         n = 170 \<or> n = 178 \<or> n = 179 \<or> n = 181 \<or> n = 185 \<or> n = 186 \<or>
         (188 \<le> n \<and> n \<le> 190) \<or> (192 \<le> n \<and> n \<noteq> 215 \<and> n \<noteq> 247))"

definition startswith :: "string \<Rightarrow> string \<Rightarrow> bool" where
  "startswith s p \<longleftrightarrow> take (length p) s = p"

definition endswith :: "string \<Rightarrow> string \<Rightarrow> bool" where
  "endswith s p \<longleftrightarrow> startswith (rev s) (rev p)"

lemma dropWhile_snoc_keep: "\<not> P x \<Longrightarrow> dropWhile P (xs @ [x]) = dropWhile P xs @ [x]"
  by (induction xs) auto

lemma strip_Nil [simp]: "strip [] = []"
  by (simp add: strip_def)

lemma dropWhile_rev_dropWhile:
  "dropWhile P (rev (dropWhile P (rev (dropWhile P s)))) = rev (dropWhile P (rev (dropWhile P s)))"
proof (cases "dropWhile P s")
  case Nil
  then show ?thesis by (simp only: rev.simps dropWhile.simps)
next
  case (Cons c cs)
  then have "\<not> P c" by (metis hd_dropWhile list.distinct(1) list.sel(1))
  then show ?thesis using Cons by (simp add: dropWhile_snoc_keep)
qed

lemma strip_strip [simp]: "strip (strip s) = strip s"
  by (simp add: strip_def dropWhile_rev_dropWhile)

lemma set_strip_subset: "set (strip s) \<subseteq> set s"
  by (auto simp: strip_def dest!: set_dropWhileD)

lemma length_strip: "length (strip s) \<le> length s"
  unfolding strip_def by (metis length_dropWhile_le length_rev order_trans)

lemma endswith_iff: "endswith s p \<longleftrightarrow> (\<exists>u. s = u @ p)"
proof
  assume "endswith s p"
  then have "take (length p) (rev s) = rev p" by (simp add: endswith_def startswith_def)
  then have "rev s = rev p @ drop (length p) (rev s)"
    by (metis append_take_drop_id)
  then have "s = rev (drop (length p) (rev s)) @ p"
    by (metis rev_append rev_rev_ident)
  then show "\<exists>u. s = u @ p" ..
qed (auto simp: endswith_def startswith_def)

lemma startswith_iff: "startswith s p \<longleftrightarrow> (\<exists>u. s = p @ u)"
  by (auto simp: startswith_def) (metis append_take_drop_id)

section \<open>Decimal text of integers\<close>

fun nat_dec :: "nat \<Rightarrow> string" where
  "nat_dec n = (if n < 10 then [char_of (48 + n)] else nat_dec (n div 10) @ [char_of (48 + n mod 10)])"

declare nat_dec.simps [simp del]

definition int_dec :: "int \<Rightarrow> string" where
  "int_dec i = (if i < 0 then CHR ''-'' # nat_dec (nat (- i)) else nat_dec (nat i))"

section \<open>JSON values\<close>

datatype json =
    JNull
  | JBool bool
  | JInt int
  | JStr string
  | JList "json list"
  | JObj "(string \<times> json) list"

text \<open>Python's truth value of a JSON value.\<close>

fun truthy :: "json \<Rightarrow> bool" where
  "truthy JNull = False"
| "truthy (JBool b) = b"
| "truthy (JInt i) = (i \<noteq> 0)"
| "truthy (JStr s) = (s \<noteq> [])"
| "truthy (JList xs) = (xs \<noteq> [])"
| "truthy (JObj kvs) = (kvs \<noteq> [])"

definition jopt :: "string option \<Rightarrow> json" where
  "jopt o' = (case o' of None \<Rightarrow> JNull | Some s \<Rightarrow> JStr s)"

text \<open>\<open>repr\<close> of a string: single quotes unless the text has one and no double quote.\<close>

definition hex_digit :: "nat \<Rightarrow> char" where
  "hex_digit n = (if n < 10 then char_of (48 + n) else char_of (87 + n))"

definition repr_char :: "char \<Rightarrow> char \<Rightarrow> string" where
  "repr_char q c =
     (let n = (of_char c :: nat)
      in if c = q \<or> n = 92 then [char_of (92 :: nat), c]
         else if n = 10 then [char_of (92 :: nat), CHR ''n'']
         else if n = 13 then [char_of (92 :: nat), CHR ''r'']
         else if n = 9 then [char_of (92 :: nat), CHR ''t'']
         else if n < 32 \<or> (127 \<le> n \<and> n \<le> 160) \<or> n = 173
           then [char_of (92 :: nat), CHR ''x'', hex_digit (n div 16), hex_digit (n mod 16)]
         else [c])"

definition repr_str :: "string \<Rightarrow> string" where
  "repr_str s =
     (let q = (if char_of (39 :: nat) \<in> set s \<and> char_of (34 :: nat) \<notin> set s
               then char_of (34 :: nat) else char_of (39 :: nat))
      in q # concat (map (repr_char q) s) @ [q])"

fun join :: "string \<Rightarrow> string list \<Rightarrow> string" where
  "join sep [] = []"
| "join sep [x] = x"
| "join sep (x # y # zs) = x @ sep @ join sep (y # zs)"

lemma snd_size_less [termination_simp]:
  "(k, v) \<in> set kvs \<Longrightarrow> size v < Suc (size_list (size_prod (\<lambda>_. 0) size) kvs)"
  by (induction kvs) auto

fun py_repr :: "json \<Rightarrow> string" where
  "py_repr JNull = ''None''"
| "py_repr (JBool b) = (if b then ''True'' else ''False'')"
| "py_repr (JInt i) = int_dec i"
| "py_repr (JStr s) = repr_str s"
| "py_repr (JList xs) = ''['' @ join '', '' (map py_repr xs) @ '']''"
| "py_repr (JObj kvs) =
     ''{'' @ join '', '' (map (\<lambda>(k, v). repr_str k @ '': '' @ py_repr v) kvs) @ ''}''"

definition py_str :: "json \<Rightarrow> string" where
  "py_str v = (case v of JStr s \<Rightarrow> s | _ \<Rightarrow> py_repr v)"

lemma py_str_JStr [simp]: "py_str (JStr s) = s"
  by (simp add: py_str_def)

text \<open>\<open>str(value or "")\<close>\<close>

definition str_or_empty :: "json \<Rightarrow> string" where
  "str_or_empty v = (if truthy v then py_str v else [])"

lemma str_or_empty_JStr [simp]: "str_or_empty (JStr s) = s"
  by (simp add: str_or_empty_def)

lemma str_or_empty_JNull [simp]: "str_or_empty JNull = []"
  by (simp add: str_or_empty_def)

text \<open>\<open>dict.get\<close>, with \<open>None\<close> for a missing key.\<close>

definition dget :: "(string \<times> json) list \<Rightarrow> string \<Rightarrow> json" where
  "dget d k = (case map_of d k of None \<Rightarrow> JNull | Some v \<Rightarrow> v)"

text \<open>Assignment to and removal of a key of a Python dict.\<close>

definition dset :: "string \<Rightarrow> json \<Rightarrow> (string \<times> json) list \<Rightarrow> (string \<times> json) list" where
  "dset k v d = (if k \<in> fst ` set d then map (\<lambda>(k', v'). (k', if k' = k then v else v')) d
     else d @ [(k, v)])"

definition dpop :: "string \<Rightarrow> (string \<times> json) list \<Rightarrow> (string \<times> json) list" where
  "dpop k d = filter (\<lambda>(k', _). k' \<noteq> k) d"

lemma map_of_rewrite: "map_of (map (\<lambda>(x, y). (x, f x y)) d) k = map_option (f k) (map_of d k)"
  by (induction d) auto

lemma map_of_dset: "map_of (dset k v d) k' = (if k' = k then Some v else map_of d k')"
proof (cases "k \<in> fst ` set d")
  case True
  then obtain u where "map_of d k = Some u"
    using map_of_eq_None_iff [of d k] by (cases "map_of d k") auto
  then show ?thesis
    using True map_of_rewrite [of "\<lambda>x y. if x = k then v else y" d k']
    by (cases "map_of d k'") (auto simp: dset_def)
next
  case False
  then have "map_of d k = None" using map_of_eq_None_iff [of d k] by simp
  then show ?thesis using False by (cases "map_of d k'") (auto simp: dset_def map_add_def)
qed

lemma dget_dset: "dget (dset k v d) k' = (if k' = k then v else dget d k')"
  by (simp add: dget_def map_of_dset)

lemma dget_dpop: "dget (dpop k d) k' = (if k' = k then JNull else dget d k')"
  unfolding dpop_def dget_def by (induction d) (auto split: if_splits)

text \<open>\<open>==\<close> on JSON values: keys in any order, \<open>True == 1\<close> and \<open>False == 0\<close>.\<close>

fun insert_item :: "string \<times> json \<Rightarrow> (string \<times> json) list \<Rightarrow> (string \<times> json) list" where
  "insert_item x [] = [x]"
| "insert_item x (y # ys) = (if fst x \<le> fst y then x # y # ys else y # insert_item x ys)"

definition sort_items :: "(string \<times> json) list \<Rightarrow> (string \<times> json) list" where
  "sort_items kvs = foldr insert_item kvs []"

fun eq_form :: "json \<Rightarrow> json" where
  "eq_form JNull = JNull"
| "eq_form (JBool b) = JInt (if b then 1 else 0)"
| "eq_form (JInt i) = JInt i"
| "eq_form (JStr s) = JStr s"
| "eq_form (JList xs) = JList (map eq_form xs)"
| "eq_form (JObj kvs) = JObj (sort_items (map (\<lambda>(k, v). (k, eq_form v)) kvs))"

definition py_eq :: "json \<Rightarrow> json \<Rightarrow> bool" where
  "py_eq a b \<longleftrightarrow> eq_form a = eq_form b"

lemma py_eq_refl [simp]: "py_eq a a"
  by (simp add: py_eq_def)

text \<open>
  \<open>json.dumps(value, ensure_ascii=False, sort_keys=True, separators=(",", ":"))\<close>, then UTF-8.
\<close>

definition dumps_char :: "char \<Rightarrow> string" where
  "dumps_char c =
     (let n = (of_char c :: nat); b = char_of (92 :: nat)
      in if n = 34 \<or> n = 92 then [b, c]
         else if n = 10 then [b, CHR ''n'']
         else if n = 13 then [b, CHR ''r'']
         else if n = 9 then [b, CHR ''t'']
         else if n = 12 then [b, CHR ''f'']
         else if n = 8 then [b, CHR ''b'']
         else if n < 32 then b # ''u00'' @ [hex_digit (n div 16), hex_digit (n mod 16)]
         else [c])"

definition dumps_str :: "string \<Rightarrow> string" where
  "dumps_str s = char_of (34 :: nat) # concat (map dumps_char s) @ [char_of (34 :: nat)]"

fun dumps :: "json \<Rightarrow> string" where
  "dumps JNull = ''null''"
| "dumps (JBool b) = (if b then ''true'' else ''false'')"
| "dumps (JInt i) = int_dec i"
| "dumps (JStr s) = dumps_str s"
| "dumps (JList xs) = ''['' @ join '','' (map dumps xs) @ '']''"
| "dumps (JObj kvs) =
     ''{'' @ join '','' (map (\<lambda>(k, t). dumps_str k @ '':'' @ t)
       (map (\<lambda>(k, v). (k, py_str v))
         (sort_items (map (\<lambda>(k, v). (k, JStr (dumps v))) kvs)))) @ ''}''"

definition utf8 :: "string \<Rightarrow> string" where
  "utf8 s = concat (map (\<lambda>c. let n = (of_char c :: nat)
     in if n < 128 then [c] else [char_of (192 + n div 64), char_of (128 + n mod 64)]) s)"

section \<open>Timestamps\<close>

text \<open>
  \<open>timedelta(seconds=n)\<close>, and \<open>isoformat\<close> of a UTC datetime: the civil date of a day count,
  by the proleptic Gregorian calendar, then the time of day, with the microseconds printed
  only when they are not zero.
\<close>

definition seconds :: "int \<Rightarrow> int" where
  "seconds n = n * 1000000"

definition civil_of_days :: "int \<Rightarrow> int \<times> int \<times> int" where
  "civil_of_days days =
     (let z = days + 719468;
          era = z div 146097;
          doe = z mod 146097;
          yoe = (doe - doe div 1460 + doe div 36524 - doe div 146096) div 365;
          doy = doe - (365 * yoe + yoe div 4 - yoe div 100);
          mp = (5 * doy + 2) div 153;
          d = doy - (153 * mp + 2) div 5 + 1;
          m = (if mp < 10 then mp + 3 else mp - 9);
          y = yoe + era * 400 + (if m \<le> 2 then 1 else 0)
      in (y, m, d))"

definition pad :: "nat \<Rightarrow> int \<Rightarrow> string" where
  "pad w i = (let t = int_dec i in replicate (w - length t) CHR ''0'' @ t)"

definition isoformat :: "int \<Rightarrow> string" where
  "isoformat t =
     (let day = 86400000000; (y, m, d) = civil_of_days (t div day); us = t mod day;
          frac = us mod 1000000; s = us div 1000000
      in pad 4 y @ ''-'' @ pad 2 m @ ''-'' @ pad 2 d @ ''T'' @
         pad 2 (s div 3600) @ '':'' @ pad 2 (s mod 3600 div 60) @ '':'' @ pad 2 (s mod 60) @
         (if frac = 0 then [] else ''.'' @ pad 6 frac) @ ''+00:00'')"

lemma seconds_mono [simp]: "seconds a \<le> seconds b \<longleftrightarrow> a \<le> b"
  by (simp add: seconds_def)

lemma seconds_strict_mono [simp]: "seconds a < seconds b \<longleftrightarrow> a < b"
  by (simp add: seconds_def)

lemma seconds_pos [simp]: "0 < seconds a \<longleftrightarrow> 0 < a"
  by (simp add: seconds_def)

lemma seconds_nonneg [simp]: "0 \<le> seconds a \<longleftrightarrow> 0 \<le> a"
  by (simp add: seconds_def)

end
