(* ===== verification/Chat_Context.thy ===== *)
theory Chat_Context
  imports State_Result Py_Values
begin

text \<open>
  The chat-context service, \<open>chat_context.py\<close>, over the tables \<open>ChatContext\<close>,
  \<open>ChatContextAlias\<close> and \<open>ChatContextEvent\<close> of \<open>models.py\<close>.

  A context is the durable identity of a conversation; an alias is its short-lived four
  character code. An alias is active until it expires, then quarantined (its code stays
  reserved) and at last released. The service methods run on an open session: the state they
  return holds the pending rows also when they raise, and the callers of theory
  \<open>Chat_Context_Calls\<close> commit or roll it back. A query sees the pending rows.
\<close>

section \<open>Data\<close>

datatype chat_error =
    ChatContextDisabled string
  | ChatContextValidationError string
  | ChatContextNotFound string
  | ChatContextExpired string
  | ChatContextClosed string
  | ChatContextBindingConflict string
  | ChatContextAllocationExhausted string
  | ChatContextIntegrityError

record ChatContext =
  cc_id :: string
  cc_owner_subject :: string
  cc_host_kind :: string
  cc_state :: string
  cc_project_ref :: "string option"
  cc_client_nonce :: "string option"
  cc_conversation_ref_hmac :: "string option"
  cc_conversation_key_version :: "int option"
  cc_generation :: int
  cc_created_at :: int
  cc_last_seen_at :: int
  cc_updated_at :: int
  cc_closed_at :: "int option"

record ChatContextAlias =
  al_id :: string
  al_context_id :: string
  al_owner_subject :: string
  al_code :: string
  al_generation :: int
  al_status :: string
  al_issued_at :: int
  al_last_seen_at :: int
  al_expires_at :: int
  al_quarantine_until :: "int option"
  al_replaced_by_alias_id :: "string option"
  al_created_at :: int
  al_updated_at :: int

record ChatContextEvent =
  ev_id :: string
  ev_context_id :: string
  ev_owner_subject :: string
  ev_action :: string
  ev_alias_generation :: "int option"
  ev_actor_kind :: string
  ev_metadata :: json
  ev_created_at :: int

record ChatContextLease =
  le_context_id :: string
  le_code :: string
  le_generation :: int
  le_expires_at :: int
  le_rotated :: bool

record ChatContextBinding =
  bi_context_id :: string
  bi_key_version :: int
  bi_newly_bound :: bool

text \<open>
  The settings the service reads; \<open>hmac_sha256\<close> stands for \<open>hmac.new(key, msg,
  sha256).digest()\<close>.
\<close>

record chat_settings =
  gateway_chat_context_enabled :: bool
  gateway_chat_context_ttl_seconds :: int
  gateway_chat_context_renew_threshold_seconds :: int
  gateway_chat_context_quarantine_seconds :: int
  gateway_chat_context_allocation_attempts :: nat
  gateway_chat_context_hmac_key :: string
  gateway_chat_context_hmac_key_version :: int
  hmac_sha256 :: "string \<Rightarrow> string \<Rightarrow> string"

text \<open>\<open>Settings.validate_chat_context_settings\<close> and the bounds of the fields.\<close>

definition validate_chat_context_settings :: "chat_settings \<Rightarrow> bool" where
  "validate_chat_context_settings cfg \<longleftrightarrow>
     300 \<le> gateway_chat_context_ttl_seconds cfg \<and>
     gateway_chat_context_ttl_seconds cfg \<le> 2678400 \<and>
     gateway_chat_context_renew_threshold_seconds cfg < gateway_chat_context_ttl_seconds cfg \<and>
     (gateway_chat_context_enabled cfg \<longrightarrow>
        32 \<le> length (utf8 (gateway_chat_context_hmac_key cfg)))"

text \<open>
  The session: the three tables, the clock, and what \<open>uuid.uuid4\<close> and \<open>secrets.choice\<close>
  will draw next.
\<close>

record chat_db =
  now_at :: int
  uuid_src :: "nat \<Rightarrow> string"
  uuid_pos :: nat
  rand_src :: "nat \<Rightarrow> nat"
  rand_pos :: nat
  contexts :: "ChatContext list"
  aliases :: "ChatContextAlias list"
  ctx_events :: "ChatContextEvent list"

type_synonym 'a chat = "(chat_db, chat_error, 'a) smon"

section \<open>Identifiers, codes and events\<close>

definition uuid4 :: "string chat" where
  "uuid4 = (\<lambda>w. (Inr (uuid_src w (uuid_pos w)), w\<lparr>uuid_pos := Suc (uuid_pos w)\<rparr>))"

definition BASE62_ALPHABET :: string where
  "BASE62_ALPHABET = ''ABCDEFGHIJKLMNOPQRSTUVWXYZabcdefghijklmnopqrstuvwxyz0123456789''"

definition is_base62 :: "char \<Rightarrow> bool" where
  "is_base62 c \<longleftrightarrow>
     (let n = (of_char c :: nat)
      in (65 \<le> n \<and> n \<le> 90) \<or> (97 \<le> n \<and> n \<le> 122) \<or> (48 \<le> n \<and> n \<le> 57))"

definition code_pattern :: "string \<Rightarrow> bool" where
  "code_pattern s \<longleftrightarrow> length s = 4 \<and> list_all is_base62 s"

definition choice :: "nat \<Rightarrow> char" where
  "choice draw = BASE62_ALPHABET ! (draw mod 62)"

definition generate_code :: "string chat" where
  "generate_code = (\<lambda>w.
     (Inr (map (\<lambda>i. choice (rand_src w (rand_pos w + i))) [0, 1, 2, 3]),
      w\<lparr>rand_pos := rand_pos w + 4\<rparr>))"

definition event :: "ChatContext \<Rightarrow> string \<Rightarrow> int option \<Rightarrow> string \<Rightarrow> json \<Rightarrow> int \<Rightarrow> unit chat" where
  "event context action alias_generation actor_kind metadata now =
     bindS uuid4 (\<lambda>i. modify (\<lambda>w. w\<lparr>ctx_events := ctx_events w @
       [\<lparr>ev_id = i, ev_context_id = cc_id context, ev_owner_subject = cc_owner_subject context,
         ev_action = action, ev_alias_generation = alias_generation, ev_actor_kind = actor_kind,
         ev_metadata = metadata, ev_created_at = now\<rparr>]\<rparr>))"

section \<open>Argument checks\<close>

definition ACTOR_KINDS :: "string list" where
  "ACTOR_KINDS = [''browser_extension'', ''mcp'', ''gateway'', ''operator'']"

definition bounded_value :: "string \<Rightarrow> string \<Rightarrow> nat \<Rightarrow> chat_error + string" where
  "bounded_value value name maximum =
     (let bounded = strip value
      in if bounded = [] \<or> length bounded > maximum
         then Inl (ChatContextValidationError
                (name @ '' must contain between 1 and '' @ nat_dec maximum @ '' characters''))
         else Inr bounded)"

definition owner_of :: "string \<Rightarrow> chat_error + string" where
  "owner_of value = bounded_value value ''owner_subject'' 255"

definition actor_of :: "string \<Rightarrow> chat_error + string" where
  "actor_of value =
     (if value \<in> set ACTOR_KINDS then Inr value
      else Inl (ChatContextValidationError ''actor_kind is not supported''))"

definition code_of :: "string \<Rightarrow> chat_error + string" where
  "code_of value =
     (if code_pattern value then Inr value
      else Inl (ChatContextValidationError
             ''chat context code must contain exactly four Base62 characters''))"

definition normalize_conversation_reference :: "string \<Rightarrow> chat_error + string" where
  "normalize_conversation_reference value =
     (let normalized = strip value
      in if normalized = [] \<or> length normalized > 512
         then Inl (ChatContextValidationError
                ''conversation_reference must contain between 1 and 512 characters'')
         else if \<exists>c \<in> set normalized. of_char c < (32 :: nat) \<or> of_char c = (127 :: nat)
         then Inl (ChatContextValidationError
                ''conversation_reference contains a control character'')
         else Inr normalized)"

definition require_enabled :: "chat_settings \<Rightarrow> chat_error + unit" where
  "require_enabled cfg =
     (if \<not> gateway_chat_context_enabled cfg
      then Inl (ChatContextDisabled ''chat context persistence is disabled'')
      else if length (utf8 (gateway_chat_context_hmac_key cfg)) < 32
      then Inl (ChatContextValidationError ''chat context HMAC key is not configured'')
      else Inr ())"

definition hexdigest :: "string \<Rightarrow> string" where
  "hexdigest bs = concat (map (\<lambda>c. let n = (of_char c :: nat)
     in [hex_digit (n div 16), hex_digit (n mod 16)]) bs)"

definition conversation_digest :: "chat_settings \<Rightarrow> string \<Rightarrow> int \<Rightarrow> string" where
  "conversation_digest cfg normalized_reference version =
     (let version_key = hmac_sha256 cfg (utf8 (gateway_chat_context_hmac_key cfg))
            (''chat-context-conversation-hmac:v'' @ int_dec version)
      in hexdigest (hmac_sha256 cfg version_key (utf8 normalized_reference)))"

section \<open>Rows and constraints\<close>

text \<open>Writing a loaded object back: the row with its primary key takes its values.\<close>

definition store_context :: "ChatContext \<Rightarrow> chat_db \<Rightarrow> chat_db" where
  "store_context c w =
     w\<lparr>contexts := update_where (\<lambda>r. cc_id r = cc_id c) (\<lambda>_. c) (contexts w)\<rparr>"

definition put_context :: "ChatContext \<Rightarrow> unit chat" where
  "put_context c = modify (store_context c)"

definition store_alias :: "ChatContextAlias \<Rightarrow> chat_db \<Rightarrow> chat_db" where
  "store_alias a w = w\<lparr>aliases := update_where (\<lambda>r. al_id r = al_id a) (\<lambda>_. a) (aliases w)\<rparr>"

definition put_alias :: "ChatContextAlias \<Rightarrow> unit chat" where
  "put_alias a = modify (store_alias a)"

definition live :: "ChatContextAlias \<Rightarrow> bool" where
  "live a \<longleftrightarrow> al_status a \<in> {''active'', ''quarantined''}"

text \<open>
  \<open>alias_conflict a b\<close>: the rows \<open>a\<close> and \<open>b\<close> break one of the unique constraints and
  partial unique indexes of \<open>chat_context_aliases\<close>.
\<close>

definition alias_conflict :: "ChatContextAlias \<Rightarrow> ChatContextAlias \<Rightarrow> bool" where
  "alias_conflict a b \<longleftrightarrow>
     al_id a = al_id b \<or>
     (al_owner_subject a = al_owner_subject b \<and> al_code a = al_code b) \<or>
     (al_context_id a = al_context_id b \<and> al_generation a = al_generation b) \<or>
     (live a \<and> live b \<and> al_code a = al_code b) \<or>
     (al_status a = ''active'' \<and> al_status b = ''active'' \<and> al_context_id a = al_context_id b)"

text \<open>The check constraints of the same table.\<close>

definition alias_check :: "ChatContextAlias \<Rightarrow> bool" where
  "alias_check a \<longleftrightarrow>
     length (al_code a) = 4 \<and>
     al_status a \<in> {''active'', ''quarantined'', ''released'', ''revoked''} \<and>
     1 \<le> al_generation a"

definition context_conflict :: "ChatContext \<Rightarrow> ChatContext \<Rightarrow> bool" where
  "context_conflict a b \<longleftrightarrow>
     cc_id a = cc_id b \<or>
     (cc_owner_subject a = cc_owner_subject b \<and> cc_client_nonce a \<noteq> None \<and>
      cc_client_nonce a = cc_client_nonce b) \<or>
     (cc_owner_subject a = cc_owner_subject b \<and> cc_host_kind a = cc_host_kind b \<and>
      cc_conversation_ref_hmac a \<noteq> None \<and>
      cc_conversation_ref_hmac a = cc_conversation_ref_hmac b)"

definition context_check :: "ChatContext \<Rightarrow> bool" where
  "context_check c \<longleftrightarrow>
     cc_host_kind c = ''chatgpt'' \<and>
     cc_state c \<in> {''active'', ''dormant'', ''closed''} \<and>
     0 \<le> cc_generation c \<and>
     (case cc_conversation_key_version c of None \<Rightarrow> True | Some v \<Rightarrow> 1 \<le> v)"

definition lease_of :: "ChatContextAlias \<Rightarrow> bool \<Rightarrow> ChatContextLease" where
  "lease_of a rotated =
     \<lparr>le_context_id = al_context_id a, le_code = al_code a, le_generation = al_generation a,
      le_expires_at = al_expires_at a, le_rotated = rotated\<rparr>"

definition lock_context :: "string \<Rightarrow> string \<Rightarrow> ChatContext chat" where
  "lock_context owner_subject context_id =
     bindS (gets (\<lambda>w. find (\<lambda>c. cc_id c = context_id \<and> cc_owner_subject c = owner_subject)
              (contexts w))) (\<lambda>found.
     case found of
       None \<Rightarrow> raise (ChatContextNotFound ''chat context was not found'')
     | Some c \<Rightarrow> ret c)"

text \<open>
  A loaded object stays the one object of its row in the session, so its fields are those of
  the row as it is now.
\<close>

definition current_context :: "ChatContext \<Rightarrow> ChatContext chat" where
  "current_context c = gets (\<lambda>w. case find (\<lambda>r. cc_id r = cc_id c) (contexts w) of
     None \<Rightarrow> c | Some r \<Rightarrow> r)"

definition current_alias :: "ChatContextAlias \<Rightarrow> ChatContextAlias chat" where
  "current_alias a = gets (\<lambda>w. case find (\<lambda>r. al_id r = al_id a) (aliases w) of
     None \<Rightarrow> a | Some r \<Rightarrow> r)"

definition insert_alias :: "ChatContextAlias \<Rightarrow> bool chat" where
  "insert_alias a = (\<lambda>w.
     if alias_check a \<and> \<not> list_ex (alias_conflict a) (aliases w)
     then (Inr True, w\<lparr>aliases := aliases w @ [a]\<rparr>)
     else (Inr False, w))"

definition insert_context :: "ChatContext \<Rightarrow> unit chat" where
  "insert_context c = (\<lambda>w.
     if context_check c \<and> \<not> list_ex (context_conflict c) (contexts w)
     then (Inr (), w\<lparr>contexts := contexts w @ [c]\<rparr>)
     else (Inl ChatContextIntegrityError, w))"

text \<open>\<open>begin_nested\<close>: an exception inside restores the rows the block started from.\<close>

definition rollback_to :: "chat_db \<Rightarrow> chat_db \<Rightarrow> chat_db" where
  "rollback_to w w' = w'\<lparr>contexts := contexts w, aliases := aliases w, ctx_events := ctx_events w\<rparr>"

definition savepoint :: "'a chat \<Rightarrow> 'a chat" where
  "savepoint m = (\<lambda>w. case m w of (Inl e, w') \<Rightarrow> (Inl e, rollback_to w w') | (Inr x, w') \<Rightarrow> (Inr x, w'))"

declare savepoint_def [code_unfold]

section \<open>The life of an alias\<close>

definition reconcile_alias ::
  "chat_settings \<Rightarrow> ChatContext \<Rightarrow> ChatContextAlias \<Rightarrow> int \<Rightarrow> string \<Rightarrow>
     (ChatContext \<times> ChatContextAlias) chat" where
  "reconcile_alias cfg context alias now actor_kind =
     bindS (if al_status alias = ''active'' \<and> al_expires_at alias \<le> now then
              let quarantine_until =
                    al_expires_at alias + seconds (gateway_chat_context_quarantine_seconds cfg);
                  alias = alias\<lparr>al_status := ''quarantined'',
                    al_quarantine_until := Some quarantine_until, al_updated_at := now\<rparr>;
                  context = context\<lparr>cc_state := ''dormant'', cc_updated_at := now\<rparr>
              in bindS (put_alias alias) (\<lambda>_.
                 bindS (put_context context) (\<lambda>_.
                 bindS (event context ''expired'' (Some (al_generation alias)) actor_kind
                          (JObj []) now) (\<lambda>_.
                 bindS (event context ''quarantined'' (Some (al_generation alias)) actor_kind
                          (JObj [(''until'', JStr (isoformat quarantine_until))]) now) (\<lambda>_.
                 ret (context, alias)))))
            else ret (context, alias)) (\<lambda>(context, alias).
     if al_status alias = ''quarantined'' \<and>
        (case al_quarantine_until alias of None \<Rightarrow> False | Some q \<Rightarrow> q \<le> now) then
       let alias = alias\<lparr>al_status := ''released'', al_updated_at := now\<rparr>
       in bindS (put_alias alias) (\<lambda>_.
          bindS (event context ''released'' (Some (al_generation alias)) actor_kind
                   (JObj []) now) (\<lambda>_.
          ret (context, alias)))
     else ret (context, alias))"

definition renew_alias ::
  "chat_settings \<Rightarrow> ChatContext \<Rightarrow> ChatContextAlias \<Rightarrow> int \<Rightarrow> string \<Rightarrow> bool \<Rightarrow>
     ChatContextAlias chat" where
  "renew_alias cfg context alias now actor_kind force =
     (let current_expiry = al_expires_at alias;
          alias = alias\<lparr>al_last_seen_at := now, al_updated_at := now\<rparr>;
          context = context\<lparr>cc_last_seen_at := now, cc_updated_at := now, cc_state := ''active''\<rparr>;
          remaining = current_expiry - now;
          target = now + seconds (gateway_chat_context_ttl_seconds cfg)
      in bindS (put_context context) (\<lambda>_.
         if \<not> force \<and> remaining > seconds (gateway_chat_context_renew_threshold_seconds cfg)
         then bindS (put_alias alias) (\<lambda>_. ret alias)
         else if target \<le> current_expiry then bindS (put_alias alias) (\<lambda>_. ret alias)
         else
           let alias = alias\<lparr>al_expires_at := target\<rparr>
           in bindS (put_alias alias) (\<lambda>_.
              bindS (event context ''renewed'' (Some (al_generation alias)) actor_kind
                       (JObj [(''reactivated'', JBool False)]) now) (\<lambda>_.
              ret alias))))"

definition reconcile_code_reservations :: "chat_settings \<Rightarrow> string \<Rightarrow> int \<Rightarrow> unit chat" where
  "reconcile_code_reservations cfg code now =
     bindS (gets (\<lambda>w. filter (\<lambda>a. al_code a = code \<and> live a) (aliases w))) (\<lambda>reservations.
     forS (\<lambda>alias.
       bindS (lock_context (al_owner_subject alias) (al_context_id alias)) (\<lambda>context.
       bindS (reconcile_alias cfg context alias now ''gateway'') (\<lambda>_. ret ()))) reservations)"

text \<open>
  One drawn code of \<open>_allocate_alias\<close>: insert the new alias in a savepoint, and when no unique
  constraint refuses it raise the generation of the context.
\<close>

definition issue_attempt ::
  "chat_settings \<Rightarrow> ChatContext \<Rightarrow> string \<Rightarrow> int \<Rightarrow> nat \<Rightarrow> string \<Rightarrow> ChatContextAlias option chat" where
  "issue_attempt cfg context actor_kind now retries candidate =
     bindS (current_context context) (\<lambda>context.
     bindS uuid4 (\<lambda>i.
     let generation = cc_generation context + 1;
         alias = \<lparr>al_id = i, al_context_id = cc_id context,
           al_owner_subject = cc_owner_subject context, al_code = candidate,
           al_generation = generation, al_status = ''active'', al_issued_at = now,
           al_last_seen_at = now,
           al_expires_at = now + seconds (gateway_chat_context_ttl_seconds cfg),
           al_quarantine_until = None, al_replaced_by_alias_id = None,
           al_created_at = now, al_updated_at = now\<rparr>
     in bindS (insert_alias alias) (\<lambda>inserted.
        if \<not> inserted then ret None else
        let context = context\<lparr>cc_generation := generation, cc_state := ''active'',
              cc_last_seen_at := now, cc_updated_at := now\<rparr>
        in bindS (put_context context) (\<lambda>_.
           bindS (event context ''issued'' (Some generation) actor_kind
                    (JObj [(''alias_id'', JStr i), (''allocation_retries'', JInt (int retries))])
                    now) (\<lambda>_.
           ret (Some alias))))))"

text \<open>
  The loop of \<open>_allocate_alias\<close>: at most \<open>gateway_chat_context_allocation_attempts\<close> drawn
  codes, each refused when its owner has ever used it or somebody holds it.
\<close>

fun allocate_loop ::
  "chat_settings \<Rightarrow> ChatContext \<Rightarrow> string \<Rightarrow> int \<Rightarrow> nat \<Rightarrow> nat \<Rightarrow> ChatContextAlias chat" where
  "allocate_loop cfg context actor_kind now 0 retries =
     raise (ChatContextAllocationExhausted
       ''chat context alias allocation attempt budget was exhausted'')"
| "allocate_loop cfg context actor_kind now (Suc attempts) retries =
     bindS generate_code (\<lambda>drawn.
     bindS (liftE (code_of drawn)) (\<lambda>candidate.
     bindS (reconcile_code_reservations cfg candidate now) (\<lambda>_.
     bindS (gets (\<lambda>w. list_ex (\<lambda>a. al_owner_subject a = cc_owner_subject context \<and>
              al_code a = candidate) (aliases w))) (\<lambda>owner_history.
     if owner_history then allocate_loop cfg context actor_kind now attempts (Suc retries) else
     bindS (gets (\<lambda>w. list_ex (\<lambda>a. al_code a = candidate \<and> live a) (aliases w)))
       (\<lambda>live_reservation.
     if live_reservation then allocate_loop cfg context actor_kind now attempts (Suc retries) else
     bindS (issue_attempt cfg context actor_kind now retries candidate) (\<lambda>issued.
     case issued of
       None \<Rightarrow> allocate_loop cfg context actor_kind now attempts (Suc retries)
     | Some alias \<Rightarrow> ret alias))))))"

definition allocate_alias ::
  "chat_settings \<Rightarrow> ChatContext \<Rightarrow> string \<Rightarrow> int \<Rightarrow> ChatContextAlias chat" where
  "allocate_alias cfg context actor_kind now =
     bindS (lock_context (cc_owner_subject context) (cc_id context)) (\<lambda>context.
     allocate_loop cfg context actor_kind now (gateway_chat_context_allocation_attempts cfg) 0)"

section \<open>Resolving and refreshing codes\<close>

definition find_alias :: "string \<Rightarrow> string \<Rightarrow> ChatContextAlias option chat" where
  "find_alias owner code = gets (\<lambda>w.
     find (\<lambda>a. al_owner_subject a = owner \<and> al_code a = code) (aliases w))"

definition resolve_alias ::
  "chat_settings \<Rightarrow> string \<Rightarrow> string \<Rightarrow> string \<Rightarrow> ChatContextLease chat" where
  "resolve_alias cfg owner_subject code actor_kind =
     bindS (liftE (require_enabled cfg)) (\<lambda>_.
     bindS (liftE (owner_of owner_subject)) (\<lambda>owner.
     bindS (liftE (code_of code)) (\<lambda>alias_code.
     bindS (liftE (actor_of actor_kind)) (\<lambda>actor.
     bindS (find_alias owner alias_code) (\<lambda>initial.
     case initial of
       None \<Rightarrow> raise (ChatContextNotFound ''chat context alias was not found'')
     | Some alias \<Rightarrow>
         bindS (lock_context owner (al_context_id alias)) (\<lambda>context.
         bindS (gets now_at) (\<lambda>now.
         bindS (reconcile_alias cfg context alias now ''gateway'') (\<lambda>(context, alias).
         bindS (guardS (cc_state context \<noteq> ''closed'')
                  (ChatContextClosed ''chat context is closed'')) (\<lambda>_.
         bindS (guardS (al_status alias = ''active'')
                  (ChatContextExpired ''chat context alias is expired'')) (\<lambda>_.
         bindS (renew_alias cfg context alias now actor False) (\<lambda>alias.
         ret (lease_of alias False))))))))))))"

definition find_active :: "string \<Rightarrow> ChatContextAlias option chat" where
  "find_active context_id = gets (\<lambda>w.
     find (\<lambda>a. al_context_id a = context_id \<and> al_status a = ''active'') (aliases w))"

text \<open>
  The tail of \<open>refresh_alias\<close>: reactivate the historical alias when nobody else holds its
  code and it is the newest of its context, allocate a replacement otherwise.
\<close>

definition rotate_alias ::
  "chat_settings \<Rightarrow> ChatContext \<Rightarrow> ChatContextAlias \<Rightarrow> string \<Rightarrow> int \<Rightarrow> ChatContextLease chat" where
  "rotate_alias cfg context previous actor now =
     bindS (allocate_alias cfg context actor now) (\<lambda>replacement.
     bindS (current_context context) (\<lambda>context.
     bindS (current_alias previous) (\<lambda>previous.
     bindS (if al_replaced_by_alias_id previous = None
            then put_alias (previous\<lparr>al_replaced_by_alias_id := Some (al_id replacement),
                   al_updated_at := now\<rparr>)
            else ret ()) (\<lambda>_.
     bindS (event context ''rotated'' (Some (al_generation replacement)) actor
              (JObj [(''previous_alias_id'', JStr (al_id previous)),
                     (''replacement_alias_id'', JStr (al_id replacement))]) now) (\<lambda>_.
     ret (lease_of replacement True))))))"

definition reactivate_or_rotate ::
  "chat_settings \<Rightarrow> ChatContext \<Rightarrow> ChatContextAlias \<Rightarrow> string \<Rightarrow> int \<Rightarrow> ChatContextLease chat" where
  "reactivate_or_rotate cfg context previous actor now =
     bindS (reconcile_code_reservations cfg (al_code previous) now) (\<lambda>_.
     bindS (current_context context) (\<lambda>context.
     bindS (current_alias previous) (\<lambda>previous.
     bindS (gets (\<lambda>w. list_ex (\<lambda>a. al_code a = al_code previous \<and> al_id a \<noteq> al_id previous \<and>
              live a) (aliases w))) (\<lambda>conflicting.
     if \<not> conflicting \<and> al_status previous \<in> {''quarantined'', ''released''} \<and>
        al_generation previous = cc_generation context \<and>
        al_replaced_by_alias_id previous = None
     then
       let target_expiry = now + seconds (gateway_chat_context_ttl_seconds cfg);
           revived = previous\<lparr>al_status := ''active'', al_last_seen_at := now,
             al_expires_at := target_expiry, al_quarantine_until := None, al_updated_at := now\<rparr>
       in bindS (gets (\<lambda>w. list_ex (\<lambda>a. al_id a \<noteq> al_id revived \<and> alias_conflict revived a)
                  (aliases w))) (\<lambda>integrity_error.
          if integrity_error then rotate_alias cfg context previous actor now
          else
            let context = context\<lparr>cc_state := ''active'', cc_last_seen_at := now,
                  cc_updated_at := now\<rparr>
            in bindS (put_alias revived) (\<lambda>_.
               bindS (put_context context) (\<lambda>_.
               bindS (event context ''renewed'' (Some (al_generation revived)) actor
                        (JObj [(''reactivated'', JBool True)]) now) (\<lambda>_.
               ret (lease_of revived False)))))
     else rotate_alias cfg context previous actor now))))"

definition refresh_alias ::
  "chat_settings \<Rightarrow> string \<Rightarrow> string \<Rightarrow> string \<Rightarrow> ChatContextLease chat" where
  "refresh_alias cfg owner_subject previous_code actor_kind =
     bindS (liftE (require_enabled cfg)) (\<lambda>_.
     bindS (liftE (owner_of owner_subject)) (\<lambda>owner.
     bindS (liftE (code_of previous_code)) (\<lambda>code.
     bindS (liftE (actor_of actor_kind)) (\<lambda>actor.
     bindS (find_alias owner code) (\<lambda>initial.
     case initial of
       None \<Rightarrow> raise (ChatContextNotFound ''historical chat context alias was not found'')
     | Some previous \<Rightarrow>
         bindS (lock_context owner (al_context_id previous)) (\<lambda>context.
         bindS (guardS (cc_state context \<noteq> ''closed'')
                  (ChatContextClosed ''chat context is closed'')) (\<lambda>_.
         bindS (gets now_at) (\<lambda>now.
         bindS (reconcile_alias cfg context previous now ''gateway'') (\<lambda>(context, previous).
         bindS (find_active (cc_id context)) (\<lambda>current.
         case current of
           None \<Rightarrow> reactivate_or_rotate cfg context previous actor now
         | Some current \<Rightarrow>
             bindS (reconcile_alias cfg context current now ''gateway'') (\<lambda>(context, current).
             if al_status current = ''active'' then
               bindS (renew_alias cfg context current now actor True) (\<lambda>current.
               ret (lease_of current (al_id current \<noteq> al_id previous)))
             else reactivate_or_rotate cfg context previous actor now)))))))))))"

section \<open>Creating contexts\<close>

text \<open>\<open>order_by(generation.desc()).limit(1)\<close>\<close>

definition latest_alias :: "string \<Rightarrow> ChatContextAlias list \<Rightarrow> ChatContextAlias option" where
  "latest_alias context_id rows =
     fold (\<lambda>a best. if al_context_id a = context_id \<and>
            (case best of None \<Rightarrow> True | Some b \<Rightarrow> al_generation b < al_generation a)
          then Some a else best) rows None"

definition ensure_context_alias ::
  "chat_settings \<Rightarrow> ChatContext \<Rightarrow> string \<Rightarrow> ChatContextLease chat" where
  "ensure_context_alias cfg context actor_kind =
     bindS (lock_context (cc_owner_subject context) (cc_id context)) (\<lambda>locked.
     bindS (guardS (cc_state locked \<noteq> ''closed'')
              (ChatContextClosed ''chat context is closed'')) (\<lambda>_.
     bindS (find_active (cc_id locked)) (\<lambda>active.
     bindS (gets now_at) (\<lambda>now.
     bindS (case active of
              None \<Rightarrow> ret None
            | Some active \<Rightarrow>
                bindS (reconcile_alias cfg locked active now ''gateway'') (\<lambda>(locked, active).
                if al_status active = ''active'' then
                  bindS (renew_alias cfg locked active now actor_kind False) (\<lambda>active.
                  ret (Some (lease_of active False)))
                else ret None)) (\<lambda>lease.
     case lease of
       Some l \<Rightarrow> ret l
     | None \<Rightarrow>
         bindS (gets (\<lambda>w. latest_alias (cc_id locked) (aliases w))) (\<lambda>latest.
         case latest of
           Some l \<Rightarrow> refresh_alias cfg (cc_owner_subject locked) (al_code l) actor_kind
         | None \<Rightarrow>
             bindS (allocate_alias cfg locked actor_kind now) (\<lambda>alias.
             ret (lease_of alias False))))))))"

definition find_nonce :: "string \<Rightarrow> string option \<Rightarrow> ChatContext option chat" where
  "find_nonce owner client_nonce = gets (\<lambda>w.
     find (\<lambda>c. cc_owner_subject c = owner \<and> client_nonce \<noteq> None \<and> cc_client_nonce c = client_nonce)
       (contexts w))"

definition create_context ::
  "chat_settings \<Rightarrow> string \<Rightarrow> string option \<Rightarrow> string option \<Rightarrow> string \<Rightarrow> ChatContextLease chat" where
  "create_context cfg owner_subject client_nonce project_ref actor_kind =
     bindS (liftE (require_enabled cfg)) (\<lambda>_.
     bindS (liftE (owner_of owner_subject)) (\<lambda>owner.
     bindS (liftE (actor_of actor_kind)) (\<lambda>actor.
     bindS (case project_ref of
              None \<Rightarrow> ret None
            | Some p \<Rightarrow> bindS (liftE (bounded_value p ''project_ref'' 255)) (\<lambda>b. ret (Some b)))
       (\<lambda>project.
     bindS (find_nonce owner client_nonce) (\<lambda>existing.
     case existing of
       Some c \<Rightarrow> ensure_context_alias cfg c actor
     | None \<Rightarrow>
         bindS (gets now_at) (\<lambda>now.
         bindS uuid4 (\<lambda>i.
         let context = \<lparr>cc_id = i, cc_owner_subject = owner, cc_host_kind = ''chatgpt'',
               cc_state = ''active'', cc_project_ref = project, cc_client_nonce = client_nonce,
               cc_conversation_ref_hmac = None, cc_conversation_key_version = None,
               cc_generation = 0, cc_created_at = now, cc_last_seen_at = now,
               cc_updated_at = now, cc_closed_at = None\<rparr>
         in catchS
              (bindS (savepoint
                 (bindS (insert_context context) (\<lambda>_.
                  bindS (event context ''created'' None actor
                           (JObj [(''host_kind'', JStr ''chatgpt'')]) now) (\<lambda>_.
                  allocate_alias cfg context actor now)))) (\<lambda>alias.
               ret (lease_of alias False)))
              (\<lambda>e. if e \<noteq> ChatContextIntegrityError \<or> client_nonce = None then raise e
                   else bindS (find_nonce owner client_nonce) (\<lambda>existing.
                        case existing of
                          None \<Rightarrow> raise e
                        | Some c \<Rightarrow> ensure_context_alias cfg c actor)))))))))"

definition start_context ::
  "chat_settings \<Rightarrow> string \<Rightarrow> string option \<Rightarrow> string \<Rightarrow> ChatContextLease chat" where
  "start_context cfg owner_subject project_ref actor_kind =
     create_context cfg owner_subject None project_ref actor_kind"

definition create_provisional ::
  "chat_settings \<Rightarrow> string \<Rightarrow> string \<Rightarrow> string option \<Rightarrow> string \<Rightarrow> ChatContextLease chat" where
  "create_provisional cfg owner_subject client_nonce project_ref actor_kind =
     bindS (liftE (bounded_value client_nonce ''client_nonce'' 128)) (\<lambda>nonce.
     create_context cfg owner_subject (Some nonce) project_ref actor_kind)"

section \<open>Conversation bindings\<close>

definition bound_contexts :: "string \<Rightarrow> string \<Rightarrow> ChatContext list \<Rightarrow> ChatContext list" where
  "bound_contexts owner host_kind rows =
     filter (\<lambda>c. cc_owner_subject c = owner \<and> cc_host_kind c = host_kind \<and>
       cc_conversation_ref_hmac c \<noteq> None \<and> cc_conversation_key_version c \<noteq> None) rows"

definition digest_matches :: "chat_settings \<Rightarrow> string \<Rightarrow> ChatContext \<Rightarrow> bool" where
  "digest_matches cfg normalized c \<longleftrightarrow>
     (case cc_conversation_key_version c of
        None \<Rightarrow> False
      | Some v \<Rightarrow> cc_conversation_ref_hmac c = Some (conversation_digest cfg normalized v))"

definition bind_conversation ::
  "chat_settings \<Rightarrow> string \<Rightarrow> string \<Rightarrow> string \<Rightarrow> string \<Rightarrow> ChatContextBinding chat" where
  "bind_conversation cfg owner_subject context_id conversation_reference actor_kind =
     bindS (liftE (require_enabled cfg)) (\<lambda>_.
     bindS (liftE (owner_of owner_subject)) (\<lambda>owner.
     bindS (liftE (actor_of actor_kind)) (\<lambda>actor.
     bindS (liftE (normalize_conversation_reference conversation_reference)) (\<lambda>normalized.
     bindS (lock_context owner context_id) (\<lambda>context.
     bindS (guardS (cc_state context \<noteq> ''closed'')
              (ChatContextClosed ''chat context is closed'')) (\<lambda>_.
     bindS (gets now_at) (\<lambda>now.
     bindS (gets (\<lambda>w. find (digest_matches cfg normalized)
              (bound_contexts owner (cc_host_kind context) (contexts w)))) (\<lambda>matching.
     case matching of
       Some candidate \<Rightarrow>
         bindS (guardS (cc_id candidate = cc_id context) (ChatContextBindingConflict
                  ''conversation reference is already bound to another chat context'')) (\<lambda>_.
         bindS (put_context (context\<lparr>cc_last_seen_at := now, cc_updated_at := now\<rparr>)) (\<lambda>_.
         ret \<lparr>bi_context_id = cc_id context,
              bi_key_version = (case cc_conversation_key_version candidate of
                None \<Rightarrow> 0 | Some v \<Rightarrow> v),
              bi_newly_bound = False\<rparr>))
     | None \<Rightarrow>
         bindS (guardS (cc_conversation_ref_hmac context = None) (ChatContextBindingConflict
                  ''chat context is already bound to another conversation reference'')) (\<lambda>_.
         let version = gateway_chat_context_hmac_key_version cfg;
             bound = context\<lparr>
               cc_conversation_ref_hmac := Some (conversation_digest cfg normalized version),
               cc_conversation_key_version := Some version,
               cc_last_seen_at := now, cc_updated_at := now\<rparr>
         in bindS (gets (\<lambda>w. \<not> context_check bound \<or>
                     list_ex (\<lambda>c. cc_id c \<noteq> cc_id bound \<and> context_conflict bound c) (contexts w)))
              (\<lambda>integrity_error.
            bindS (guardS (\<not> integrity_error) (ChatContextBindingConflict
                     ''conversation reference binding conflicted with another chat context'')) (\<lambda>_.
            bindS (put_context bound) (\<lambda>_.
            bindS (event bound ''bound''
                     (if cc_generation bound = 0 then None else Some (cc_generation bound))
                     actor (JObj [(''key_version'', JInt version)]) now) (\<lambda>_.
            ret \<lparr>bi_context_id = cc_id context, bi_key_version = version,
                 bi_newly_bound = True\<rparr>)))))))))))))"

definition resolve_conversation :: "chat_settings \<Rightarrow> string \<Rightarrow> string \<Rightarrow> string chat" where
  "resolve_conversation cfg owner_subject conversation_reference =
     bindS (liftE (require_enabled cfg)) (\<lambda>_.
     bindS (liftE (owner_of owner_subject)) (\<lambda>owner.
     bindS (liftE (normalize_conversation_reference conversation_reference)) (\<lambda>normalized.
     bindS (gets (\<lambda>w. filter (digest_matches cfg normalized)
              (bound_contexts owner ''chatgpt'' (contexts w)))) (\<lambda>matches.
     case matches of
       [] \<Rightarrow> raise (ChatContextNotFound ''conversation binding was not found'')
     | [context] \<Rightarrow>
         bindS (guardS (cc_state context \<noteq> ''closed'')
                  (ChatContextClosed ''chat context is closed'')) (\<lambda>_.
         bindS (gets now_at) (\<lambda>now.
         bindS (put_context (context\<lparr>cc_last_seen_at := now, cc_updated_at := now\<rparr>)) (\<lambda>_.
         ret (cc_id context))))
     | _ \<Rightarrow> raise (ChatContextBindingConflict ''conversation binding is ambiguous'')))))"

definition resolve_conversation_lease ::
  "chat_settings \<Rightarrow> string \<Rightarrow> string \<Rightarrow> string \<Rightarrow> ChatContextLease chat" where
  "resolve_conversation_lease cfg owner_subject conversation_reference actor_kind =
     bindS (resolve_conversation cfg owner_subject conversation_reference) (\<lambda>context_id.
     bindS (liftE (owner_of owner_subject)) (\<lambda>owner.
     bindS (lock_context owner context_id) (\<lambda>context.
     bindS (liftE (actor_of actor_kind)) (\<lambda>actor.
     ensure_context_alias cfg context actor))))"

end
