(* ===== verification/Chat_Context_Invariant.thy ===== *)
theory Chat_Context_Invariant
  imports Chat_Context
begin

text \<open>
  The invariant of the chat-context tables and its preservation by every service method, on
  both outcomes of the call: no two aliases break a unique constraint, every alias belongs to
  a stored context of the same owner and is not newer than it, and rows keep their identity.
\<close>

section \<open>Identity and invariant\<close>

definition alias_key :: "ChatContextAlias \<Rightarrow> string \<times> string \<times> string \<times> string \<times> int" where
  "alias_key a = (al_id a, al_context_id a, al_owner_subject a, al_code a, al_generation a)"

definition context_key :: "ChatContext \<Rightarrow> string \<times> string \<times> string \<times> string option" where
  "context_key c = (cc_id c, cc_owner_subject c, cc_host_kind c, cc_client_nonce c)"

definition linked :: "ChatContext \<Rightarrow> ChatContextAlias \<Rightarrow> bool" where
  "linked c a \<longleftrightarrow> cc_id c = al_context_id a \<and> cc_owner_subject c = al_owner_subject a \<and>
     al_generation a \<le> cc_generation c"

definition rows_ok :: "ChatContext list \<Rightarrow> ChatContextAlias list \<Rightarrow> bool" where
  "rows_ok cs as \<longleftrightarrow>
     sorted_wrt (\<lambda>a b. \<not> alias_conflict a b) as \<and>
     sorted_wrt (\<lambda>a b. \<not> context_conflict a b) cs \<and>
     (\<forall>a \<in> set as. alias_check a \<and> code_pattern (al_code a)) \<and>
     (\<forall>c \<in> set cs. context_check c \<and> strip (cc_owner_subject c) = cc_owner_subject c) \<and>
     (\<forall>a \<in> set as. \<exists>c \<in> set cs. linked c a)"

definition chat_inv :: "chat_db \<Rightarrow> bool" where
  "chat_inv w \<longleftrightarrow> rows_ok (contexts w) (aliases w)"

definition same_identity :: "chat_db \<Rightarrow> chat_db \<Rightarrow> bool" where
  "same_identity w w' \<longleftrightarrow>
     grows context_key (contexts w) (contexts w') \<and> grows alias_key (aliases w) (aliases w')"

lemma same_identity_refl [simp]: "same_identity w w"
  by (simp add: same_identity_def)

lemma same_identity_trans: "same_identity u v \<Longrightarrow> same_identity v w \<Longrightarrow> same_identity u w"
  by (auto simp: same_identity_def intro: grows_trans)

interpretation identity: state_relation same_identity
  by unfold_locales (auto intro: same_identity_trans)

lemma symp_alias_conflict: "symp alias_conflict"
  by (auto simp: symp_def alias_conflict_def)

lemma symp_context_conflict: "symp context_conflict"
  by (auto simp: symp_def context_conflict_def)

lemma alias_conflict_sym: "alias_conflict a b \<longleftrightarrow> alias_conflict b a"
  by (auto simp: alias_conflict_def)

lemma context_conflict_sym: "context_conflict a b \<longleftrightarrow> context_conflict b a"
  unfolding context_conflict_def by metis

lemma unique_alias_ids: "rows_ok cs as \<Longrightarrow> unique_on al_id as"
  by (auto simp: rows_ok_def unique_on_def distinct_conv_nth sorted_wrt_iff_nth_less alias_conflict_def)
     (metis nat_neq_iff)

lemma unique_context_ids: "rows_ok cs as \<Longrightarrow> unique_on cc_id cs"
  by (auto simp: rows_ok_def unique_on_def distinct_conv_nth sorted_wrt_iff_nth_less context_conflict_def)
     (metis nat_neq_iff)

lemma rows_ok_aliasD:
  "rows_ok cs as \<Longrightarrow> a \<in> set as \<Longrightarrow> b \<in> set as \<Longrightarrow> alias_conflict a b \<Longrightarrow> a = b"
  by (metis rows_ok_def sorted_wrt_pairD symp_alias_conflict)

lemma rows_ok_contextD:
  "rows_ok cs as \<Longrightarrow> a \<in> set cs \<Longrightarrow> b \<in> set cs \<Longrightarrow> context_conflict a b \<Longrightarrow> a = b"
  by (metis rows_ok_def sorted_wrt_pairD symp_context_conflict)

lemma rows_ok_linkedD: "rows_ok cs as \<Longrightarrow> a \<in> set as \<Longrightarrow> \<exists>c \<in> set cs. linked c a"
  by (simp add: rows_ok_def)

section \<open>Rewriting one row\<close>

lemma rows_ok_store_alias:
  assumes ok: "rows_ok cs as" and a: "a \<in> set as" and key: "alias_key a' = alias_key a"
    and check: "alias_check a'"
    and fits: "\<And>b. b \<in> set as \<Longrightarrow> al_id b \<noteq> al_id a' \<Longrightarrow> \<not> alias_conflict a' b"
  shows "rows_ok cs (update_where (\<lambda>r. al_id r = al_id a') (\<lambda>_. a') as)"
proof -
  let ?as = "update_where (\<lambda>r. al_id r = al_id a') (\<lambda>_. a') as"
  have "sorted_wrt (\<lambda>a b. \<not> alias_conflict a b) ?as"
    using ok fits unique_alias_ids [OF ok]
    by (intro sorted_wrt_rewrite) (auto simp: rows_ok_def alias_conflict_sym)
  moreover have "linked c a' = linked c a" for c
    using key by (simp add: linked_def alias_key_def)
  moreover have "code_pattern (al_code a')"
    using ok a key by (auto simp: rows_ok_def alias_key_def)
  ultimately show ?thesis
    using ok a check by (auto simp: rows_ok_def)
qed

lemma rows_ok_narrow_alias:
  assumes ok: "rows_ok cs as" and a: "a \<in> set as" and key: "alias_key a' = alias_key a"
    and check: "alias_check a'"
    and narrow: "live a' \<Longrightarrow> live a" "al_status a' = ''active'' \<Longrightarrow> al_status a = ''active''"
  shows "rows_ok cs (update_where (\<lambda>r. al_id r = al_id a') (\<lambda>_. a') as)"
proof (rule rows_ok_store_alias [OF ok a key check])
  fix b
  assume b: "b \<in> set as" "al_id b \<noteq> al_id a'"
  then have "a \<noteq> b" using key by (auto simp: alias_key_def)
  then have "\<not> alias_conflict a b" using rows_ok_aliasD [OF ok a b(1)] by blast
  then show "\<not> alias_conflict a' b"
    using key b(2) narrow by (auto simp: alias_conflict_def alias_key_def)
qed

lemma rows_ok_store_context:
  assumes ok: "rows_ok cs as" and c: "c \<in> set cs" and key: "context_key c' = context_key c"
    and gen: "cc_generation c \<le> cc_generation c'" and check: "context_check c'"
    and fits: "\<And>b. b \<in> set cs \<Longrightarrow> cc_id b \<noteq> cc_id c' \<Longrightarrow> \<not> context_conflict c' b"
  shows "rows_ok (update_where (\<lambda>r. cc_id r = cc_id c') (\<lambda>_. c') cs) as"
proof -
  let ?cs = "update_where (\<lambda>r. cc_id r = cc_id c') (\<lambda>_. c') cs"
  have u: "unique_on cc_id cs" using ok by (rule unique_context_ids)
  have "sorted_wrt (\<lambda>a b. \<not> context_conflict a b) ?cs"
    using ok fits u by (intro sorted_wrt_rewrite) (auto simp: rows_ok_def context_conflict_sym)
  moreover have "\<exists>d \<in> set ?cs. linked d a" if a: "a \<in> set as" for a
  proof -
    obtain d where d: "d \<in> set cs" "linked d a"
      using rows_ok_linkedD [OF ok a] by blast
    show ?thesis
    proof (cases "cc_id d = cc_id c'")
      case True
      then have "d = c" using u d(1) c key by (auto dest: unique_on_eqD simp: context_key_def)
      then have "linked c' a" using d(2) key gen by (auto simp: linked_def context_key_def)
      moreover have "c' \<in> set ?cs" using d(1) True by (auto simp: set_update_where)
      ultimately show ?thesis by blast
    next
      case False
      then have "d \<in> set ?cs" using d(1) by (auto simp: set_update_where)
      then show ?thesis using d(2) by blast
    qed
  qed
  moreover have "strip (cc_owner_subject c') = cc_owner_subject c'"
    using ok c key by (auto simp: rows_ok_def context_key_def)
  ultimately show ?thesis using ok check by (auto simp: rows_ok_def)
qed

text \<open>A context rewritten without touching its key or its conversation binding.\<close>

lemma rows_ok_touch_context:
  assumes ok: "rows_ok cs as" and c: "c \<in> set cs" and key: "context_key c' = context_key c"
    and gen: "cc_generation c \<le> cc_generation c'" and check: "context_check c'"
    and hmac: "cc_conversation_ref_hmac c' = cc_conversation_ref_hmac c"
  shows "rows_ok (update_where (\<lambda>r. cc_id r = cc_id c') (\<lambda>_. c') cs) as"
proof (rule rows_ok_store_context [OF ok c key gen check])
  fix b
  assume b: "b \<in> set cs" "cc_id b \<noteq> cc_id c'"
  then have "c \<noteq> b" using key by (auto simp: context_key_def)
  then have "\<not> context_conflict c b" using rows_ok_contextD [OF ok c b(1)] by blast
  then show "\<not> context_conflict c' b"
    using key b(2) hmac by (auto simp: context_conflict_def context_key_def)
qed

lemma grows_store:
  assumes u: "unique_on i rows" and r: "r \<in> set rows" and key: "k r' = k r" "i r' = i r"
  shows "grows k rows (update_where (\<lambda>x. i x = i r') (\<lambda>_. r') rows)"
proof -
  have "map k (update_where (\<lambda>x. i x = i r') (\<lambda>_. r') rows) = map k rows"
    using u r key by (auto simp: update_where_def dest: unique_on_eqD)
  then show ?thesis by (simp add: grows_def)
qed

lemma store_in:
  "r \<in> set rows \<Longrightarrow> i r' = i r \<Longrightarrow> r' \<in> set (update_where (\<lambda>x. i x = i r') (\<lambda>_. r') rows)"
  by (auto simp: set_update_where)

section \<open>Primitive steps\<close>

lemma wp_uuid4 [simp, wp_simps]:
  "wp uuid4 Q E w = Q (uuid_src w (uuid_pos w)) (w\<lparr>uuid_pos := Suc (uuid_pos w)\<rparr>)"
  by (simp add: wp_def uuid4_def)

text \<open>The state after an event row is added.\<close>

definition logged ::
  "ChatContext \<Rightarrow> string \<Rightarrow> int option \<Rightarrow> string \<Rightarrow> json \<Rightarrow> int \<Rightarrow> chat_db \<Rightarrow> chat_db" where
  "logged c action g k m now w = snd (event c action g k m now w)"

lemma wp_event [simp, wp_simps]:
  "wp (event c action g k m now) Q E w = Q () (logged c action g k m now w)"
  by (simp add: wp_def logged_def event_def run_simps uuid4_def)

lemma logged_frame [simp, frame_simps]:
  "contexts (logged c action g k m now w) = contexts w"
  "aliases (logged c action g k m now w) = aliases w"
  "now_at (logged c action g k m now w) = now_at w"
  by (simp_all add: logged_def event_def run_simps uuid4_def)

lemma wp_put_alias [simp, wp_simps]: "wp (put_alias a) Q E w = Q () (store_alias a w)"
  by (simp add: put_alias_def)

lemma wp_put_context [simp, wp_simps]: "wp (put_context c) Q E w = Q () (store_context c w)"
  by (simp add: put_context_def)

lemma store_frame [simp, frame_simps]:
  "contexts (store_alias a w) = contexts w" "now_at (store_alias a w) = now_at w"
  "aliases (store_context c w) = aliases w" "now_at (store_context c w) = now_at w"
  by (simp_all add: store_alias_def store_context_def)

lemma wp_lock_context:
  assumes "\<And>c. find (\<lambda>c. cc_id c = i \<and> cc_owner_subject c = owner) (contexts w) = Some c \<Longrightarrow> Q c w"
    and "find (\<lambda>c. cc_id c = i \<and> cc_owner_subject c = owner) (contexts w) = None \<Longrightarrow>
      E (ChatContextNotFound ''chat context was not found'') w"
  shows "wp (lock_context owner i) Q E w"
  using assms by (auto simp: lock_context_def split: option.splits)

text \<open>
  What a step that rewrites one alias or one context keeps. \<open>chat_step w w'\<close> is the
  guarantee every method gives: the invariant holds and identities are kept.
\<close>

definition chat_step :: "chat_db \<Rightarrow> chat_db \<Rightarrow> bool" where
  "chat_step w w' \<longleftrightarrow> chat_inv w' \<and> same_identity w w' \<and> now_at w' = now_at w"

lemma chat_step_refl: "chat_inv w \<Longrightarrow> chat_step w w"
  by (simp add: chat_step_def)

lemma chat_step_trans: "chat_step u v \<Longrightarrow> chat_step v w \<Longrightarrow> chat_step u w"
  by (auto simp: chat_step_def intro: same_identity_trans)

lemma chat_step_inv: "chat_step u v \<Longrightarrow> chat_inv v"
  by (simp add: chat_step_def)

lemma chat_step_same_rows:
  "chat_inv w \<Longrightarrow> contexts w' = contexts w \<Longrightarrow> aliases w' = aliases w \<Longrightarrow> now_at w' = now_at w \<Longrightarrow>
   chat_step w w'"
  by (simp add: chat_step_def chat_inv_def same_identity_def)

lemma chat_step_logged [simp]: "chat_step u (logged c action g k m now w) = chat_step u w"
  by (simp add: chat_step_def chat_inv_def same_identity_def)

lemma store_alias_step:
  assumes inv: "chat_inv w" and a: "a \<in> set (aliases w)" and key: "alias_key a' = alias_key a"
    and check: "alias_check a'"
    and narrow: "live a' \<Longrightarrow> live a" "al_status a' = ''active'' \<Longrightarrow> al_status a = ''active''"
  shows "chat_step w (store_alias a' w)"
proof -
  have ok: "rows_ok (contexts w) (aliases w)" using inv by (simp add: chat_inv_def)
  have "al_id a' = al_id a" using key by (simp add: alias_key_def)
  then have "grows alias_key (aliases w) (update_where (\<lambda>r. al_id r = al_id a') (\<lambda>_. a') (aliases w))"
    by (rule grows_store [where i = al_id, OF unique_alias_ids [OF ok] a key])
  then show ?thesis
    using rows_ok_narrow_alias [OF ok a key check narrow]
    unfolding chat_step_def chat_inv_def same_identity_def store_alias_def by simp
qed

lemma store_context_step:
  assumes inv: "chat_inv w" and c: "c \<in> set (contexts w)" and key: "context_key c' = context_key c"
    and gen: "cc_generation c \<le> cc_generation c'" and check: "context_check c'"
    and hmac: "cc_conversation_ref_hmac c' = cc_conversation_ref_hmac c"
  shows "chat_step w (store_context c' w)"
proof -
  have ok: "rows_ok (contexts w) (aliases w)" using inv by (simp add: chat_inv_def)
  have "cc_id c' = cc_id c" using key by (simp add: context_key_def)
  then have "grows context_key (contexts w) (update_where (\<lambda>r. cc_id r = cc_id c') (\<lambda>_. c') (contexts w))"
    by (rule grows_store [where i = cc_id, OF unique_context_ids [OF ok] c key])
  then show ?thesis
    using rows_ok_touch_context [OF ok c key gen check hmac]
    unfolding chat_step_def chat_inv_def same_identity_def store_context_def by simp
qed

lemma in_store_alias:
  "a \<in> set (aliases w) \<Longrightarrow> al_id a' = al_id a \<Longrightarrow> a' \<in> set (aliases (store_alias a' w))"
  using store_in [where i = al_id and r' = a'] by (simp add: store_alias_def)

lemma in_store_context:
  "c \<in> set (contexts w) \<Longrightarrow> cc_id c' = cc_id c \<Longrightarrow> c' \<in> set (contexts (store_context c' w))"
  using store_in [where i = cc_id and r' = c'] by (simp add: store_context_def)

section \<open>The methods\<close>

text \<open>
  \<open>held w c a\<close>: the method holds the current rows \<open>c\<close> and \<open>a\<close> of one context and one of
  its aliases. \<open>follows\<close> relates the pair a helper returns to the pair it was given.
\<close>

definition held :: "chat_db \<Rightarrow> ChatContext \<Rightarrow> ChatContextAlias \<Rightarrow> bool" where
  "held w c a \<longleftrightarrow> c \<in> set (contexts w) \<and> a \<in> set (aliases w) \<and> linked c a"

definition context_follows :: "ChatContext \<Rightarrow> ChatContext \<Rightarrow> bool" where
  "context_follows c c' \<longleftrightarrow> context_key c' = context_key c \<and> cc_generation c \<le> cc_generation c' \<and>
     cc_conversation_ref_hmac c' = cc_conversation_ref_hmac c \<and>
     cc_conversation_key_version c' = cc_conversation_key_version c"

lemma context_follows_refl [simp]: "context_follows c c"
  by (simp add: context_follows_def)

lemma context_follows_trans:
  "context_follows a b \<Longrightarrow> context_follows b c \<Longrightarrow> context_follows a c"
  by (auto simp: context_follows_def)

lemma store_context_follows:
  assumes "chat_inv w" and "c \<in> set (contexts w)" and "context_follows c c'"
    and "cc_state c' \<in> {''active'', ''dormant'', ''closed''}"
  shows "chat_step w (store_context c' w)" and "c' \<in> set (contexts (store_context c' w))"
proof -
  have "context_check c" using assms(1,2) by (simp add: chat_inv_def rows_ok_def)
  then have "context_check c'"
    using assms(3,4) by (auto simp: context_check_def context_follows_def context_key_def)
  then show "chat_step w (store_context c' w)"
    using assms by (auto simp: context_follows_def intro!: store_context_step)
  show "c' \<in> set (contexts (store_context c' w))"
    using assms by (auto simp: context_follows_def context_key_def intro!: in_store_context)
qed

lemma store_alias_narrows:
  assumes "chat_inv w" and "a \<in> set (aliases w)" and "alias_key a' = alias_key a"
    and "al_status a' \<in> {''active'', ''quarantined'', ''released'', ''revoked''}"
    and "live a' \<Longrightarrow> live a" "al_status a' = ''active'' \<Longrightarrow> al_status a = ''active''"
  shows "chat_step w (store_alias a' w)" and "a' \<in> set (aliases (store_alias a' w))"
proof -
  have "alias_check a" using assms(1,2) by (simp add: chat_inv_def rows_ok_def)
  then have "alias_check a'"
    using assms(3,4) by (auto simp: alias_check_def alias_key_def)
  then show "chat_step w (store_alias a' w)"
    using assms by (intro store_alias_step) auto
  show "a' \<in> set (aliases (store_alias a' w))"
    using assms by (auto simp: alias_key_def intro!: in_store_alias)
qed

text \<open>
  The alias that \<open>_reconcile_alias\<close> leaves: expired ones are quarantined, and released when
  the quarantine is over too.
\<close>

definition expired_at :: "int \<Rightarrow> ChatContextAlias \<Rightarrow> bool" where
  "expired_at now a \<longleftrightarrow> al_status a = ''active'' \<and> al_expires_at a \<le> now"

definition reconciled :: "chat_settings \<Rightarrow> int \<Rightarrow> ChatContextAlias \<Rightarrow> ChatContextAlias" where
  "reconciled cfg now a =
     (let a1 = (if expired_at now a
                then a\<lparr>al_status := ''quarantined'',
                  al_quarantine_until := Some (al_expires_at a +
                    seconds (gateway_chat_context_quarantine_seconds cfg)),
                  al_updated_at := now\<rparr>
                else a)
      in if al_status a1 = ''quarantined'' \<and>
            (case al_quarantine_until a1 of None \<Rightarrow> False | Some q \<Rightarrow> q \<le> now)
         then a1\<lparr>al_status := ''released'', al_updated_at := now\<rparr> else a1)"

lemma reconciled_frame [simp]:
  "alias_key (reconciled cfg now a) = alias_key a"
  "al_expires_at (reconciled cfg now a) = al_expires_at a"
  "al_replaced_by_alias_id (reconciled cfg now a) = al_replaced_by_alias_id a"
  by (auto simp: reconciled_def alias_key_def Let_def)

lemma reconciled_active:
  "al_status (reconciled cfg now a) = ''active'' \<longleftrightarrow> al_status a = ''active'' \<and> now < al_expires_at a"
  by (auto simp: reconciled_def expired_at_def Let_def split: option.splits)

lemma reconciled_active_same:
  "al_status (reconciled cfg now a) = ''active'' \<Longrightarrow> reconciled cfg now a = a"
  by (cases "al_quarantine_until a") (auto simp: reconciled_def expired_at_def Let_def split: if_splits)

lemma held_store:
  assumes "chat_step w w'" and "c' \<in> set (contexts w')" and "a' \<in> set (aliases w')"
    and "linked c a" and "context_follows c c'" and "alias_key a' = alias_key a"
  shows "held w' c' a'"
  using assms by (auto simp: held_def linked_def context_follows_def context_key_def alias_key_def)

lemma expire_step:
  assumes inv: "chat_inv w" and h: "held w c a" and active: "al_status a = ''active''"
    and a': "alias_key a' = alias_key a" "al_status a' = ''quarantined''"
    and c': "context_follows c c'" "cc_state c' = ''dormant''"
  shows "chat_step w (store_context c' (store_alias a' w))"
    and "held (store_context c' (store_alias a' w)) c' a'"
proof -
  have h': "c \<in> set (contexts w)" "a \<in> set (aliases w)" "linked c a"
    using h by (auto simp: held_def)
  note sa = store_alias_narrows [OF inv h'(2) a'(1)]
  have s1: "chat_step w (store_alias a' w)"
    by (rule sa(1)) (use a' active in \<open>auto simp: live_def\<close>)
  have i1: "a' \<in> set (aliases (store_alias a' w))"
    by (rule sa(2)) (use a' active in \<open>auto simp: live_def\<close>)
  have "c \<in> set (contexts (store_alias a' w))" using h' by simp
  note sc = store_context_follows [OF chat_step_inv [OF s1] this c'(1)]
  have s2: "chat_step (store_alias a' w) (store_context c' (store_alias a' w))"
    by (rule sc(1)) (use c' in simp)
  have i2: "c' \<in> set (contexts (store_context c' (store_alias a' w)))"
    by (rule sc(2)) (use c' in simp)
  show s: "chat_step w (store_context c' (store_alias a' w))"
    using s1 s2 by (rule chat_step_trans)
  show "held (store_context c' (store_alias a' w)) c' a'"
    by (rule held_store [OF s i2 _ h'(3) c'(1) a'(1)]) (use i1 in simp)
qed

lemma release_step:
  assumes inv: "chat_inv w" and h: "held w c a" and status: "al_status a = ''quarantined''"
    and a': "alias_key a' = alias_key a" "al_status a' = ''released''"
  shows "chat_step w (store_alias a' w)" and "held (store_alias a' w) c a'"
proof -
  have h': "c \<in> set (contexts w)" "a \<in> set (aliases w)" "linked c a"
    using h by (auto simp: held_def)
  note sa = store_alias_narrows [OF inv h'(2) a'(1)]
  show s: "chat_step w (store_alias a' w)"
    by (rule sa(1)) (use a' status in \<open>auto simp: live_def\<close>)
  show "held (store_alias a' w) c a'"
    by (rule held_store [OF s _ sa(2) h'(3) _ a'(1)]) (use a' h' in \<open>auto simp: live_def\<close>)
qed

lemma held_logged [simp]: "held (logged x action g k m t w) c a = held w c a"
  by (simp add: held_def)

lemma wp_expire:
  assumes inv: "chat_inv w" and h: "held w c a" and e: "expired_at now a"
  shows "wp (let quarantine_until =
                    al_expires_at a + seconds (gateway_chat_context_quarantine_seconds cfg);
                  alias = a\<lparr>al_status := ''quarantined'',
                    al_quarantine_until := Some quarantine_until, al_updated_at := now\<rparr>;
                  context = c\<lparr>cc_state := ''dormant'', cc_updated_at := now\<rparr>
              in bindS (put_alias alias) (\<lambda>_.
                 bindS (put_context context) (\<lambda>_.
                 bindS (event context ''expired'' (Some (al_generation alias)) k (JObj []) now) (\<lambda>_.
                 bindS (event context ''quarantined'' (Some (al_generation alias)) k
                          (JObj [(''until'', JStr (isoformat quarantine_until))]) now) (\<lambda>_.
                 ret (context, alias))))))
    (\<lambda>(c', a') w'. chat_step w w' \<and> held w' c' a' \<and> context_follows c c' \<and>
       cc_generation c' = cc_generation c \<and> cc_state c' = ''dormant'' \<and>
       a' = a\<lparr>al_status := ''quarantined'',
                  al_quarantine_until := Some (al_expires_at a +
                    seconds (gateway_chat_context_quarantine_seconds cfg)),
                  al_updated_at := now\<rparr>)
    (\<lambda>e w'. False) w"
  using e expire_step [OF inv h, where c' = "c\<lparr>cc_state := ''dormant'', cc_updated_at := now\<rparr>"]
  by (simp add: Let_def expired_at_def alias_key_def context_follows_def context_key_def)

lemma wp_reconcile_alias:
  assumes inv: "chat_inv w" and h: "held w c a"
  shows "wp (reconcile_alias cfg c a now k)
    (\<lambda>(c', a') w'. chat_step w w' \<and> held w' c' a' \<and> context_follows c c' \<and>
       cc_generation c' = cc_generation c \<and> a' = reconciled cfg now a \<and>
       (if expired_at now a then cc_state c' = ''dormant'' else c' = c))
    (\<lambda>e w'. False) w"
proof -
  let ?a1 = "if expired_at now a then a\<lparr>al_status := ''quarantined'',
    al_quarantine_until := Some (al_expires_at a +
      seconds (gateway_chat_context_quarantine_seconds cfg)), al_updated_at := now\<rparr> else a"
  show ?thesis
    unfolding reconcile_alias_def wp_bind expired_at_def [symmetric]
  proof (rule wp_mono [where Q' = "\<lambda>(c', a') w'. chat_step w w' \<and> held w' c' a' \<and>
        context_follows c c' \<and> cc_generation c' = cc_generation c \<and> a' = ?a1 \<and>
        (if expired_at now a then cc_state c' = ''dormant'' else c' = c)" and E' = "\<lambda>_ _. False"],
      goal_cases)
    case 1
    show ?case
    proof (cases "expired_at now a")
      case True
      then show ?thesis
        by (simp only: if_True) (rule wp_mono [OF wp_expire [OF inv h True]], auto)
    next
      case False
      then show ?thesis using chat_step_refl [OF inv] h by simp
    qed
  next
    case (2 x w1)
    obtain c1 a1 where x: "x = (c1, a1)" by (cases x)
    have h1: "chat_step w w1" "held w1 c1 a1" "a1 = ?a1" "context_follows c c1"
      "cc_generation c1 = cc_generation c"
      "if expired_at now a then cc_state c1 = ''dormant'' else c1 = c"
      using 2 x by auto
    note rel = release_step [OF chat_step_inv [OF h1(1)] h1(2),
        where a' = "a1\<lparr>al_status := ''released'', al_updated_at := now\<rparr>"]
    have "reconciled cfg now a = (if al_status a1 = ''quarantined'' \<and>
        (case al_quarantine_until a1 of None \<Rightarrow> False | Some q \<Rightarrow> q \<le> now)
         then a1\<lparr>al_status := ''released'', al_updated_at := now\<rparr> else a1)"
      unfolding reconciled_def Let_def h1(3) by simp
    then show ?case
      using h1(1,2,4,5,6) rel
      by (auto simp: x Let_def alias_key_def intro: chat_step_trans)
  next
    case 3
    then show ?case by simp
  qed
qed

text \<open>The stored context with the identifier of \<open>c\<close> is active.\<close>

definition awake :: "ChatContext \<Rightarrow> chat_db \<Rightarrow> bool" where
  "awake c w \<longleftrightarrow> (\<exists>d \<in> set (contexts w). cc_id d = cc_id c \<and> cc_state d = ''active'')"

lemma awake_frame [simp]:
  "awake c (store_alias a w) = awake c w" "awake c (logged x action g k m t w) = awake c w"
  by (simp_all add: awake_def)

lemma awake_cong: "cc_id c' = cc_id c \<Longrightarrow> awake c' w = awake c w"
  by (simp add: awake_def)

lemma awake_store:
  "d \<in> set (contexts w) \<Longrightarrow> cc_id c' = cc_id d \<Longrightarrow> cc_id c = cc_id d \<Longrightarrow> cc_state c' = ''active'' \<Longrightarrow>
   awake c (store_context c' w)"
  using in_store_context [of d w c'] by (auto simp: awake_def)

text \<open>Renewal of an active alias: the expiry never moves back.\<close>

definition renewal_ok :: "chat_settings \<Rightarrow> int \<Rightarrow> bool \<Rightarrow> ChatContextAlias \<Rightarrow> ChatContextAlias \<Rightarrow> bool" where
  "renewal_ok cfg now force a a' \<longleftrightarrow>
     alias_key a' = alias_key a \<and> al_status a' = al_status a \<and>
     al_expires_at a \<le> al_expires_at a' \<and>
     (now + seconds (gateway_chat_context_ttl_seconds cfg) \<le> al_expires_at a' \<or>
      \<not> force \<and> seconds (gateway_chat_context_renew_threshold_seconds cfg) < al_expires_at a' - now)"

lemma touch_step:
  assumes inv: "chat_inv w" and h: "held w c a"
    and c': "context_follows c c'" "cc_state c' \<in> {''active'', ''dormant'', ''closed''}"
    and a': "alias_key a' = alias_key a" "al_status a' = al_status a"
  shows "chat_step w (store_alias a' (store_context c' w))"
    and "held (store_alias a' (store_context c' w)) c' a'"
proof -
  have h': "c \<in> set (contexts w)" "a \<in> set (aliases w)" "linked c a"
    using h by (auto simp: held_def)
  note sc = store_context_follows [OF inv h'(1) c']
  have status: "al_status a \<in> {''active'', ''quarantined'', ''released'', ''revoked''}"
    using inv h'(2) by (auto simp: chat_inv_def rows_ok_def alias_check_def)
  have "a \<in> set (aliases (store_context c' w))" using h' by simp
  note sa = store_alias_narrows [OF chat_step_inv [OF sc(1)] this a'(1)]
  have s2: "chat_step (store_context c' w) (store_alias a' (store_context c' w))"
    by (rule sa(1)) (use a' status in \<open>auto simp: live_def\<close>)
  show s: "chat_step w (store_alias a' (store_context c' w))"
    using sc(1) s2 by (rule chat_step_trans)
  show "held (store_alias a' (store_context c' w)) c' a'"
    by (rule held_store [OF s _ sa(2) h'(3) c'(1) a'(1)])
       (use sc(2) a' status in \<open>auto simp: live_def\<close>)
qed

lemma wp_renew_alias:
  assumes inv: "chat_inv w" and h: "held w c a"
  shows "wp (renew_alias cfg c a now k force)
    (\<lambda>a' w'. chat_step w w' \<and> awake c w' \<and> a' \<in> set (aliases w') \<and> renewal_ok cfg now force a a')
    (\<lambda>e w'. False) w"
proof -
  let ?c = "c\<lparr>cc_last_seen_at := now, cc_updated_at := now, cc_state := ''active''\<rparr>"
  have step: "chat_step w (store_alias a' (store_context ?c w)) \<and>
      awake c (store_context ?c w) \<and> a' \<in> set (aliases (store_alias a' (store_context ?c w)))"
    if "alias_key a' = alias_key a" "al_status a' = al_status a" for a'
    using touch_step [OF inv h, of ?c a'] that awake_store [of c w ?c c] h
    by (simp add: context_follows_def context_key_def held_def)
  show ?thesis
    unfolding renew_alias_def Let_def wp_bind wp_put_context
    using step by (auto simp: renewal_ok_def alias_key_def)
qed

section \<open>Allocation\<close>

lemma live_code_unique:
  assumes "chat_inv w"
  shows "length (filter (\<lambda>a. al_code a = code \<and> live a) (aliases w)) \<le> 1"
proof -
  let ?rows = "filter (\<lambda>a. al_code a = code \<and> live a) (aliases w)"
  have "sorted_wrt (\<lambda>a b. \<not> alias_conflict a b) ?rows"
    using assms by (simp add: chat_inv_def rows_ok_def sorted_wrt_filter)
  moreover have "alias_conflict a b" if "a \<in> set ?rows" "b \<in> set ?rows" for a b
    using that by (simp add: alias_conflict_def)
  ultimately show ?thesis by (rule at_most_one_row)
qed

lemma held_locked:
  assumes inv: "chat_inv w" and a: "a \<in> set (aliases w)"
  obtains c where "held w c a"
    and "find (\<lambda>x. cc_id x = al_context_id a \<and> cc_owner_subject x = al_owner_subject a) (contexts w) =
      Some c"
proof -
  obtain c where c: "c \<in> set (contexts w)" "linked c a"
    using inv a rows_ok_linkedD unfolding chat_inv_def by blast
  have "unique_on cc_id (contexts w)"
    using inv unique_context_ids unfolding chat_inv_def by blast
  then have "find (\<lambda>x. cc_id x = al_context_id a \<and> cc_owner_subject x = al_owner_subject a)
      (contexts w) = Some c"
    using c by (intro find_unique_row [where k = cc_id]) (auto simp: linked_def)
  then show ?thesis using that c a by (simp add: held_def)
qed


lemma wp_lock_alias_context:
  assumes "chat_inv w" and "a \<in> set (aliases w)" and "\<And>c. held w c a \<Longrightarrow> Q c w"
  shows "wp (lock_context (al_owner_subject a) (al_context_id a)) Q E w"
proof -
  obtain c where "held w c a"
    and "find (\<lambda>x. cc_id x = al_context_id a \<and> cc_owner_subject x = al_owner_subject a) (contexts w) =
      Some c"
    using held_locked [OF assms(1,2)] .
  then show ?thesis using assms(3) by (intro wp_lock_context) auto
qed

lemma wp_reconcile_code_reservations:
  assumes inv: "chat_inv w"
  shows "wp (reconcile_code_reservations cfg code now) (\<lambda>_ w'. chat_step w w') (\<lambda>e w'. False) w"
proof -
  let ?rows = "filter (\<lambda>a. al_code a = code \<and> live a) (aliases w)"
  consider "?rows = []" | a where "?rows = [a]"
    using live_code_unique [OF inv, of code] by (cases ?rows) auto
  then show ?thesis
  proof cases
    case 1
    then show ?thesis by (simp add: reconcile_code_reservations_def chat_step_refl inv)
  next
    case 2
    then have "a \<in> set ?rows" by simp
    then have a: "a \<in> set (aliases w)" by simp
    show ?thesis
      by (auto simp: reconcile_code_reservations_def 2
          intro!: wp_lock_alias_context [OF inv a] wp_mono [OF wp_reconcile_alias [OF inv]])
  qed
qed

text \<open>Issuing an alias: the new row and the raised generation of its context.\<close>

lemma issue_step:
  assumes inv: "chat_inv w" and c: "c \<in> set (contexts w)"
    and check: "alias_check a" "code_pattern (al_code a)"
    and free: "\<not> list_ex (alias_conflict a) (aliases w)"
    and a: "al_context_id a = cc_id c" "al_owner_subject a = cc_owner_subject c"
      "al_generation a = cc_generation c'"
    and c': "context_follows c c'" "cc_state c' = ''active''"
  shows "chat_step w (store_context c' (w\<lparr>aliases := aliases w @ [a]\<rparr>))"
proof -
  have ok: "rows_ok (contexts w) (aliases w)" using inv by (simp add: chat_inv_def)
  have "chat_step w (store_context c' w)" and in': "c' \<in> set (contexts (store_context c' w))"
    using store_context_follows [OF inv c c'(1)] c'(2) by auto
  then have ok': "rows_ok (contexts (store_context c' w)) (aliases w)"
    and same: "same_identity w (store_context c' w)"
    by (auto simp: chat_step_def chat_inv_def)
  have "linked c' a" using a c'(1) by (simp add: linked_def context_follows_def context_key_def)
  then have "rows_ok (contexts (store_context c' w)) (aliases w @ [a])"
    using ok' in' check free by (auto simp: rows_ok_def list_ex_iff alias_conflict_sym)
  then show ?thesis
    using same by (auto simp: chat_step_def chat_inv_def same_identity_def store_context_def)
qed

text \<open>
  What \<open>_allocate_alias\<close> returns for the context with key \<open>k\<close>, started at \<open>w\<close>: an active
  alias with the full lifetime whose code its owner never had.
\<close>

definition issued ::
  "chat_settings \<Rightarrow> int \<Rightarrow> ChatContext \<Rightarrow> chat_db \<Rightarrow> ChatContextAlias \<Rightarrow> chat_db \<Rightarrow> bool" where
  "issued cfg now c w a w' \<longleftrightarrow>
     chat_step w w' \<and> awake c w' \<and> a \<in> set (aliases w') \<and> al_context_id a = cc_id c \<and>
     al_owner_subject a = cc_owner_subject c \<and> al_status a = ''active'' \<and>
     al_expires_at a = now + seconds (gateway_chat_context_ttl_seconds cfg) \<and>
     (\<forall>b \<in> set (aliases w). al_owner_subject b = cc_owner_subject c \<longrightarrow> al_code b \<noteq> al_code a) \<and>
     (\<forall>b \<in> set (aliases w). al_context_id b = cc_id c \<longrightarrow> al_generation b < al_generation a)"

lemma chat_step_aliasD:
  assumes "chat_step w w'" and "a \<in> set (aliases w)"
  obtains a' where "a' \<in> set (aliases w')" and "alias_key a' = alias_key a"
  using assms by (auto simp: chat_step_def same_identity_def elim: grows_inD)

lemma chat_step_contextD:
  assumes "chat_step w w'" and "c \<in> set (contexts w)"
  obtains c' where "c' \<in> set (contexts w')" and "context_key c' = context_key c"
  using assms by (auto simp: chat_step_def same_identity_def elim: grows_inD)

lemma issued_later:
  assumes "chat_step u w" and "issued cfg now c w a w'"
  shows "issued cfg now c u a w'"
proof -
  have "\<exists>b' \<in> set (aliases w). alias_key b' = alias_key b" if "b \<in> set (aliases u)" for b
    using chat_step_aliasD [OF assms(1) that] by blast
  then have "(al_owner_subject b = cc_owner_subject c \<longrightarrow> al_code b \<noteq> al_code a) \<and>
      (al_context_id b = cc_id c \<longrightarrow> al_generation b < al_generation a)" if "b \<in> set (aliases u)" for b
    using assms(2) that by (fastforce simp: issued_def alias_key_def)
  then show ?thesis
    using assms by (auto simp: issued_def intro: chat_step_trans)
qed

lemma issued_cong:
  "issued cfg now c w a w' \<Longrightarrow> context_key c' = context_key c \<Longrightarrow> issued cfg now c' w a w'"
  by (simp add: issued_def context_key_def awake_def)

lemma linked_generation:
  assumes inv: "chat_inv w" and c: "c \<in> set (contexts w)" and a: "a \<in> set (aliases w)"
    and eq: "al_context_id a = cc_id c"
  shows "linked c a"
proof -
  obtain d where d: "d \<in> set (contexts w)" "linked d a"
    using inv a rows_ok_linkedD unfolding chat_inv_def by blast
  have "d = c"
    using inv d c eq unique_on_eqD [OF unique_context_ids] unfolding chat_inv_def
    by (metis linked_def)
  then show ?thesis using d by simp
qed

lemma wp_current_context:
  assumes inv: "chat_inv w" and c0: "c0 \<in> set (contexts w)" and key: "context_key c0 = context_key c"
    and Q: "Q c0 w"
  shows "wp (current_context c) Q E w"
proof -
  have "cc_id c0 = cc_id c" using key by (simp add: context_key_def)
  then have "find (\<lambda>r. cc_id r = cc_id c) (contexts w) = Some c0"
    using inv c0 find_unique [OF unique_context_ids] unfolding chat_inv_def by metis
  then show ?thesis using Q by (simp add: current_context_def)
qed

lemma wp_current_alias:
  assumes inv: "chat_inv w" and a0: "a0 \<in> set (aliases w)" and key: "alias_key a0 = alias_key a"
    and Q: "Q a0 w"
  shows "wp (current_alias a) Q E w"
proof -
  have "al_id a0 = al_id a" using key by (simp add: alias_key_def)
  then have "find (\<lambda>r. al_id r = al_id a) (aliases w) = Some a0"
    using inv a0 find_unique [OF unique_alias_ids] unfolding chat_inv_def by metis
  then show ?thesis using Q by (simp add: current_alias_def)
qed

lemma generate_code_Inr: "code_pattern (map (\<lambda>i. choice (f i)) [0, 1, 2, 3 :: nat])"
proof -
  have "list_all is_base62 BASE62_ALPHABET" and "length BASE62_ALPHABET = 62" by code_simp+
  then have "is_base62 (choice n)" for n by (simp add: choice_def list_all_length)
  then show ?thesis by (simp add: code_pattern_def)
qed

lemma wp_generate_code:
  assumes "\<And>code. code_pattern code \<Longrightarrow> Q code (w\<lparr>rand_pos := rand_pos w + 4\<rparr>)"
  shows "wp generate_code Q E w"
  unfolding wp_def generate_code_def prod.case sum.case by (rule assms [OF generate_code_Inr])

lemma fresh_code_of_conflict:
  assumes inv: "chat_inv w" and c: "c \<in> set (contexts w)"
    and a: "al_context_id a = cc_id c" "al_owner_subject a = cc_owner_subject c"
      "al_generation a = cc_generation c + 1"
    and free: "\<not> list_ex (alias_conflict a) (aliases w)" and b: "b \<in> set (aliases w)"
  shows "al_owner_subject b = cc_owner_subject c \<Longrightarrow> al_code b \<noteq> al_code a"
    and "al_context_id b = cc_id c \<Longrightarrow> al_generation b < al_generation a"
proof -
  have "\<not> alias_conflict a b" using free b by (auto simp: list_ex_iff)
  then show "al_owner_subject b = cc_owner_subject c \<Longrightarrow> al_code b \<noteq> al_code a"
    using a by (auto simp: alias_conflict_def)
  show "al_context_id b = cc_id c \<Longrightarrow> al_generation b < al_generation a"
    using linked_generation [OF inv c b] a by (simp add: linked_def)
qed

definition exhausted :: "chat_error" where
  "exhausted = ChatContextAllocationExhausted
     ''chat context alias allocation attempt budget was exhausted''"

lemma wp_insert_alias:
  assumes "alias_check a \<and> \<not> list_ex (alias_conflict a) (aliases w) \<Longrightarrow>
      Q True (w\<lparr>aliases := aliases w @ [a]\<rparr>)"
    and "Q False w"
  shows "wp (insert_alias a) Q E w"
  using assms by (simp add: wp_def insert_alias_def)

lemma wp_issue_attempt:
  assumes inv: "chat_inv w" and d: "d \<in> set (contexts w)" "context_key d = context_key c"
    and code: "code_pattern code"
  shows "wp (issue_attempt cfg c k now r code)
    (\<lambda>a w'. case a of None \<Rightarrow> chat_step w w' | Some a \<Rightarrow> issued cfg now c w a w') (\<lambda>e w'. False) w"
  unfolding issue_attempt_def wp_bind
proof (rule wp_current_context [OF inv d], unfold wp_uuid4 Let_def wp_bind,
    rule wp_insert_alias, goal_cases)
  case 1
  let ?w = "w\<lparr>uuid_pos := Suc (uuid_pos w)\<rparr>"
  define d' where "d' = d\<lparr>cc_generation := cc_generation d + 1, cc_state := ''active'',
    cc_last_seen_at := now, cc_updated_at := now\<rparr>"
  define a where "a = \<lparr>al_id = uuid_src w (uuid_pos w), al_context_id = cc_id d,
    al_owner_subject = cc_owner_subject d, al_code = code, al_generation = cc_generation d + 1,
    al_status = ''active'', al_issued_at = now, al_last_seen_at = now,
    al_expires_at = now + seconds (gateway_chat_context_ttl_seconds cfg),
    al_quarantine_until = None, al_replaced_by_alias_id = None,
    al_created_at = now, al_updated_at = now\<rparr>"
  have a: "al_context_id a = cc_id d" "al_owner_subject a = cc_owner_subject d"
    "al_generation a = cc_generation d + 1" "code_pattern (al_code a)" "al_status a = ''active''"
    "al_expires_at a = now + seconds (gateway_chat_context_ttl_seconds cfg)"
    using code by (auto simp: a_def)
  have free: "alias_check a" "\<not> list_ex (alias_conflict a) (aliases w)"
    using 1 by (auto simp: a_def [symmetric])
  have step: "chat_step w ?w" using inv by (simp add: chat_step_same_rows)
  have "chat_step ?w (store_context d' (?w\<lparr>aliases := aliases ?w @ [a]\<rparr>))"
    by (rule issue_step [OF chat_step_inv [OF step], of d])
       (use d a free in \<open>auto simp: d'_def context_follows_def context_key_def\<close>)
  then have step': "chat_step w (store_context d' (?w\<lparr>aliases := aliases ?w @ [a]\<rparr>))"
    using step chat_step_trans by blast
  have "issued cfg now d w a (store_context d' (?w\<lparr>aliases := aliases ?w @ [a]\<rparr>))"
    using step' a fresh_code_of_conflict [OF inv d(1) a(1,2,3) free(2)] d(1)
    by (auto simp: issued_def d'_def intro!: awake_store)
  then have "issued cfg now c w a (store_context d' (?w\<lparr>aliases := aliases ?w @ [a]\<rparr>))"
    using d(2) by (simp add: issued_cong)
  then show ?case
    by (simp add: a_def [symmetric] d'_def [symmetric]) (simp add: issued_def)
next
  case 2
  then show ?case using inv by (simp add: chat_step_same_rows)
qed

lemma wp_allocate_loop:
  assumes "chat_inv w" and "c0 \<in> set (contexts w)" and "context_key c0 = context_key c"
  shows "wp (allocate_loop cfg c k now n r) (issued cfg now c w)
    (\<lambda>e w'. e = exhausted \<and> chat_step w w') w"
  using assms
proof (induction n arbitrary: w c0 r)
  case 0
  then show ?case by (simp add: exhausted_def chat_step_refl)
next
  case (Suc n)
  define Q where "Q = issued cfg now c w"
  define E where "E = (\<lambda>e w'. e = exhausted \<and> chat_step w w')"
  have again: "wp (allocate_loop cfg c k now n r') Q E w'" if step: "chat_step w w'" for w' r'
  proof -
    obtain c1 where "c1 \<in> set (contexts w')" "context_key c1 = context_key c0"
      using chat_step_contextD [OF step Suc.prems(2)] .
    then have "wp (allocate_loop cfg c k now n r') (issued cfg now c w')
        (\<lambda>e w''. e = exhausted \<and> chat_step w' w'') w'"
      using step Suc.prems by (intro Suc.IH [of w' c1]) (auto simp: chat_step_def)
    then show ?thesis
      unfolding Q_def E_def
      by (rule wp_mono) (use step in \<open>auto intro: chat_step_trans issued_later\<close>)
  qed
  have attempt: "wp (issue_attempt cfg c k now r code)
      (\<lambda>x. wp (case x of None \<Rightarrow> allocate_loop cfg c k now n (Suc r) | Some a \<Rightarrow> ret a) Q E) E w2"
    if step: "chat_step w w2" and code: "code_pattern code" for w2 code
  proof -
    obtain d where d: "d \<in> set (contexts w2)" "context_key d = context_key c"
      using chat_step_contextD [OF step Suc.prems(2)] Suc.prems(3) by metis
    show ?thesis
      by (rule wp_mono [OF wp_issue_attempt [OF chat_step_inv [OF step] d code]])
         (use step again chat_step_trans issued_later in \<open>auto simp: Q_def split: option.splits\<close>)
  qed
  show ?case
    unfolding allocate_loop.simps wp_bind Q_def [symmetric] E_def [symmetric]
  proof (rule wp_generate_code)
    fix code
    assume code: "code_pattern code"
    let ?w1 = "w\<lparr>rand_pos := rand_pos w + 4\<rparr>"
    have step1: "chat_step w ?w1" using Suc.prems(1) by (simp add: chat_step_same_rows)
    note res = wp_reconcile_code_reservations [OF chat_step_inv [OF step1], of cfg code now]
    show "wp (liftE (code_of code)) (\<lambda>x. wp (reconcile_code_reservations cfg x now) (\<lambda>_. wp (gets
      (\<lambda>w. list_ex (\<lambda>a. al_owner_subject a = cc_owner_subject c \<and> al_code a = x) (aliases w)))
      (\<lambda>h. wp (if h then allocate_loop cfg c k now n (Suc r) else
         bindS (gets (\<lambda>w. list_ex (\<lambda>a. al_code a = x \<and> live a) (aliases w))) (\<lambda>l.
         if l then allocate_loop cfg c k now n (Suc r) else
         bindS (issue_attempt cfg c k now r x) (\<lambda>i. case i of
           None \<Rightarrow> allocate_loop cfg c k now n (Suc r) | Some a \<Rightarrow> ret a))) Q E) E) E) E ?w1"
      by (simp add: code_of_def code, rule wp_mono [OF res])
         (use again attempt code chat_step_trans [OF step1] in auto)
  qed
qed

lemma wp_lock_own_context:
  assumes inv: "chat_inv w" and c0: "c0 \<in> set (contexts w)" and key: "context_key c0 = context_key c"
    and Q: "Q c0 w"
  shows "wp (lock_context (cc_owner_subject c) (cc_id c)) Q E w"
proof -
  have "find (\<lambda>x. cc_id x = cc_id c \<and> cc_owner_subject x = cc_owner_subject c) (contexts w) = Some c0"
    using inv c0 key unfolding chat_inv_def
    by (intro find_unique_row [where k = cc_id, OF unique_context_ids]) (auto simp: context_key_def)
  then show ?thesis using Q by (intro wp_lock_context) auto
qed

lemma wp_allocate_alias:
  assumes "chat_inv w" and "c0 \<in> set (contexts w)" and "context_key c0 = context_key c"
  shows "wp (allocate_alias cfg c k now) (issued cfg now c w) (\<lambda>e w'. e = exhausted \<and> chat_step w w') w"
  unfolding allocate_alias_def wp_bind
  by (rule wp_lock_own_context [OF assms], rule wp_mono [OF wp_allocate_loop [OF assms(1,2) refl]])
     (use assms(3) in \<open>auto intro: issued_cong\<close>)

section \<open>Leases\<close>

text \<open>
  A lease on the context \<open>c\<close>: it names an active alias of it that lives for the full lifetime
  or for more than the renewal threshold.
\<close>

definition leased ::
  "chat_settings \<Rightarrow> int \<Rightarrow> ChatContext \<Rightarrow> chat_db \<Rightarrow> ChatContextLease \<Rightarrow> chat_db \<Rightarrow> bool" where
  "leased cfg now c w l w' \<longleftrightarrow> chat_step w w' \<and> awake c w' \<and>
     (\<exists>a \<in> set (aliases w'). l = lease_of a (le_rotated l) \<and> al_status a = ''active'' \<and>
        al_context_id a = cc_id c \<and> al_owner_subject a = cc_owner_subject c \<and>
        (now + seconds (gateway_chat_context_ttl_seconds cfg) \<le> al_expires_at a \<or>
         seconds (gateway_chat_context_renew_threshold_seconds cfg) < al_expires_at a - now))"

lemma leased_stepD: "leased cfg now c w l w' \<Longrightarrow> chat_step w w'"
  by (simp add: leased_def)

lemma leased_later: "chat_step u w \<Longrightarrow> leased cfg now c w l w' \<Longrightarrow> leased cfg now c u l w'"
  by (auto simp: leased_def intro: chat_step_trans)

lemma leased_cong:
  "leased cfg now c w l w' \<Longrightarrow> context_key c' = context_key c \<Longrightarrow> leased cfg now c' w l w'"
  by (simp add: leased_def context_key_def awake_def)

lemma leased_logged [simp]: "leased cfg now c w l (logged x action g k m t w') = leased cfg now c w l w'"
  by (simp add: leased_def)

lemma le_rotated_lease_of [simp]: "le_rotated (lease_of a r) = r"
  by (simp add: lease_of_def)

lemma leased_issued: "issued cfg now c w a w' \<Longrightarrow> leased cfg now c w (lease_of a r) w'"
  by (auto simp: issued_def leased_def)

lemma leased_renewed:
  assumes "chat_step w w'" and "awake c w'" and "a' \<in> set (aliases w')"
    and "renewal_ok cfg now force a a'" and "linked c a" and "al_status a = ''active''"
  shows "leased cfg now c w (lease_of a' r) w'"
  using assms by (auto simp: leased_def renewal_ok_def linked_def alias_key_def)

lemma store_other_alias:
  "a \<in> set (aliases w) \<Longrightarrow> al_id a \<noteq> al_id b \<Longrightarrow> a \<in> set (aliases (store_alias b w))"
  by (auto simp: store_alias_def set_update_where)

lemma wp_rotate_alias:
  assumes inv: "chat_inv w" and h: "held w c p"
  shows "wp (rotate_alias cfg c p k now) (leased cfg now c w) (\<lambda>e w'. e = exhausted \<and> chat_step w w') w"
  unfolding rotate_alias_def wp_bind
proof (rule wp_mono [OF wp_allocate_alias [OF inv _ refl]], goal_cases)
  case 1
  then show ?case using h by (simp add: held_def)
next
  case (2 a w1)
  have h': "c \<in> set (contexts w)" "p \<in> set (aliases w)" "linked c p" using h by (auto simp: held_def)
  have s1: "chat_step w w1" using 2 by (simp add: issued_def)
  then have inv1: "chat_inv w1" by (rule chat_step_inv)
  obtain c1 where c1: "c1 \<in> set (contexts w1)" "context_key c1 = context_key c"
    using chat_step_contextD [OF s1 h'(1)] .
  obtain p1 where p1: "p1 \<in> set (aliases w1)" "alias_key p1 = alias_key p"
    using chat_step_aliasD [OF s1 h'(2)] .
  have "al_generation p < al_generation a" using 2 h' by (auto simp: issued_def linked_def)
  then have "p1 \<noteq> a" using p1 by (auto simp: alias_key_def)
  moreover have "a \<in> set (aliases w1)" using 2 by (simp add: issued_def)
  ultimately have ne: "al_id a \<noteq> al_id p1"
    using inv1 p1(1) rows_ok_aliasD unfolding chat_inv_def alias_conflict_def by metis
  let ?p = "p1\<lparr>al_replaced_by_alias_id := Some (al_id a), al_updated_at := now\<rparr>"
  have st: "al_status p1 \<in> {''active'', ''quarantined'', ''released'', ''revoked''}"
    using inv1 p1(1) by (auto simp: chat_inv_def rows_ok_def alias_check_def)
  have s2: "chat_step w1 (store_alias ?p w1)"
    by (rule store_alias_narrows(1) [OF inv1 p1(1)]) (use st in \<open>auto simp: alias_key_def live_def\<close>)
  have "issued cfg now c w a (store_alias ?p w1)"
    using 2 chat_step_trans [OF s1 s2] store_other_alias [of a w1 ?p] ne by (auto simp: issued_def)
  then have "leased cfg now c w (lease_of a True) (store_alias ?p w1)"
    and "leased cfg now c w (lease_of a True) w1"
    using 2 by (auto intro: leased_issued)
  then show ?case
    by (auto intro!: wp_current_context [OF inv1 c1] wp_current_alias [OF inv1 p1])
next
  case 3
  then show ?case by simp
qed

lemma held_later:
  assumes "chat_step w w'" and "held w c a"
  obtains c' a' where "held w' c' a'" and "context_key c' = context_key c" and "alias_key a' = alias_key a"
proof -
  obtain c' where c': "c' \<in> set (contexts w')" "context_key c' = context_key c"
    using chat_step_contextD assms unfolding held_def by metis
  obtain a' where a': "a' \<in> set (aliases w')" "alias_key a' = alias_key a"
    using chat_step_aliasD assms unfolding held_def by metis
  have "linked c' a'"
    using assms c' a' by (intro linked_generation [of w'])
      (auto simp: chat_step_def held_def linked_def context_key_def alias_key_def)
  then show ?thesis using that c' a' by (simp add: held_def)
qed

lemma held_cc_id: "held w c a \<Longrightarrow> al_context_id a = cc_id c \<and> al_owner_subject a = cc_owner_subject c"
  by (simp add: held_def linked_def)

text \<open>Reviving a quarantined or released alias that conflicts with no other row.\<close>

lemma revive_step:
  assumes inv: "chat_inv w" and h: "held w c p"
    and p': "alias_key p' = alias_key p" "al_status p' = ''active''"
    and free: "\<not> list_ex (\<lambda>a. al_id a \<noteq> al_id p' \<and> alias_conflict p' a) (aliases w)"
    and c': "context_follows c c'" "cc_state c' = ''active''"
  shows "chat_step w (store_context c' (store_alias p' w))"
    and "p' \<in> set (aliases (store_context c' (store_alias p' w)))"
proof -
  have h': "c \<in> set (contexts w)" "p \<in> set (aliases w)" using h by (auto simp: held_def)
  have ok: "rows_ok (contexts w) (aliases w)" using inv by (simp add: chat_inv_def)
  have id: "al_id p' = al_id p" using p' by (simp add: alias_key_def)
  have check: "alias_check p'"
    using ok h'(2) p' by (auto simp: rows_ok_def alias_check_def alias_key_def)
  have "rows_ok (contexts w) (update_where (\<lambda>r. al_id r = al_id p') (\<lambda>_. p') (aliases w))"
    by (rule rows_ok_store_alias [OF ok h'(2) p'(1) check]) (use free in \<open>auto simp: list_ex_iff\<close>)
  moreover have "grows alias_key (aliases w)
      (update_where (\<lambda>r. al_id r = al_id p') (\<lambda>_. p') (aliases w))"
    by (rule grows_store [where i = al_id, OF unique_alias_ids [OF ok] h'(2) p'(1) id])
  ultimately have s1: "chat_step w (store_alias p' w)"
    unfolding chat_step_def chat_inv_def same_identity_def store_alias_def by simp
  have "chat_step (store_alias p' w) (store_context c' (store_alias p' w))"
    by (rule store_context_follows(1) [OF chat_step_inv [OF s1] _ c'(1)]) (use h' c' in auto)
  with s1 show "chat_step w (store_context c' (store_alias p' w))" by (rule chat_step_trans)
  show "p' \<in> set (aliases (store_context c' (store_alias p' w)))"
    using in_store_alias [OF h'(2) id] by simp
qed

lemma wp_reactivate_or_rotate:
  assumes inv: "chat_inv w" and h: "held w c0 p0"
    and k0: "context_key c0 = context_key c" "alias_key p0 = alias_key p"
  shows "wp (reactivate_or_rotate cfg c p k now) (leased cfg now c w)
    (\<lambda>e w'. e = exhausted \<and> chat_step w w') w"
  unfolding reactivate_or_rotate_def wp_bind
proof (rule wp_mono [OF wp_reconcile_code_reservations [OF inv]], goal_cases)
  case (1 u w1)
  then have s1: "chat_step w w1" and inv1: "chat_inv w1" by (auto simp: chat_step_inv)
  obtain c1 p1 where h1: "held w1 c1 p1" and "context_key c1 = context_key c0" "alias_key p1 = alias_key p0"
    using held_later [OF s1 h] .
  with k0 have k1: "context_key c1 = context_key c" "alias_key p1 = alias_key p" by simp_all
  have in1: "c1 \<in> set (contexts w1)" "p1 \<in> set (aliases w1)" using h1 by (auto simp: held_def)
  have rot: "wp (rotate_alias cfg c1 p1 k now) (leased cfg now c w) (\<lambda>e w'. e = exhausted \<and> chat_step w w') w1"
    by (rule wp_mono [OF wp_rotate_alias [OF inv1 h1]])
       (use s1 k1 in \<open>auto intro: leased_later leased_cong chat_step_trans\<close>)
  let ?p = "p1\<lparr>al_status := ''active'', al_last_seen_at := now,
    al_expires_at := now + seconds (gateway_chat_context_ttl_seconds cfg),
    al_quarantine_until := None, al_updated_at := now\<rparr>"
  let ?c = "c1\<lparr>cc_state := ''active'', cc_last_seen_at := now, cc_updated_at := now\<rparr>"
  have revive: "leased cfg now c w (lease_of ?p False) (store_context ?c (store_alias ?p w1))"
    if "\<not> list_ex (\<lambda>a. al_id a \<noteq> al_id ?p \<and> alias_conflict ?p a) (aliases w1)"
    using revive_step [OF inv1 h1, of ?p ?c] that s1 k1 held_cc_id [OF h1]
      awake_store [of c1 "store_alias ?p w1" ?c c] in1
    by (auto simp: leased_def alias_key_def context_key_def context_follows_def intro: chat_step_trans
        intro!: bexI [of _ ?p])
  show ?case
    by (rule wp_current_context [OF inv1 in1(1) k1(1)], rule wp_current_alias [OF inv1 in1(2) k1(2)])
       (use rot revive in \<open>simp add: Let_def\<close>)
next
  case 2
  then show ?case by simp
qed

section \<open>Public methods\<close>

lemma owner_of_Inr: "owner_of v = Inr u \<Longrightarrow> u = strip v"
  by (auto simp: owner_of_def bounded_value_def Let_def split: if_splits)

lemma code_of_Inr: "code_of v = Inr u \<Longrightarrow> u = v \<and> code_pattern v"
  by (auto simp: code_of_def split: if_splits)

lemma actor_of_Inr: "actor_of v = Inr u \<Longrightarrow> u = v"
  by (auto simp: actor_of_def split: if_splits)

lemma held_of_context:
  "chat_inv w \<Longrightarrow> c \<in> set (contexts w) \<Longrightarrow> a \<in> set (aliases w) \<Longrightarrow> al_context_id a = cc_id c \<Longrightarrow> held w c a"
  by (simp add: held_def linked_generation)

text \<open>
  The lease a renewal or refresh of the active alias \<open>a\<close> of a held context gives.
\<close>

lemma wp_renew_lease:
  assumes inv: "chat_inv w" and h: "held w c a" and act: "al_status a = ''active''"
  shows "wp (renew_alias cfg c a now k force) (\<lambda>a' w'. leased cfg now c w (lease_of a' (r a')) w') (\<lambda>e w'. False) w"
  by (rule wp_mono [OF wp_renew_alias [OF inv h]])
     (use h act in \<open>auto intro: leased_renewed simp: held_def\<close>)

lemma wp_refresh_held:
  assumes inv: "chat_inv w" and h: "held w c p"
  shows "wp (bindS (find_active (cc_id c)) (\<lambda>current.
         case current of
           None \<Rightarrow> reactivate_or_rotate cfg c p k now
         | Some current \<Rightarrow>
             bindS (reconcile_alias cfg c current now ''gateway'') (\<lambda>(context, current).
             if al_status current = ''active'' then
               bindS (renew_alias cfg context current now k True) (\<lambda>current.
               ret (lease_of current (al_id current \<noteq> al_id p)))
             else reactivate_or_rotate cfg context p k now)))
    (leased cfg now c w) (\<lambda>e w'. e = exhausted \<and> chat_step w w') w"
proof (cases "find (\<lambda>a. al_context_id a = cc_id c \<and> al_status a = ''active'') (aliases w)")
  case None
  then show ?thesis
    using wp_reactivate_or_rotate [OF inv h refl refl] by (simp add: find_active_def)
next
  case (Some a)
  then have a: "a \<in> set (aliases w)" "al_context_id a = cc_id c" by (auto dest: find_Some_in)
  have c: "c \<in> set (contexts w)" using h by (simp add: held_def)
  have "wp (reconcile_alias cfg c a now ''gateway'') (\<lambda>(c', a'). wp (if al_status a' = ''active'' then
        bindS (renew_alias cfg c' a' now k True) (\<lambda>a'. ret (lease_of a' (al_id a' \<noteq> al_id p)))
        else reactivate_or_rotate cfg c' p k now) (leased cfg now c w)
      (\<lambda>e w'. e = exhausted \<and> chat_step w w')) (\<lambda>e w'. e = exhausted \<and> chat_step w w') w"
  proof (rule wp_mono [OF wp_reconcile_alias [OF inv held_of_context [OF inv c a]]], goal_cases)
    case (1 x w1)
    obtain c1 a1 where x: "x = (c1, a1)" by (cases x)
    have r: "chat_step w w1" "held w1 c1 a1" "context_follows c c1" using 1 x by auto
    then have inv1: "chat_inv w1" and k1: "context_key c = context_key c1"
      by (auto simp: chat_step_inv context_follows_def)
    obtain c' p1 where p1: "held w1 c' p1" "context_key c' = context_key c" "alias_key p1 = alias_key p"
      using held_later [OF r(1) h] .
    have post: "leased cfg now c w l w'" if "leased cfg now c1 w1 l w'" for l w'
      using that r(1) k1 by (auto intro: leased_later leased_cong)
    have "wp (reactivate_or_rotate cfg c1 p k now) (leased cfg now c1 w1) (\<lambda>e w'. e = exhausted \<and> chat_step w1 w') w1"
      using wp_reactivate_or_rotate [OF inv1 p1(1) _ p1(3), of c1] p1(2) k1 by simp
    then have rot: "wp (reactivate_or_rotate cfg c1 p k now) (leased cfg now c w)
        (\<lambda>e w'. e = exhausted \<and> chat_step w w') w1"
      by (rule wp_mono) (use post r(1) in \<open>auto intro: chat_step_trans\<close>)
    have "wp (renew_alias cfg c1 a1 now k True) (\<lambda>a'. leased cfg now c w (lease_of a' (al_id a' \<noteq> al_id p)))
        (\<lambda>e w'. e = exhausted \<and> chat_step w w') w1" if "al_status a1 = ''active''"
      by (rule wp_mono [OF wp_renew_lease [OF inv1 r(2) that]]) (use post in auto)
    with rot show ?case by (simp add: x)
  next
    case 2
    then show ?case by simp
  qed
  then show ?thesis using Some by (simp add: find_active_def case_prod_unfold)
qed

lemma wp_find_alias:
  assumes "\<And>a. a \<in> set (aliases w) \<Longrightarrow> al_owner_subject a = owner \<Longrightarrow> al_code a = code \<Longrightarrow> Q (Some a) w"
    and "Q None w"
  shows "wp (find_alias owner code) Q E w"
  using assms
  by (cases "find (\<lambda>a. al_owner_subject a = owner \<and> al_code a = code) (aliases w)")
     (auto simp: find_alias_def dest: find_Some_in)

text \<open>What a caller who names an alias by its code gets: a lease on that alias's context.\<close>

definition lease_by_code ::
  "chat_settings \<Rightarrow> string \<Rightarrow> string \<Rightarrow> chat_db \<Rightarrow> ChatContextLease \<Rightarrow> chat_db \<Rightarrow> bool" where
  "lease_by_code cfg owner code w l w' \<longleftrightarrow>
     (\<exists>a \<in> set (aliases w). \<exists>c \<in> set (contexts w). al_owner_subject a = owner \<and> al_code a = code \<and>
        linked c a \<and> leased cfg (now_at w) c w l w')"

lemma lease_by_codeI:
  assumes "held w c a" and "al_owner_subject a = owner" and "al_code a = code"
    and "leased cfg (now_at w) c w l w'"
  shows "lease_by_code cfg owner code w l w'"
  using assms unfolding lease_by_code_def held_def by blast

lemma wp_refresh_alias:
  assumes inv: "chat_inv w"
  shows "wp (refresh_alias cfg o' code k) (lease_by_code cfg (strip o') code w) (\<lambda>e w'. chat_step w w') w"
  unfolding refresh_alias_def wp_bind
proof (intro wp_liftI wp_find_alias, goal_cases)
  case (1 u owner code' actor p)
  then have args: "owner = strip o'" "code' = code" by (auto dest: owner_of_Inr code_of_Inr)
  show ?case
    unfolding option.case wp_bind 1(6) [symmetric]
  proof (rule wp_lock_alias_context [OF inv 1(5)], intro wp_guardI, goal_cases)
    case (1 c)
    show ?case
      unfolding wp_gets
    proof (rule wp_mono [OF wp_reconcile_alias [OF inv 1(1)]], goal_cases)
      case (1 x w1)
      obtain c1 p1 where x: "x = (c1, p1)" by (cases x)
      have r: "chat_step w w1" "held w1 c1 p1" "context_follows c c1" using 1 x by auto
      note held = wp_refresh_held [OF chat_step_inv [OF r(1)] r(2)]
      have "leased cfg (now_at w) c w l w'" if "leased cfg (now_at w) c1 w1 l w'" for l w'
        using that r by (auto intro: leased_later leased_cong simp: context_follows_def)
      then show ?case
        unfolding x prod.case
        by (intro wp_mono [OF held]) (use \<open>held w c p\<close> args \<open>al_owner_subject p = owner\<close> \<open>al_code p = code'\<close> r(1) in
          \<open>auto intro: lease_by_codeI chat_step_trans\<close>)
    qed simp
  qed (use inv in \<open>auto intro: chat_step_refl\<close>)
qed (use inv in \<open>auto intro: chat_step_refl\<close>)

lemma wp_resolve_alias:
  assumes inv: "chat_inv w"
  shows "wp (resolve_alias cfg o' code k) (lease_by_code cfg (strip o') code w) (\<lambda>e w'. chat_step w w') w"
  unfolding resolve_alias_def wp_bind
proof (intro wp_liftI wp_find_alias, goal_cases)
  case (1 u owner code' actor a)
  then have args: "owner = strip o'" "code' = code" by (auto dest: owner_of_Inr code_of_Inr)
  show ?case
    unfolding option.case wp_bind 1(6) [symmetric]
  proof (rule wp_lock_alias_context [OF inv 1(5)], goal_cases)
    case (1 c)
    show ?case
      unfolding wp_gets
    proof (rule wp_mono [OF wp_reconcile_alias [OF inv 1(1)]], goal_cases)
      case (1 x w1)
      obtain c1 a1 where x: "x = (c1, a1)" by (cases x)
      have r: "chat_step w w1" "held w1 c1 a1" "context_follows c c1" using 1 x by auto
      note renew = wp_renew_lease [OF chat_step_inv [OF r(1)] r(2), where r = "\<lambda>_. False"]
      have "leased cfg (now_at w) c w l w'" if "leased cfg (now_at w) c1 w1 l w'" for l w'
        using that r by (auto intro: leased_later leased_cong simp: context_follows_def)
      then show ?case
        unfolding x prod.case wp_bind
        by (intro wp_guardI wp_mono [OF renew]) (use \<open>held w c a\<close> args \<open>al_owner_subject a = owner\<close> \<open>al_code a = code'\<close> r(1) in
          \<open>auto intro: lease_by_codeI chat_step_trans\<close>)
    qed simp
  qed
qed (use inv in \<open>auto intro: chat_step_refl\<close>)

lemma latest_alias_in:
  assumes "latest_alias i rows = Some a"
  shows "a \<in> set rows \<and> al_context_id a = i"
proof -
  let ?f = "\<lambda>a best. if al_context_id a = i \<and>
    (case best of None \<Rightarrow> True | Some b \<Rightarrow> al_generation b < al_generation a) then Some a else best"
  have "fold ?f xs best = Some a \<Longrightarrow> best = Some a \<or> (a \<in> set xs \<and> al_context_id a = i)" for xs best
    by (induction xs arbitrary: best) (fastforce split: if_splits)+
  from this [of rows None] assms show ?thesis by (simp add: latest_alias_def)
qed

lemma wp_ensure_active:
  assumes inv: "chat_inv w" and c: "c \<in> set (contexts w)" and a: "a \<in> set (aliases w)"
    "al_context_id a = cc_id c"
  shows "wp (bindS (reconcile_alias cfg c a now ''gateway'') (\<lambda>(locked, active).
                if al_status active = ''active'' then
                  bindS (renew_alias cfg locked active now k False) (\<lambda>active.
                  ret (Some (lease_of active False)))
                else ret None))
    (\<lambda>r w'. chat_step w w' \<and> (\<forall>l. r = Some l \<longrightarrow> leased cfg now c w l w')) (\<lambda>e w'. False) w"
  unfolding wp_bind
proof (rule wp_mono [OF wp_reconcile_alias [OF inv held_of_context [OF inv c a]]], goal_cases)
  case (1 x w1)
  obtain c1 a1 where x: "x = (c1, a1)" by (cases x)
  have r: "chat_step w w1" "held w1 c1 a1" "context_follows c c1" using 1 x by auto
  note renew = wp_renew_lease [OF chat_step_inv [OF r(1)] r(2), where r = "\<lambda>_. False"]
  have post: "chat_step w w' \<and> leased cfg now c w l w'" if "leased cfg now c1 w1 l w'" for l w'
    using that r chat_step_trans [OF r(1) leased_stepD [OF that]]
    by (auto intro: leased_later leased_cong simp: context_follows_def)
  have "wp (renew_alias cfg c1 a1 now k False) (\<lambda>a' w'. chat_step w w' \<and> leased cfg now c w (lease_of a' False) w')
      (\<lambda>e w'. False) w1" if "al_status a1 = ''active''"
    by (rule wp_mono [OF renew [OF that]]) (use post in auto)
  then show ?case using r(1) by (simp add: x)
qed simp

lemma lease_by_code_leased:
  assumes "chat_inv w" and "lease_by_code cfg owner code w l w'" and "a \<in> set (aliases w)"
    and "al_owner_subject a = owner" and "al_code a = code" and "linked c a"
  shows "leased cfg (now_at w) c w l w'"
proof -
  obtain b d where b: "b \<in> set (aliases w)" "al_owner_subject b = owner" "al_code b = code"
    "linked d b" "leased cfg (now_at w) d w l w'"
    using assms(2) unfolding lease_by_code_def by blast
  have "b = a"
    using assms(1,3-5) b(1-3) rows_ok_aliasD unfolding chat_inv_def alias_conflict_def by metis
  then show ?thesis using b assms(6) by (auto simp: linked_def leased_def awake_def)
qed

lemma wp_ensure_rest:
  assumes inv: "chat_inv w" and c0: "c0 \<in> set (contexts w)" and key: "context_key c0 = context_key c"
  shows "wp (bindS (gets (\<lambda>w. latest_alias (cc_id c) (aliases w))) (\<lambda>latest.
         case latest of
           Some l \<Rightarrow> refresh_alias cfg (cc_owner_subject c) (al_code l) k
         | None \<Rightarrow>
             bindS (allocate_alias cfg c k (now_at w)) (\<lambda>alias. ret (lease_of alias False))))
    (leased cfg (now_at w) c w) (\<lambda>e w'. chat_step w w') w"
proof (cases "latest_alias (cc_id c) (aliases w)")
  case None
  then show ?thesis
    by (auto intro: leased_issued intro!: wp_mono [OF wp_allocate_alias [OF inv c0 key]])
next
  case (Some l)
  have k: "cc_id c = cc_id c0" "cc_owner_subject c = cc_owner_subject c0"
    using key by (auto simp: context_key_def)
  have l: "l \<in> set (aliases w)" "al_context_id l = cc_id c0"
    using Some k by (auto dest: latest_alias_in)
  then have "held w c0 l" by (intro held_of_context [OF inv c0])
  then have h: "linked c0 l" "al_owner_subject l = cc_owner_subject c"
    using k by (auto simp: held_def linked_def)
  have "strip (cc_owner_subject c) = cc_owner_subject c"
    using inv c0 k by (simp add: chat_inv_def rows_ok_def)
  then have "wp (refresh_alias cfg (cc_owner_subject c) (al_code l) k)
      (lease_by_code cfg (cc_owner_subject c) (al_code l) w) (\<lambda>e w'. chat_step w w') w"
    using wp_refresh_alias [OF inv, of cfg "cc_owner_subject c" "al_code l" k] by simp
  then have "wp (refresh_alias cfg (cc_owner_subject c) (al_code l) k) (leased cfg (now_at w) c w)
      (\<lambda>e w'. chat_step w w') w"
    by (rule wp_mono)
       (use lease_by_code_leased [OF inv _ l(1) h(2) refl h(1)] in
         \<open>auto intro: leased_cong [OF _ key [symmetric]]\<close>)
  then show ?thesis using Some by simp
qed

lemma wp_ensure_context_alias:
  assumes inv: "chat_inv w" and c0: "c0 \<in> set (contexts w)" and key: "context_key c0 = context_key c"
  shows "wp (ensure_context_alias cfg c k) (leased cfg (now_at w) c w) (\<lambda>e w'. chat_step w w') w"
  unfolding ensure_context_alias_def wp_bind
proof (rule wp_lock_own_context [OF inv c0 key], intro wp_guardI, goal_cases)
  case 1
  have rest: "wp (gets (\<lambda>w. latest_alias (cc_id c0) (aliases w))) (\<lambda>latest. wp (
         case latest of
           Some l \<Rightarrow> refresh_alias cfg (cc_owner_subject c0) (al_code l) k
         | None \<Rightarrow>
             bindS (allocate_alias cfg c0 k (now_at w)) (\<lambda>alias. ret (lease_of alias False)))
      (leased cfg (now_at w) c w) (\<lambda>e w'. chat_step w w')) (\<lambda>e w'. chat_step w w') w1"
    if s: "chat_step w w1" for w1
  proof -
    obtain c1 where c1: "c1 \<in> set (contexts w1)" "context_key c1 = context_key c0"
      using chat_step_contextD [OF s c0] .
    have now: "now_at w1 = now_at w" using s by (simp add: chat_step_def)
    show ?thesis
      using wp_ensure_rest [OF chat_step_inv [OF s] c1, of cfg k] unfolding wp_bind wp_gets now
      by (rule wp_mono)
         (auto intro: leased_later [OF s] chat_step_trans [OF s] leased_cong [OF _ key [symmetric]])
  qed
  show ?case
  proof (cases "find (\<lambda>a. al_context_id a = cc_id c0 \<and> al_status a = ''active'') (aliases w)")
    case None
    then show ?thesis using rest [OF chat_step_refl [OF inv]] by (simp add: find_active_def)
  next
    case (Some a)
    then have a: "a \<in> set (aliases w)" "al_context_id a = cc_id c0" by (auto dest: find_Some_in)
    have post: "leased cfg (now_at w) c w l w'" if "leased cfg (now_at w) c0 w l w'" for l w'
      using that key by (auto intro: leased_cong)
    show ?thesis
      unfolding find_active_def wp_gets Some option.case
      by (rule wp_mono [OF wp_ensure_active [OF inv c0 a]])
         (use rest post in \<open>auto split: option.splits\<close>)
  qed
qed (use inv in \<open>auto intro: chat_step_refl\<close>)

section \<open>Creation and bindings\<close>

lemma wp_insert_context:
  assumes "context_check c \<and> \<not> list_ex (context_conflict c) (contexts w) \<Longrightarrow>
      Q () (w\<lparr>contexts := contexts w @ [c]\<rparr>)"
    and "E ChatContextIntegrityError w"
  shows "wp (insert_context c) Q E w"
  using assms by (simp add: wp_def insert_context_def)

lemma insert_context_step:
  assumes "chat_inv w" and "context_check c" and "\<not> list_ex (context_conflict c) (contexts w)"
    and "strip (cc_owner_subject c) = cc_owner_subject c"
  shows "chat_step w (w\<lparr>contexts := contexts w @ [c]\<rparr>)"
  using assms
  by (auto simp: chat_step_def chat_inv_def rows_ok_def same_identity_def list_ex_iff context_conflict_sym)

text \<open>A savepoint passes its result on, and undoes its rows when the block raises.\<close>

lemma wp_savepoint:
  assumes "wp m Q E' w" and "\<And>e w'. E' e w' \<Longrightarrow> E e (rollback_to w w')"
  shows "wp (savepoint m) Q E w"
  using assms by (auto simp: wp_def savepoint_def split: prod.splits sum.splits)

lemma chat_step_rollback: "chat_inv w \<Longrightarrow> now_at w' = now_at w \<Longrightarrow> chat_step w (rollback_to w w')"
  by (simp add: rollback_to_def chat_step_same_rows)

text \<open>
  What \<open>create_context\<close> returns: a lease on a context of the owner with the given nonce.
\<close>

definition created ::
  "chat_settings \<Rightarrow> string \<Rightarrow> string option \<Rightarrow> chat_db \<Rightarrow> ChatContextLease \<Rightarrow> chat_db \<Rightarrow> bool" where
  "created cfg owner nonce w l w' \<longleftrightarrow>
     (\<exists>c. cc_owner_subject c = owner \<and> (nonce \<noteq> None \<longrightarrow> cc_client_nonce c = nonce) \<and>
        leased cfg (now_at w) c w l w' \<and> (\<exists>c' \<in> set (contexts w'). context_key c' = context_key c))"

lemma createdI:
  assumes "c \<in> set (contexts w)" and "cc_owner_subject c = owner"
    and "nonce \<noteq> None \<longrightarrow> cc_client_nonce c = nonce" and "leased cfg (now_at w) c w l w'"
  shows "created cfg owner nonce w l w'"
  using assms chat_step_contextD [OF leased_stepD [OF assms(4)] assms(1)]
  unfolding created_def by metis

lemma created_later:
  "chat_step u w \<Longrightarrow> created cfg owner nonce w l w' \<Longrightarrow> created cfg owner nonce u l w'"
  unfolding created_def by (metis chat_step_def leased_later)

lemma wp_ensure_created:
  assumes inv: "chat_inv w" and c: "c \<in> set (contexts w)" and own: "cc_owner_subject c = owner"
    and nonce: "nonce \<noteq> None \<longrightarrow> cc_client_nonce c = nonce"
  shows "wp (ensure_context_alias cfg c k) (created cfg owner nonce w) (\<lambda>e w'. chat_step w w') w"
  by (rule wp_mono [OF wp_ensure_context_alias [OF inv c refl]])
     (use createdI [OF c own nonce] in auto)

lemma wp_find_nonce:
  assumes "\<And>c. c \<in> set (contexts w) \<Longrightarrow> cc_owner_subject c = owner \<Longrightarrow> nonce \<noteq> None \<Longrightarrow>
      cc_client_nonce c = nonce \<Longrightarrow> Q (Some c) w"
    and "Q None w"
  shows "wp (find_nonce owner nonce) Q E w"
  using assms
  by (cases "find (\<lambda>c. cc_owner_subject c = owner \<and> nonce \<noteq> None \<and> cc_client_nonce c = nonce) (contexts w)")
     (auto simp: find_nonce_def dest: find_Some_in)

lemma wp_new_context:
  assumes inv: "chat_inv w" and own: "cc_owner_subject c = owner" "strip owner = owner"
    and nonce: "cc_client_nonce c = nonce"
  shows "wp (bindS (savepoint (bindS (insert_context c) (\<lambda>_.
             bindS (event c ''created'' None k (JObj [(''host_kind'', JStr ''chatgpt'')]) (now_at w)) (\<lambda>_.
             allocate_alias cfg c k (now_at w))))) (\<lambda>alias. ret (lease_of alias False)))
    (created cfg owner nonce w) (\<lambda>e w'. chat_step w w') w"
  unfolding wp_bind
proof (rule wp_savepoint [where E' = "\<lambda>e w'. now_at w' = now_at w"], unfold wp_bind,
    rule wp_insert_context, goal_cases)
  case 1
  let ?w1 = "logged c ''created'' None k (JObj [(''host_kind'', JStr ''chatgpt'')]) (now_at w)
    (w\<lparr>contexts := contexts w @ [c]\<rparr>)"
  have s1: "chat_step w ?w1" using insert_context_step [OF inv] 1 own by simp
  have "wp (allocate_alias cfg c k (now_at w)) (issued cfg (now_at w) c ?w1)
      (\<lambda>e w'. e = exhausted \<and> chat_step ?w1 w') ?w1"
    by (rule wp_allocate_alias [OF chat_step_inv [OF s1] _ refl]) simp
  moreover have "created cfg owner nonce w (lease_of a False) w'"
    if "issued cfg (now_at w) c ?w1 a w'" for a w'
  proof -
    have "leased cfg (now_at ?w1) c ?w1 (lease_of a False) w'" using that by (simp add: leased_issued)
    then have "created cfg owner nonce ?w1 (lease_of a False) w'"
      using own nonce by (intro createdI [of c]) auto
    then show ?thesis by (rule created_later [OF s1])
  qed
  ultimately show ?case by (auto elim!: wp_mono simp: chat_step_def)
next
  case 2
  show ?case by simp
next
  case (3 e w')
  then show ?case by (rule chat_step_rollback [OF inv])
qed

lemma wp_nonce_or:
  assumes s: "chat_step w w'" and m: "wp m (created cfg owner nonce w) (\<lambda>e w'. chat_step w w') w'"
  shows "wp (find_nonce owner nonce) (\<lambda>r. wp (case r of None \<Rightarrow> m | Some c \<Rightarrow> ensure_context_alias cfg c k)
      (created cfg owner nonce w) (\<lambda>e w'. chat_step w w')) (\<lambda>e w'. chat_step w w') w'"
  by (rule wp_find_nonce)
     (use m in \<open>auto intro!: wp_mono [OF wp_ensure_created [OF chat_step_inv [OF s]]]
        intro: created_later [OF s] chat_step_trans [OF s]\<close>)

lemma wp_create_new:
  assumes inv: "chat_inv w" and own: "cc_owner_subject c = owner" "strip owner = owner"
    and nonce: "cc_client_nonce c = nonce"
  shows "wp (catchS
              (bindS (savepoint
                 (bindS (insert_context c) (\<lambda>_.
                  bindS (event c ''created'' None k
                           (JObj [(''host_kind'', JStr ''chatgpt'')]) (now_at w)) (\<lambda>_.
                  allocate_alias cfg c k (now_at w))))) (\<lambda>alias.
               ret (lease_of alias False)))
              (\<lambda>e. if e \<noteq> ChatContextIntegrityError \<or> nonce = None then raise e
                   else bindS (find_nonce owner nonce) (\<lambda>existing.
                        case existing of
                          None \<Rightarrow> raise e
                        | Some c \<Rightarrow> ensure_context_alias cfg c k)))
    (created cfg owner nonce w) (\<lambda>e w'. chat_step w w') w"
  unfolding wp_catch
proof (rule wp_mono [OF wp_new_context [OF inv own nonce]], goal_cases)
  case (2 e w1)
  then show ?case using wp_nonce_or [OF 2, of "raise e" cfg owner nonce k] by auto
qed

lemma wp_create_context:
  assumes inv: "chat_inv w"
  shows "wp (create_context cfg o' nonce project k) (created cfg (strip o') nonce w) (\<lambda>e w'. chat_step w w') w"
  unfolding create_context_def wp_bind
proof (intro wp_liftI, goal_cases)
  case (1 u owner actor)
  then have own: "owner = strip o'" by (auto dest: owner_of_Inr)
  have project: "wp (case project of None \<Rightarrow> ret None
      | Some p \<Rightarrow> bindS (liftE (bounded_value p ''project_ref'' 255)) (\<lambda>b. ret (Some b)))
      Q (\<lambda>e w'. chat_step w w') w" if "\<And>p. Q p w" for Q
    using that chat_step_refl [OF inv] by (auto split: option.splits sum.splits)
  let ?w1 = "w\<lparr>uuid_pos := Suc (uuid_pos w)\<rparr>"
  have s1: "chat_step w ?w1" using inv by (simp add: chat_step_same_rows)
  have now: "now_at w = now_at ?w1" by simp
  show ?case
    unfolding own [symmetric]
  proof (rule project, rule wp_nonce_or [OF chat_step_refl [OF inv]], unfold wp_bind wp_gets wp_uuid4 Let_def now,
      goal_cases)
    case (1 p)
    show ?case
      by (rule wp_mono [OF wp_create_new [OF chat_step_inv [OF s1]]])
         (use own in \<open>auto intro: created_later [OF s1] chat_step_trans [OF s1]\<close>)
  qed
qed (use inv in \<open>auto intro: chat_step_refl\<close>)


text \<open>Binding a conversation: the constraints checked before the row is written keep the tables.\<close>

lemma bind_step:
  assumes inv: "chat_inv w" and c: "c \<in> set (contexts w)" and key: "context_key c' = context_key c"
    and gen: "cc_generation c' = cc_generation c" and check: "context_check c'"
    and free: "\<not> list_ex (\<lambda>d. cc_id d \<noteq> cc_id c' \<and> context_conflict c' d) (contexts w)"
  shows "chat_step w (store_context c' w)"
proof -
  have ok: "rows_ok (contexts w) (aliases w)" using inv by (simp add: chat_inv_def)
  have id: "cc_id c' = cc_id c" using key by (simp add: context_key_def)
  have "rows_ok (update_where (\<lambda>r. cc_id r = cc_id c') (\<lambda>_. c') (contexts w)) (aliases w)"
    by (rule rows_ok_store_context [OF ok c key _ check])
       (use gen free in \<open>auto simp: list_ex_iff\<close>)
  moreover have "grows context_key (contexts w)
      (update_where (\<lambda>r. cc_id r = cc_id c') (\<lambda>_. c') (contexts w))"
    by (rule grows_store [where i = cc_id, OF unique_context_ids [OF ok] c key id])
  ultimately show ?thesis
    unfolding chat_step_def chat_inv_def same_identity_def store_context_def by simp
qed

lemma touch_context_step:
  assumes inv: "chat_inv w" and c: "c \<in> set (contexts w)"
  shows "chat_step w (store_context (c\<lparr>cc_last_seen_at := t, cc_updated_at := t\<rparr>) w)"
proof -
  have "cc_state c \<in> {''active'', ''dormant'', ''closed''}"
    using inv c by (simp add: chat_inv_def rows_ok_def context_check_def)
  then show ?thesis
    by (intro store_context_follows(1) [OF inv c]) (auto simp: context_follows_def context_key_def)
qed

lemma wp_bind_conversation:
  assumes inv: "chat_inv w"
  shows "wp (bind_conversation cfg o' i r k)
    (\<lambda>b w'. chat_step w w' \<and> bi_context_id b = i \<and>
       (\<exists>c \<in> set (contexts w). cc_id c = i \<and> cc_owner_subject c = strip o' \<and> cc_state c \<noteq> ''closed''))
    (\<lambda>e w'. chat_step w w') w"
  unfolding bind_conversation_def wp_bind
proof (intro wp_liftI wp_lock_context, goal_cases)
  case (1 u owner actor ref c)
  then have c: "c \<in> set (contexts w)" "cc_id c = i" "cc_owner_subject c = strip o'"
    by (auto dest: find_Some_in owner_of_Inr)
  note refl = chat_step_refl [OF inv]
  show ?case
    using refl c touch_context_step [OF inv c(1)]
    by (auto simp: Let_def context_key_def intro!: bind_step [OF inv c(1)] split: option.splits)
qed (use inv in \<open>auto intro: chat_step_refl\<close>)

lemma wp_resolve_conversation:
  assumes inv: "chat_inv w"
  shows "wp (resolve_conversation cfg o' r)
    (\<lambda>i w'. chat_step w w' \<and> (\<exists>c \<in> set (contexts w). cc_id c = i \<and> cc_owner_subject c = strip o' \<and>
       cc_state c \<noteq> ''closed''))
    (\<lambda>e w'. chat_step w w') w"
  unfolding resolve_conversation_def wp_bind
proof (intro wp_liftI, goal_cases)
  case (1 u owner ref)
  then have own: "owner = strip o'" by (auto dest: owner_of_Inr)
  let ?rows = "filter (digest_matches cfg ref) (bound_contexts owner ''chatgpt'' (contexts w))"
  have rows: "c \<in> set (contexts w) \<and> cc_owner_subject c = strip o'" if "?rows = [c]" for c
  proof -
    have "c \<in> set ?rows" using that by simp
    then show ?thesis by (simp add: bound_contexts_def own)
  qed
  show ?case
    using chat_step_refl [OF inv] rows touch_context_step [OF inv]
    by (auto split: list.splits)
qed (use inv in \<open>auto intro: chat_step_refl\<close>)

lemma wp_resolve_conversation_lease:
  assumes inv: "chat_inv w"
  shows "wp (resolve_conversation_lease cfg o' r k) (created cfg (strip o') None w) (\<lambda>e w'. chat_step w w') w"
  unfolding resolve_conversation_lease_def wp_bind
proof (rule wp_mono [OF wp_resolve_conversation [OF inv]], goal_cases)
  case (1 i w1)
  then have s1: "chat_step w w1" by simp
  show ?case
  proof (intro wp_liftI wp_lock_context, goal_cases)
    case (1 owner c actor)
    then have c: "c \<in> set (contexts w1)" "cc_owner_subject c = strip o'"
      by (auto dest: find_Some_in owner_of_Inr)
    show ?case
      by (rule wp_mono [OF wp_ensure_created [OF chat_step_inv [OF s1] c, of None]])
         (auto intro: created_later [OF s1] chat_step_trans [OF s1])
  qed (use s1 in auto)
qed simp

end
