(* ===== verification/Chat_Context_Calls.thy ===== *)
theory Chat_Context_Calls
  imports Chat_Context_Invariant
begin

text \<open>
  The callers of the chat-context service: the admission of MCP tool calls and the two
  chat-context tools (\<open>mcp_chat_context.py\<close>), and the browser-extension endpoints
  (\<open>routers/chat_contexts.py\<close>). They open the transaction, commit or roll it back, and
  translate the service's exceptions. The telemetry counters of the process are left out.
\<close>

section \<open>Transactions\<close>

datatype call_error =
    McpChatContextAdmissionError string string string bool
  | ChatHTTPException nat string
  | ModeError string
  | ReservedArgumentCollision string
  | ChatTypeError
  | Uncaught chat_error

text \<open>
  \<open>transact commits translate m\<close>: run the service, commit when it returns and when
  \<open>commits\<close> says so of the exception, roll back otherwise.
\<close>

definition transact ::
  "(chat_error \<Rightarrow> bool) \<Rightarrow> (chat_error \<Rightarrow> call_error) \<Rightarrow> 'a chat \<Rightarrow> (chat_db, call_error, 'a) smon" where
  "transact commits translate m = (\<lambda>w. case m w of
     (Inr x, w') \<Rightarrow> (Inr x, w')
   | (Inl e, w') \<Rightarrow> (Inl (translate e), if commits e then w' else rollback_to w w'))"

declare transact_def [code_unfold]

section \<open>The tool surface\<close>

definition CHAT_CONTEXT_ARGUMENT :: string where
  "CHAT_CONTEXT_ARGUMENT = ''chat_context''"

definition CHAT_CONTEXT_MODES :: "string list" where
  "CHAT_CONTEXT_MODES = [''off'', ''optional'', ''required'']"

definition CHAT_CONTEXT_EXEMPT_TOOLS :: "string list" where
  "CHAT_CONTEXT_EXEMPT_TOOLS = [''chat_context_start'', ''chat_context_refresh'']"

definition CHAT_CONTEXT_PATTERN :: string where
  "CHAT_CONTEXT_PATTERN = ''^[A-Za-z0-9]{4}$''"

definition CHAT_CONTEXT_ARGUMENT_DESCRIPTION :: string where
  "CHAT_CONTEXT_ARGUMENT_DESCRIPTION =
     ''ATLAS chat context code for the current conversation. This is not an authentication credential.''"

definition validate_chat_context_mode :: "string \<Rightarrow> call_error + string" where
  "validate_chat_context_mode mode =
     (let normalized = map py_lower_char (strip mode)
      in if normalized \<notin> set CHAT_CONTEXT_MODES
         then Inl (ModeError ''chat_context_mode must be off, optional, or required'')
         else Inr normalized)"

definition tool_declares_reserved_chat_context :: "(string \<times> json) list \<Rightarrow> bool" where
  "tool_declares_reserved_chat_context tool =
     (case map_of tool ''inputSchema'' of
        Some (JObj schema) \<Rightarrow>
          (case map_of schema ''properties'' of
             Some (JObj properties) \<Rightarrow> CHAT_CONTEXT_ARGUMENT \<in> fst ` set properties
           | _ \<Rightarrow> False)
      | _ \<Rightarrow> False)"

text \<open>The items a \<open>for\<close> loop visits; a number or \<open>True\<close> is not iterable.\<close>

definition iter_items :: "json \<Rightarrow> call_error + json list" where
  "iter_items v = (case v of
       JList xs \<Rightarrow> Inr xs
     | JStr s \<Rightarrow> Inr (map (\<lambda>c. JStr [c]) s)
     | JObj d \<Rightarrow> Inr (map (\<lambda>(k, _). JStr k) d)
     | _ \<Rightarrow> Inl ChatTypeError)"

definition required_names :: "(string \<times> json) list \<Rightarrow> call_error + string list" where
  "required_names schema =
     bindE (if truthy (dget schema ''required'') then iter_items (dget schema ''required'') else Inr [])
       (\<lambda>values. Inr (filter (\<lambda>s. s \<noteq> CHAT_CONTEXT_ARGUMENT) (map py_str values)))"

definition argument_schema :: json where
  "argument_schema = JObj [(''type'', JStr ''string''), (''pattern'', JStr CHAT_CONTEXT_PATTERN),
     (''description'', JStr CHAT_CONTEXT_ARGUMENT_DESCRIPTION)]"

definition decorate_schema ::
  "string \<Rightarrow> (string \<times> json) list \<Rightarrow> call_error + (string \<times> json) list" where
  "decorate_schema resolved_mode schema =
     (let properties = (case dget schema ''properties'' of JObj p \<Rightarrow> p | _ \<Rightarrow> []);
          schema = dset ''properties'' (JObj ((CHAT_CONTEXT_ARGUMENT, argument_schema) # properties)) schema
      in bindE (required_names schema) (\<lambda>names.
         let required = (if resolved_mode = ''required'' then CHAT_CONTEXT_ARGUMENT # names else names)
         in if required \<noteq> [] then Inr (dset ''required'' (JList (map JStr required)) schema)
            else Inr (dpop ''required'' schema)))"

definition decorate_public_tool ::
  "(string \<times> json) list \<Rightarrow> string \<Rightarrow> call_error + (string \<times> json) list" where
  "decorate_public_tool tool mode =
     bindE (validate_chat_context_mode mode) (\<lambda>resolved_mode.
     let name = str_or_empty (dget tool ''name'')
     in if resolved_mode = ''off'' \<or> name \<in> set CHAT_CONTEXT_EXEMPT_TOOLS then Inr tool
        else if tool_declares_reserved_chat_context tool then
          Inl (ReservedArgumentCollision
            (''tool '' @ repr_str name @ '' declares reserved top-level argument ''
             @ repr_str CHAT_CONTEXT_ARGUMENT))
        else
          let schema = (case dget tool ''inputSchema'' of
                JObj s \<Rightarrow> s
              | _ \<Rightarrow> [(''type'', JStr ''object''), (''properties'', JObj [])])
          in bindE (decorate_schema resolved_mode schema) (\<lambda>schema.
             Inr (dset ''inputSchema'' (JObj schema) tool)))"

fun decorate_public_tools ::
  "(string \<times> json) list list \<Rightarrow> string \<Rightarrow> call_error + (string \<times> json) list list" where
  "decorate_public_tools [] mode = Inr []"
| "decorate_public_tools (t # ts) mode =
     bindE (decorate_public_tool t mode) (\<lambda>t'.
     bindE (decorate_public_tools ts mode) (\<lambda>ts'. Inr (t' # ts')))"

section \<open>Admission of a tool call\<close>

record McpChatContextAdmission =
  ad_mode :: string
  ad_arguments :: "(string \<times> json) list"
  ad_context_id :: "string option"
  ad_code :: "string option"

definition admission_error :: "string \<Rightarrow> string \<Rightarrow> string \<Rightarrow> call_error" where
  "admission_error error_code message recovery_tool =
     McpChatContextAdmissionError error_code message recovery_tool True"

definition admission_translate :: "chat_error \<Rightarrow> call_error" where
  "admission_translate e = (case e of
     ChatContextNotFound _ \<Rightarrow> admission_error ''CHAT_CONTEXT_UNKNOWN''
       ''ATLAS chat context was not found.'' ''chat_context_start''
   | ChatContextExpired _ \<Rightarrow> admission_error ''CHAT_CONTEXT_EXPIRED''
       ''ATLAS chat context has expired.'' ''chat_context_refresh''
   | ChatContextClosed _ \<Rightarrow> admission_error ''CHAT_CONTEXT_REVOKED''
       ''ATLAS chat context is no longer active.'' ''chat_context_start''
   | ChatContextValidationError _ \<Rightarrow> admission_error ''CHAT_CONTEXT_INVALID''
       ''ATLAS chat context cannot be used.'' ''chat_context_start''
   | ChatContextDisabled _ \<Rightarrow> admission_error ''CHAT_CONTEXT_INVALID''
       ''ATLAS chat context cannot be used.'' ''chat_context_start''
   | _ \<Rightarrow> Uncaught e)"

definition is_expired_error :: "chat_error \<Rightarrow> bool" where
  "is_expired_error e = (case e of ChatContextExpired _ \<Rightarrow> True | _ \<Rightarrow> False)"

definition admit_chat_context ::
  "chat_settings \<Rightarrow> string \<Rightarrow> string \<Rightarrow> (string \<times> json) list \<Rightarrow> string \<Rightarrow>
     (chat_db, call_error, McpChatContextAdmission) smon" where
  "admit_chat_context cfg owner_subject tool_name arguments mode =
     bindS (liftE (validate_chat_context_mode mode)) (\<lambda>resolved_mode.
     let plain = \<lambda>args. \<lparr>ad_mode = resolved_mode, ad_arguments = args, ad_context_id = None,
           ad_code = None\<rparr>
     in if resolved_mode = ''off'' \<or> tool_name \<in> set CHAT_CONTEXT_EXEMPT_TOOLS
        then ret (plain arguments)
        else
          let raw_code = dget arguments CHAT_CONTEXT_ARGUMENT;
              copied = dpop CHAT_CONTEXT_ARGUMENT arguments
          in case raw_code of
               JNull \<Rightarrow>
                 if resolved_mode = ''optional'' then ret (plain copied)
                 else raise (admission_error ''CHAT_CONTEXT_REQUIRED''
                        ''ATLAS chat context is required.'' ''chat_context_start'')
             | JStr code \<Rightarrow>
                 if \<not> code_pattern code
                 then raise (admission_error ''CHAT_CONTEXT_INVALID''
                        ''ATLAS chat context must contain exactly four Base62 characters.''
                        ''chat_context_start'')
                 else bindS (transact is_expired_error admission_translate
                              (resolve_alias cfg owner_subject code ''mcp'')) (\<lambda>lease.
                      ret \<lparr>ad_mode = resolved_mode, ad_arguments = copied,
                           ad_context_id = Some (le_context_id lease),
                           ad_code = Some (le_code lease)\<rparr>)
             | _ \<Rightarrow> raise (admission_error ''CHAT_CONTEXT_INVALID''
                        ''ATLAS chat context must contain exactly four Base62 characters.''
                        ''chat_context_start''))"

section \<open>The two chat-context tools\<close>

definition start_translate :: "chat_error \<Rightarrow> call_error" where
  "start_translate e = (case e of
     ChatContextAllocationExhausted _ \<Rightarrow> McpChatContextAdmissionError
       ''CHAT_CONTEXT_ALLOCATION_EXHAUSTED''
       ''ATLAS chat context allocation is temporarily exhausted.'' ''chat_context_start'' False
   | ChatContextValidationError _ \<Rightarrow> McpChatContextAdmissionError ''CHAT_CONTEXT_INVALID''
       ''ATLAS chat context cannot be created.'' ''chat_context_start'' False
   | ChatContextDisabled _ \<Rightarrow> McpChatContextAdmissionError ''CHAT_CONTEXT_INVALID''
       ''ATLAS chat context cannot be created.'' ''chat_context_start'' False
   | _ \<Rightarrow> Uncaught e)"

definition start_chat_context ::
  "chat_settings \<Rightarrow> string \<Rightarrow> (chat_db, call_error, ChatContextLease) smon" where
  "start_chat_context cfg owner_subject =
     transact (\<lambda>_. False) start_translate (start_context cfg owner_subject None ''mcp'')"

definition refresh_translate :: "chat_error \<Rightarrow> call_error" where
  "refresh_translate e = (case e of
     ChatContextNotFound _ \<Rightarrow> McpChatContextAdmissionError ''CHAT_CONTEXT_UNKNOWN''
       ''Historical ATLAS chat context was not found.'' ''chat_context_start'' False
   | ChatContextClosed _ \<Rightarrow> McpChatContextAdmissionError ''CHAT_CONTEXT_REVOKED''
       ''ATLAS chat context is no longer active.'' ''chat_context_start'' False
   | ChatContextAllocationExhausted _ \<Rightarrow> McpChatContextAdmissionError
       ''CHAT_CONTEXT_ALLOCATION_EXHAUSTED''
       ''ATLAS chat context allocation is temporarily exhausted.'' ''chat_context_refresh'' False
   | ChatContextValidationError _ \<Rightarrow> McpChatContextAdmissionError ''CHAT_CONTEXT_INVALID''
       ''ATLAS chat context cannot be refreshed.'' ''chat_context_start'' False
   | ChatContextDisabled _ \<Rightarrow> McpChatContextAdmissionError ''CHAT_CONTEXT_INVALID''
       ''ATLAS chat context cannot be refreshed.'' ''chat_context_start'' False
   | _ \<Rightarrow> Uncaught e)"

definition refresh_chat_context ::
  "chat_settings \<Rightarrow> string \<Rightarrow> string \<Rightarrow> (chat_db, call_error, ChatContextLease) smon" where
  "refresh_chat_context cfg owner_subject previous_chat_context =
     transact (\<lambda>_. False) refresh_translate
       (refresh_alias cfg owner_subject previous_chat_context ''mcp'')"

text \<open>The payload of both tools; the refresh tool adds \<open>rotated\<close>.\<close>

definition lease_payload :: "ChatContextLease \<Rightarrow> bool \<Rightarrow> json" where
  "lease_payload lease with_rotated =
     JObj ([(''chat_context'', JStr (le_code lease)),
            (''expires_at'', JStr (isoformat (le_expires_at lease)))]
           @ (if with_rotated then [(''rotated'', JBool (le_rotated lease))] else [])
           @ [(''instruction'', JStr (''Pass chat_context='' @ [char_of (34 :: nat)] @ le_code lease @
                [char_of (34 :: nat)] @ '' to every ATLAS tool call in this conversation.''))])"

section \<open>The browser-extension endpoints\<close>

definition raise_chat_context_error :: "chat_error \<Rightarrow> call_error" where
  "raise_chat_context_error e = (case e of
     ChatContextDisabled _ \<Rightarrow> ChatHTTPException 503 ''Chat context service is unavailable''
   | ChatContextValidationError m \<Rightarrow> ChatHTTPException 422 m
   | ChatContextNotFound _ \<Rightarrow> ChatHTTPException 404 ''Chat context was not found''
   | ChatContextBindingConflict m \<Rightarrow> ChatHTTPException 409 m
   | ChatContextClosed m \<Rightarrow> ChatHTTPException 409 m
   | ChatContextExpired m \<Rightarrow> ChatHTTPException 409 m
   | ChatContextAllocationExhausted _ \<Rightarrow> ChatHTTPException 503 ''Chat context allocation is unavailable''
   | ChatContextIntegrityError \<Rightarrow> Uncaught e)"

definition post_create_context ::
  "chat_settings \<Rightarrow> string \<Rightarrow> string \<Rightarrow> string option \<Rightarrow> (chat_db, call_error, ChatContextLease) smon" where
  "post_create_context cfg subject client_nonce project_ref =
     transact (\<lambda>_. False) raise_chat_context_error
       (create_provisional cfg subject client_nonce project_ref ''browser_extension'')"

definition post_bind_context ::
  "chat_settings \<Rightarrow> string \<Rightarrow> string \<Rightarrow> string \<Rightarrow> (chat_db, call_error, ChatContextBinding) smon" where
  "post_bind_context cfg subject context_id conversation_ref =
     transact (\<lambda>_. False) raise_chat_context_error
       (bind_conversation cfg subject context_id conversation_ref ''browser_extension'')"

definition post_resolve_context ::
  "chat_settings \<Rightarrow> string \<Rightarrow> string \<Rightarrow> (chat_db, call_error, ChatContextLease) smon" where
  "post_resolve_context cfg subject conversation_ref =
     transact (\<lambda>_. False) raise_chat_context_error
       (resolve_conversation_lease cfg subject conversation_ref ''browser_extension'')"

section \<open>Reachable tables\<close>

text \<open>The calls of the program on the chat-context tables, and the clock moving on.\<close>

datatype chat_call =
    Admit string string "(string \<times> json) list" string
  | Start string
  | Refresh string string
  | PostCreate string string "string option"
  | PostBind string string string
  | PostResolve string string
  | Wait nat

definition chat_call_step :: "chat_settings \<Rightarrow> chat_call \<Rightarrow> chat_db \<Rightarrow> chat_db" where
  "chat_call_step cfg call w = (case call of
     Admit owner tool args mode \<Rightarrow> snd (admit_chat_context cfg owner tool args mode w)
   | Start owner \<Rightarrow> snd (start_chat_context cfg owner w)
   | Refresh owner code \<Rightarrow> snd (refresh_chat_context cfg owner code w)
   | PostCreate owner nonce project \<Rightarrow> snd (post_create_context cfg owner nonce project w)
   | PostBind owner i ref \<Rightarrow> snd (post_bind_context cfg owner i ref w)
   | PostResolve owner ref \<Rightarrow> snd (post_resolve_context cfg owner ref w)
   | Wait d \<Rightarrow> w\<lparr>now_at := now_at w + int d\<rparr>)"

inductive chat_reachable :: "chat_settings \<Rightarrow> chat_db \<Rightarrow> bool" for cfg where
  empty_tables: "contexts w = [] \<Longrightarrow> aliases w = [] \<Longrightarrow> chat_reachable cfg w"
| call: "chat_reachable cfg w \<Longrightarrow> chat_reachable cfg (chat_call_step cfg call w)"

lemma chat_step_now: "chat_step w w' \<Longrightarrow> now_at w' = now_at w"
  by (simp add: chat_step_def)

lemma wp_transact:
  assumes "chat_inv w" and "wp m Q (\<lambda>e w'. chat_step w w') w"
  shows "wp (transact commits translate m) Q (\<lambda>e w'. chat_step w w') w"
  using assms
  by (auto simp: wp_def transact_def chat_step_rollback chat_step_now split: prod.splits sum.splits)

lemma wp_step_snd:
  "wp m Q (\<lambda>e w'. chat_step w w') w \<Longrightarrow> (\<And>x w'. Q x w' \<Longrightarrow> chat_step w w') \<Longrightarrow> chat_step w (snd (m w))"
  by (auto simp: wp_def split: prod.splits sum.splits)

lemma created_stepD: "created cfg owner nonce w l w' \<Longrightarrow> chat_step w w'"
  by (auto simp: created_def leased_def)

lemma lease_by_code_stepD: "lease_by_code cfg owner code w l w' \<Longrightarrow> chat_step w w'"
  by (auto simp: lease_by_code_def leased_def)

lemma wp_start_chat_context:
  assumes "chat_inv w"
  shows "wp (start_chat_context cfg owner) (created cfg (strip owner) None w) (\<lambda>e w'. chat_step w w') w"
  unfolding start_chat_context_def start_context_def
  by (rule wp_transact [OF assms wp_create_context [OF assms]])

lemma wp_refresh_chat_context:
  assumes "chat_inv w"
  shows "wp (refresh_chat_context cfg owner code) (lease_by_code cfg (strip owner) code w)
    (\<lambda>e w'. chat_step w w') w"
  unfolding refresh_chat_context_def
  by (rule wp_transact [OF assms wp_refresh_alias [OF assms]])

lemma wp_post_create_context:
  assumes "chat_inv w"
  shows "wp (post_create_context cfg owner nonce project)
    (created cfg (strip owner) (Some (strip nonce)) w) (\<lambda>e w'. chat_step w w') w"
  unfolding post_create_context_def
proof (rule wp_transact [OF assms])
  show "wp (create_provisional cfg owner nonce project ''browser_extension'')
      (created cfg (strip owner) (Some (strip nonce)) w) (\<lambda>e w'. chat_step w w') w"
    unfolding create_provisional_def wp_bind
    by (rule wp_liftI)
       (use assms wp_create_context [OF assms, of cfg owner "Some (strip nonce)" project] in
         \<open>auto simp: bounded_value_def Let_def chat_step_refl split: if_splits\<close>)
qed

lemma wp_post_resolve_context:
  assumes "chat_inv w"
  shows "wp (post_resolve_context cfg owner ref) (created cfg (strip owner) None w)
    (\<lambda>e w'. chat_step w w') w"
  unfolding post_resolve_context_def
  by (rule wp_transact [OF assms wp_resolve_conversation_lease [OF assms]])

lemma admit_step:
  assumes "chat_inv w"
  shows "chat_step w (snd (admit_chat_context cfg owner tool args mode w))"
proof (rule wp_step_snd [where Q = "\<lambda>_. chat_step w"])
  have "wp (transact is_expired_error admission_translate (resolve_alias cfg owner code ''mcp''))
      (\<lambda>l w'. chat_step w w') (\<lambda>e w'. chat_step w w') w" for code
    by (rule wp_transact [OF assms wp_mono [OF wp_resolve_alias [OF assms]]])
       (auto dest: lease_by_code_stepD)
  then show "wp (admit_chat_context cfg owner tool args mode) (\<lambda>_. chat_step w) (\<lambda>e w'. chat_step w w') w"
    using chat_step_refl [OF assms]
    by (auto simp: admit_chat_context_def Let_def split: sum.splits json.splits)
qed

lemma chat_call_step_ok:
  assumes inv: "chat_inv w"
  shows "chat_inv (chat_call_step cfg call w) \<and> same_identity w (chat_call_step cfg call w)"
proof (cases call)
  case (Wait d)
  then show ?thesis using inv by (simp add: chat_call_step_def chat_inv_def same_identity_def)
next
  case (Admit owner tool args mode)
  then show ?thesis using admit_step [OF inv] by (simp add: chat_call_step_def chat_step_def)
next
  case (Start owner)
  then show ?thesis
    using wp_step_snd [OF wp_start_chat_context [OF inv] created_stepD]
    by (simp add: chat_call_step_def chat_step_def)
next
  case (Refresh owner code)
  then show ?thesis
    using wp_step_snd [OF wp_refresh_chat_context [OF inv] lease_by_code_stepD]
    by (simp add: chat_call_step_def chat_step_def)
next
  case (PostCreate owner nonce project)
  then show ?thesis
    using wp_step_snd [OF wp_post_create_context [OF inv] created_stepD]
    by (simp add: chat_call_step_def chat_step_def)
next
  case (PostBind owner i ref)
  then show ?thesis
    using wp_step_snd [OF wp_transact [OF inv wp_bind_conversation [OF inv]]]
    by (simp add: chat_call_step_def chat_step_def post_bind_context_def)
next
  case (PostResolve owner ref)
  then show ?thesis
    using wp_step_snd [OF wp_post_resolve_context [OF inv] created_stepD]
    by (simp add: chat_call_step_def chat_step_def)
qed

lemma chat_reachable_invariant: "chat_reachable cfg w \<Longrightarrow> chat_inv w"
proof (induction rule: chat_reachable.induct)
  case (empty_tables w)
  then show ?case by (simp add: chat_inv_def rows_ok_def)
next
  case (call w call)
  then show ?case by (simp add: chat_call_step_ok)
qed

section \<open>Runs that succeed\<close>

lemma admit_code:
  assumes "validate_chat_context_mode mode = Inr m" and "m \<noteq> ''off''"
    and "tool \<notin> set CHAT_CONTEXT_EXEMPT_TOOLS" and "dget args CHAT_CONTEXT_ARGUMENT = JStr code"
    and "code_pattern code"
  shows "admit_chat_context cfg owner tool args mode =
     bindS (transact is_expired_error admission_translate (resolve_alias cfg owner code ''mcp''))
       (\<lambda>lease. ret \<lparr>ad_mode = m, ad_arguments = dpop CHAT_CONTEXT_ARGUMENT args,
          ad_context_id = Some (le_context_id lease), ad_code = Some (le_code lease)\<rparr>)"
  using assms by (simp add: admit_chat_context_def Let_def bindS_def liftE_def)

lemma transact_Inr: "transact commits f m w = (Inr x, w') \<longleftrightarrow> m w = (Inr x, w')"
  by (auto simp: transact_def split: prod.splits sum.splits)

lemma transact_Inl:
  "m w = (Inl e, w') \<Longrightarrow> transact commits f m w = (Inl (f e), if commits e then w' else rollback_to w w')"
  by (simp add: transact_def)

text \<open>The alias an owner's code names, and the checks that pass for it.\<close>

definition service_ready :: "chat_settings \<Rightarrow> string \<Rightarrow> bool" where
  "service_ready cfg owner \<longleftrightarrow> require_enabled cfg = Inr () \<and> owner_of owner = Inr (strip owner)"

lemma find_own_alias:
  assumes inv: "chat_inv w" and a: "a \<in> set (aliases w)" and own: "al_owner_subject a = owner"
  shows "find (\<lambda>b. al_owner_subject b = owner \<and> al_code b = al_code a) (aliases w) = Some a"
proof -
  have ok: "rows_ok (contexts w) (aliases w)" using inv by (simp add: chat_inv_def)
  have "b = a" if "b \<in> set (aliases w)" "al_owner_subject b = owner \<and> al_code b = al_code a" for b
    using that own by (intro rows_ok_aliasD [OF ok _ a]) (auto simp: alias_conflict_def)
  then show ?thesis
    using a own by (intro find_unique_row [where k = al_id, OF unique_alias_ids [OF ok]]) auto
qed

lemma resolve_reconciled:
  assumes inv: "chat_inv w" and ready: "service_ready cfg owner" and h: "held w c a"
    and own: "al_owner_subject a = strip owner" and actor: "k \<in> set ACTOR_KINDS"
  shows "resolve_alias cfg owner (al_code a) k w =
    bindS (reconcile_alias cfg c a (now_at w) ''gateway'') (\<lambda>(context, alias).
         bindS (guardS (cc_state context \<noteq> ''closed'')
                  (ChatContextClosed ''chat context is closed'')) (\<lambda>_.
         bindS (guardS (al_status alias = ''active'')
                  (ChatContextExpired ''chat context alias is expired'')) (\<lambda>_.
         bindS (renew_alias cfg context alias (now_at w) k False) (\<lambda>alias.
         ret (lease_of alias False))))) w"
proof -
  have h': "c \<in> set (contexts w)" "a \<in> set (aliases w)" "linked c a" using h by (auto simp: held_def)
  have "code_pattern (al_code a)" using inv h' by (simp add: chat_inv_def rows_ok_def)
  moreover obtain d where d: "held w d a" and
    f: "find (\<lambda>x. cc_id x = al_context_id a \<and> cc_owner_subject x = al_owner_subject a) (contexts w) = Some d"
    using held_locked [OF inv h'(2)] .
  moreover have "d = c"
    using inv h' d unique_on_eqD [OF unique_context_ids] unfolding chat_inv_def held_def linked_def
    by metis
  ultimately show ?thesis
    using ready own actor find_own_alias [OF inv h'(2) own]
    by (simp add: resolve_alias_def service_ready_def code_of_def actor_of_def find_alias_def
        lock_context_def run_simps)
qed

lemma wp_resolve_reconciled:
  assumes inv: "chat_inv w" and ready: "service_ready cfg owner" and h: "held w c a"
    and own: "al_owner_subject a = strip owner" and actor: "k \<in> set ACTOR_KINDS"
    and body: "wp (reconcile_alias cfg c a (now_at w) ''gateway'') (\<lambda>p. wp (case p of (context, alias) \<Rightarrow>
         bindS (guardS (cc_state context \<noteq> ''closed'')
                  (ChatContextClosed ''chat context is closed'')) (\<lambda>_.
         bindS (guardS (al_status alias = ''active'')
                  (ChatContextExpired ''chat context alias is expired'')) (\<lambda>_.
         bindS (renew_alias cfg context alias (now_at w) k False) (\<lambda>alias.
         ret (lease_of alias False))))) Q E) E w"
  shows "wp (resolve_alias cfg owner (al_code a) k) Q E w"
  using body unfolding wp_bind [symmetric]
  unfolding wp_def resolve_reconciled [OF inv ready h own actor] .

lemma wp_resolve_active:
  assumes inv: "chat_inv w" and ready: "service_ready cfg owner" and h: "held w c a"
    and own: "al_owner_subject a = strip owner" and actor: "k \<in> set ACTOR_KINDS"
    and active: "al_status a = ''active''" "now_at w < al_expires_at a" and state: "cc_state c \<noteq> ''closed''"
  shows "wp (resolve_alias cfg owner (al_code a) k)
    (\<lambda>l w'. leased cfg (now_at w) c w l w' \<and> le_context_id l = cc_id c \<and> le_code l = al_code a)
    (\<lambda>e w'. False) w"
proof -
  have ne: "\<not> expired_at (now_at w) a" using active by (simp add: expired_at_def)
  have same: "reconciled cfg (now_at w) a = a"
    using active by (intro reconciled_active_same) (simp add: reconciled_active)
  show ?thesis
  proof (rule wp_resolve_reconciled [OF inv ready h own actor], rule wp_mono [OF wp_reconcile_alias [OF inv h]],
      goal_cases)
    case (1 x w1)
    then have x: "x = (c, a)" and s: "chat_step w w1" and h1: "held w1 c a"
      using ne same by (auto split: prod.splits)
    have post: "leased cfg (now_at w) c w (lease_of a' False) w'"
      if "chat_step w1 w'" "awake c w'" "a' \<in> set (aliases w')" "renewal_ok cfg (now_at w) False a a'" for a' w'
      by (rule leased_later [OF s leased_renewed [OF that]]) (use h1 active in \<open>auto simp: held_def\<close>)
    have "wp (renew_alias cfg c a (now_at w) k False)
        (\<lambda>a' w'. leased cfg (now_at w) c w (lease_of a' False) w' \<and> alias_key a' = alias_key a) (\<lambda>e w'. False) w1"
      by (rule wp_mono [OF wp_renew_alias [OF chat_step_inv [OF s] h1]])
         (use post in \<open>auto simp: renewal_ok_def\<close>)
    then show ?case
      unfolding x prod.case wp_bind using state active h
      by (auto simp: lease_of_def alias_key_def held_def linked_def elim!: wp_mono)
  qed simp
qed

end
