(* ===== verification/Chat_Context_Correct.thy ===== *)
theory Chat_Context_Correct
  imports Chat_Context_Calls
begin

text \<open>
  What the chat-context subsystem promises its callers, over the calls of theory
  \<open>Chat_Context_Calls\<close>, each with a run that meets its hypotheses.
\<close>

section \<open>Lemmas over whole calls\<close>

lemma leasedE:
  assumes "leased cfg now c w l w'"
  obtains a d where "a \<in> set (aliases w')" and "al_status a = ''active''" and "al_context_id a = cc_id c"
    and "al_owner_subject a = cc_owner_subject c" and "le_code l = al_code a"
    and "le_context_id l = cc_id c" and "le_expires_at l = al_expires_at a"
    and "now + seconds (gateway_chat_context_ttl_seconds cfg) \<le> al_expires_at a \<or>
         seconds (gateway_chat_context_renew_threshold_seconds cfg) < al_expires_at a - now"
    and "d \<in> set (contexts w')" and "cc_id d = cc_id c" and "cc_state d = ''active''"
proof -
  obtain a where a: "a \<in> set (aliases w')" "l = lease_of a (le_rotated l)" "al_status a = ''active''"
    "al_context_id a = cc_id c" "al_owner_subject a = cc_owner_subject c"
    "now + seconds (gateway_chat_context_ttl_seconds cfg) \<le> al_expires_at a \<or>
         seconds (gateway_chat_context_renew_threshold_seconds cfg) < al_expires_at a - now"
    using assms unfolding leased_def by blast
  have "le_code l = al_code a" "le_expires_at l = al_expires_at a" "le_context_id l = al_context_id a"
    by (subst a(2), simp add: lease_of_def)+
  moreover obtain d where "d \<in> set (contexts w')" "cc_id d = cc_id c" "cc_state d = ''active''"
    using assms unfolding leased_def awake_def by blast
  ultimately show ?thesis using that a by simp
qed

text \<open>A lease can be used as long as it lasts: its code resolves to its context.\<close>

lemma leased_usable:
  assumes l: "leased cfg now c w l w'" and ready: "service_ready cfg owner"
    and own: "cc_owner_subject c = strip owner" and k: "k \<in> set ACTOR_KINDS"
    and t: "t < le_expires_at l"
  obtains l' w'' where "resolve_alias cfg owner (le_code l) k (w'\<lparr>now_at := t\<rparr>) = (Inr l', w'')"
    and "le_context_id l' = le_context_id l" and "le_code l' = le_code l" and "le_context_id l = cc_id c"
proof -
  obtain a d where a: "a \<in> set (aliases w')" "al_status a = ''active''" "al_context_id a = cc_id c"
    "al_owner_subject a = cc_owner_subject c" and le: "le_code l = al_code a" "le_context_id l = cc_id c"
    "le_expires_at l = al_expires_at a"
    and d: "d \<in> set (contexts w')" "cc_id d = cc_id c" "cc_state d = ''active''"
    using leasedE [OF l] by metis
  let ?w = "w'\<lparr>now_at := t\<rparr>"
  have inv: "chat_inv ?w" using l by (auto simp: leased_def chat_step_def chat_inv_def)
  have h: "held ?w d a" using a d by (intro held_of_context [OF inv]) auto
  have "wp (resolve_alias cfg owner (al_code a) k)
      (\<lambda>l w''. leased cfg (now_at ?w) d ?w l w'' \<and> le_context_id l = cc_id d \<and> le_code l = al_code a)
      (\<lambda>e w''. False) ?w"
    by (rule wp_resolve_active [OF inv ready h _ k]) (use a d own t le in auto)
  then obtain l' w'' where "resolve_alias cfg owner (al_code a) k ?w = (Inr l', w'')"
    "le_context_id l' = cc_id d" "le_code l' = al_code a"
    by (auto simp: wp_def split: prod.splits sum.splits)
  then show ?thesis using that le a d by auto
qed

lemma resolve_only_active:
  assumes inv: "chat_inv w" and ready: "service_ready cfg owner" and h: "held w c a"
    and own: "al_owner_subject a = strip owner" and actor: "k \<in> set ACTOR_KINDS"
    and run: "resolve_alias cfg owner (al_code a) k w = (Inr l, w')"
  shows "al_status a = ''active'' \<and> now_at w < al_expires_at a \<and> cc_state c \<noteq> ''closed''"
proof -
  have "wp (resolve_alias cfg owner (al_code a) k)
      (\<lambda>_ _. al_status a = ''active'' \<and> now_at w < al_expires_at a \<and> cc_state c \<noteq> ''closed'') (\<lambda>_ _. True) w"
    by (rule wp_resolve_reconciled [OF inv ready h own actor], rule wp_mono [OF wp_reconcile_alias [OF inv h]])
       (auto simp: reconciled_active expired_at_def wp_def split: prod.splits sum.splits)
  then show ?thesis using run by (rule wp_InrD)
qed

lemma resolve_ready:
  assumes "resolve_alias cfg owner code k w = (Inr l, w')"
  shows "service_ready cfg owner" and "k \<in> set ACTOR_KINDS"
  using assms owner_of_Inr [of owner]
  by (cases "owner_of owner"; auto simp: resolve_alias_def service_ready_def actor_of_def split: if_splits)+

lemma admit_lookup:
  assumes "admit_chat_context cfg owner tool args mode w = (Inr adm, w')"
    and "ad_context_id adm = Some i"
  obtains code l where "dget args CHAT_CONTEXT_ARGUMENT = JStr code" and "le_context_id l = i"
    and "resolve_alias cfg owner code ''mcp'' w = (Inr l, w')" and "ad_code adm = Some (le_code l)"
    and "ad_arguments adm = dpop CHAT_CONTEXT_ARGUMENT args"
  using assms
  by (auto simp: admit_chat_context_def Let_def transact_Inr split: if_splits json.splits)

lemma leased_admitted:
  assumes l: "leased cfg now c w l w'" and ready: "service_ready cfg owner"
    and own: "cc_owner_subject c = strip owner" and t: "t < le_expires_at l"
    and mode: "validate_chat_context_mode mode = Inr m" "m \<noteq> ''off''"
    and tool: "tool \<notin> set CHAT_CONTEXT_EXEMPT_TOOLS"
    and arg: "dget args CHAT_CONTEXT_ARGUMENT = JStr (le_code l)"
  shows "\<exists>adm w''. admit_chat_context cfg owner tool args mode (w'\<lparr>now_at := t\<rparr>) = (Inr adm, w'') \<and>
    ad_context_id adm = Some (le_context_id l) \<and> ad_arguments adm = dpop CHAT_CONTEXT_ARGUMENT args"
proof -
  have "''mcp'' \<in> set ACTOR_KINDS" by (simp add: ACTOR_KINDS_def)
  from leased_usable [OF l ready own this t] obtain l' w''
    where r: "resolve_alias cfg owner (le_code l) ''mcp'' (w'\<lparr>now_at := t\<rparr>) = (Inr l', w'')"
      "le_context_id l' = le_context_id l" .
  have "code_pattern (le_code l)"
    by (rule leasedE [OF l]) (use chat_step_inv [OF leased_stepD [OF l]] in \<open>auto simp: chat_inv_def rows_ok_def\<close>)
  then show ?thesis
    using r by (simp add: admit_code [OF mode tool arg] transact_def)
qed

section \<open>Example tables\<close>

text \<open>
  Settings and tables for the example runs: one context of \<open>alice\<close> with the active code
  \<open>ABCD\<close>. The HMAC is any two-argument function.
\<close>

definition demo_cfg :: chat_settings where
  "demo_cfg = \<lparr>gateway_chat_context_enabled = True, gateway_chat_context_ttl_seconds = 300,
     gateway_chat_context_renew_threshold_seconds = 60, gateway_chat_context_quarantine_seconds = 600,
     gateway_chat_context_allocation_attempts = 2,
     gateway_chat_context_hmac_key = ''0123456789abcdef0123456789abcdef'',
     gateway_chat_context_hmac_key_version = 1, hmac_sha256 = (\<lambda>key msg. take 4 key @ msg)\<rparr>"

definition demo_context :: ChatContext where
  "demo_context = \<lparr>cc_id = ''c1'', cc_owner_subject = ''alice'', cc_host_kind = ''chatgpt'',
     cc_state = ''active'', cc_project_ref = None, cc_client_nonce = None,
     cc_conversation_ref_hmac = None, cc_conversation_key_version = None, cc_generation = 1,
     cc_created_at = 0, cc_last_seen_at = 0, cc_updated_at = 0, cc_closed_at = None\<rparr>"

definition demo_alias :: ChatContextAlias where
  "demo_alias = \<lparr>al_id = ''a1'', al_context_id = ''c1'', al_owner_subject = ''alice'',
     al_code = ''ABCD'', al_generation = 1, al_status = ''active'', al_issued_at = 0,
     al_last_seen_at = 0, al_expires_at = 300000000, al_quarantine_until = None,
     al_replaced_by_alias_id = None, al_created_at = 0, al_updated_at = 0\<rparr>"

definition demo_db :: chat_db where
  "demo_db = \<lparr>now_at = 1000, uuid_src = (\<lambda>n. CHR ''u'' # nat_dec n), uuid_pos = 0,
     rand_src = (\<lambda>n. n + 4), rand_pos = 0, contexts = [demo_context], aliases = [demo_alias],
     ctx_events = []\<rparr>"

lemma demo_inv: "chat_inv demo_db"
  by code_simp

lemma demo_held: "held demo_db demo_context demo_alias"
  by (simp add: held_def linked_def demo_db_def demo_context_def demo_alias_def)

lemma demo_ready: "service_ready demo_cfg ''alice''"
  unfolding service_ready_def by code_simp

section \<open>Invariant\<close>

text \<open>
  C7: in every reachable state of the tables a code is live for at most one alias, whoever
  owns it; a context has at most one active alias; an owner never holds a code twice; and
  every alias belongs to a stored context of its owner whose generation it does not exceed.
\<close>

theorem chat_tables_invariant:
  assumes "chat_reachable cfg w" and "a \<in> set (aliases w)"
  shows "code_pattern (al_code a) \<and>
    (\<exists>c \<in> set (contexts w). cc_id c = al_context_id a \<and> cc_owner_subject c = al_owner_subject a \<and>
       al_generation a \<le> cc_generation c) \<and>
    (\<forall>b \<in> set (aliases w).
       (live a \<and> live b \<and> al_code a = al_code b) \<or>
       (al_status a = ''active'' \<and> al_status b = ''active'' \<and> al_context_id a = al_context_id b) \<or>
       (al_owner_subject a = al_owner_subject b \<and> al_code a = al_code b) \<longrightarrow> a = b)"
proof -
  have ok: "rows_ok (contexts w) (aliases w)"
    using chat_reachable_invariant [OF assms(1)] by (simp add: chat_inv_def)
  then have "code_pattern (al_code a)" and "\<exists>c \<in> set (contexts w). linked c a"
    using assms(2) by (auto simp: rows_ok_def)
  moreover have "a = b" if "b \<in> set (aliases w)" "alias_conflict a b" for b
    by (rule rows_ok_aliasD [OF ok assms(2) that])
  ultimately show ?thesis unfolding linked_def alias_conflict_def by blast
qed

theorem chat_tables_invariant_witness:
  "\<exists>w. \<exists>a \<in> set (aliases w). chat_reachable demo_cfg w \<and> code_pattern (al_code a)"
proof -
  let ?w0 = "demo_db\<lparr>contexts := [], aliases := []\<rparr>"
  let ?w = "chat_call_step demo_cfg (Start ''alice'') ?w0"
  have r: "chat_reachable demo_cfg ?w" by (rule call, rule empty_tables) simp_all
  have "aliases ?w \<noteq> []" by code_simp
  then have a: "hd (aliases ?w) \<in> set (aliases ?w)" by simp
  show ?thesis using chat_tables_invariant [OF r a] r a by blast
qed

section \<open>Admission\<close>



text \<open>
  C9: the code of an alias that has run out is refused with \<open>CHAT_CONTEXT_EXPIRED\<close>, the
  caller is told to refresh, and the refusal is committed: the alias leaves the active state
  and its expiry is not moved.
\<close>

theorem admit_chat_context_expired:
  assumes inv: "chat_inv w" and a: "a \<in> set (aliases w)" "al_owner_subject a = strip owner"
    and out: "al_status a = ''active''" "al_expires_at a \<le> now_at w"
    and ready: "service_ready cfg owner"
    and mode: "validate_chat_context_mode mode = Inr m" "m \<noteq> ''off''"
    and tool: "tool \<notin> set CHAT_CONTEXT_EXEMPT_TOOLS"
    and arg: "dget args CHAT_CONTEXT_ARGUMENT = JStr (al_code a)"
  shows "\<exists>w'. admit_chat_context cfg owner tool args mode w =
      (Inl (McpChatContextAdmissionError ''CHAT_CONTEXT_EXPIRED'' ''ATLAS chat context has expired.''
         ''chat_context_refresh'' True), w') \<and>
    (\<exists>a' \<in> set (aliases w'). alias_key a' = alias_key a \<and> al_expires_at a' = al_expires_at a \<and>
       al_status a' \<in> {''quarantined'', ''released''})"
proof -
  obtain c where h: "held w c a" using held_locked [OF inv a(1)] by blast
  have mcp: "''mcp'' \<in> set ACTOR_KINDS" by (simp add: ACTOR_KINDS_def)
  have code: "code_pattern (al_code a)" using inv a by (simp add: chat_inv_def rows_ok_def)
  have st: "al_status (reconciled cfg (now_at w) a) \<in> {''quarantined'', ''released''}"
    using out by (auto simp: reconciled_def expired_at_def Let_def)
  have "wp (resolve_alias cfg owner (al_code a) ''mcp'') (\<lambda>_ _. False)
      (\<lambda>e w'. e = ChatContextExpired ''chat context alias is expired'' \<and>
         (\<exists>a' \<in> set (aliases w'). alias_key a' = alias_key a \<and> al_expires_at a' = al_expires_at a \<and>
            al_status a' \<in> {''quarantined'', ''released''})) w"
    by (rule wp_resolve_reconciled [OF inv ready h a(2) mcp], rule wp_mono [OF wp_reconcile_alias [OF inv h]])
       (use out st in \<open>auto simp: expired_at_def held_def intro!: bexI [of _ "reconciled cfg (now_at w) a"]\<close>)
  then obtain e w' where r: "resolve_alias cfg owner (al_code a) ''mcp'' w = (Inl e, w')"
    and e: "e = ChatContextExpired ''chat context alias is expired''" "\<exists>a' \<in> set (aliases w').
      alias_key a' = alias_key a \<and> al_expires_at a' = al_expires_at a \<and>
      al_status a' \<in> {''quarantined'', ''released''}"
    by (auto simp: wp_def split: prod.splits sum.splits)
  have "transact is_expired_error admission_translate (resolve_alias cfg owner (al_code a) ''mcp'') w =
      (Inl (McpChatContextAdmissionError ''CHAT_CONTEXT_EXPIRED'' ''ATLAS chat context has expired.''
         ''chat_context_refresh'' True), w')"
    using r e by (simp add: transact_def is_expired_error_def admission_translate_def admission_error_def)
  then show ?thesis
    using e(2) by (simp add: admit_code [OF mode tool arg code] bindS_def)
qed

theorem admit_chat_context_expired_witness:
  "\<exists>w'. admit_chat_context demo_cfg ''alice'' ''read_file'' [(''chat_context'', JStr ''ABCD'')] ''required''
      (demo_db\<lparr>now_at := 300000000\<rparr>) =
      (Inl (McpChatContextAdmissionError ''CHAT_CONTEXT_EXPIRED'' ''ATLAS chat context has expired.''
         ''chat_context_refresh'' True), w') \<and>
    (\<exists>a' \<in> set (aliases w'). alias_key a' = alias_key demo_alias \<and>
       al_status a' \<in> {''quarantined'', ''released''})"
proof -
  have inv: "chat_inv (demo_db\<lparr>now_at := 300000000\<rparr>)" using demo_inv by (simp add: chat_inv_def)
  have "validate_chat_context_mode ''required'' = Inr ''required''" by code_simp
  moreover have "''read_file'' \<notin> set CHAT_CONTEXT_EXEMPT_TOOLS" by code_simp
  moreover have "dget [(''chat_context'', JStr ''ABCD'')] CHAT_CONTEXT_ARGUMENT = JStr (al_code demo_alias)"
    by code_simp
  moreover have "strip ''alice'' = ''alice''" by code_simp
  ultimately show ?thesis
    using admit_chat_context_expired [OF inv, where a = demo_alias, OF _ _ _ _ demo_ready]
    by (fastforce simp: demo_db_def demo_alias_def)
qed

section \<open>Leases\<close>

text \<open>
  C10: a started conversation can be used until its lease runs out. The code that
  \<open>chat_context_start\<close> returns is admitted for its owner, for every tool, at any clock
  before \<open>expires_at\<close>, under the context that was started.
\<close>

theorem start_then_admit:
  assumes inv: "chat_inv w" and run: "start_chat_context cfg owner w = (Inr l, w')"
    and t: "t < le_expires_at l" and ready: "service_ready cfg owner"
    and mode: "validate_chat_context_mode mode = Inr m" "m \<noteq> ''off''"
    and tool: "tool \<notin> set CHAT_CONTEXT_EXEMPT_TOOLS"
    and arg: "dget args CHAT_CONTEXT_ARGUMENT = JStr (le_code l)"
  shows "\<exists>adm w''. admit_chat_context cfg owner tool args mode (w'\<lparr>now_at := t\<rparr>) = (Inr adm, w'') \<and>
    ad_context_id adm = Some (le_context_id l) \<and>
    ad_arguments adm = dpop CHAT_CONTEXT_ARGUMENT args"
proof -
  obtain c where c: "cc_owner_subject c = strip owner" "leased cfg (now_at w) c w l w'"
    using wp_InrD [OF wp_start_chat_context [OF inv] run] by (auto simp: created_def)
  then show ?thesis using leased_admitted [OF c(2) ready c(1) t mode tool arg] by blast
qed

definition demo_start :: "(call_error + ChatContextLease) \<times> chat_db" where
  "demo_start = start_chat_context demo_cfg ''alice'' demo_db"

lemma demo_start_lease:
  "map_sum id (\<lambda>l. (le_code l, le_context_id l, le_expires_at l)) (fst demo_start) =
     Inr (''EFGH'', ''u0'', 300001000)"
  by code_simp

theorem start_then_admit_witness:
  "\<exists>l w' adm w''. start_chat_context demo_cfg ''alice'' demo_db = (Inr l, w') \<and> le_code l = ''EFGH'' \<and>
     admit_chat_context demo_cfg ''alice'' ''read_file'' [(''chat_context'', JStr ''EFGH'')] ''required''
       (w'\<lparr>now_at := 5000\<rparr>) = (Inr adm, w'') \<and> ad_context_id adm = Some ''u0''"
proof -
  obtain l where l: "fst demo_start = Inr l" "le_code l = ''EFGH''" "le_context_id l = ''u0''"
    "le_expires_at l = 300001000"
    using demo_start_lease by (cases "fst demo_start") auto
  have run: "start_chat_context demo_cfg ''alice'' demo_db = (Inr l, snd demo_start)"
    using l(1) by (simp add: demo_start_def prod_eq_iff)
  have "validate_chat_context_mode ''required'' = Inr ''required''" by code_simp
  moreover have "''read_file'' \<notin> set CHAT_CONTEXT_EXEMPT_TOOLS" by code_simp
  moreover have "dget [(''chat_context'', JStr ''EFGH'')] CHAT_CONTEXT_ARGUMENT = JStr (le_code l)"
    unfolding l(2) by code_simp
  ultimately show ?thesis
    using start_then_admit [OF demo_inv run, of 5000, OF _ demo_ready] run l by fastforce
qed

text \<open>
  \<open>chat_context_refresh\<close> keeps the durable identity. When it returns, the lease is on the
  context the historical code belonged to, and the code of the lease is admitted under that
  context until the lease runs out, whether the old code was renewed, revived or replaced.
\<close>

theorem refresh_keeps_context:
  assumes inv: "chat_inv w" and run: "refresh_chat_context cfg owner code w = (Inr l, w')"
    and t: "t < le_expires_at l" and ready: "service_ready cfg owner"
    and mode: "validate_chat_context_mode mode = Inr m" "m \<noteq> ''off''"
    and tool: "tool \<notin> set CHAT_CONTEXT_EXEMPT_TOOLS"
    and arg: "dget args CHAT_CONTEXT_ARGUMENT = JStr (le_code l)"
  shows "\<exists>a \<in> set (aliases w). al_owner_subject a = strip owner \<and> al_code a = code \<and>
     le_context_id l = al_context_id a \<and>
     (\<exists>adm w''. admit_chat_context cfg owner tool args mode (w'\<lparr>now_at := t\<rparr>) = (Inr adm, w'') \<and>
        ad_context_id adm = Some (al_context_id a))"
proof -
  obtain a c where a: "a \<in> set (aliases w)" "al_owner_subject a = strip owner" "al_code a = code"
    and c: "linked c a" "leased cfg (now_at w) c w l w'"
    using wp_InrD [OF wp_refresh_chat_context [OF inv] run] unfolding lease_by_code_def by blast
  have "cc_owner_subject c = strip owner" using c a by (simp add: linked_def)
  moreover have "le_context_id l = al_context_id a"
    by (rule leasedE [OF c(2)]) (use c(1) in \<open>simp add: linked_def\<close>)
  ultimately show ?thesis
    using leased_admitted [OF c(2) ready _ t mode tool arg] a by metis
qed

definition demo_refresh :: "(call_error + ChatContextLease) \<times> chat_db" where
  "demo_refresh = refresh_chat_context demo_cfg ''alice'' ''ABCD'' (demo_db\<lparr>now_at := 1000000000\<rparr>)"

lemma demo_refresh_lease:
  "map_sum id (\<lambda>l. (le_code l, le_expires_at l)) (fst demo_refresh) = Inr (''ABCD'', 1300000000)"
  by code_simp

theorem refresh_keeps_context_witness:
  "\<exists>l w'. refresh_chat_context demo_cfg ''alice'' ''ABCD'' (demo_db\<lparr>now_at := 1000000000\<rparr>) = (Inr l, w') \<and>
     (\<exists>adm w''. admit_chat_context demo_cfg ''alice'' ''read_file'' [(''chat_context'', JStr ''ABCD'')] ''optional''
        (w'\<lparr>now_at := 1200000000\<rparr>) = (Inr adm, w'') \<and> ad_context_id adm = Some ''c1'')"
proof -
  obtain l where l: "fst demo_refresh = Inr l" "le_code l = ''ABCD''" "le_expires_at l = 1300000000"
    using demo_refresh_lease by (cases "fst demo_refresh") auto
  have run: "refresh_chat_context demo_cfg ''alice'' ''ABCD'' (demo_db\<lparr>now_at := 1000000000\<rparr>) = (Inr l, snd demo_refresh)"
    using l(1) by (simp add: demo_refresh_def prod_eq_iff)
  have inv: "chat_inv (demo_db\<lparr>now_at := 1000000000\<rparr>)" using demo_inv by (simp add: chat_inv_def)
  have "validate_chat_context_mode ''optional'' = Inr ''optional''" by code_simp
  moreover have "''read_file'' \<notin> set CHAT_CONTEXT_EXEMPT_TOOLS" by code_simp
  moreover have "dget [(''chat_context'', JStr ''ABCD'')] CHAT_CONTEXT_ARGUMENT = JStr (le_code l)"
    unfolding l(2) by code_simp
  ultimately show ?thesis
    using refresh_keeps_context [OF inv run, of 1200000000, OF _ demo_ready] run l
    by (fastforce simp: demo_db_def demo_alias_def)
qed

text \<open>
  C11: allocation never hands out a code that is in use or that its owner has had before. The
  new alias is active with the full lifetime, newer than every alias of its context, and the
  only live alias with its code; when it fails, it fails with the exhausted attempt budget.
\<close>

theorem allocate_alias_fresh:
  assumes "chat_inv w" and "c \<in> set (contexts w)" and "allocate_alias cfg c k now w = (r, w')"
  shows "case r of
     Inl e \<Rightarrow> e = ChatContextAllocationExhausted ''chat context alias allocation attempt budget was exhausted''
   | Inr a \<Rightarrow> code_pattern (al_code a) \<and> al_status a = ''active'' \<and>
       al_expires_at a = now + seconds (gateway_chat_context_ttl_seconds cfg) \<and>
       (\<forall>b \<in> set (aliases w). al_owner_subject b = cc_owner_subject c \<longrightarrow> al_code b \<noteq> al_code a) \<and>
       (\<forall>b \<in> set (aliases w). al_context_id b = cc_id c \<longrightarrow> al_generation b < al_generation a) \<and>
       (\<forall>b \<in> set (aliases w'). live b \<and> al_code b = al_code a \<longrightarrow> b = a)"
proof (cases r)
  case (Inl e)
  then show ?thesis
    using wp_InlD [OF wp_allocate_alias [OF assms(1,2) refl]] assms(3) by (simp add: exhausted_def)
next
  case (Inr a)
  then have i: "issued cfg now c w a w'"
    using wp_InrD [OF wp_allocate_alias [OF assms(1,2) refl]] assms(3) by simp
  then have ok: "rows_ok (contexts w') (aliases w')" and a: "a \<in> set (aliases w')"
    by (auto simp: issued_def chat_step_def chat_inv_def)
  have "b = a" if "b \<in> set (aliases w')" "live b" "al_code b = al_code a" for b
    by (rule rows_ok_aliasD [OF ok that(1) a])
       (use i that in \<open>auto simp: alias_conflict_def issued_def live_def\<close>)
  moreover have "code_pattern (al_code a)" using ok a by (simp add: rows_ok_def)
  ultimately show ?thesis using i Inr by (simp add: issued_def)
qed

theorem allocate_alias_fresh_witness:
  "\<exists>a w'. allocate_alias demo_cfg demo_context ''mcp'' 1000 (demo_db\<lparr>aliases := []\<rparr>) = (Inr a, w') \<and>
     al_expires_at a = 300001000"
proof -
  let ?r = "allocate_alias demo_cfg demo_context ''mcp'' 1000 (demo_db\<lparr>aliases := []\<rparr>)"
  have "\<not> isl (fst ?r)" by code_simp
  then obtain a w' where r: "?r = (Inr a, w')" using run_Inr by blast
  have inv: "chat_inv (demo_db\<lparr>aliases := []\<rparr>)" using demo_inv by (simp add: chat_inv_def rows_ok_def)
  have "seconds (gateway_chat_context_ttl_seconds demo_cfg) = 300000000"
    by (simp add: demo_cfg_def seconds_def)
  moreover have "demo_context \<in> set (contexts (demo_db\<lparr>aliases := []\<rparr>))" by (simp add: demo_db_def)
  ultimately have "al_expires_at a = 300001000" using allocate_alias_fresh [OF inv _ r] by simp
  then show ?thesis using r by blast
qed

section \<open>Idempotent creation and conversation bindings\<close>

text \<open>
  C12: creating a context is idempotent in the client nonce. Two creations by the same owner
  with the same nonce, whatever calls come in between, lease the same context.
\<close>

theorem create_idempotent:
  assumes inv: "chat_inv w" and first: "post_create_context cfg owner nonce p1 w = (Inr l1, w1)"
    and between: "chat_inv w2" "same_identity w1 w2"
    and second: "post_create_context cfg owner nonce p2 w2 = (Inr l2, w3)"
  shows "le_context_id l1 = le_context_id l2"
proof -
  obtain c1 d1 where c1: "cc_owner_subject c1 = strip owner" "cc_client_nonce c1 = Some (strip nonce)"
    "leased cfg (now_at w) c1 w l1 w1" "d1 \<in> set (contexts w1)" "context_key d1 = context_key c1"
    using wp_InrD [OF wp_post_create_context [OF inv] first] by (auto simp: created_def)
  obtain c2 d2 where c2: "cc_owner_subject c2 = strip owner" "cc_client_nonce c2 = Some (strip nonce)"
    "leased cfg (now_at w2) c2 w2 l2 w3" "d2 \<in> set (contexts w3)" "context_key d2 = context_key c2"
    using wp_InrD [OF wp_post_create_context [OF between(1)] second] by (auto simp: created_def)
  have "chat_step w2 w3" using c2(3) by (rule leased_stepD)
  then have same: "same_identity w1 w3" and ok: "rows_ok (contexts w3) (aliases w3)"
    using between(2) by (auto simp: chat_step_def chat_inv_def intro: same_identity_trans)
  then obtain e1 where e1: "e1 \<in> set (contexts w3)" "context_key e1 = context_key d1"
    using c1(4) unfolding same_identity_def by (metis grows_inD)
  have "context_conflict e1 d2"
    using c1 c2 e1 by (auto simp: context_conflict_def context_key_def)
  then have "e1 = d2" using rows_ok_contextD [OF ok e1(1) c2(4)] by simp
  then have "cc_id c1 = cc_id c2" using e1 c1 c2 by (simp add: context_key_def)
  moreover have "le_context_id l1 = cc_id c1" by (rule leasedE [OF c1(3)])
  moreover have "le_context_id l2 = cc_id c2" by (rule leasedE [OF c2(3)])
  ultimately show ?thesis by simp
qed

definition demo_create :: "chat_db \<Rightarrow> (call_error + ChatContextLease) \<times> chat_db" where
  "demo_create w = post_create_context demo_cfg ''alice'' ''tab-1'' None w"

theorem create_idempotent_witness:
  "\<exists>l1 l2. fst (demo_create demo_db) = Inr l1 \<and> fst (demo_create (snd (demo_create demo_db))) = Inr l2 \<and>
     le_context_id l1 = le_context_id l2"
proof -
  have "\<not> isl (fst (demo_create demo_db)) \<and> \<not> isl (fst (demo_create (snd (demo_create demo_db))))"
    by code_simp
  then obtain l1 w1 l2 w2 where r: "demo_create demo_db = (Inr l1, w1)" "demo_create w1 = (Inr l2, w2)"
    by (metis run_Inr snd_conv)
  have "chat_inv w1"
    using chat_call_step_ok [OF demo_inv, of demo_cfg "PostCreate ''alice'' ''tab-1'' None"] r(1)
    by (simp add: chat_call_step_def demo_create_def)
  then show ?thesis
    using create_idempotent [OF demo_inv r(1) [unfolded demo_create_def] _ same_identity_refl
        r(2) [unfolded demo_create_def]] r by simp
qed

lemma bind_newly:
  assumes inv: "chat_inv w" and run: "bind_conversation cfg owner i ref k w = (Inr b, w')"
    and new: "bi_newly_bound b"
  obtains n c c' where "normalize_conversation_reference ref = Inr n" and "require_enabled cfg = Inr ()"
    and "owner_of owner = Inr (strip owner)"
    and "c \<in> set (contexts w)" and "cc_id c = i" and "cc_owner_subject c = strip owner"
    and "cc_state c \<noteq> ''closed''" and "\<forall>d \<in> set (bound_contexts (strip owner) (cc_host_kind c) (contexts w)).
      \<not> digest_matches cfg n d"
    and "context_key c' = context_key c" and "cc_state c' = cc_state c" and "digest_matches cfg n c'"
    and "contexts w' = contexts (store_context c' w)"
proof -
  let ?bound = "\<lambda>c n. c\<lparr>
    cc_conversation_ref_hmac := Some (conversation_digest cfg n (gateway_chat_context_hmac_key_version cfg)),
    cc_conversation_key_version := Some (gateway_chat_context_hmac_key_version cfg),
    cc_last_seen_at := now_at w, cc_updated_at := now_at w\<rparr>"
  have "wp (bind_conversation cfg owner i ref k) (\<lambda>b w'. bi_newly_bound b \<longrightarrow> (\<exists>own n c.
      owner_of owner = Inr own \<and> normalize_conversation_reference ref = Inr n \<and> require_enabled cfg = Inr () \<and>
      find (\<lambda>c. cc_id c = i \<and> cc_owner_subject c = own) (contexts w) = Some c \<and> cc_state c \<noteq> ''closed'' \<and>
      find (digest_matches cfg n) (bound_contexts own (cc_host_kind c) (contexts w)) = None \<and>
      contexts w' = contexts (store_context (?bound c n) w))) (\<lambda>_ _. True) w"
    unfolding bind_conversation_def wp_bind
  proof (intro wp_liftI wp_lock_context, goal_cases)
    case (1 u own actor n c)
    then show ?case
      by (cases "find (digest_matches cfg n) (bound_contexts own (cc_host_kind c) (contexts w))")
         (simp_all add: Let_def)
  qed simp_all
  from wp_InrD [OF this run] new obtain own n c where own: "owner_of owner = Inr own"
    and a: "normalize_conversation_reference ref = Inr n" "require_enabled cfg = Inr ()"
      "find (\<lambda>c. cc_id c = i \<and> cc_owner_subject c = own) (contexts w) = Some c" "cc_state c \<noteq> ''closed''"
      "find (digest_matches cfg n) (bound_contexts own (cc_host_kind c) (contexts w)) = None"
    and w': "contexts w' = contexts (store_context (?bound c n) w)"
    by blast
  show ?thesis
    by (rule that [of n c "?bound c n"])
       (use a w' find_Some_in [OF a(3)] owner_of_Inr [OF own] own in
         \<open>auto simp: find_None_iff context_key_def digest_matches_def\<close>)
qed

text \<open>
  C13: after a conversation is newly bound to a context, its reference resolves to that context
  and to no other, for any keyed digest.
\<close>

theorem bind_then_resolve:
  assumes inv: "chat_inv w" and run: "bind_conversation cfg owner i ref k w = (Inr b, w')"
    and new: "bi_newly_bound b"
  shows "fst (resolve_conversation cfg owner ref w') = Inr i"
proof -
  obtain n c c' where a: "normalize_conversation_reference ref = Inr n" "require_enabled cfg = Inr ()"
    "owner_of owner = Inr (strip owner)"
    "c \<in> set (contexts w)" "cc_id c = i" "cc_owner_subject c = strip owner" "cc_state c \<noteq> ''closed''"
    "\<forall>d \<in> set (bound_contexts (strip owner) (cc_host_kind c) (contexts w)). \<not> digest_matches cfg n d"
    and c': "context_key c' = context_key c" "cc_state c' = cc_state c" "digest_matches cfg n c'"
    "contexts w' = contexts (store_context c' w)"
    by (rule bind_newly [OF inv run new])
  have host: "cc_host_kind c = ''chatgpt''" and u: "unique_on cc_id (contexts w)"
    using inv a(4) unique_context_ids by (auto simp: chat_inv_def rows_ok_def context_check_def)
  let ?P = "\<lambda>d. digest_matches cfg n d \<and> cc_owner_subject d = strip owner \<and> cc_host_kind d = ''chatgpt'' \<and>
    cc_conversation_ref_hmac d \<noteq> None \<and> cc_conversation_key_version d \<noteq> None"
  have "filter ?P (update_where (\<lambda>x. cc_id x = cc_id c') (\<lambda>_. c') (contexts w)) = [c']"
    using a c' host
    by (intro filter_rewritten [OF u a(4)])
       (auto simp: bound_contexts_def context_key_def digest_matches_def split: option.splits)
  then have "filter (digest_matches cfg n) (bound_contexts (strip owner) ''chatgpt'' (contexts w')) = [c']"
    by (simp add: bound_contexts_def c'(4) store_context_def conj_commute)
  then show ?thesis
    using a c' by (simp add: resolve_conversation_def run_simps put_context_def context_key_def)
qed

theorem bind_then_resolve_witness:
  "\<exists>b w'. bind_conversation demo_cfg ''alice'' ''c1'' ''thread-7'' ''mcp'' demo_db = (Inr b, w') \<and>
     fst (resolve_conversation demo_cfg ''alice'' ''thread-7'' w') = Inr ''c1''"
proof -
  let ?r = "bind_conversation demo_cfg ''alice'' ''c1'' ''thread-7'' ''mcp'' demo_db"
  have "(case fst ?r of Inl _ \<Rightarrow> False | Inr b \<Rightarrow> bi_newly_bound b)" by code_simp
  then obtain b where b: "?r = (Inr b, snd ?r)" "bi_newly_bound b"
    by (cases "fst ?r") (auto simp: prod_eq_iff)
  show ?thesis using bind_then_resolve [OF demo_inv b] b(1) by blast
qed

section \<open>A closed context\<close>

text \<open>
  A closed context whose last alias has run out is reopened: \<open>_reconcile_alias\<close> sets its state
  to \<open>dormant\<close> before \<open>resolve_alias\<close> looks for \<open>closed\<close>, so the call is refused as expired
  instead of closed, the refusal is committed, and a refresh then leases the context again.
\<close>

definition demo_closed :: chat_db where
  "demo_closed = demo_db\<lparr>now_at := 300000000, contexts := [demo_context\<lparr>cc_state := ''closed''\<rparr>]\<rparr>"

definition demo_refused :: "(call_error + McpChatContextAdmission) \<times> chat_db" where
  "demo_refused = admit_chat_context demo_cfg ''alice'' ''read_file'' [(''chat_context'', JStr ''ABCD'')]
     ''required'' demo_closed"

lemma closed_context_reopened:
  "chat_inv demo_closed \<and> map cc_state (contexts demo_closed) = [''closed''] \<and>
   (case fst demo_refused of Inl (McpChatContextAdmissionError code _ _ _) \<Rightarrow> code = ''CHAT_CONTEXT_EXPIRED'' | _ \<Rightarrow> False) \<and>
   map cc_state (contexts (snd demo_refused)) = [''dormant'']"
  by code_simp

section \<open>The advertised tool surface\<close>

lemma required_names_free: "required_names schema = Inr names \<Longrightarrow> CHAT_CONTEXT_ARGUMENT \<notin> set names"
  unfolding required_names_def by auto

lemma decorate_schema_names:
  assumes run: "decorate_schema m schema = Inr schema'" and props: "dget schema ''properties'' = JObj props"
  shows "\<exists>names. CHAT_CONTEXT_ARGUMENT \<notin> set names \<and>
    schema' = (let r = (if m = ''required'' then CHAT_CONTEXT_ARGUMENT # names else names);
        d = dset ''properties'' (JObj ((CHAT_CONTEXT_ARGUMENT, argument_schema) # props)) schema
      in if r \<noteq> [] then dset ''required'' (JList (map JStr r)) d else dpop ''required'' d)"
proof -
  let ?d = "dset ''properties'' (JObj ((CHAT_CONTEXT_ARGUMENT, argument_schema) # props)) schema"
  obtain names where n: "required_names ?d = Inr names"
    using run unfolding decorate_schema_def props Let_def json.case bindE_eq_Inr by blast
  then have "schema' = (let r = (if m = ''required'' then CHAT_CONTEXT_ARGUMENT # names else names)
      in if r \<noteq> [] then dset ''required'' (JList (map JStr r)) ?d else dpop ''required'' ?d)"
    using run unfolding decorate_schema_def props Let_def json.case by (simp only: bindE.simps split: if_splits) simp_all
  then show ?thesis using required_names_free [OF n] unfolding Let_def by blast
qed

text \<open>
  A decorated tool advertises the reserved argument first, keeps every property the tool
  declared and every other field of the tool, and requires the argument exactly in the mode
  \<open>required\<close>.
\<close>

theorem decorate_public_tool_schema:
  assumes run: "decorate_public_tool tool mode = Inr tool'"
    and mode: "validate_chat_context_mode mode = Inr m" "m \<noteq> ''off''"
    and name: "str_or_empty (dget tool ''name'') \<notin> set CHAT_CONTEXT_EXEMPT_TOOLS"
    and schema: "dget tool ''inputSchema'' = JObj schema" "dget schema ''properties'' = JObj props"
  shows "\<exists>schema'. dget tool' ''inputSchema'' = JObj schema' \<and>
     dget schema' ''properties'' = JObj ((CHAT_CONTEXT_ARGUMENT, argument_schema) # props) \<and>
     CHAT_CONTEXT_ARGUMENT \<notin> fst ` set props \<and>
     (m = ''required'' \<longleftrightarrow> (\<exists>names. dget schema' ''required'' =
        JList (map JStr (CHAT_CONTEXT_ARGUMENT # names)))) \<and>
     (\<forall>k. k \<noteq> ''inputSchema'' \<longrightarrow> dget tool' k = dget tool k)"
proof -
  have free: "CHAT_CONTEXT_ARGUMENT \<notin> fst ` set props" and
    "\<exists>schema'. decorate_schema m schema = Inr schema' \<and> tool' = dset ''inputSchema'' (JObj schema') tool"
    using run mode name schema
    by (auto simp: decorate_public_tool_def Let_def tool_declares_reserved_chat_context_def dget_def
        split: if_splits option.splits)
  then obtain schema' where s: "decorate_schema m schema = Inr schema'"
    and tool': "tool' = dset ''inputSchema'' (JObj schema') tool" by blast
  then obtain names where names: "CHAT_CONTEXT_ARGUMENT \<notin> set names"
    and s': "schema' = (let r = (if m = ''required'' then CHAT_CONTEXT_ARGUMENT # names else names);
        d = dset ''properties'' (JObj ((CHAT_CONTEXT_ARGUMENT, argument_schema) # props)) schema
      in if r \<noteq> [] then dset ''required'' (JList (map JStr r)) d else dpop ''required'' d)"
    using decorate_schema_names [OF s schema(2)] by blast
have ne: "''properties'' \<noteq> ''required''" by simp
  have "dget schema' ''properties'' = JObj ((CHAT_CONTEXT_ARGUMENT, argument_schema) # props)"
    using ne by (simp add: s' Let_def dget_dset dget_dpop)
  moreover have "m = ''required'' \<longleftrightarrow> (\<exists>ns. dget schema' ''required'' = JList (map JStr (CHAT_CONTEXT_ARGUMENT # ns)))"
    using names by (cases names) (auto simp: s' Let_def dget_dset dget_dpop intro: exI [of _ names])
  ultimately show ?thesis using free tool' by (simp add: dget_dset)
qed

theorem decorate_public_tool_schema_witness:
  "\<exists>tool' schema'. decorate_public_tool [(''name'', JStr ''t''), (''inputSchema'', JObj [(''properties'', JObj [])])] ''required'' =
     Inr tool' \<and> dget tool' ''inputSchema'' = JObj schema' \<and>
     dget schema' ''properties'' = JObj [(CHAT_CONTEXT_ARGUMENT, argument_schema)]"
proof -
  let ?t = "[(''name'', JStr ''t''), (''inputSchema'', JObj [(''properties'', JObj [])])]"
  have "\<not> isl (decorate_public_tool ?t ''required'')" by code_simp
  then obtain tool' where run: "decorate_public_tool ?t ''required'' = Inr tool'"
    by (cases "decorate_public_tool ?t ''required''") auto
  have "validate_chat_context_mode ''required'' = Inr ''required''" by code_simp
  moreover have "str_or_empty (dget ?t ''name'') \<notin> set CHAT_CONTEXT_EXEMPT_TOOLS" by code_simp
  moreover have "dget ?t ''inputSchema'' = JObj [(''properties'', JObj [])]" by (simp add: dget_def)
  moreover have "dget [(''properties'', JObj [])] ''properties'' = JObj []" by (simp add: dget_def)
  ultimately show ?thesis
    using decorate_public_tool_schema [OF run] run by fastforce
qed

end
