(* ===== verification/Gateway_Models.thy ===== *)
theory Gateway_Models
  imports State_Result Py_Values
begin

text \<open>
  The rows of the tables that the agent services share (\<open>models.py\<close>), the settings they read,
  and the database state. Columns keep their names behind a prefix per table; a nullable column
  is an option, a JSON list of texts a \<^typ>\<open>string list\<close>, a JSON object its items, a timestamp
  its microseconds. Foreign keys and column lengths are not enforced by the model.
\<close>

section \<open>Rows\<close>

record User =
  us_subject :: string
  us_roles :: "string list"

record AccessGrant =
  gr_id :: string
  gr_owner_subject :: string
  gr_grantee_subject :: string
  gr_resource_type :: string
  gr_resource_id :: string
  gr_scopes :: "string list"
  gr_status :: string
  gr_created_at :: int

record AuditEvent =
  au_id :: string
  au_event_type :: string
  au_actor_subject :: string
  au_action :: string
  au_resource_type :: string
  au_resource_id :: "string option"
  au_status :: string
  au_payload :: "(string \<times> json) list"
  au_created_at :: int

record OutboxEvent =
  ob_id :: string
  ob_audit_event_id :: string
  ob_owner_subject :: string
  ob_event_type :: string
  ob_subject :: string
  ob_payload :: "(string \<times> json) list"
  ob_headers :: "(string \<times> json) list"
  ob_status :: string
  ob_attempt_count :: int
  ob_max_attempts :: int
  ob_available_at :: int
  ob_locked_by :: "string option"
  ob_lock_token :: "string option"
  ob_locked_at :: "int option"
  ob_published_at :: "int option"
  ob_broker_stream :: "string option"
  ob_broker_sequence :: "int option"
  ob_last_error :: "string option"
  ob_replay_count :: int
  ob_replayed_from_id :: "string option"
  ob_created_at :: int
  ob_updated_at :: int

record AgentInstance =
  ag_id :: string
  ag_owner_subject :: string
  ag_logical_agent_id :: string
  ag_instance_id :: string
  ag_display_name :: string
  ag_status :: string
  ag_capabilities :: "string list"
  ag_labels :: "(string \<times> json) list"
  ag_current_room_id :: "string option"
  ag_current_work_item_id :: "string option"
  ag_last_heartbeat_at :: int
  ag_expires_at :: "int option"
  ag_created_at :: int
  ag_updated_at :: int

record CollaborationRoom =
  ro_id :: string
  ro_owner_subject :: string
  ro_title :: string
  ro_project_path :: "string option"
  ro_repository_identity :: "string option"
  ro_base_commit :: "string option"
  ro_status :: string
  ro_policy :: "(string \<times> json) list"
  ro_created_by_agent_id :: "string option"
  ro_idempotency_key :: "string option"
  ro_created_at :: int
  ro_updated_at :: int

record AgentCommand =
  cm_id :: string
  cm_owner_subject :: string
  cm_room_id :: string
  cm_issuer_agent_id :: string
  cm_target_agent_id :: string
  cm_kind :: string
  cm_instruction :: string
  cm_structured_payload :: "(string \<times> json) list"
  cm_constraints :: "(string \<times> json) list"
  cm_priority :: int
  cm_status :: string
  cm_requires_approval :: bool
  cm_approved_by_subject :: "string option"
  cm_correlation_id :: "string option"
  cm_causation_id :: "string option"
  cm_idempotency_key :: "string option"
  cm_delivery_attempts :: int
  cm_delivered_at :: "int option"
  cm_acknowledged_at :: "int option"
  cm_accepted_at :: "int option"
  cm_completed_at :: "int option"
  cm_expires_at :: "int option"
  cm_result :: "(string \<times> json) list"
  cm_error :: "string option"
  cm_created_at :: int
  cm_updated_at :: int

record AgentWorkItem =
  wi_id :: string
  wi_owner_subject :: string
  wi_room_id :: string
  wi_parent_id :: "string option"
  wi_title :: string
  wi_description :: string
  wi_status :: string
  wi_priority :: int
  wi_assigned_agent_id :: "string option"
  wi_version :: int
  wi_base_commit :: "string option"
  wi_dependencies :: "string list"
  wi_acceptance_criteria :: "string list"
  wi_required_capabilities :: "string list"
  wi_assignment_constraints :: "(string \<times> json) list"
  wi_result :: "(string \<times> json) list"
  wi_idempotency_key :: "string option"
  wi_created_at :: int
  wi_updated_at :: int

text \<open>
  The normalised rule of an action class and the normalised recovery policy, the values
  \<open>_normalize_approval_rules\<close> and \<open>_normalize_recovery_policy\<close> store.
\<close>

record approval_rule =
  ar_quorum :: int
  ar_require_admin :: bool
  ar_disallow_proposer :: bool

record recovery_rule =
  rr_max_attempts :: int
  rr_base_backoff_seconds :: int
  rr_max_backoff_seconds :: int

record AutonomyPolicy =
  po_id :: string
  po_owner_subject :: string
  po_room_id :: string
  po_name :: string
  po_status :: string
  po_assignment_mode :: string
  po_coordinator_agent_id :: "string option"
  po_allowed_action_classes :: "string list"
  po_allowed_tools :: "string list"
  po_allowed_command_profiles :: "string list"
  po_max_parallel_assignments :: int
  po_approval_rules :: "(string \<times> approval_rule) list"
  po_recovery_policy :: recovery_rule
  po_generation :: int
  po_version :: int
  po_idempotency_key :: "string option"
  po_created_by_subject :: string
  po_created_at :: int
  po_updated_at :: int

record AutonomyControlState =
  ct_id :: string
  ct_owner_subject :: string
  ct_scope_type :: string
  ct_scope_id :: string
  ct_state :: string
  ct_generation :: int
  ct_reason :: "string option"
  ct_changed_by_subject :: string
  ct_expires_at :: "int option"
  ct_created_at :: int
  ct_updated_at :: int

record AutonomyOverride =
  ov_id :: string
  ov_owner_subject :: string
  ov_scope_type :: string
  ov_scope_id :: string
  ov_action :: string
  ov_previous_state :: "string option"
  ov_new_state :: "string option"
  ov_reason :: string
  ov_actor_subject :: string
  ov_evidence :: "(string \<times> json) list"
  ov_created_at :: int

record AutonomyAssignment =
  as_id :: string
  as_owner_subject :: string
  as_room_id :: string
  as_policy_id :: string
  as_work_item_id :: string
  as_selected_agent_id :: string
  as_status :: string
  as_score :: int
  as_rationale :: "(string \<times> json) list"
  as_policy_generation :: int
  as_work_item_version :: int
  as_idempotency_key :: "string option"
  as_created_by_subject :: string
  as_applied_at :: "int option"
  as_revoked_at :: "int option"
  as_created_at :: int
  as_updated_at :: int

record ApprovalRequest =
  ap_id :: string
  ap_owner_subject :: string
  ap_room_id :: string
  ap_policy_id :: string
  ap_command_id :: "string option"
  ap_work_item_id :: "string option"
  ap_integration_id :: "string option"
  ap_proposer_agent_id :: "string option"
  ap_executor_agent_id :: string
  ap_action_kind :: string
  ap_action_class :: string
  ap_tool :: string
  ap_command_profile :: "string option"
  ap_payload_hash :: string
  ap_payload_summary :: "(string \<times> json) list"
  ap_quorum_required :: int
  ap_require_admin_approval :: bool
  ap_disallow_proposer_vote :: bool
  ap_status :: string
  ap_policy_generation :: int
  ap_version :: int
  ap_idempotency_key :: "string option"
  ap_created_by_subject :: string
  ap_expires_at :: int
  ap_approved_at :: "int option"
  ap_rejected_at :: "int option"
  ap_revoked_at :: "int option"
  ap_created_at :: int
  ap_updated_at :: int

record ApprovalVote =
  vo_id :: string
  vo_owner_subject :: string
  vo_request_id :: string
  vo_voter_subject :: string
  vo_voter_roles :: "string list"
  vo_decision :: string
  vo_reason :: "string option"
  vo_created_at :: int

text \<open>The dictionary \<open>control_snapshot\<close> returns and a permit keeps.\<close>

record control_view =
  cv_enabled :: bool
  cv_effective_state :: string
  cv_reason :: "string option"
  cv_generations :: "(string \<times> int) list"

record ExecutionPermit =
  pe_id :: string
  pe_owner_subject :: string
  pe_approval_request_id :: string
  pe_policy_id :: string
  pe_command_id :: "string option"
  pe_executor_agent_id :: string
  pe_action_class :: string
  pe_tool :: string
  pe_command_profile :: "string option"
  pe_payload_hash :: string
  pe_status :: string
  pe_policy_generation :: int
  pe_control_snapshot :: control_view
  pe_fencing_token :: int
  pe_max_uses :: int
  pe_use_count :: int
  pe_issued_by_subject :: string
  pe_issued_at :: int
  pe_expires_at :: int
  pe_claimed_at :: "int option"
  pe_consumed_at :: "int option"
  pe_revoked_at :: "int option"
  pe_revocation_reason :: "string option"
  pe_created_at :: int
  pe_updated_at :: int

record ActionReceipt =
  re_id :: string
  re_owner_subject :: string
  re_permit_id :: string
  re_approval_request_id :: string
  re_command_id :: "string option"
  re_executor_agent_id :: string
  re_action_class :: string
  re_tool :: string
  re_command_profile :: "string option"
  re_status :: string
  re_input_hash :: string
  re_output_hash :: string
  re_result_summary :: "(string \<times> json) list"
  re_error :: "string option"
  re_external_references :: "json list"
  re_idempotency_key :: "string option"
  re_started_at :: int
  re_completed_at :: int
  re_created_at :: int

record RecoveryLoop =
  rl_id :: string
  rl_owner_subject :: string
  rl_room_id :: string
  rl_policy_id :: string
  rl_source_type :: string
  rl_source_id :: string
  rl_target_agent_id :: string
  rl_strategy :: "(string \<times> json) list"
  rl_status :: string
  rl_attempt_count :: int
  rl_max_attempts :: int
  rl_base_backoff_seconds :: int
  rl_next_attempt_at :: int
  rl_last_command_id :: "string option"
  rl_last_error :: "string option"
  rl_policy_generation :: int
  rl_generation :: int
  rl_idempotency_key :: "string option"
  rl_created_by_subject :: string
  rl_created_at :: int
  rl_updated_at :: int
  rl_completed_at :: "int option"

record AgentMessage =
  am_id :: string
  am_owner_subject :: string
  am_room_id :: string
  am_sender_agent_id :: string
  am_recipient_agent_id :: "string option"
  am_recipient_selector :: "string option"
  am_kind :: string
  am_body :: string
  am_payload :: "(string \<times> json) list"
  am_priority :: int
  am_correlation_id :: "string option"
  am_causation_id :: "string option"
  am_sequence_number :: int
  am_idempotency_key :: "string option"
  am_expires_at :: "int option"
  am_created_at :: int

record AgentMessageDelivery =
  md_id :: string
  md_owner_subject :: string
  md_message_id :: string
  md_recipient_agent_id :: string
  md_status :: string
  md_attempt_count :: int
  md_delivered_at :: "int option"
  md_acknowledged_at :: "int option"
  md_visibility_deadline :: "int option"
  md_created_at :: int
  md_updated_at :: int

text \<open>A normalised path reservation of a lease.\<close>

record reservation =
  rs_kind :: string
  rs_pattern :: string
  rs_recursive :: bool

record ResourceLease =
  ls_id :: string
  ls_owner_subject :: string
  ls_room_id :: string
  ls_holder_agent_id :: string
  ls_work_item_id :: "string option"
  ls_origin :: string
  ls_resource_id :: "string option"
  ls_mode :: string
  ls_reservations :: "reservation list"
  ls_fencing_token :: int
  ls_status :: string
  ls_branch_name :: "string option"
  ls_worktree_path :: "string option"
  ls_base_commit :: "string option"
  ls_expected_head :: "string option"
  ls_idempotency_key :: "string option"
  ls_meta :: "(string \<times> json) list"
  ls_acquired_at :: int
  ls_renewed_at :: int
  ls_expires_at :: int
  ls_released_at :: "int option"
  ls_created_at :: int
  ls_updated_at :: int

record AgentHandoffBarrier =
  hb_id :: string
  hb_owner_subject :: string
  hb_room_id :: string
  hb_source_agent_id :: string
  hb_target_agent_id :: string
  hb_lease_id :: string
  hb_expected_fencing_token :: int
  hb_required_change_ids :: "string list"
  hb_summary :: string
  hb_payload :: "(string \<times> json) list"
  hb_status :: string
  hb_conflict_report :: "(string \<times> json) list"
  hb_idempotency_key :: "string option"
  hb_ready_at :: "int option"
  hb_accepted_at :: "int option"
  hb_cancelled_at :: "int option"
  hb_created_at :: int
  hb_updated_at :: int

record AgentIntegrationRecord =
  ig_id :: string
  ig_owner_subject :: string
  ig_room_id :: string
  ig_coordinator_agent_id :: string
  ig_target_branch :: string
  ig_expected_target_head :: string
  ig_candidate_change_ids :: "string list"
  ig_comparison_change_ids :: "string list"
  ig_source_lease_ids :: "string list"
  ig_status :: string
  ig_conflict_report :: "(string \<times> json) list"
  ig_decision :: "(string \<times> json) list"
  ig_integrated_commit :: "string option"
  ig_idempotency_key :: "string option"
  ig_version :: int
  ig_created_at :: int
  ig_updated_at :: int
  ig_completed_at :: "int option"

record FileChangeSet =
  fc_id :: string
  fc_owner_subject :: string
  fc_chat_context_id :: "string option"
  fc_origin :: string
  fc_resource_id :: "string option"
  fc_tool_call_id :: "string option"
  fc_room_id :: "string option"
  fc_agent_id :: "string option"
  fc_lease_id :: "string option"
  fc_fencing_token :: "int option"
  fc_path :: string
  fc_operation :: string
  fc_before_sha256 :: "string option"
  fc_after_sha256 :: "string option"
  fc_base_commit :: "string option"
  fc_branch_name :: "string option"
  fc_worktree_path :: "string option"
  fc_added_lines :: int
  fc_removed_lines :: int
  fc_bytes_before :: int
  fc_bytes_after :: int
  fc_replacements :: int
  fc_diff_json :: "(string \<times> json) list"
  fc_truncated :: bool
  fc_suppressed :: bool
  fc_created_at :: int

record OutboxDeliveryAttempt =
  oa_id :: string
  oa_outbox_event_id :: string
  oa_attempt_number :: int
  oa_replica_id :: string
  oa_status :: string
  oa_error :: "string option"
  oa_broker_stream :: "string option"
  oa_broker_sequence :: "int option"
  oa_started_at :: int
  oa_completed_at :: "int option"

record ProcessedBrokerMessage =
  pm_message_id :: string
  pm_stream :: "string option"
  pm_consumer :: "string option"
  pm_subject :: string
  pm_payload_sha256 :: string
  pm_processed_at :: int

section \<open>Settings and state\<close>

text \<open>
  The settings the services read; the retry delays of the outbox, floats of seconds in the
  source, are whole microseconds. \<open>sha256_hex\<close> stands for the library call
  \<open>hashlib.sha256(data).hexdigest()\<close>.
\<close>

record gw_settings =
  gateway_autonomy_emergency_stop :: bool
  gateway_autonomy_assignment_batch_size :: int
  gateway_autonomy_approval_ttl_seconds :: int
  gateway_autonomy_permit_ttl_seconds :: int
  gateway_outbox_enabled :: bool
  gateway_outbox_max_attempts :: int
  gateway_outbox_batch_size :: int
  gateway_outbox_lock_ttl_seconds :: int
  gateway_outbox_retry_base_us :: int
  gateway_outbox_retry_max_us :: int
  gateway_nats_subject_prefix :: string
  sha256_hex :: "string \<Rightarrow> string"

record gdb =
  clock :: int
  id_src :: "nat \<Rightarrow> string"
  id_pos :: nat
  access_grants :: "AccessGrant list"
  audit_events :: "AuditEvent list"
  outbox_events :: "OutboxEvent list"
  agent_instances :: "AgentInstance list"
  collaboration_rooms :: "CollaborationRoom list"
  agent_commands :: "AgentCommand list"
  agent_work_items :: "AgentWorkItem list"
  autonomy_policies :: "AutonomyPolicy list"
  autonomy_control_states :: "AutonomyControlState list"
  autonomy_overrides :: "AutonomyOverride list"
  autonomy_assignments :: "AutonomyAssignment list"
  approval_requests :: "ApprovalRequest list"
  approval_votes :: "ApprovalVote list"
  execution_permits :: "ExecutionPermit list"
  action_receipts :: "ActionReceipt list"
  recovery_loops :: "RecoveryLoop list"
  agent_messages :: "AgentMessage list"
  agent_message_deliveries :: "AgentMessageDelivery list"
  resource_leases :: "ResourceLease list"
  agent_handoff_barriers :: "AgentHandoffBarrier list"
  agent_integration_records :: "AgentIntegrationRecord list"
  file_change_sets :: "FileChangeSet list"
  outbox_delivery_attempts :: "OutboxDeliveryAttempt list"
  processed_broker_messages :: "ProcessedBrokerMessage list"

type_synonym 'a gw = "(gdb, err, 'a) smon"

end
