(* ===== verification/Command_Policy.thy ===== *)
theory Command_Policy
  imports Py_Values
begin

text \<open>
  The agent command policy, \<open>agent_command_policy.py\<close>: which structured commands may be
  delivered to an agent, which may be executed under an allowlist, and the refusal of
  secret-like keys in stored JSON.
\<close>

section \<open>Constants and data\<close>

datatype policy_error = AgentCommandPolicyError string

definition SHELL_CAPABLE_TOOLS :: "string list" where
  "SHELL_CAPABLE_TOOLS =
     [''docker_workspace_exec'', ''run_cli_command'', ''ssh_device_run_command'',
      ''thin_client_run_command'']"

definition RAW_SHELL_ARGUMENT_KEYS :: "string list" where
  "RAW_SHELL_ARGUMENT_KEYS = [''args'', ''argv'', ''command'', ''script'', ''shell'']"

definition DELIVERABLE_COMMAND_KINDS :: "string list" where
  "DELIVERABLE_COMMAND_KINDS =
     [''handoff'', ''instruction'', ''pause'', ''resume'', ''review_request'', ''run_tool'']"

record AgentToolExecution =
  ex_tool :: string
  ex_arguments :: "(string \<times> json) list"
  ex_command_profile :: "string option"

section \<open>Tenant scope, arguments and allowlists\<close>

definition enforce_agent_tenant_scope :: "string \<Rightarrow> string \<Rightarrow> policy_error + unit" where
  "enforce_agent_tenant_scope actor_subject owner_subject =
     ensure (actor_subject \<noteq> [] \<and> actor_subject = owner_subject)
       (AgentCommandPolicyError ''Agent resource is outside the authenticated tenant scope'')"

definition mapping_value :: "json \<Rightarrow> string \<Rightarrow> policy_error + (string \<times> json) list" where
  "mapping_value value field =
     (case value of
        JObj kvs \<Rightarrow> Inr kvs
      | _ \<Rightarrow> Inl (AgentCommandPolicyError (field @ '' must be an object'')))"

definition normalized_allowlist :: "string list \<Rightarrow> string set" where
  "normalized_allowlist values = set (filter (\<lambda>v. v \<noteq> []) (map strip values))"

text \<open>\<open>dict(_mapping(payload.get("arguments") or {}, ...))\<close>\<close>

definition arguments_of :: "(string \<times> json) list \<Rightarrow> policy_error + (string \<times> json) list" where
  "arguments_of payload =
     mapping_value
       (if truthy (dget payload ''arguments'') then dget payload ''arguments'' else JObj [])
       ''structured_payload.arguments''"

definition forbidden_keys :: "(string \<times> json) list \<Rightarrow> string list" where
  "forbidden_keys arguments = filter (\<lambda>k. k \<in> fst ` set arguments) RAW_SHELL_ARGUMENT_KEYS"

section \<open>Executing and delivering commands\<close>

definition resolve_agent_command_execution ::
  "(string \<times> json) list \<Rightarrow> string list \<Rightarrow> string list \<Rightarrow> policy_error + AgentToolExecution" where
  "resolve_agent_command_execution command allowed_tools allowed_command_profiles =
     (let kind = strip (str_or_empty (dget command ''kind''))
      in bindE (ensure (kind = ''run_tool'')
           (AgentCommandPolicyError
              ''Text instructions are not executable; kind must be run_tool'')) (\<lambda>_.
         bindE (mapping_value (dget command ''structured_payload'') ''structured_payload'')
           (\<lambda>payload.
         let tool = strip (str_or_empty (dget payload ''tool''))
         in bindE (ensure (tool \<noteq> [])
              (AgentCommandPolicyError ''structured_payload.tool is required'')) (\<lambda>_.
            bindE (ensure (tool \<in> normalized_allowlist allowed_tools)
              (AgentCommandPolicyError
                 ''Tool is not allowed by the agent execution policy'')) (\<lambda>_.
            bindE (arguments_of payload) (\<lambda>arguments.
            if tool \<in> set SHELL_CAPABLE_TOOLS then
              bindE (ensure (forbidden_keys arguments = [])
                (AgentCommandPolicyError (''Raw shell arguments are forbidden: '' @
                   join '', '' (forbidden_keys arguments)))) (\<lambda>_.
              let command_profile = strip (str_or_empty (dget arguments ''command_profile''))
              in bindE (ensure (command_profile \<noteq> [])
                   (AgentCommandPolicyError
                      ''Shell-capable tools require command_profile'')) (\<lambda>_.
                 bindE (ensure (command_profile \<in> normalized_allowlist allowed_command_profiles)
                   (AgentCommandPolicyError
                      ''Command profile is not allowed by the agent execution policy'')) (\<lambda>_.
                 Inr \<lparr>ex_tool = tool, ex_arguments = arguments,
                      ex_command_profile = Some command_profile\<rparr>)))
            else
              Inr \<lparr>ex_tool = tool, ex_arguments = arguments, ex_command_profile = None\<rparr>))))))"

definition validate_agent_command_for_delivery ::
  "(string \<times> json) list \<Rightarrow> policy_error + unit" where
  "validate_agent_command_for_delivery command =
     (let kind = strip (str_or_empty (dget command ''kind''))
      in bindE (ensure (kind \<in> set DELIVERABLE_COMMAND_KINDS)
           (AgentCommandPolicyError ''Unsupported agent command kind'')) (\<lambda>_.
         let instruction = strip (str_or_empty (dget command ''instruction''))
         in bindE (ensure (instruction \<noteq> [])
              (AgentCommandPolicyError ''Agent command instruction is required'')) (\<lambda>_.
            if kind \<noteq> ''run_tool'' then Inr ()
            else
              bindE (mapping_value (dget command ''structured_payload'') ''structured_payload'')
                (\<lambda>payload.
              let tool = strip (str_or_empty (dget payload ''tool''))
              in bindE (ensure (tool \<noteq> [])
                   (AgentCommandPolicyError ''structured_payload.tool is required'')) (\<lambda>_.
                 bindE (arguments_of payload) (\<lambda>arguments.
                 if tool \<in> set SHELL_CAPABLE_TOOLS then
                   bindE (ensure (forbidden_keys arguments = [])
                     (AgentCommandPolicyError (''Raw shell arguments are forbidden: '' @
                        join '', '' (forbidden_keys arguments)))) (\<lambda>_.
                   ensure (strip (str_or_empty (dget arguments ''command_profile'')) \<noteq> [])
                     (AgentCommandPolicyError ''Shell-capable tools require command_profile''))
                 else Inr ()))))))"

section \<open>Secret-like keys\<close>

definition SECRET_LIKE_ARGUMENT_NAMES :: "string list" where
  "SECRET_LIKE_ARGUMENT_NAMES =
     [''access_token'', ''access_tokens'', ''api_key'', ''auth_token'', ''authorization'',
      ''bearer'', ''client_secret'', ''credential'', ''credentials'', ''github_token'',
      ''gitlab_token'', ''password'', ''passphrase'', ''private_key'', ''refresh_token'',
      ''secret'', ''token'']"

definition SECRET_LIKE_ARGUMENT_SUFFIXES :: "string list" where
  "SECRET_LIKE_ARGUMENT_SUFFIXES =
     [''apikey'', ''credential'', ''credentials'', ''password'', ''passphrase'', ''privatekey'',
      ''secret'', ''token'']"

definition normalized_secret_name :: "string \<Rightarrow> string" where
  "normalized_secret_name value = filter py_isalnum (map py_lower_char value)"

definition is_secret_like_name :: "string \<Rightarrow> bool" where
  "is_secret_like_name value \<longleftrightarrow>
     (let normalized = normalized_secret_name value
      in normalized \<in> set (map normalized_secret_name SECRET_LIKE_ARGUMENT_NAMES) \<or>
         (\<exists>suffix \<in> set SECRET_LIKE_ARGUMENT_SUFFIXES. endswith normalized suffix))"

lemma forE_cong [fundef_cong]:
  assumes "xs = ys" and "\<And>x. x \<in> set ys \<Longrightarrow> f x = g x"
  shows "forE f xs = forE g ys"
  using assms by (induction ys arbitrary: xs) auto

fun assert_no_secret_like_keys :: "string \<Rightarrow> json \<Rightarrow> policy_error + unit" where
  "assert_no_secret_like_keys field (JObj kvs) =
     forE (\<lambda>(key, item).
       bindE (ensure (\<not> is_secret_like_name key)
         (AgentCommandPolicyError
            (''Secret-like key is not accepted in '' @ field @ '': '' @ key))) (\<lambda>_.
       assert_no_secret_like_keys field item)) kvs"
| "assert_no_secret_like_keys field (JList xs) =
     forE (\<lambda>item. assert_no_secret_like_keys field item) xs"
| "assert_no_secret_like_keys field JNull = Inr ()"
| "assert_no_secret_like_keys field (JBool b) = Inr ()"
| "assert_no_secret_like_keys field (JInt i) = Inr ()"
| "assert_no_secret_like_keys field (JStr s) = Inr ()"

text \<open>\<open>_safe_structured\<close> of the services: a policy error becomes a 400.\<close>

definition safe_structured :: "json \<Rightarrow> string \<Rightarrow> json res" where
  "safe_structured value field =
     (case assert_no_secret_like_keys field value of
        Inl (AgentCommandPolicyError m) \<Rightarrow> Inl (HTTPException 400 m)
      | Inr _ \<Rightarrow> Inr value)"

text \<open>\<open>except AgentCommandPolicyError as exc: raise HTTPException(400, str(exc))\<close>\<close>

definition policy_to_http :: "policy_error + 'a \<Rightarrow> 'a res" where
  "policy_to_http r =
     (case r of Inl (AgentCommandPolicyError m) \<Rightarrow> Inl (HTTPException 400 m) | Inr x \<Rightarrow> Inr x)"

lemma policy_to_http_Inr [simp, op_simps]: "policy_to_http r = Inr x \<longleftrightarrow> r = Inr x"
  by (cases r) (auto simp: policy_to_http_def split: policy_error.splits)

section \<open>What the policy guarantees\<close>

text \<open>
  The keys a JSON value has at any depth, under objects and arrays alike: the meaning the
  recursive check is measured against.
\<close>

inductive key_occurs :: "string \<Rightarrow> json \<Rightarrow> bool" where
  here: "(k, v) \<in> set kvs \<Longrightarrow> key_occurs k (JObj kvs)"
| in_object: "(k', v) \<in> set kvs \<Longrightarrow> key_occurs k v \<Longrightarrow> key_occurs k (JObj kvs)"
| in_array: "v \<in> set xs \<Longrightarrow> key_occurs k v \<Longrightarrow> key_occurs k (JList xs)"

inductive_simps key_occurs_simps [simp]:
  "key_occurs k (JObj kvs)" "key_occurs k (JList xs)" "key_occurs k JNull"
  "key_occurs k (JBool b)" "key_occurs k (JInt i)" "key_occurs k (JStr s)"

lemma assert_no_secret_iff:
  "assert_no_secret_like_keys field v = Inr u \<longleftrightarrow> (\<forall>k. key_occurs k v \<longrightarrow> \<not> is_secret_like_name k)"
proof (induction field v arbitrary: u rule: assert_no_secret_like_keys.induct)
  case (1 field kvs)
  have item: "assert_no_secret_like_keys field v = Inr () \<longleftrightarrow>
      (\<forall>k. key_occurs k v \<longrightarrow> \<not> is_secret_like_name k)"
    if "(key, v) \<in> set kvs" "\<not> is_secret_like_name key" for key v
    using "1.IH" [OF that(1) refl _] that(2) by auto
  have "assert_no_secret_like_keys field (JObj kvs) = Inr u \<longleftrightarrow>
      (\<forall>key v. (key, v) \<in> set kvs \<longrightarrow>
         \<not> is_secret_like_name key \<and> assert_no_secret_like_keys field v = Inr ())"
    by (auto split: prod.splits)
  also have "\<dots> \<longleftrightarrow> (\<forall>key v. (key, v) \<in> set kvs \<longrightarrow>
         \<not> is_secret_like_name key \<and> (\<forall>k. key_occurs k v \<longrightarrow> \<not> is_secret_like_name k))"
    using item by blast
  also have "\<dots> \<longleftrightarrow> (\<forall>k. key_occurs k (JObj kvs) \<longrightarrow> \<not> is_secret_like_name k)"
    unfolding key_occurs_simps by blast
  finally show ?case .
next
  case (2 field xs)
  then show ?case by auto
qed auto

lemma safe_structured_Inr [op_simps]:
  "safe_structured v field = Inr v' \<longleftrightarrow>
     v' = v \<and> (\<forall>k. key_occurs k v \<longrightarrow> \<not> is_secret_like_name k)"
  unfolding assert_no_secret_iff [of field v "()", symmetric]
  by (auto simp: safe_structured_def split: sum.splits policy_error.splits)

lemma forbidden_keys_Nil:
  "forbidden_keys arguments = [] \<longleftrightarrow> fst ` set arguments \<inter> set RAW_SHELL_ARGUMENT_KEYS = {}"
  by (auto simp: forbidden_keys_def filter_empty_conv)

lemma normalized_allowlist_strip:
  "t \<in> normalized_allowlist values \<Longrightarrow> \<exists>v \<in> set values. t = strip v \<and> t \<noteq> []"
  by (auto simp: normalized_allowlist_def)

end
