(* ===== verification/Gateway_Store.thy ===== *)
theory Gateway_Store
  imports Gateway_Models Command_Policy
begin

text \<open>
  What the agent services share: text and number arguments (\<open>_required_text\<close>,
  \<open>_optional_text\<close>, \<open>_bounded_int\<close>), lookups by owner, inserts against the unique constraints,
  transactions, and the audit and outbox rows of \<open>events.py\<close>.
\<close>

section \<open>Arguments\<close>

definition required_text :: "string \<Rightarrow> string \<Rightarrow> nat \<Rightarrow> string res" where
  "required_text value field maximum =
     (let text = strip value
      in if text = [] then Inl (HTTPException 400 (field @ '' is required''))
         else if length text > maximum
         then Inl (HTTPException 400 (field @ '' exceeds length limit''))
         else Inr text)"

definition optional_text :: "string option \<Rightarrow> nat \<Rightarrow> string option res" where
  "optional_text value maximum = (case value of
     None \<Rightarrow> Inr None
   | Some v \<Rightarrow>
       let text = strip v
       in if text = [] then Inr None
          else if length text > maximum then Inl (HTTPException 400 ''value exceeds length limit'')
          else Inr (Some text))"

text \<open>
  \<open>int(text)\<close>: blanks around, one sign, decimal digits with single underscores between them.
\<close>

definition is_digit :: "char \<Rightarrow> bool" where
  "is_digit c \<longleftrightarrow> (let n = (of_char c :: nat) in 48 \<le> n \<and> n \<le> 57)"

fun digits_value :: "int \<Rightarrow> bool \<Rightarrow> string \<Rightarrow> int option" where
  "digits_value acc after_digit [] = (if after_digit then Some acc else None)"
| "digits_value acc after_digit (c # cs) =
     (if is_digit c then digits_value (10 * acc + (int (of_char c) - 48)) True cs
      else if c = CHR ''_'' \<and> after_digit \<and> cs \<noteq> [] \<and> is_digit (hd cs) then digits_value acc False cs
      else None)"

definition int_of_text :: "string \<Rightarrow> int option" where
  "int_of_text s =
     (case strip s of
        [] \<Rightarrow> None
      | c # cs \<Rightarrow>
          if c = CHR ''-'' then map_option uminus (digits_value 0 False cs)
          else if c = CHR ''+'' then digits_value 0 False cs
          else digits_value 0 False (c # cs))"

definition py_int :: "json \<Rightarrow> int option" where
  "py_int v = (case v of
     JBool b \<Rightarrow> Some (if b then 1 else 0)
   | JInt i \<Rightarrow> Some i
   | JStr s \<Rightarrow> int_of_text s
   | _ \<Rightarrow> None)"

definition bounded_int :: "json \<Rightarrow> string \<Rightarrow> int \<Rightarrow> int \<Rightarrow> int option \<Rightarrow> int res" where
  "bounded_int value field minimum maximum dflt =
     (case (if value = JNull then dflt else py_int value) of
        None \<Rightarrow> Inl (HTTPException 400 (field @ '' must be an integer''))
      | Some parsed \<Rightarrow>
          if parsed < minimum \<or> parsed > maximum
          then Inl (HTTPException 400
                 (field @ '' must be between '' @ int_dec minimum @ '' and '' @ int_dec maximum))
          else Inr parsed)"

text \<open>
  \<open>dict(value)\<close>: an object, or an array of pairs whose first component is a text. Anything else
  that is not empty raises.
\<close>

fun pairs_dict :: "json list \<Rightarrow> (string \<times> json) list \<Rightarrow> (string \<times> json) list res" where
  "pairs_dict [] d = Inr d"
| "pairs_dict (x # xs) d = (case x of
     JList [JStr k, v] \<Rightarrow> pairs_dict xs (dset k v d)
   | JStr [a, b] \<Rightarrow> pairs_dict xs (dset [a] (JStr [b]) d)
   | _ \<Rightarrow> Inl (ValueError ''dict''))"

definition py_dict :: "json \<Rightarrow> (string \<times> json) list res" where
  "py_dict v = (case v of
     JObj d \<Rightarrow> Inr d
   | JList xs \<Rightarrow> pairs_dict xs []
   | _ \<Rightarrow> Inl (ValueError ''dict''))"

text \<open>\<open>dict(value or {})\<close>\<close>

definition dict_or_empty :: "json \<Rightarrow> (string \<times> json) list res" where
  "dict_or_empty v = (if truthy v then py_dict v else Inr [])"

text \<open>\<open>list(value or [])\<close>: the elements of an array, the keys of an object, the characters of a text.\<close>

definition list_or_empty :: "json \<Rightarrow> json list res" where
  "list_or_empty v = (if \<not> truthy v then Inr [] else case v of
     JList xs \<Rightarrow> Inr xs
   | JObj d \<Rightarrow> Inr (map (\<lambda>(k, _). JStr k) d)
   | JStr s \<Rightarrow> Inr (map (\<lambda>c. JStr [c]) s)
   | _ \<Rightarrow> Inl (ValueError ''list''))"

text \<open>\<open>d.get(key, default)\<close>\<close>

definition dget_or :: "(string \<times> json) list \<Rightarrow> string \<Rightarrow> json \<Rightarrow> json" where
  "dget_or d k v = (case map_of d k of None \<Rightarrow> v | Some x \<Rightarrow> x)"

text \<open>An optional integer of a request body, as the JSON value it came from.\<close>

definition jint :: "int option \<Rightarrow> json" where
  "jint v = (case v of None \<Rightarrow> JNull | Some i \<Rightarrow> JInt i)"

lemma required_text_Inr [simp, op_simps]:
  "required_text v f m = Inr t \<longleftrightarrow> t = strip v \<and> t \<noteq> [] \<and> length t \<le> m"
  by (auto simp: required_text_def Let_def)

text \<open>Length limits are compared as integers when a run is evaluated.\<close>

definition text_exceeds :: "string \<Rightarrow> int \<Rightarrow> bool" where
  "text_exceeds text maximum \<longleftrightarrow> int (length text) > maximum"

definition required_within :: "string \<Rightarrow> string \<Rightarrow> int \<Rightarrow> string res" where
  "required_within value field maximum =
     (let text = strip value
      in if text = [] then Inl (HTTPException 400 (field @ '' is required''))
         else if text_exceeds text maximum then Inl (HTTPException 400 (field @ '' exceeds length limit''))
         else Inr text)"

definition optional_within :: "string option \<Rightarrow> int \<Rightarrow> string option res" where
  "optional_within value maximum = (case value of
     None \<Rightarrow> Inr None
   | Some v \<Rightarrow>
       let text = strip v
       in if text = [] then Inr None
          else if text_exceeds text maximum then Inl (HTTPException 400 ''value exceeds length limit'')
          else Inr (Some text))"

lemma text_exceeds_numeral: "numeral n < length t \<longleftrightarrow> text_exceeds t (numeral n)"
  unfolding text_exceeds_def by (metis of_nat_less_iff of_nat_numeral)

lemma required_text_within [code_unfold]: "required_text v f (nat_of_num n) = required_within v f (numeral n)"
  by (simp add: required_text_def required_within_def Let_def nat_of_num_numeral text_exceeds_numeral)

lemma optional_text_within [code_unfold]: "optional_text v (nat_of_num n) = optional_within v (numeral n)"
  by (cases v) (simp_all add: optional_text_def optional_within_def Let_def nat_of_num_numeral text_exceeds_numeral)

lemma optional_text_Inr:
  "optional_text v m = Inr t \<Longrightarrow> t = Some x \<Longrightarrow> x \<noteq> [] \<and> length x \<le> m \<and> (\<exists>y. v = Some y \<and> x = strip y)"
  by (auto simp: optional_text_def Let_def split: option.splits if_splits)

lemma bounded_int_Inr:
  "bounded_int v f lo hi d = Inr i \<Longrightarrow> lo \<le> i \<and> i \<le> hi"
  by (auto simp: bounded_int_def split: option.splits if_splits)

section \<open>Canonical payloads\<close>

text \<open>\<open>_sha256\<close>: the digest of the canonical JSON text of a value.\<close>

definition sha256 :: "gw_settings \<Rightarrow> json \<Rightarrow> string" where
  "sha256 cfg value = sha256_hex cfg (utf8 (dumps value))"

section \<open>Queries and writes\<close>

definition new_id :: "string gw" where
  "new_id = (\<lambda>w. (Inr (id_src w (id_pos w)), w\<lparr>id_pos := Suc (id_pos w)\<rparr>))"

text \<open>\<open>db.query(...).filter(...).one_or_none()\<close>\<close>

definition query_one :: "('r \<Rightarrow> bool) \<Rightarrow> (gdb \<Rightarrow> 'r list) \<Rightarrow> 'r option gw" where
  "query_one P table = bindS (gets table) (\<lambda>rows. liftE (one_or_none P rows))"

definition fetch :: "('r \<Rightarrow> bool) \<Rightarrow> (gdb \<Rightarrow> 'r list) \<Rightarrow> string \<Rightarrow> 'r gw" where
  "fetch P table detail = bindS (query_one P table) (\<lambda>found.
     case found of None \<Rightarrow> raise (HTTPException 404 detail) | Some r \<Rightarrow> ret r)"

definition get_room :: "string \<Rightarrow> string \<Rightarrow> CollaborationRoom gw" where
  "get_room owner_subject room_id =
     fetch (\<lambda>r. ro_id r = room_id \<and> ro_owner_subject r = owner_subject) collaboration_rooms
       ''Collaboration room not found''"

definition get_agent :: "string \<Rightarrow> string \<Rightarrow> AgentInstance gw" where
  "get_agent owner_subject agent_id =
     fetch (\<lambda>a. ag_id a = agent_id \<and> ag_owner_subject a = owner_subject) agent_instances
       ''Agent instance not found''"

definition get_policy :: "string \<Rightarrow> string \<Rightarrow> AutonomyPolicy gw" where
  "get_policy owner_subject policy_id =
     fetch (\<lambda>p. po_id p = policy_id \<and> po_owner_subject p = owner_subject) autonomy_policies
       ''Autonomy policy not found''"

definition get_work_item :: "string \<Rightarrow> string \<Rightarrow> AgentWorkItem gw" where
  "get_work_item owner_subject work_item_id =
     fetch (\<lambda>i. wi_id i = work_item_id \<and> wi_owner_subject i = owner_subject) agent_work_items
       ''Work item not found''"

definition get_command :: "string \<Rightarrow> string \<Rightarrow> AgentCommand gw" where
  "get_command owner_subject command_id =
     fetch (\<lambda>c. cm_id c = command_id \<and> cm_owner_subject c = owner_subject) agent_commands
       ''Agent command not found''"

definition get_approval :: "string \<Rightarrow> ApprovalRequest gw" where
  "get_approval request_id = bindS (gets (\<lambda>w. find (\<lambda>r. ap_id r = request_id) (approval_requests w)))
     (\<lambda>found. case found of
        None \<Rightarrow> raise (HTTPException 404 ''Approval request not found'') | Some r \<Rightarrow> ret r)"

definition get_permit :: "string \<Rightarrow> string \<Rightarrow> ExecutionPermit gw" where
  "get_permit owner_subject permit_id =
     fetch (\<lambda>p. pe_id p = permit_id \<and> pe_owner_subject p = owner_subject) execution_permits
       ''Execution permit not found''"

definition get_assignment :: "string \<Rightarrow> string \<Rightarrow> AutonomyAssignment gw" where
  "get_assignment owner_subject assignment_id =
     fetch (\<lambda>a. as_id a = assignment_id \<and> as_owner_subject a = owner_subject) autonomy_assignments
       ''Autonomy assignment not found''"

definition get_recovery :: "string \<Rightarrow> string \<Rightarrow> RecoveryLoop gw" where
  "get_recovery owner_subject loop_id =
     fetch (\<lambda>l. rl_id l = loop_id \<and> rl_owner_subject l = owner_subject) recovery_loops
       ''Recovery loop not found''"

text \<open>
  A flush that inserts one row: \<open>clash\<close> says which stored rows break the primary key or a
  unique constraint with it.
\<close>

definition insert_row ::
  "('r \<Rightarrow> bool) \<Rightarrow> (gdb \<Rightarrow> 'r list) \<Rightarrow> (gdb \<Rightarrow> gdb) \<Rightarrow> unit gw" where
  "insert_row clash table add = (\<lambda>w. if list_ex clash (table w) then (Inl IntegrityError, w) else (Inr (), add w))"

definition same_key :: "string option \<Rightarrow> string option \<Rightarrow> bool" where
  "same_key a b \<longleftrightarrow> a \<noteq> None \<and> a = b"

definition add_policy :: "AutonomyPolicy \<Rightarrow> unit gw" where
  "add_policy p = insert_row (\<lambda>q. po_id q = po_id p \<or>
       (po_owner_subject q = po_owner_subject p \<and> same_key (po_idempotency_key q) (po_idempotency_key p)))
     autonomy_policies (\<lambda>w. w\<lparr>autonomy_policies := autonomy_policies w @ [p]\<rparr>)"

definition add_control :: "AutonomyControlState \<Rightarrow> unit gw" where
  "add_control c = insert_row (\<lambda>d. ct_id d = ct_id c \<or>
       (ct_owner_subject d = ct_owner_subject c \<and> ct_scope_type d = ct_scope_type c \<and> ct_scope_id d = ct_scope_id c))
     autonomy_control_states (\<lambda>w. w\<lparr>autonomy_control_states := autonomy_control_states w @ [c]\<rparr>)"

definition add_override :: "AutonomyOverride \<Rightarrow> unit gw" where
  "add_override v = insert_row (\<lambda>x. ov_id x = ov_id v) autonomy_overrides
     (\<lambda>w. w\<lparr>autonomy_overrides := autonomy_overrides w @ [v]\<rparr>)"

definition add_assignment :: "AutonomyAssignment \<Rightarrow> unit gw" where
  "add_assignment a = insert_row (\<lambda>b. as_id b = as_id a \<or>
       (as_owner_subject b = as_owner_subject a \<and> same_key (as_idempotency_key b) (as_idempotency_key a)))
     autonomy_assignments (\<lambda>w. w\<lparr>autonomy_assignments := autonomy_assignments w @ [a]\<rparr>)"

definition add_approval :: "ApprovalRequest \<Rightarrow> unit gw" where
  "add_approval r = insert_row (\<lambda>q. ap_id q = ap_id r \<or>
       (ap_owner_subject q = ap_owner_subject r \<and> same_key (ap_idempotency_key q) (ap_idempotency_key r)))
     approval_requests (\<lambda>w. w\<lparr>approval_requests := approval_requests w @ [r]\<rparr>)"

definition add_vote :: "ApprovalVote \<Rightarrow> unit gw" where
  "add_vote v = insert_row (\<lambda>u. vo_id u = vo_id v \<or>
       (vo_request_id u = vo_request_id v \<and> vo_voter_subject u = vo_voter_subject v))
     approval_votes (\<lambda>w. w\<lparr>approval_votes := approval_votes w @ [v]\<rparr>)"

definition add_permit :: "ExecutionPermit \<Rightarrow> unit gw" where
  "add_permit p = insert_row (\<lambda>q. pe_id q = pe_id p \<or> pe_approval_request_id q = pe_approval_request_id p)
     execution_permits (\<lambda>w. w\<lparr>execution_permits := execution_permits w @ [p]\<rparr>)"

definition add_receipt :: "ActionReceipt \<Rightarrow> unit gw" where
  "add_receipt r = insert_row (\<lambda>q. re_id q = re_id r \<or> re_permit_id q = re_permit_id r \<or>
       (re_owner_subject q = re_owner_subject r \<and> same_key (re_idempotency_key q) (re_idempotency_key r)))
     action_receipts (\<lambda>w. w\<lparr>action_receipts := action_receipts w @ [r]\<rparr>)"

definition add_recovery :: "RecoveryLoop \<Rightarrow> unit gw" where
  "add_recovery l = insert_row (\<lambda>q. rl_id q = rl_id l \<or>
       (rl_owner_subject q = rl_owner_subject l \<and> same_key (rl_idempotency_key q) (rl_idempotency_key l)))
     recovery_loops (\<lambda>w. w\<lparr>recovery_loops := recovery_loops w @ [l]\<rparr>)"

text \<open>Writing a loaded object back to its row.\<close>

definition put_request :: "ApprovalRequest \<Rightarrow> unit gw" where
  "put_request r = modify (\<lambda>w. w\<lparr>approval_requests :=
     update_where (\<lambda>q. ap_id q = ap_id r) (\<lambda>_. r) (approval_requests w)\<rparr>)"

definition put_permit :: "ExecutionPermit \<Rightarrow> unit gw" where
  "put_permit p = modify (\<lambda>w. w\<lparr>execution_permits :=
     update_where (\<lambda>q. pe_id q = pe_id p) (\<lambda>_. p) (execution_permits w)\<rparr>)"

definition put_command :: "AgentCommand \<Rightarrow> unit gw" where
  "put_command c = modify (\<lambda>w. w\<lparr>agent_commands :=
     update_where (\<lambda>q. cm_id q = cm_id c) (\<lambda>_. c) (agent_commands w)\<rparr>)"

definition put_control :: "AutonomyControlState \<Rightarrow> unit gw" where
  "put_control c = modify (\<lambda>w. w\<lparr>autonomy_control_states :=
     update_where (\<lambda>q. ct_id q = ct_id c) (\<lambda>_. c) (autonomy_control_states w)\<rparr>)"

definition put_loop :: "RecoveryLoop \<Rightarrow> unit gw" where
  "put_loop l = modify (\<lambda>w. w\<lparr>recovery_loops :=
     update_where (\<lambda>q. rl_id q = rl_id l) (\<lambda>_. l) (recovery_loops w)\<rparr>)"

definition put_agent :: "AgentInstance \<Rightarrow> unit gw" where
  "put_agent a = modify (\<lambda>w. w\<lparr>agent_instances :=
     update_where (\<lambda>q. ag_id q = ag_id a) (\<lambda>_. a) (agent_instances w)\<rparr>)"

definition put_item :: "AgentWorkItem \<Rightarrow> unit gw" where
  "put_item i = modify (\<lambda>w. w\<lparr>agent_work_items :=
     update_where (\<lambda>q. wi_id q = wi_id i) (\<lambda>_. i) (agent_work_items w)\<rparr>)"

definition put_assignment :: "AutonomyAssignment \<Rightarrow> unit gw" where
  "put_assignment a = modify (\<lambda>w. w\<lparr>autonomy_assignments :=
     update_where (\<lambda>q. as_id q = as_id a) (\<lambda>_. a) (autonomy_assignments w)\<rparr>)"

section \<open>Transactions\<close>

text \<open>
  A service call commits its work at its end. When it raises, the session is closed without a
  commit and the tables are as before.
\<close>

definition atomically :: "'a gw \<Rightarrow> 'a gw" where
  "atomically m = (\<lambda>w. case m w of (Inl e, w') \<Rightarrow> (Inl e, w) | (Inr x, w') \<Rightarrow> (Inr x, w'))"

declare atomically_def [code_unfold]

text \<open>\<open>try: ... except IntegrityError: db.rollback(); handler\<close>\<close>

definition on_conflict :: "'a gw \<Rightarrow> 'a gw \<Rightarrow> 'a gw" where
  "on_conflict m handler = (\<lambda>w. case m w of
     (Inl e, w') \<Rightarrow> if e = IntegrityError then handler w else (Inl e, w')
   | (Inr x, w') \<Rightarrow> (Inr x, w'))"

declare on_conflict_def [code_unfold]

section \<open>Events\<close>

definition event_subject :: "gw_settings \<Rightarrow> string \<Rightarrow> string" where
  "event_subject cfg event_type =
     (let dot = (\<lambda>c. c = CHR ''.'');
          prefix = rev (dropWhile dot (rev (dropWhile dot (gateway_nats_subject_prefix cfg))))
      in if prefix \<noteq> [] then prefix @ ''.'' @ event_type else event_type)"

record event_request =
  ev_type :: string
  ev_actor :: string
  ev_act :: string
  ev_resource_type :: string
  ev_resource_id :: "string option"
  ev_payload :: "(string \<times> json) list"
  ev_owner :: "string option"
  ev_status :: string

definition or_else :: "string option \<Rightarrow> string \<Rightarrow> string" where
  "or_else o' d = (case o' of Some (c # s) \<Rightarrow> c # s | _ \<Rightarrow> d)"

text \<open>\<open>{**payload, "event_id": ..., "occurred_at": ...}\<close>\<close>

definition envelope :: "(string \<times> json) list \<Rightarrow> string \<Rightarrow> int \<Rightarrow> (string \<times> json) list" where
  "envelope payload event_id now =
     dset ''occurred_at'' (JStr (isoformat now)) (dset ''event_id'' (JStr event_id) payload)"

definition outbox_row ::
  "gw_settings \<Rightarrow> event_request \<Rightarrow> string \<Rightarrow> string \<Rightarrow> int \<Rightarrow> OutboxEvent" where
  "outbox_row cfg ev event_id i now =
     (let owner = or_else (ev_owner ev) (ev_actor ev)
      in \<lparr>ob_id = i, ob_audit_event_id = event_id, ob_owner_subject = owner,
          ob_event_type = ev_type ev, ob_subject = event_subject cfg (ev_type ev),
          ob_payload = envelope (ev_payload ev) event_id now,
          ob_headers = [(''Content-Type'', JStr ''application/json''), (''Nats-Msg-Id'', JStr event_id),
            (''X-Gateway-Event-Id'', JStr event_id), (''X-Gateway-Event-Type'', JStr (ev_type ev)),
            (''X-Gateway-Actor-Subject'', JStr (ev_actor ev)), (''X-Gateway-Owner-Subject'', JStr owner),
            (''X-Gateway-Action'', JStr (ev_act ev)), (''X-Gateway-Resource-Type'', JStr (ev_resource_type ev)),
            (''X-Gateway-Resource-Id'', JStr (or_else (ev_resource_id ev) [])),
            (''X-Gateway-Status'', JStr (ev_status ev))],
          ob_status = ''pending'', ob_attempt_count = 0,
          ob_max_attempts = max 1 (gateway_outbox_max_attempts cfg), ob_available_at = now,
          ob_locked_by = None, ob_lock_token = None, ob_locked_at = None, ob_published_at = None,
          ob_broker_stream = None, ob_broker_sequence = None, ob_last_error = None,
          ob_replay_count = 0, ob_replayed_from_id = None, ob_created_at = now, ob_updated_at = now\<rparr>)"

definition emit_event :: "gw_settings \<Rightarrow> event_request \<Rightarrow> unit gw" where
  "emit_event cfg ev =
     bindS (gets clock) (\<lambda>now.
     bindS new_id (\<lambda>event_id.
     bindS (insert_row (\<lambda>e. au_id e = event_id) audit_events (\<lambda>w. w\<lparr>audit_events := audit_events w @
       [\<lparr>au_id = event_id, au_event_type = ev_type ev, au_actor_subject = ev_actor ev,
         au_action = ev_act ev, au_resource_type = ev_resource_type ev,
         au_resource_id = ev_resource_id ev, au_status = ev_status ev, au_payload = ev_payload ev,
         au_created_at = now\<rparr>]\<rparr>)) (\<lambda>_.
     if gateway_outbox_enabled cfg then
       bindS new_id (\<lambda>i.
       insert_row (\<lambda>o'. ob_id o' = i \<or> ob_audit_event_id o' = event_id) outbox_events
         (\<lambda>w. w\<lparr>outbox_events := outbox_events w @ [outbox_row cfg ev event_id i now]\<rparr>))
     else ret ())))"

section \<open>Rules for the guarantees of a call\<close>

text \<open>
  Only what a call that returns guarantees is of interest below: a call that raises leaves the
  tables as they were. \<open>wpr m Q\<close> is the guarantee of a run that returns.
\<close>

abbreviation wpr :: "'a gw \<Rightarrow> ('a \<Rightarrow> gdb \<Rightarrow> bool) \<Rightarrow> gdb \<Rightarrow> bool" where
  "wpr m Q \<equiv> wp m Q (\<lambda>_ _. True)"

lemma wpr_fetch:
  "(\<And>r. r \<in> set (table w) \<Longrightarrow> P r \<Longrightarrow> Q r w) \<Longrightarrow> wpr (fetch P table d) Q w"
  by (auto simp: fetch_def query_one_def dest: one_or_none_Some split: sum.splits option.splits)

lemma wpr_query_one:
  assumes "\<And>r. r \<in> set (table w) \<Longrightarrow> P r \<Longrightarrow> Q (Some r) w" and "\<forall>r \<in> set (table w). \<not> P r \<Longrightarrow> Q None w"
  shows "wpr (query_one P table) Q w"
proof -
  have "Q found w" if "one_or_none P (table w) = Inr found" for found
    using that assms one_or_none_Some [of P "table w"] by (cases found) auto
  then show ?thesis by (simp add: query_one_def split: sum.splits)
qed

lemma wpr_get_approval:
  "(\<And>r. r \<in> set (approval_requests w) \<Longrightarrow> ap_id r = i \<Longrightarrow> Q r w) \<Longrightarrow> wpr (get_approval i) Q w"
  by (auto simp: get_approval_def dest: find_Some_in split: option.splits)

lemma wpr_lift: "(\<And>x. r = Inr x \<Longrightarrow> Q x w) \<Longrightarrow> wpr (liftE r) Q w"
  by (simp split: sum.splits)

lemma wpr_guard: "(c \<Longrightarrow> Q () w) \<Longrightarrow> wpr (guardS c e) Q w"
  by simp

lemma wpr_new_id: "(\<And>i. Q i (w\<lparr>id_pos := Suc (id_pos w)\<rparr>)) \<Longrightarrow> wpr new_id Q w"
  by (simp add: wp_def new_id_def)

lemma wpr_insert_row:
  "(\<not> list_ex clash (table w) \<Longrightarrow> Q () (add w)) \<Longrightarrow> wpr (insert_row clash table add) Q w"
  by (simp add: wp_def insert_row_def)

lemma wpr_atomically: "wpr m Q w \<Longrightarrow> wpr (atomically m) Q w"
  by (auto simp: wp_def atomically_def split: prod.splits sum.splits)

lemma wpr_on_conflict: "wpr m Q w \<Longrightarrow> wpr h Q w \<Longrightarrow> wpr (on_conflict m h) Q w"
  by (auto simp: wp_def on_conflict_def split: prod.splits sum.splits)

lemma wpr_mono: "wpr m Q' w \<Longrightarrow> (\<And>x t. Q' x t \<Longrightarrow> Q x t) \<Longrightarrow> wpr m Q w"
  using wp_mono [of m Q' "\<lambda>_ _. True" w Q "\<lambda>_ _. True"] by blast

lemma atomically_Inl: "atomically m w = (Inl e, w') \<Longrightarrow> w' = w"
  by (auto simp: atomically_def split: prod.splits sum.splits)

lemmas wpr_intros = wpr_fetch wpr_query_one wpr_get_approval wpr_lift wpr_guard wpr_new_id
  wpr_insert_row wpr_on_conflict

section \<open>The event sink\<close>

text \<open>
  What a service relies on when it emits an event: the call touches nothing but the audit
  trail, the outbox and the supply of identifiers.
\<close>

definition only_events :: "gdb \<Rightarrow> gdb \<Rightarrow> bool" where
  "only_events w w' \<longleftrightarrow> (\<exists>a b n. w' = w\<lparr>audit_events := a, outbox_events := b, id_pos := n\<rparr>)"

lemma only_eventsI: "w' = w\<lparr>audit_events := a, outbox_events := b, id_pos := n\<rparr> \<Longrightarrow> only_events w w'"
  unfolding only_events_def by blast

lemma only_events_refl: "only_events w w"
  by (rule only_eventsI [where a = "audit_events w" and b = "outbox_events w" and n = "id_pos w"]) simp

lemma only_events_trans: "only_events u v \<Longrightarrow> only_events v w \<Longrightarrow> only_events u w"
  unfolding only_events_def by (elim exE, rule only_eventsI [unfolded only_events_def]) simp

interpretation only_events: state_relation only_events
  by unfold_locales (auto intro: only_events_refl only_events_trans)

locale event_sink =
  fixes emit :: "event_request \<Rightarrow> unit gw"
  assumes emit_frame: "keeps only_events (emit ev)"
begin

lemma wpr_emit:
  assumes "\<And>a b n. Q () (w\<lparr>audit_events := a, outbox_events := b, id_pos := n\<rparr>)"
  shows "wpr (emit ev) Q w"
proof (rule wpI)
  fix x t
  assume "emit ev w = (Inr x, t)"
  then have "only_events w t" using keepsD [OF emit_frame] by blast
  then show "Q x t" using assms by (auto simp: only_events_def)
qed simp

end

lemma events_new_id: "keeps only_events new_id"
  unfolding keeps_def new_id_def
proof
  fix w
  show "only_events w (snd (Inr (id_src w (id_pos w)), w\<lparr>id_pos := Suc (id_pos w)\<rparr>))"
    by (rule only_eventsI [where a = "audit_events w" and b = "outbox_events w"]) simp
qed

lemma keeps_audit_row: "keeps only_events (insert_row c t (\<lambda>w. w\<lparr>audit_events := f w\<rparr>))"
  unfolding keeps_def insert_row_def
proof
  fix w
  have "only_events w (w\<lparr>audit_events := f w\<rparr>)"
    by (rule only_eventsI [where a = "f w" and b = "outbox_events w" and n = "id_pos w"]) simp
  then show "only_events w (snd (if list_ex c (t w) then (Inl IntegrityError, w)
      else (Inr (), w\<lparr>audit_events := f w\<rparr>)))"
    by (simp add: only_events_refl)
qed

lemma keeps_outbox_row: "keeps only_events (insert_row c t (\<lambda>w. w\<lparr>outbox_events := f w\<rparr>))"
  unfolding keeps_def insert_row_def
proof
  fix w
  have "only_events w (w\<lparr>outbox_events := f w\<rparr>)"
    by (rule only_eventsI [where a = "audit_events w" and b = "f w" and n = "id_pos w"]) simp
  then show "only_events w (snd (if list_ex c (t w) then (Inl IntegrityError, w)
      else (Inr (), w\<lparr>outbox_events := f w\<rparr>)))"
    by (simp add: only_events_refl)
qed

interpretation gateway_events: event_sink "emit_event cfg" for cfg
proof
  fix ev
  show "keeps only_events (emit_event cfg ev)"
    unfolding emit_event_def
    by (cases "gateway_outbox_enabled cfg")
       (auto intro!: only_events.keeps_bind only_events.keeps_gets only_events.keeps_ret events_new_id
          keeps_audit_row keeps_outbox_row)
qed

end
