(* ===== verification/Command_Policy_Correct.thy ===== *)
theory Command_Policy_Correct
  imports Gateway_Store
begin

text \<open>
  Correctness of the agent command policy and of the event sink: which commands may execute,
  which keys are refused, and what an emitted event leaves in the audit trail and the outbox.
\<close>

section \<open>Executable commands\<close>

definition run_tool_payload :: "(string \<times> json) list \<Rightarrow> (string \<times> json) list \<Rightarrow> bool" where
  "run_tool_payload command payload \<longleftrightarrow>
     strip (str_or_empty (dget command ''kind'')) = ''run_tool'' \<and> dget command ''structured_payload'' = JObj payload"

definition payload_arguments :: "(string \<times> json) list \<Rightarrow> (string \<times> json) list \<Rightarrow> bool" where
  "payload_arguments payload arguments \<longleftrightarrow>
     (if truthy (dget payload ''arguments'') then dget payload ''arguments'' = JObj arguments else arguments = [])"

lemma mapping_value_Inr: "mapping_value v field = Inr d \<longleftrightarrow> v = JObj d"
  by (auto simp: mapping_value_def split: json.splits)

lemma arguments_of_Inr: "arguments_of payload = Inr arguments \<longleftrightarrow> payload_arguments payload arguments"
  by (auto simp: arguments_of_def payload_arguments_def mapping_value_Inr)

text \<open>
  C14: A command resolves to an execution exactly when it is a \<open>run_tool\<close> command with an object
  payload whose tool is on the allowlist, with its own arguments, and, for a tool that reaches
  a shell, arguments without any raw shell key and a command profile from the allowlist.
\<close>

theorem resolve_execution_iff:
  "resolve_agent_command_execution command tools profiles = Inr x \<longleftrightarrow>
     (\<exists>payload. run_tool_payload command payload \<and> payload_arguments payload (ex_arguments x) \<and>
        ex_tool x = strip (str_or_empty (dget payload ''tool'')) \<and> ex_tool x \<in> normalized_allowlist tools \<and>
        (if ex_tool x \<in> set SHELL_CAPABLE_TOOLS
         then fst ` set (ex_arguments x) \<inter> set RAW_SHELL_ARGUMENT_KEYS = {} \<and>
           (\<exists>profile \<in> normalized_allowlist profiles. ex_command_profile x = Some profile \<and>
              profile = strip (str_or_empty (dget (ex_arguments x) ''command_profile'')))
         else ex_command_profile x = None))"
proof -
  have ne: "t \<in> normalized_allowlist vs \<Longrightarrow> t \<noteq> []" for t vs using normalized_allowlist_strip by blast
  obtain t a p where x: "x = \<lparr>ex_tool = t, ex_arguments = a, ex_command_profile = p\<rparr>" by (cases x)
  show ?thesis
    by (auto simp: resolve_agent_command_execution_def Let_def mapping_value_Inr arguments_of_Inr run_tool_payload_def
        forbidden_keys_Nil x ensure_def split: if_splits dest: ne)
qed

text \<open>
  Whatever resolves to an execution under some allowlists also passes the delivery check
  once it has an instruction: the execution policy is the stricter of the two.
\<close>

theorem resolved_command_deliverable:
  assumes "resolve_agent_command_execution command tools profiles = Inr x"
    and "strip (str_or_empty (dget command ''instruction'')) \<noteq> []"
  shows "validate_agent_command_for_delivery command = Inr ()"
  using assms
  by (auto simp: resolve_agent_command_execution_def validate_agent_command_for_delivery_def Let_def
      DELIVERABLE_COMMAND_KINDS_def split: if_splits)

definition demo_command :: "(string \<times> json) list" where
  "demo_command = [(''kind'', JStr ''run_tool''), (''instruction'', JStr ''build''),
     (''structured_payload'', JObj [(''tool'', JStr '' run_cli_command ''),
        (''arguments'', JObj [(''command_profile'', JStr ''build'')])])]"

lemma demo_command_run:
  "\<not> isl (resolve_agent_command_execution demo_command [''run_cli_command''] [''build'']) \<and>
     strip (str_or_empty (dget demo_command ''instruction'')) \<noteq> []"
  by code_simp

theorem resolved_command_deliverable_witness:
  "\<exists>x. resolve_agent_command_execution demo_command [''run_cli_command''] [''build''] = Inr x \<and>
     validate_agent_command_for_delivery demo_command = Inr ()"
proof -
  obtain x where "resolve_agent_command_execution demo_command [''run_cli_command''] [''build''] = Inr x"
    using demo_command_run by (metis sum.collapse(2))
  then show ?thesis
    using resolved_command_deliverable [of demo_command "[''run_cli_command'']" "[''build'']" x] demo_command_run by blast
qed

text \<open>
  C15: The recursive key check accepts a JSON value exactly when no key anywhere in it, under
  objects and arrays at any depth, looks like the name of a secret.
\<close>

theorem no_secret_keys_iff:
  "assert_no_secret_like_keys field v = Inr () \<longleftrightarrow> (\<forall>k. key_occurs k v \<longrightarrow> \<not> is_secret_like_name k)"
  by (rule assert_no_secret_iff)

theorem no_secret_keys_iff_witness:
  "assert_no_secret_like_keys ''payload'' (JObj [(''items'', JList [JObj [(''Api-Key'', JInt 1)]])]) \<noteq> Inr ()"
proof -
  let ?v = "JObj [(''items'', JList [JObj [(''Api-Key'', JInt 1)]])]"
  have "key_occurs ''Api-Key'' ?v" by simp
  moreover have "is_secret_like_name ''Api-Key''" by code_simp
  ultimately show ?thesis using no_secret_keys_iff [of "''payload''" ?v] by blast
qed

section \<open>Events\<close>

lemma outbox_row_columns:
  "ob_audit_event_id (outbox_row cfg ev e i now) = e" "ob_status (outbox_row cfg ev e i now) = ''pending''"
  "dget (ob_headers (outbox_row cfg ev e i now)) ''Nats-Msg-Id'' = JStr e"
  "dget (ob_payload (outbox_row cfg ev e i now)) ''event_id'' = JStr e"
  "1 \<le> ob_max_attempts (outbox_row cfg ev e i now)" "ob_attempt_count (outbox_row cfg ev e i now) = 0"
  "ob_available_at (outbox_row cfg ev e i now) = now"
  by (simp_all add: outbox_row_def Let_def envelope_def dget_dset) (simp add: dget_def)

text \<open>
  C16: An event that is emitted adds one audit row with the caller's type, actor, resource and
  payload, and, when the outbox is on, one pending outbox row for it, with the audit row's id
  as its message id and never less than one attempt; nothing else of the database changes
  but the supply of identifiers.
\<close>

theorem emit_event_records:
  assumes "emit_event cfg ev w = (Inr (), w')"
  shows "\<exists>a. audit_events w' = audit_events w @ [a] \<and> au_event_type a = ev_type ev \<and> au_actor_subject a = ev_actor ev \<and>
      au_resource_id a = ev_resource_id ev \<and> au_payload a = ev_payload ev \<and> au_created_at a = clock w \<and>
      au_id a \<notin> au_id ` set (audit_events w) \<and>
      (if gateway_outbox_enabled cfg
       then \<exists>b. outbox_events w' = outbox_events w @ [b] \<and> ob_audit_event_id b = au_id a \<and> ob_status b = ''pending'' \<and>
         dget (ob_headers b) ''Nats-Msg-Id'' = JStr (au_id a) \<and> dget (ob_payload b) ''event_id'' = JStr (au_id a) \<and>
         1 \<le> ob_max_attempts b \<and> ob_attempt_count b = 0 \<and> ob_available_at b = clock w
       else outbox_events w' = outbox_events w) \<and>
      only_events w w'"
proof -
  let ?id = "id_src w (id_pos w)"
  let ?a = "\<lparr>au_id = ?id, au_event_type = ev_type ev, au_actor_subject = ev_actor ev,
         au_action = ev_act ev, au_resource_type = ev_resource_type ev,
         au_resource_id = ev_resource_id ev, au_status = ev_status ev, au_payload = ev_payload ev,
         au_created_at = clock w\<rparr>"
  have only: "only_events w w'" using keepsD [OF gateway_events.emit_frame assms] .
  have fresh: "?id \<notin> au_id ` set (audit_events w)" and audit: "audit_events w' = audit_events w @ [?a]"
    and outbox: "outbox_events w' = (if gateway_outbox_enabled cfg
      then outbox_events w @ [outbox_row cfg ev ?id (id_src w (Suc (id_pos w))) (clock w)] else outbox_events w)"
    using assms by (auto simp: emit_event_def insert_row_def new_id_def list_ex_iff image_iff split: if_splits)
  show ?thesis
    by (rule exI [of _ ?a]) (use only fresh audit outbox in \<open>simp add: outbox_row_columns\<close>)
qed

definition sink_cfg :: gw_settings where
  "sink_cfg = \<lparr>gateway_autonomy_emergency_stop = False, gateway_autonomy_assignment_batch_size = 50,
     gateway_autonomy_approval_ttl_seconds = 900, gateway_autonomy_permit_ttl_seconds = 300,
     gateway_outbox_enabled = True, gateway_outbox_max_attempts = 0, gateway_outbox_batch_size = 100,
     gateway_outbox_lock_ttl_seconds = 60, gateway_outbox_retry_base_us = 1000000,
     gateway_outbox_retry_max_us = 300000000, gateway_nats_subject_prefix = ''gw'',
     sha256_hex = (\<lambda>s. s)\<rparr>"

definition sink_db :: gdb where
  "sink_db = \<lparr>clock = 1000, id_src = nat_dec, id_pos = 0, access_grants = [], audit_events = [],
     outbox_events = [], agent_instances = [], collaboration_rooms = [], agent_commands = [],
     agent_work_items = [], autonomy_policies = [], autonomy_control_states = [], autonomy_overrides = [],
     autonomy_assignments = [], approval_requests = [], approval_votes = [], execution_permits = [],
     action_receipts = [], recovery_loops = [], agent_messages = [], agent_message_deliveries = [],
     resource_leases = [], agent_handoff_barriers = [], agent_integration_records = [],
     file_change_sets = [], outbox_delivery_attempts = [], processed_broker_messages = []\<rparr>"

definition sink_event :: event_request where
  "sink_event = \<lparr>ev_type = ''gateway.test.v1'', ev_actor = ''ann'', ev_act = ''created'',
     ev_resource_type = ''policy'', ev_resource_id = Some ''p1'', ev_payload = [], ev_owner = None,
     ev_status = ''success''\<rparr>"

lemma sink_run: "fst (emit_event sink_cfg sink_event sink_db) = Inr ()"
  by code_simp

theorem emit_event_records_witness:
  "\<exists>w' a b. emit_event sink_cfg sink_event sink_db = (Inr (), w') \<and> audit_events w' = [a] \<and>
     outbox_events w' = [b] \<and> ob_audit_event_id b = au_id a \<and> 1 \<le> ob_max_attempts b"
proof -
  obtain w' where run: "emit_event sink_cfg sink_event sink_db = (Inr (), w')"
    using sink_run by (cases "emit_event sink_cfg sink_event sink_db") simp
  have "gateway_outbox_enabled sink_cfg" "audit_events sink_db = []" "outbox_events sink_db = []"
    by (simp_all add: sink_cfg_def sink_db_def)
  then show ?thesis using emit_event_records [OF run] run by auto
qed

end
