(* ===== verification/Autonomy_Policy.thy ===== *)
theory Autonomy_Policy
  imports Gateway_Store
begin

text \<open>
  Autonomy policies and controls of \<open>agent_autonomy.py\<close>: what a policy may hold, creating and
  updating one, the control states that pause or kill autonomy in a scope, the snapshot of
  them that a permit is issued under, and the revocation that every restriction triggers.
\<close>

section \<open>Constants\<close>

definition ACTION_CLASSES :: "string list" where
  "ACTION_CLASSES = [''read'', ''write'', ''destructive'', ''production'']"

definition ASSIGNMENT_MODES :: "string list" where
  "ASSIGNMENT_MODES = [''manual'', ''suggest'', ''automatic'']"

definition POLICY_STATUSES :: "string list" where
  "POLICY_STATUSES = [''active'', ''paused'', ''disabled'']"

definition CONTROL_STATES :: "string list" where
  "CONTROL_STATES = [''enabled'', ''paused'', ''killed'']"

definition CONTROL_SCOPES :: "string list" where
  "CONTROL_SCOPES = [''global'', ''tenant'', ''room'', ''policy'']"

definition RECOVERY_TERMINAL :: "string list" where
  "RECOVERY_TERMINAL = [''succeeded'', ''exhausted'', ''cancelled'']"

definition default_approval_rule :: "string \<Rightarrow> approval_rule" where
  "default_approval_rule action_class =
     (if action_class = ''read'' then \<lparr>ar_quorum = 0, ar_require_admin = False, ar_disallow_proposer = False\<rparr>
      else if action_class = ''write'' then \<lparr>ar_quorum = 1, ar_require_admin = False, ar_disallow_proposer = True\<rparr>
      else \<lparr>ar_quorum = 2, ar_require_admin = True, ar_disallow_proposer = True\<rparr>)"

definition DEFAULT_RECOVERY_POLICY :: recovery_rule where
  "DEFAULT_RECOVERY_POLICY =
     \<lparr>rr_max_attempts = 3, rr_base_backoff_seconds = 30, rr_max_backoff_seconds = 900\<rparr>"

section \<open>Normal forms of a policy\<close>

fun normalized_loop :: "string list \<Rightarrow> string list \<Rightarrow> string list res" where
  "normalized_loop [] result = Inr result"
| "normalized_loop (value # values) result =
     (let text = strip value
      in if text = [] \<or> text \<in> set result then normalized_loop values result
         else if length text > 200 then Inl (HTTPException 400 ''policy value exceeds length limit'')
         else normalized_loop values (result @ [text]))"

definition normalized_strings :: "string list \<Rightarrow> string list res" where
  "normalized_strings values =
     bindE (normalized_loop values []) (\<lambda>result.
     bindE (ensure (length result \<le> 200) (HTTPException 400 ''too many policy values'')) (\<lambda>_.
     Inr result))"

definition normalize_rule :: "(string \<times> json) list \<Rightarrow> string \<Rightarrow> (string \<times> approval_rule) res" where
  "normalize_rule raw action_class =
     (let defaults = default_approval_rule action_class
      in bindE (dict_or_empty (dget raw action_class)) (\<lambda>rule.
         bindE (bounded_int (dget_or rule ''quorum'' (JInt (ar_quorum defaults)))
                  (''approval_rules.'' @ action_class @ ''.quorum'') 0 20 None) (\<lambda>q.
         Inr (action_class,
           \<lparr>ar_quorum = q,
            ar_require_admin = truthy (dget_or rule ''require_admin'' (JBool (ar_require_admin defaults))),
            ar_disallow_proposer =
              truthy (dget_or rule ''disallow_proposer'' (JBool (ar_disallow_proposer defaults)))\<rparr>))))"

fun mapE :: "('a \<Rightarrow> 'e + 'b) \<Rightarrow> 'a list \<Rightarrow> 'e + 'b list" where
  "mapE f [] = Inr []"
| "mapE f (x # xs) = bindE (f x) (\<lambda>y. bindE (mapE f xs) (\<lambda>ys. Inr (y # ys)))"

definition normalize_approval_rules :: "(string \<times> json) list \<Rightarrow> (string \<times> approval_rule) list res" where
  "normalize_approval_rules value =
     bindE (safe_structured (JObj value) ''approval rules'') (\<lambda>_.
     mapE (normalize_rule value) [''destructive'', ''production'', ''read'', ''write''])"

definition normalize_recovery_policy :: "(string \<times> json) list \<Rightarrow> recovery_rule res" where
  "normalize_recovery_policy raw =
     bindE (safe_structured (JObj raw) ''recovery policy'') (\<lambda>_.
     bindE (bounded_int (dget_or raw ''max_attempts'' (JInt (rr_max_attempts DEFAULT_RECOVERY_POLICY)))
              ''recovery_policy.max_attempts'' 1 20 None) (\<lambda>a.
     bindE (bounded_int (dget_or raw ''base_backoff_seconds''
                (JInt (rr_base_backoff_seconds DEFAULT_RECOVERY_POLICY)))
              ''recovery_policy.base_backoff_seconds'' 1 86400 None) (\<lambda>b.
     bindE (bounded_int (dget_or raw ''max_backoff_seconds''
                (JInt (rr_max_backoff_seconds DEFAULT_RECOVERY_POLICY)))
              ''recovery_policy.max_backoff_seconds'' 1 604800 None) (\<lambda>c.
     Inr \<lparr>rr_max_attempts = a, rr_base_backoff_seconds = b, rr_max_backoff_seconds = c\<rparr>))))"

section \<open>Creating a policy\<close>

record AutonomyPolicyCreate =
  pc_room_id :: string
  pc_name :: string
  pc_assignment_mode :: string
  pc_coordinator_agent_id :: "string option"
  pc_allowed_action_classes :: "string list"
  pc_allowed_tools :: "string list"
  pc_allowed_command_profiles :: "string list"
  pc_max_parallel_assignments :: int
  pc_approval_rules :: "(string \<times> json) list"
  pc_recovery_policy :: "(string \<times> json) list"
  pc_idempotency_key :: "string option"

definition check_coordinator :: "string \<Rightarrow> string \<Rightarrow> string option \<Rightarrow> unit gw" where
  "check_coordinator owner_subject room_id coordinator_agent_id =
     (case coordinator_agent_id of
        None \<Rightarrow> ret ()
      | Some i \<Rightarrow>
          bindS (get_agent owner_subject i) (\<lambda>coordinator.
          guardS (ag_current_room_id coordinator = Some room_id)
            (HTTPException 409 ''Coordinator agent is not in the policy room'')))"

definition find_policy_key :: "string \<Rightarrow> string option \<Rightarrow> AutonomyPolicy option gw" where
  "find_policy_key owner_subject idempotency_key =
     (case idempotency_key of
        None \<Rightarrow> ret None
      | Some k \<Rightarrow> query_one (\<lambda>p. po_owner_subject p = owner_subject \<and> po_idempotency_key p = Some k)
          autonomy_policies)"

definition policy_event :: "gw_settings \<Rightarrow> string \<Rightarrow> string \<Rightarrow> AutonomyPolicy \<Rightarrow> (string \<times> json) list \<Rightarrow> unit gw" where
  "policy_event cfg actor_subject action p extra =
     emit_event cfg \<lparr>ev_type = ''gateway.autonomy.policy.'' @ action @ ''.v1'', ev_actor = actor_subject,
       ev_act = action, ev_resource_type = ''autonomy_policy'', ev_resource_id = Some (po_id p),
       ev_payload = [(''policy_id'', JStr (po_id p)), (''room_id'', JStr (po_room_id p))] @ extra @
         [(''assignment_mode'', JStr (po_assignment_mode p)), (''generation'', JInt (po_generation p)),
          (''version'', JInt (po_version p))],
       ev_owner = None, ev_status = ''success''\<rparr>"

definition create_policy ::
  "gw_settings \<Rightarrow> string \<Rightarrow> string \<Rightarrow> AutonomyPolicyCreate \<Rightarrow> AutonomyPolicy gw" where
  "create_policy cfg owner_subject actor_subject data = atomically (
     bindS (liftE (required_text (pc_room_id data) ''room_id'' 36)) (\<lambda>room_id.
     bindS (get_room owner_subject room_id) (\<lambda>_.
     bindS (liftE (optional_text (pc_coordinator_agent_id data) 36)) (\<lambda>coordinator_agent_id.
     bindS (check_coordinator owner_subject room_id coordinator_agent_id) (\<lambda>_.
     bindS (liftE (optional_text (pc_idempotency_key data) 160)) (\<lambda>idempotency_key.
     bindS (find_policy_key owner_subject idempotency_key) (\<lambda>existing.
     case existing of Some p \<Rightarrow> ret p | None \<Rightarrow>
     let assignment_mode = (if pc_assignment_mode data = [] then ''manual'' else pc_assignment_mode data)
     in bindS (guardS (assignment_mode \<in> set ASSIGNMENT_MODES)
          (HTTPException 400 ''Unsupported assignment mode'')) (\<lambda>_.
     bindS (liftE (normalized_strings (if pc_allowed_action_classes data = [] then [''read'']
          else pc_allowed_action_classes data))) (\<lambda>classes.
     bindS (guardS (classes \<noteq> [] \<and> set classes \<subseteq> set ACTION_CLASSES)
          (HTTPException 400 ''Unsupported allowed action class'')) (\<lambda>_.
     bindS (gets clock) (\<lambda>now.
     bindS new_id (\<lambda>i.
     bindS (liftE (required_text (pc_name data) ''name'' 200)) (\<lambda>name.
     bindS (liftE (normalized_strings (pc_allowed_tools data))) (\<lambda>tools.
     bindS (liftE (normalized_strings (pc_allowed_command_profiles data))) (\<lambda>profiles.
     bindS (liftE (bounded_int (JInt (pc_max_parallel_assignments data)) ''max_parallel_assignments'' 1 100 None))
       (\<lambda>parallel.
     bindS (liftE (normalize_approval_rules (pc_approval_rules data))) (\<lambda>rules.
     bindS (liftE (normalize_recovery_policy (pc_recovery_policy data))) (\<lambda>recovery.
     let p = \<lparr>po_id = i, po_owner_subject = owner_subject, po_room_id = room_id, po_name = name,
           po_status = ''active'', po_assignment_mode = assignment_mode,
           po_coordinator_agent_id = coordinator_agent_id, po_allowed_action_classes = classes,
           po_allowed_tools = tools, po_allowed_command_profiles = profiles,
           po_max_parallel_assignments = parallel, po_approval_rules = rules,
           po_recovery_policy = recovery, po_generation = 1, po_version = 1,
           po_idempotency_key = idempotency_key, po_created_by_subject = actor_subject,
           po_created_at = now, po_updated_at = now\<rparr>
     in on_conflict
          (bindS (add_policy p) (\<lambda>_. bindS (policy_event cfg actor_subject ''created'' p []) (\<lambda>_. ret p)))
          (bindS (find_policy_key owner_subject idempotency_key) (\<lambda>existing.
           case existing of Some p \<Rightarrow> ret p
           | None \<Rightarrow> raise (HTTPException 409 ''Autonomy policy idempotency conflict'')))))))))))))))))))))"

section \<open>Revocation\<close>

definition opt_is :: "'a option \<Rightarrow> 'a \<Rightarrow> bool" where
  "opt_is o' x = (case o' of None \<Rightarrow> True | Some y \<Rightarrow> x = y)"

text \<open>The permits \<open>_revoke_permits\<close> selects.\<close>

definition revocable :: "string \<Rightarrow> string option \<Rightarrow> string option \<Rightarrow> gdb \<Rightarrow> ExecutionPermit \<Rightarrow> bool" where
  "revocable owner_subject room_id policy_id w p \<longleftrightarrow>
     pe_owner_subject p = owner_subject \<and> pe_status p \<in> {''active'', ''claimed''} \<and>
     opt_is policy_id (pe_policy_id p) \<and>
     (case find (\<lambda>r. ap_id r = pe_approval_request_id p) (approval_requests w) of
        None \<Rightarrow> False | Some r \<Rightarrow> opt_is room_id (ap_room_id r))"

definition revoke_permits ::
  "string \<Rightarrow> string \<Rightarrow> string option \<Rightarrow> string option \<Rightarrow> nat gw" where
  "revoke_permits owner_subject reason room_id policy_id = (\<lambda>w.
     let now = clock w;
         sel = revocable owner_subject room_id policy_id w;
         changed = count_where sel (execution_permits w)
     in (Inr changed, w\<lparr>execution_permits := update_where sel (\<lambda>p. p\<lparr>pe_status := ''revoked'',
           pe_revoked_at := Some now, pe_revocation_reason := Some (take 10000 reason),
           pe_updated_at := now\<rparr>) (execution_permits w)\<rparr>))"

definition restrictable :: "string \<Rightarrow> string option \<Rightarrow> string option \<Rightarrow> RecoveryLoop \<Rightarrow> bool" where
  "restrictable owner_subject room_id policy_id l \<longleftrightarrow>
     rl_owner_subject l = owner_subject \<and> rl_status l \<notin> set RECOVERY_TERMINAL \<and>
     opt_is room_id (rl_room_id l) \<and> opt_is policy_id (rl_policy_id l)"

definition pause_or_cancel_recoveries ::
  "string \<Rightarrow> string \<Rightarrow> string option \<Rightarrow> string option \<Rightarrow> nat gw" where
  "pause_or_cancel_recoveries owner_subject state room_id policy_id = (\<lambda>w.
     let now = clock w;
         sel = restrictable owner_subject room_id policy_id;
         changed = count_where sel (recovery_loops w);
         st = (if state = ''killed'' then ''cancelled'' else ''paused'')
     in (Inr changed, w\<lparr>recovery_loops := update_where sel (\<lambda>l. l\<lparr>rl_status := st,
           rl_generation := rl_generation l + 1, rl_updated_at := now,
           rl_completed_at := (if st = ''cancelled'' then Some now else rl_completed_at l)\<rparr>)
           (recovery_loops w)\<rparr>))"

section \<open>Updating a policy\<close>

record AutonomyPolicyUpdate =
  pu_name :: "string option"
  pu_status :: "string option"
  pu_assignment_mode :: "string option"
  pu_coordinator_agent_id :: "string option option"
  pu_allowed_action_classes :: "string list option"
  pu_allowed_tools :: "string list option"
  pu_allowed_command_profiles :: "string list option"
  pu_max_parallel_assignments :: "int option"
  pu_approval_rules :: "(string \<times> json) list option"
  pu_recovery_policy :: "(string \<times> json) list option"

text \<open>A column that the request gives is checked and set, one that it leaves out is kept.\<close>

definition set_if :: "'d option \<Rightarrow> ('d \<Rightarrow> 'v res) \<Rightarrow> ('v \<Rightarrow> 'r \<Rightarrow> 'r) \<Rightarrow> 'r \<Rightarrow> 'r res" where
  "set_if d check upd r = (case d of None \<Rightarrow> Inr r | Some x \<Rightarrow> bindE (check x) (\<lambda>v. Inr (upd v r)))"

definition one_of :: "string list \<Rightarrow> string \<Rightarrow> string \<Rightarrow> string res" where
  "one_of allowed detail v = (if v \<in> set allowed then Inr v else Inl (HTTPException 400 detail))"

definition action_classes :: "string list \<Rightarrow> string list res" where
  "action_classes values =
     bindE (normalized_strings values) (\<lambda>classes.
     bindE (ensure (classes \<noteq> [] \<and> set classes \<subseteq> set ACTION_CLASSES)
       (HTTPException 400 ''Unsupported allowed action class'')) (\<lambda>_. Inr classes))"

text \<open>The columns checked before the coordinator agent is looked up, and those after it.\<close>

definition policy_update_head :: "AutonomyPolicyUpdate \<Rightarrow> AutonomyPolicy \<Rightarrow> AutonomyPolicy res" where
  "policy_update_head data p0 =
     bindE (set_if (pu_name data) (\<lambda>v. required_text v ''name'' 200) (\<lambda>v p. p\<lparr>po_name := v\<rparr>) p0) (\<lambda>p.
     bindE (set_if (pu_status data) (one_of POLICY_STATUSES ''Unsupported policy status'')
              (\<lambda>v p. p\<lparr>po_status := v\<rparr>) p) (\<lambda>p.
     bindE (set_if (pu_assignment_mode data) (one_of ASSIGNMENT_MODES ''Unsupported assignment mode'')
              (\<lambda>v p. p\<lparr>po_assignment_mode := v\<rparr>) p) (\<lambda>p.
     set_if (pu_coordinator_agent_id data) (\<lambda>v. optional_text v 36)
       (\<lambda>v p. p\<lparr>po_coordinator_agent_id := v\<rparr>) p)))"

definition policy_update_tail :: "AutonomyPolicyUpdate \<Rightarrow> AutonomyPolicy \<Rightarrow> AutonomyPolicy res" where
  "policy_update_tail data p0 =
     bindE (set_if (pu_allowed_action_classes data) action_classes
              (\<lambda>v p. p\<lparr>po_allowed_action_classes := v\<rparr>) p0) (\<lambda>p.
     bindE (set_if (pu_allowed_tools data) normalized_strings (\<lambda>v p. p\<lparr>po_allowed_tools := v\<rparr>) p) (\<lambda>p.
     bindE (set_if (pu_allowed_command_profiles data) normalized_strings
              (\<lambda>v p. p\<lparr>po_allowed_command_profiles := v\<rparr>) p) (\<lambda>p.
     bindE (set_if (pu_max_parallel_assignments data)
              (\<lambda>v. bounded_int (JInt v) ''max_parallel_assignments'' 1 100 None)
              (\<lambda>v p. p\<lparr>po_max_parallel_assignments := v\<rparr>) p) (\<lambda>p.
     bindE (set_if (pu_approval_rules data) normalize_approval_rules
              (\<lambda>v p. p\<lparr>po_approval_rules := v\<rparr>) p) (\<lambda>p.
     set_if (pu_recovery_policy data) normalize_recovery_policy
       (\<lambda>v p. p\<lparr>po_recovery_policy := v\<rparr>) p)))))"

definition update_policy ::
  "gw_settings \<Rightarrow> string \<Rightarrow> string \<Rightarrow> string \<Rightarrow> int \<Rightarrow> AutonomyPolicyUpdate \<Rightarrow> AutonomyPolicy gw" where
  "update_policy cfg owner_subject actor_subject policy_id expected_version data = atomically (
     bindS (get_policy owner_subject policy_id) (\<lambda>p.
     bindS (guardS (po_version p = expected_version)
              (HTTPException 409 ''Autonomy policy version conflict'')) (\<lambda>_.
     bindS (gets clock) (\<lambda>now.
     bindS (liftE (policy_update_head data p)) (\<lambda>head.
     bindS (case pu_coordinator_agent_id data of
              None \<Rightarrow> ret ()
            | Some _ \<Rightarrow> check_coordinator owner_subject (po_room_id p) (po_coordinator_agent_id head)) (\<lambda>_.
     bindS (liftE (policy_update_tail data head)) (\<lambda>changed.
     let updated = changed\<lparr>po_version := po_version p + 1, po_generation := po_generation p + 1,
           po_updated_at := now\<rparr>;
         sel = (\<lambda>q. po_id q = po_id p \<and> po_owner_subject q = owner_subject \<and> po_version q = expected_version)
     in bindS (gets (\<lambda>w. count_where sel (autonomy_policies w))) (\<lambda>n.
     bindS (guardS (n = 1) (HTTPException 409 ''Autonomy policy version conflict'')) (\<lambda>_.
     bindS (modify (\<lambda>w. w\<lparr>autonomy_policies := update_where sel (\<lambda>_. updated) (autonomy_policies w)\<rparr>)) (\<lambda>_.
     bindS (revoke_permits owner_subject ''policy generation changed'' None (Some (po_id p))) (\<lambda>_.
     bindS (policy_event cfg actor_subject ''updated'' updated [(''status'', JStr (po_status updated))]) (\<lambda>_.
     ret updated))))))))))))"

section \<open>Controls\<close>

definition control_row :: "string \<Rightarrow> string \<Rightarrow> string \<Rightarrow> AutonomyControlState option gw" where
  "control_row owner_subject scope_type scope_id =
     query_one (\<lambda>c. ct_owner_subject c = owner_subject \<and> ct_scope_type c = scope_type \<and> ct_scope_id c = scope_id)
       autonomy_control_states"

definition control_scopes :: "string \<Rightarrow> string option \<Rightarrow> string option \<Rightarrow> (string \<times> string \<times> string) list" where
  "control_scopes owner_subject room_id policy_id =
     [(''*'', ''global'', []), (owner_subject, ''tenant'', [])]
     @ (case room_id of Some (c # r) \<Rightarrow> [(owner_subject, ''room'', c # r)] | _ \<Rightarrow> [])
     @ (case policy_id of Some (c # p) \<Rightarrow> [(owner_subject, ''policy'', c # p)] | _ \<Rightarrow> [])"

text \<open>The state a control row has at \<open>now\<close>: a control past its expiry is enabled again.\<close>

definition state_at :: "int \<Rightarrow> AutonomyControlState \<Rightarrow> string" where
  "state_at now row = (case ct_expires_at row of
     None \<Rightarrow> ct_state row | Some e \<Rightarrow> if e > now then ct_state row else ''enabled'')"

fun snapshot_loop ::
  "int \<Rightarrow> (string \<times> string \<times> string) list \<Rightarrow> string \<times> string option \<times> (string \<times> int) list \<Rightarrow>
     (string \<times> string option \<times> (string \<times> int) list) gw" where
  "snapshot_loop now [] acc = ret acc"
| "snapshot_loop now ((control_owner, scope_type, scope_id) # scopes) (effective, reason, gens) =
     bindS (control_row control_owner scope_type scope_id) (\<lambda>found.
     case found of
       None \<Rightarrow> snapshot_loop now scopes (effective, reason, gens @ [(scope_type @ '':'' @ scope_id, 0)])
     | Some row \<Rightarrow>
         let state = state_at now row;
             gens = gens @ [(scope_type @ '':'' @ scope_id, ct_generation row)]
         in if state = ''killed'' then ret (''killed'', ct_reason row, gens)
            else if state = ''paused'' \<and> effective = ''enabled''
            then snapshot_loop now scopes (''paused'', ct_reason row, gens)
            else snapshot_loop now scopes (effective, reason, gens))"

definition control_snapshot :: "gw_settings \<Rightarrow> string \<Rightarrow> string option \<Rightarrow> string option \<Rightarrow> control_view gw" where
  "control_snapshot cfg owner_subject room_id policy_id =
     (if gateway_autonomy_emergency_stop cfg then
        ret \<lparr>cv_enabled = False, cv_effective_state = ''killed'',
             cv_reason = Some ''GATEWAY_AUTONOMY_EMERGENCY_STOP'', cv_generations = [(''environment'', 1)]\<rparr>
      else
        bindS (gets clock) (\<lambda>now.
        bindS (snapshot_loop now (control_scopes owner_subject room_id policy_id) (''enabled'', None, []))
          (\<lambda>(effective, reason, gens).
        ret \<lparr>cv_enabled = (effective = ''enabled''), cv_effective_state = effective, cv_reason = reason,
             cv_generations = gens\<rparr>)))"

definition assert_enabled :: "gw_settings \<Rightarrow> string \<Rightarrow> string \<Rightarrow> AutonomyPolicy \<Rightarrow> control_view gw" where
  "assert_enabled cfg owner_subject room_id p =
     bindS (guardS (po_status p = ''active'') (HTTPException 409 ''Autonomy policy is not active'')) (\<lambda>_.
     bindS (control_snapshot cfg owner_subject (Some room_id) (Some (po_id p))) (\<lambda>snapshot.
     bindS (guardS (cv_enabled snapshot)
              (HTTPException 423 (''Autonomy is '' @ cv_effective_state snapshot))) (\<lambda>_.
     ret snapshot)))"

record AutonomyControlUpdate =
  cu_scope_type :: string
  cu_scope_id :: "string option"
  cu_state :: string
  cu_reason :: string
  cu_expires_at :: "int option"

text \<open>The scope a control change names: the owner of its row, its scope id, room and policy.\<close>

definition control_target ::
  "string \<Rightarrow> string \<Rightarrow> string \<Rightarrow> (string \<times> string \<times> string option \<times> string option) gw" where
  "control_target owner_subject scope_type scope_id =
     (if scope_type = ''global'' then ret (''*'', [], None, None)
      else if scope_type = ''tenant'' then ret (owner_subject, [], None, None)
      else if scope_type = ''room'' then
        bindS (liftE (required_text scope_id ''scope_id'' 36)) (\<lambda>room_id.
        bindS (get_room owner_subject room_id) (\<lambda>_. ret (owner_subject, scope_id, Some room_id, None)))
      else
        bindS (liftE (required_text scope_id ''scope_id'' 36)) (\<lambda>policy_id.
        bindS (get_policy owner_subject policy_id) (\<lambda>p.
        ret (owner_subject, scope_id, Some (po_room_id p), Some policy_id))))"

definition active_owners :: "string \<Rightarrow> string \<Rightarrow> gdb \<Rightarrow> string list" where
  "active_owners owner_subject scope_type w =
     (if scope_type = ''global''
      then remdups (map pe_owner_subject (execution_permits w) @ map rl_owner_subject (recovery_loops w))
      else [owner_subject])"

fun restrict_owners ::
  "string list \<Rightarrow> string \<Rightarrow> string \<Rightarrow> string option \<Rightarrow> string option \<Rightarrow> nat \<times> nat \<Rightarrow> (nat \<times> nat) gw" where
  "restrict_owners [] state reason room_id policy_id acc = ret acc"
| "restrict_owners (o' # owners) state reason room_id policy_id (a, b) =
     bindS (revoke_permits o' (''autonomy '' @ state @ '': '' @ reason) room_id policy_id) (\<lambda>m.
     bindS (pause_or_cancel_recoveries o' state room_id policy_id) (\<lambda>n.
     restrict_owners owners state reason room_id policy_id (a + m, b + n)))"

definition control_action :: "string \<Rightarrow> string" where
  "control_action state =
     (if state = ''enabled'' then ''resume'' else if state = ''paused'' then ''pause'' else ''kill'')"

definition store_control ::
  "string \<Rightarrow> string \<Rightarrow> string \<Rightarrow> string \<Rightarrow> string \<Rightarrow> AutonomyControlUpdate \<Rightarrow> AutonomyControlState option \<Rightarrow>
     AutonomyControlState gw" where
  "store_control control_owner scope_type scope_id reason actor_subject data found =
     bindS (gets clock) (\<lambda>now.
     case found of
       None \<Rightarrow>
         bindS new_id (\<lambda>i.
         let row = \<lparr>ct_id = i, ct_owner_subject = control_owner, ct_scope_type = scope_type,
               ct_scope_id = scope_id, ct_state = cu_state data, ct_generation = 1,
               ct_reason = Some reason, ct_changed_by_subject = actor_subject,
               ct_expires_at = cu_expires_at data, ct_created_at = now, ct_updated_at = now\<rparr>
         in bindS (add_control row) (\<lambda>_. ret row))
     | Some row \<Rightarrow>
         let row = row\<lparr>ct_state := cu_state data, ct_generation := ct_generation row + 1,
               ct_reason := Some reason, ct_changed_by_subject := actor_subject,
               ct_expires_at := cu_expires_at data, ct_updated_at := now\<rparr>
         in bindS (put_control row) (\<lambda>_. ret row))"

definition set_control ::
  "gw_settings \<Rightarrow> string \<Rightarrow> string \<Rightarrow> string list \<Rightarrow> AutonomyControlUpdate \<Rightarrow> AutonomyControlState gw" where
  "set_control cfg owner_subject actor_subject actor_roles data = atomically (
     let scope_type = cu_scope_type data; state = cu_state data
     in bindS (guardS (scope_type \<in> set CONTROL_SCOPES \<and> state \<in> set CONTROL_STATES)
          (HTTPException 400 ''Unsupported autonomy control'')) (\<lambda>_.
     bindS (guardS (''gateway-admin'' \<in> set actor_roles)
          (HTTPException 403 ''Autonomy control requires gateway-admin'')) (\<lambda>_.
     bindS (control_target owner_subject scope_type
          (strip (case cu_scope_id data of None \<Rightarrow> [] | Some s \<Rightarrow> s)))
       (\<lambda>(control_owner, scope_id, room_id, policy_id).
     bindS (liftE (required_text (cu_reason data) ''reason'' 10000)) (\<lambda>reason.
     bindS (control_row control_owner scope_type scope_id) (\<lambda>found.
     bindS (store_control control_owner scope_type scope_id reason actor_subject data found) (\<lambda>row.
     bindS (if state \<in> {''paused'', ''killed''} then
              bindS (gets (active_owners owner_subject scope_type)) (\<lambda>owners.
              restrict_owners owners state reason room_id policy_id (0, 0))
            else ret (0, 0)) (\<lambda>(revoked, affected).
     bindS (gets clock) (\<lambda>now.
     bindS new_id (\<lambda>i.
     bindS (add_override \<lparr>ov_id = i, ov_owner_subject = owner_subject, ov_scope_type = scope_type,
              ov_scope_id = scope_id, ov_action = control_action state,
              ov_previous_state = map_option ct_state found, ov_new_state = Some state,
              ov_reason = reason, ov_actor_subject = actor_subject,
              ov_evidence = [(''revoked_permits'', JInt (int revoked)),
                (''affected_recoveries'', JInt (int affected))], ov_created_at = now\<rparr>) (\<lambda>_.
     bindS (emit_event cfg \<lparr>ev_type = ''gateway.autonomy.control.changed.v1'', ev_actor = actor_subject,
              ev_act = control_action state, ev_resource_type = ''autonomy_control'',
              ev_resource_id = Some (ct_id row),
              ev_payload = [(''control_id'', JStr (ct_id row)), (''scope_type'', JStr scope_type),
                (''scope_id'', JStr scope_id), (''state'', JStr state),
                (''generation'', JInt (ct_generation row)), (''revoked_permits'', JInt (int revoked)),
                (''affected_recoveries'', JInt (int affected))],
              ev_owner = None, ev_status = (if state \<noteq> ''enabled'' then ''warning'' else ''success'')\<rparr>) (\<lambda>_.
     ret row))))))))))))"

end
