(* ===== verification/Autonomy_Approval.thy ===== *)
theory Autonomy_Approval
  imports Autonomy_Policy
begin

text \<open>
  Approval requests of \<open>agent_autonomy.py\<close>: binding a command's payload to a request, who may
  vote, and how votes decide it.
\<close>

section \<open>Requesting approval\<close>

definition COMMAND_TERMINAL_STATUSES :: "string list" where
  "COMMAND_TERMINAL_STATUSES = [''completed'', ''failed'', ''rejected'', ''cancelled'', ''expired'']"

definition command_envelope :: "AgentCommand \<Rightarrow> json" where
  "command_envelope c = JObj
     [(''command_id'', JStr (cm_id c)), (''room_id'', JStr (cm_room_id c)),
      (''issuer_agent_id'', JStr (cm_issuer_agent_id c)), (''target_agent_id'', JStr (cm_target_agent_id c)),
      (''kind'', JStr (cm_kind c)), (''instruction'', JStr (cm_instruction c)),
      (''structured_payload'', JObj (cm_structured_payload c)), (''constraints'', JObj (cm_constraints c))]"

record ApprovalRequestCreate =
  rc_policy_id :: string
  rc_command_id :: string
  rc_executor_agent_id :: string
  rc_action_class :: string
  rc_action_kind :: string
  rc_ttl_seconds :: "int option"
  rc_idempotency_key :: "string option"

definition find_approval_key :: "string \<Rightarrow> string option \<Rightarrow> ApprovalRequest option gw" where
  "find_approval_key owner_subject idempotency_key =
     (case idempotency_key of
        None \<Rightarrow> ret None
      | Some k \<Rightarrow> query_one (\<lambda>r. ap_owner_subject r = owner_subject \<and> ap_idempotency_key r = Some k)
          approval_requests)"

text \<open>The rule of the policy for an action class.\<close>

definition rule_of :: "AutonomyPolicy \<Rightarrow> string \<Rightarrow> approval_rule" where
  "rule_of p action_class = (case map_of (po_approval_rules p) action_class of
     None \<Rightarrow> default_approval_rule action_class | Some r \<Rightarrow> r)"

definition sorted_strings :: "string list \<Rightarrow> string list" where
  "sorted_strings xs = sort xs"

definition string_list :: "string list \<Rightarrow> json" where
  "string_list xs = JList (map JStr xs)"

text \<open>The command, executor and execution that a request binds, checked against the policy.\<close>

definition check_request ::
  "gw_settings \<Rightarrow> string \<Rightarrow> ApprovalRequestCreate \<Rightarrow>
     (AutonomyPolicy \<times> AgentCommand \<times> AgentInstance \<times> AgentToolExecution) gw" where
  "check_request cfg owner_subject data =
     bindS (liftE (required_text (rc_policy_id data) ''policy_id'' 36)) (\<lambda>policy_id.
     bindS (get_policy owner_subject policy_id) (\<lambda>p.
     bindS (assert_enabled cfg owner_subject (po_room_id p) p) (\<lambda>_.
     bindS (liftE (required_text (rc_command_id data) ''command_id'' 36)) (\<lambda>command_id.
     bindS (get_command owner_subject command_id) (\<lambda>c.
     bindS (liftE (required_text (rc_executor_agent_id data) ''executor_agent_id'' 36)) (\<lambda>executor_agent_id.
     bindS (get_agent owner_subject executor_agent_id) (\<lambda>executor.
     bindS (guardS (cm_room_id c = po_room_id p \<and> ag_current_room_id executor = Some (po_room_id p))
              (HTTPException 409 ''Command, executor, and policy room must match'')) (\<lambda>_.
     bindS (guardS (cm_target_agent_id c = ag_id executor)
              (HTTPException 409 ''Executor is not the command target'')) (\<lambda>_.
     bindS (guardS (cm_status c \<notin> set COMMAND_TERMINAL_STATUSES)
              (HTTPException 409 ''Terminal command cannot be approved'')) (\<lambda>_.
     bindS (guardS (rc_action_class data \<in> set ACTION_CLASSES \<and>
                    rc_action_class data \<in> set (po_allowed_action_classes p))
              (HTTPException 403 ''Action class is not allowed by policy'')) (\<lambda>_.
     bindS (liftE (policy_to_http (resolve_agent_command_execution
              [(''kind'', JStr (cm_kind c)), (''structured_payload'', JObj (cm_structured_payload c))]
              (po_allowed_tools p) (po_allowed_command_profiles p)))) (\<lambda>execution.
     ret (p, c, executor, execution)))))))))))))"

definition requested_event :: "gw_settings \<Rightarrow> string \<Rightarrow> ApprovalRequest \<Rightarrow> unit gw" where
  "requested_event cfg actor_subject r =
     emit_event cfg \<lparr>ev_type = ''gateway.autonomy.approval.requested.v1'', ev_actor = actor_subject,
       ev_act = ''requested'', ev_resource_type = ''approval_request'', ev_resource_id = Some (ap_id r),
       ev_payload = [(''approval_request_id'', JStr (ap_id r)), (''policy_id'', JStr (ap_policy_id r)),
         (''room_id'', JStr (ap_room_id r)), (''command_id'', jopt (ap_command_id r)),
         (''executor_agent_id'', JStr (ap_executor_agent_id r)), (''action_class'', JStr (ap_action_class r)),
         (''tool'', JStr (ap_tool r)), (''quorum_required'', JInt (ap_quorum_required r)),
         (''require_admin_approval'', JBool (ap_require_admin_approval r)), (''status'', JStr (ap_status r)),
         (''policy_generation'', JInt (ap_policy_generation r)), (''payload_hash'', JStr (ap_payload_hash r))],
       ev_owner = None, ev_status = ''success''\<rparr>"

definition create_approval_request ::
  "gw_settings \<Rightarrow> string \<Rightarrow> string \<Rightarrow> ApprovalRequestCreate \<Rightarrow> ApprovalRequest gw" where
  "create_approval_request cfg owner_subject actor_subject data = atomically (
     bindS (check_request cfg owner_subject data) (\<lambda>(p, c, executor, execution).
     bindS (liftE (optional_text (rc_idempotency_key data) 160)) (\<lambda>idempotency_key.
     bindS (find_approval_key owner_subject idempotency_key) (\<lambda>existing.
     case existing of Some r \<Rightarrow> ret r | None \<Rightarrow>
     let payload_hash = sha256 cfg (command_envelope c);
         rule = rule_of p (rc_action_class data)
     in bindS (liftE (bounded_int (jint (rc_ttl_seconds data)) ''ttl_seconds'' 30 86400
              (Some (gateway_autonomy_approval_ttl_seconds cfg)))) (\<lambda>ttl_seconds.
     bindS (gets clock) (\<lambda>now.
     bindS new_id (\<lambda>i.
     bindS (liftE (required_text (if rc_action_kind data = [] then ''run_tool'' else rc_action_kind data)
              ''action_kind'' 120)) (\<lambda>action_kind.
     bindS (liftE (bounded_int (JInt (ar_quorum rule)) ''quorum_required'' 0 20 None)) (\<lambda>quorum_required.
     let immediate = (quorum_required = 0 \<and> \<not> ar_require_admin rule);
         r = \<lparr>ap_id = i, ap_owner_subject = owner_subject, ap_room_id = po_room_id p,
           ap_policy_id = po_id p, ap_command_id = Some (cm_id c), ap_work_item_id = None,
           ap_integration_id = None, ap_proposer_agent_id = Some (cm_issuer_agent_id c),
           ap_executor_agent_id = ag_id executor, ap_action_kind = action_kind,
           ap_action_class = rc_action_class data, ap_tool = ex_tool execution,
           ap_command_profile = ex_command_profile execution, ap_payload_hash = payload_hash,
           ap_payload_summary = [(''command_id'', JStr (cm_id c)), (''tool'', JStr (ex_tool execution)),
             (''command_profile'', jopt (ex_command_profile execution)),
             (''argument_keys'', string_list (sorted_strings (map fst (ex_arguments execution)))),
             (''constraint_keys'', string_list (sorted_strings (map fst (cm_constraints c))))],
           ap_quorum_required = quorum_required, ap_require_admin_approval = ar_require_admin rule,
           ap_disallow_proposer_vote = ar_disallow_proposer rule,
           ap_status = (if immediate then ''approved'' else ''pending''),
           ap_policy_generation = po_generation p, ap_version = 1, ap_idempotency_key = idempotency_key,
           ap_created_by_subject = actor_subject, ap_expires_at = now + seconds ttl_seconds,
           ap_approved_at = (if immediate then Some now else None), ap_rejected_at = None,
           ap_revoked_at = None, ap_created_at = now, ap_updated_at = now\<rparr>
     in on_conflict
          (bindS (if immediate then put_command (c\<lparr>cm_approved_by_subject := Some (''approval:'' @ i),
                    cm_updated_at := now\<rparr>) else ret ()) (\<lambda>_.
           bindS (add_approval r) (\<lambda>_.
           bindS (requested_event cfg actor_subject r) (\<lambda>_. ret r))))
          (bindS (find_approval_key owner_subject idempotency_key) (\<lambda>existing.
           case existing of Some r \<Rightarrow> ret r
           | None \<Rightarrow> raise (HTTPException 409 ''Approval request conflict''))))))))))))"

section \<open>Voting\<close>

definition approval_user_can_vote :: "ApprovalRequest \<Rightarrow> User \<Rightarrow> gdb \<Rightarrow> bool" where
  "approval_user_can_vote r user w \<longleftrightarrow>
     us_subject user = ap_owner_subject r \<or> ''gateway-admin'' \<in> set (us_roles user) \<or>
     (case find (\<lambda>g. gr_owner_subject g = ap_owner_subject r \<and> gr_grantee_subject g = us_subject user \<and>
              gr_resource_type g = ''autonomy_approval'' \<and>
              gr_resource_id g \<in> {ap_id r, ap_policy_id r, ap_room_id r} \<and> gr_status g = ''active'')
            (access_grants w) of
        None \<Rightarrow> False | Some g \<Rightarrow> ''approve'' \<in> set (gr_scopes g))"

definition expire_approval :: "int \<Rightarrow> ApprovalRequest \<Rightarrow> ApprovalRequest" where
  "expire_approval now r =
     (if ap_status r = ''pending'' \<and> ap_expires_at r \<le> now
      then r\<lparr>ap_status := ''expired'', ap_updated_at := now, ap_version := ap_version r + 1\<rparr>
      else r)"

definition request_votes :: "string \<Rightarrow> gdb \<Rightarrow> ApprovalVote list" where
  "request_votes request_id w = filter (\<lambda>v. vo_request_id v = request_id) (approval_votes w)"

definition approves :: "ApprovalVote \<Rightarrow> bool" where
  "approves v \<longleftrightarrow> vo_decision v = ''approve''"

text \<open>The outcome that the recorded votes give a pending request.\<close>

definition votes_reject :: "ApprovalVote list \<Rightarrow> bool" where
  "votes_reject votes \<longleftrightarrow> list_ex (\<lambda>v. vo_decision v = ''reject'') votes"

definition votes_approve :: "ApprovalRequest \<Rightarrow> ApprovalVote list \<Rightarrow> bool" where
  "votes_approve r votes \<longleftrightarrow>
     ap_quorum_required r \<le> int (length (filter approves votes)) \<and>
     (ap_require_admin_approval r \<longrightarrow>
        list_ex (\<lambda>v. ''gateway-admin'' \<in> set (vo_voter_roles v)) (filter approves votes))"

definition approve_command :: "ApprovalRequest \<Rightarrow> int \<Rightarrow> unit gw" where
  "approve_command r now = (case ap_command_id r of
     Some (c # cs) \<Rightarrow>
       bindS (get_command (ap_owner_subject r) (c # cs)) (\<lambda>cmd.
       put_command (cmd\<lparr>cm_approved_by_subject := Some (''approval:'' @ ap_id r), cm_updated_at := now\<rparr>))
   | _ \<Rightarrow> ret ())"

definition decide :: "ApprovalRequest \<Rightarrow> ApprovalVote list \<Rightarrow> int \<Rightarrow> ApprovalRequest gw" where
  "decide r votes now =
     (if votes_reject votes
      then ret (r\<lparr>ap_status := ''rejected'', ap_rejected_at := Some now\<rparr>)
      else if votes_approve r votes then
        bindS (approve_command r now) (\<lambda>_.
        ret (r\<lparr>ap_status := ''approved'', ap_approved_at := Some now\<rparr>))
      else ret r)"

definition cast_vote ::
  "gw_settings \<Rightarrow> string \<Rightarrow> User \<Rightarrow> string \<Rightarrow> string option \<Rightarrow> ApprovalRequest gw" where
  "cast_vote cfg request_id user decision reason = atomically (
     bindS (get_approval request_id) (\<lambda>r0.
     bindS (gets (approval_user_can_vote r0 user)) (\<lambda>can_vote.
     bindS (guardS can_vote (HTTPException 403 ''Approval vote is outside granted scope'')) (\<lambda>_.
     bindS (gets clock) (\<lambda>now.
     let r = expire_approval now r0
     in bindS (guardS (ap_status r = ''pending'') (HTTPException 409 ''Approval request is not pending'')) (\<lambda>_.
     bindS (guardS (decision \<in> {''approve'', ''reject''})
              (HTTPException 400 ''Unsupported approval decision'')) (\<lambda>_.
     bindS (guardS (\<not> (ap_disallow_proposer_vote r \<and> us_subject user = ap_created_by_subject r))
              (HTTPException 403 ''Proposer cannot vote on this request'')) (\<lambda>_.
     bindS (query_one (\<lambda>v. vo_request_id v = ap_id r \<and> vo_voter_subject v = us_subject user) approval_votes)
       (\<lambda>existing.
     case existing of
       Some v \<Rightarrow>
         if vo_decision v = decision then ret r
         else raise (HTTPException 409 ''Voter already recorded a different decision'')
     | None \<Rightarrow>
         bindS new_id (\<lambda>i.
         bindS (liftE (optional_text reason 10000)) (\<lambda>reason.
         bindS (add_vote \<lparr>vo_id = i, vo_owner_subject = ap_owner_subject r, vo_request_id = ap_id r,
                  vo_voter_subject = us_subject user,
                  vo_voter_roles = sorted_strings (remdups (us_roles user)),
                  vo_decision = decision, vo_reason = reason, vo_created_at = now\<rparr>) (\<lambda>_.
         bindS (gets (request_votes (ap_id r))) (\<lambda>votes.
         bindS (decide r votes now) (\<lambda>decided.
         let final = decided\<lparr>ap_version := ap_version decided + 1, ap_updated_at := now\<rparr>
         in bindS (put_request final) (\<lambda>_.
         bindS (emit_event cfg \<lparr>ev_type = ''gateway.autonomy.approval.voted.v1'',
                  ev_actor = us_subject user, ev_act = decision, ev_resource_type = ''approval_request'',
                  ev_resource_id = Some (ap_id r),
                  ev_payload = [(''approval_request_id'', JStr (ap_id r)), (''decision'', JStr decision),
                    (''voter_subject'', JStr (us_subject user)), (''status'', JStr (ap_status final)),
                    (''approve_count'', JInt (int (length (filter approves votes)))),
                    (''quorum_required'', JInt (ap_quorum_required r))],
                  ev_owner = None, ev_status = (if decision = ''reject'' then ''warning'' else ''success'')\<rparr>) (\<lambda>_.
         ret final))))))))))))))))"

end
