(* ===== verification/Autonomy_Permit.thy ===== *)
theory Autonomy_Permit
  imports Autonomy_Approval
begin

text \<open>
  Execution permits and action receipts of \<open>agent_autonomy.py\<close>: an approved request is turned
  into one single-use permit, the executor claims it, and its receipt consumes it.
\<close>

section \<open>Issuing\<close>

definition verify_request_integrity :: "gw_settings \<Rightarrow> ApprovalRequest \<Rightarrow> AgentCommand gw" where
  "verify_request_integrity cfg r =
     bindS (get_policy (ap_owner_subject r) (ap_policy_id r)) (\<lambda>p.
     bindS (guardS (po_generation p = ap_policy_generation r \<and> po_status p = ''active'')
              (HTTPException 409 ''Approval policy generation is stale'')) (\<lambda>_.
     case ap_command_id r of
       None \<Rightarrow> raise (HTTPException 409 ''Approval request has no command'')
     | Some command_id \<Rightarrow>
         bindS (get_command (ap_owner_subject r) command_id) (\<lambda>c.
         bindS (guardS (sha256 cfg (command_envelope c) = ap_payload_hash r)
                  (HTTPException 409 ''Approved command payload changed'')) (\<lambda>_.
         bindS (guardS (cm_target_agent_id c = ap_executor_agent_id r)
                  (HTTPException 409 ''Approved executor changed'')) (\<lambda>_.
         ret c)))))"

definition expire_permit :: "int \<Rightarrow> ExecutionPermit \<Rightarrow> ExecutionPermit" where
  "expire_permit now p =
     (if pe_status p \<in> {''active'', ''claimed''} \<and> pe_expires_at p \<le> now
      then p\<lparr>pe_status := ''expired'', pe_updated_at := now\<rparr> else p)"

definition issued_event :: "gw_settings \<Rightarrow> string \<Rightarrow> ExecutionPermit \<Rightarrow> unit gw" where
  "issued_event cfg actor_subject p =
     emit_event cfg \<lparr>ev_type = ''gateway.autonomy.permit.issued.v1'', ev_actor = actor_subject,
       ev_act = ''issued'', ev_resource_type = ''execution_permit'', ev_resource_id = Some (pe_id p),
       ev_payload = [(''permit_id'', JStr (pe_id p)), (''approval_request_id'', JStr (pe_approval_request_id p)),
         (''policy_id'', JStr (pe_policy_id p)), (''command_id'', jopt (pe_command_id p)),
         (''executor_agent_id'', JStr (pe_executor_agent_id p)), (''action_class'', JStr (pe_action_class p)),
         (''tool'', JStr (pe_tool p)), (''payload_hash'', JStr (pe_payload_hash p)),
         (''policy_generation'', JInt (pe_policy_generation p)), (''fencing_token'', JInt (pe_fencing_token p)),
         (''expires_at'', JStr (isoformat (pe_expires_at p)))],
       ev_owner = None, ev_status = ''success''\<rparr>"

definition issue_permit ::
  "gw_settings \<Rightarrow> string \<Rightarrow> string \<Rightarrow> string \<Rightarrow> int option \<Rightarrow> ExecutionPermit gw" where
  "issue_permit cfg owner_subject actor_subject request_id ttl_seconds = atomically (
     bindS (get_approval request_id) (\<lambda>r0.
     bindS (guardS (ap_owner_subject r0 = owner_subject)
              (HTTPException 404 ''Approval request not found'')) (\<lambda>_.
     bindS (gets clock) (\<lambda>now.
     let r = expire_approval now r0
     in bindS (guardS (ap_status r = ''approved'')
              (HTTPException 409 ''Approval request is not approved'')) (\<lambda>_.
     bindS (verify_request_integrity cfg r) (\<lambda>c.
     bindS (get_policy owner_subject (ap_policy_id r)) (\<lambda>p.
     bindS (assert_enabled cfg owner_subject (ap_room_id r) p) (\<lambda>snapshot.
     bindS (query_one (\<lambda>q. pe_approval_request_id q = ap_id r) execution_permits) (\<lambda>existing.
     case existing of
       Some q \<Rightarrow>
         let q = expire_permit now q
         in if pe_status q \<in> {''active'', ''claimed''} then ret q
            else raise (HTTPException 409 ''Terminal execution permit requires a new approval request'')
     | None \<Rightarrow>
         bindS (liftE (bounded_int (jint ttl_seconds) ''ttl_seconds'' 30 3600
                  (Some (gateway_autonomy_permit_ttl_seconds cfg)))) (\<lambda>requested_ttl.
         let expires_at = min (ap_expires_at r) (now + seconds requested_ttl)
         in bindS (guardS (now < expires_at) (HTTPException 409 ''Approval request has expired'')) (\<lambda>_.
         bindS new_id (\<lambda>i.
         let q = \<lparr>pe_id = i, pe_owner_subject = owner_subject, pe_approval_request_id = ap_id r,
               pe_policy_id = po_id p, pe_command_id = Some (cm_id c),
               pe_executor_agent_id = ap_executor_agent_id r, pe_action_class = ap_action_class r,
               pe_tool = ap_tool r, pe_command_profile = ap_command_profile r,
               pe_payload_hash = ap_payload_hash r, pe_status = ''active'',
               pe_policy_generation = po_generation p, pe_control_snapshot = snapshot,
               pe_fencing_token = 1, pe_max_uses = 1, pe_use_count = 0,
               pe_issued_by_subject = actor_subject, pe_issued_at = now, pe_expires_at = expires_at,
               pe_claimed_at = None, pe_consumed_at = None, pe_revoked_at = None,
               pe_revocation_reason = None, pe_created_at = now, pe_updated_at = now\<rparr>
         in bindS (add_permit q) (\<lambda>_.
         bindS (issued_event cfg actor_subject q) (\<lambda>_.
         ret q))))))))))))))"

section \<open>Claiming\<close>

text \<open>\<open>==\<close> on the generation dictionaries: the order of the keys does not matter.\<close>

definition same_generations :: "(string \<times> int) list \<Rightarrow> (string \<times> int) list \<Rightarrow> bool" where
  "same_generations a b \<longleftrightarrow>
     (\<forall>k \<in> set (map fst a) \<union> set (map fst b). map_of (rev a) k = map_of (rev b) k)"

definition claim_permit ::
  "gw_settings \<Rightarrow> string \<Rightarrow> string \<Rightarrow> string \<Rightarrow> ExecutionPermit gw" where
  "claim_permit cfg owner_subject permit_id executor_agent_id = atomically (
     bindS (get_permit owner_subject permit_id) (\<lambda>q0.
     bindS (gets clock) (\<lambda>now.
     let q = expire_permit now q0
     in if pe_status q = ''claimed'' \<and> pe_executor_agent_id q = executor_agent_id then ret q else
     bindS (guardS (pe_status q = ''active'') (HTTPException 409 ''Execution permit is not active'')) (\<lambda>_.
     bindS (guardS (pe_executor_agent_id q = executor_agent_id)
              (HTTPException 403 ''Execution permit belongs to another agent'')) (\<lambda>_.
     bindS (get_approval (pe_approval_request_id q)) (\<lambda>r.
     bindS (verify_request_integrity cfg r) (\<lambda>c.
     bindS (get_policy owner_subject (pe_policy_id q)) (\<lambda>p.
     bindS (assert_enabled cfg owner_subject (ap_room_id r) p) (\<lambda>snapshot.
     bindS (guardS (po_generation p = pe_policy_generation q)
              (HTTPException 409 ''Execution permit policy generation is stale'')) (\<lambda>_.
     bindS (guardS (same_generations (cv_generations snapshot) (cv_generations (pe_control_snapshot q)))
              (HTTPException 409 ''Execution permit control generation is stale'')) (\<lambda>_.
     bindS (guardS (cm_status c = ''accepted'')
              (HTTPException 409 ''Command must be accepted before permit claim'')) (\<lambda>_.
     let sel = (\<lambda>x. pe_id x = pe_id q \<and> pe_owner_subject x = owner_subject \<and> pe_status x = ''active'' \<and>
           pe_fencing_token x = pe_fencing_token q)
     in bindS (gets (\<lambda>w. count_where sel (execution_permits w))) (\<lambda>changed.
     bindS (guardS (changed = 1) (HTTPException 409 ''Execution permit claim conflict'')) (\<lambda>_.
     bindS (modify (\<lambda>w. w\<lparr>execution_permits := update_where sel (\<lambda>x. x\<lparr>pe_status := ''claimed'',
              pe_claimed_at := Some now, pe_use_count := pe_use_count x + 1, pe_updated_at := now\<rparr>)
              (execution_permits w)\<rparr>)) (\<lambda>_.
     bindS (get_permit owner_subject (pe_id q)) (\<lambda>claimed.
     bindS (emit_event cfg \<lparr>ev_type = ''gateway.autonomy.permit.claimed.v1'', ev_actor = owner_subject,
              ev_act = ''claimed'', ev_resource_type = ''execution_permit'', ev_resource_id = Some (pe_id claimed),
              ev_payload = [(''permit_id'', JStr (pe_id claimed)),
                (''approval_request_id'', JStr (pe_approval_request_id claimed)),
                (''command_id'', jopt (pe_command_id claimed)),
                (''executor_agent_id'', JStr (pe_executor_agent_id claimed)),
                (''fencing_token'', JInt (pe_fencing_token claimed)),
                (''payload_hash'', JStr (pe_payload_hash claimed))],
              ev_owner = None, ev_status = ''success''\<rparr>) (\<lambda>_.
     ret claimed)))))))))))))))))"

section \<open>Receipts\<close>

definition RECEIPT_STATUSES :: "string list" where
  "RECEIPT_STATUSES = [''succeeded'', ''failed'', ''partial'', ''unknown'']"

record ActionReceiptCreate =
  rr_permit_id :: string
  rr_executor_agent_id :: string
  rr_fencing_token :: int
  rr_status :: string
  rr_result_summary :: "(string \<times> json) list"
  rr_error :: "string option"
  rr_external_references :: "json list"
  rr_started_at :: int
  rr_completed_at :: int
  rr_idempotency_key :: "string option"

definition find_receipt_key :: "string \<Rightarrow> string option \<Rightarrow> ActionReceipt option gw" where
  "find_receipt_key owner_subject idempotency_key =
     (case idempotency_key of
        None \<Rightarrow> ret None
      | Some k \<Rightarrow> query_one (\<lambda>r. re_owner_subject r = owner_subject \<and> re_idempotency_key r = Some k)
          action_receipts)"

definition output_hash :: "gw_settings \<Rightarrow> ActionReceiptCreate \<Rightarrow> string" where
  "output_hash cfg data = sha256 cfg (JObj [(''status'', JStr (rr_status data)),
     (''result_summary'', JObj (rr_result_summary data)), (''error'', jopt (rr_error data)),
     (''external_references'', JList (rr_external_references data))])"

definition receipt_event :: "gw_settings \<Rightarrow> string \<Rightarrow> ExecutionPermit \<Rightarrow> ActionReceipt \<Rightarrow> unit gw" where
  "receipt_event cfg owner_subject q x =
     emit_event cfg \<lparr>ev_type = ''gateway.autonomy.action.receipt.recorded.v1'', ev_actor = owner_subject,
       ev_act = re_status x, ev_resource_type = ''action_receipt'', ev_resource_id = Some (re_id x),
       ev_payload = [(''receipt_id'', JStr (re_id x)), (''permit_id'', JStr (re_permit_id x)),
         (''approval_request_id'', JStr (re_approval_request_id x)), (''command_id'', jopt (re_command_id x)),
         (''executor_agent_id'', JStr (re_executor_agent_id x)), (''action_class'', JStr (re_action_class x)),
         (''tool'', JStr (re_tool x)), (''status'', JStr (re_status x)), (''input_hash'', JStr (re_input_hash x)),
         (''output_hash'', JStr (re_output_hash x)), (''fencing_token'', JInt (pe_fencing_token q))],
       ev_owner = None, ev_status = (if re_status x = ''succeeded'' then ''success'' else ''warning'')\<rparr>"

definition record_receipt :: "gw_settings \<Rightarrow> string \<Rightarrow> ActionReceiptCreate \<Rightarrow> ActionReceipt gw" where
  "record_receipt cfg owner_subject data = atomically (
     bindS (liftE (optional_text (rr_idempotency_key data) 160)) (\<lambda>idempotency_key.
     bindS (find_receipt_key owner_subject idempotency_key) (\<lambda>existing.
     case existing of Some x \<Rightarrow> ret x | None \<Rightarrow>
     bindS (liftE (required_text (rr_permit_id data) ''permit_id'' 36)) (\<lambda>permit_id.
     bindS (get_permit owner_subject permit_id) (\<lambda>q.
     bindS (liftE (required_text (rr_executor_agent_id data) ''executor_agent_id'' 36)) (\<lambda>executor_agent_id.
     bindS (guardS (pe_executor_agent_id q = executor_agent_id)
              (HTTPException 403 ''Receipt executor does not match permit'')) (\<lambda>_.
     bindS (guardS (pe_fencing_token q = rr_fencing_token data)
              (HTTPException 409 ''Receipt fencing token is stale'')) (\<lambda>_.
     bindS (guardS (pe_status q \<in> {''claimed'', ''revoked''} \<and> pe_claimed_at q \<noteq> None)
              (HTTPException 409 ''Permit was not claimed for execution'')) (\<lambda>_.
     bindS (guardS (rr_status data \<in> set RECEIPT_STATUSES)
              (HTTPException 400 ''Unsupported receipt status'')) (\<lambda>_.
     bindS (liftE (safe_structured (JObj (rr_result_summary data)) ''action receipt result'')) (\<lambda>_.
     bindS (liftE (safe_structured (JList (rr_external_references data)) ''action receipt external references'')) (\<lambda>_.
     bindS (guardS (rr_started_at data \<le> rr_completed_at data)
              (HTTPException 400 ''Receipt completion precedes start'')) (\<lambda>_.
     bindS (gets clock) (\<lambda>now.
     bindS new_id (\<lambda>i.
     bindS (liftE (optional_text (rr_error data) 10000)) (\<lambda>error.
     let x = \<lparr>re_id = i, re_owner_subject = owner_subject, re_permit_id = pe_id q,
           re_approval_request_id = pe_approval_request_id q, re_command_id = pe_command_id q,
           re_executor_agent_id = executor_agent_id, re_action_class = pe_action_class q,
           re_tool = pe_tool q, re_command_profile = pe_command_profile q, re_status = rr_status data,
           re_input_hash = pe_payload_hash q, re_output_hash = output_hash cfg data,
           re_result_summary = rr_result_summary data, re_error = error,
           re_external_references = rr_external_references data, re_idempotency_key = idempotency_key,
           re_started_at = rr_started_at data, re_completed_at = rr_completed_at data,
           re_created_at = now\<rparr>
     in on_conflict
          (bindS (add_receipt x) (\<lambda>_.
           bindS (put_permit (q\<lparr>pe_status := ''consumed'', pe_consumed_at := Some now, pe_updated_at := now\<rparr>)) (\<lambda>_.
           bindS (receipt_event cfg owner_subject q x) (\<lambda>_. ret x))))
          (bindS (query_one (\<lambda>y. re_permit_id y = pe_id q) action_receipts) (\<lambda>existing.
           case existing of Some y \<Rightarrow> ret y
           | None \<Rightarrow> raise (HTTPException 409 ''Action receipt conflict'')))))))))))))))))))"

section \<open>Listings that expire rows\<close>

definition visible_request :: "User \<Rightarrow> gdb \<Rightarrow> ApprovalRequest \<Rightarrow> bool" where
  "visible_request user w r \<longleftrightarrow>
     ''gateway-admin'' \<in> set (us_roles user) \<or> ap_owner_subject r = us_subject user \<or>
     (\<exists>g \<in> set (access_grants w). gr_grantee_subject g = us_subject user \<and>
        gr_resource_type g = ''autonomy_approval'' \<and> gr_status g = ''active'' \<and>
        ''approve'' \<in> set (gr_scopes g) \<and> strip (gr_resource_id g) \<noteq> [] \<and>
        ap_owner_subject r = gr_owner_subject g \<and>
        strip (gr_resource_id g) \<in> {ap_id r, ap_policy_id r, ap_room_id r})"

text \<open>The caller lists either as a user, or for an owner.\<close>

definition list_approval_requests ::
  "string + User \<Rightarrow> string option \<Rightarrow> string option \<Rightarrow> ApprovalRequest list gw" where
  "list_approval_requests viewer room_id status = (\<lambda>w.
     let seen = (\<lambda>r. case viewer of Inl owner \<Rightarrow> ap_owner_subject r = owner | Inr user \<Rightarrow> visible_request user w r);
         sel = (\<lambda>r. seen r \<and> opt_is room_id (ap_room_id r) \<and> opt_is status (ap_status r));
         rows = sort_key (\<lambda>r. - ap_created_at r) (filter sel (approval_requests w))
     in (Inr (map (expire_approval (clock w)) rows),
         w\<lparr>approval_requests := update_where sel (expire_approval (clock w)) (approval_requests w)\<rparr>))"

definition list_permits :: "string \<Rightarrow> string option \<Rightarrow> ExecutionPermit list gw" where
  "list_permits owner_subject status = (\<lambda>w.
     let sel = (\<lambda>p. pe_owner_subject p = owner_subject \<and> opt_is status (pe_status p));
         rows = sort_key (\<lambda>p. - pe_created_at p) (filter sel (execution_permits w))
     in (Inr (map (expire_permit (clock w)) rows),
         w\<lparr>execution_permits := update_where sel (expire_permit (clock w)) (execution_permits w)\<rparr>))"

end
