(* ===== verification/Autonomy_Safety.thy ===== *)
theory Autonomy_Safety
  imports Autonomy_Permit
begin

text \<open>
  The safety argument of guarded execution: an invariant that ties every receipt to a consumed
  permit, every permit to an approved request, and every approved request to the votes that
  approved it, and its preservation by every call that touches those tables.
\<close>

section \<open>Invariant\<close>

definition votes_of :: "ApprovalVote list \<Rightarrow> ApprovalRequest \<Rightarrow> ApprovalVote list" where
  "votes_of votes r = filter (\<lambda>v. vo_request_id v = ap_id r) votes"

definition request_ok :: "ApprovalVote list \<Rightarrow> ApprovalRequest \<Rightarrow> bool" where
  "request_ok votes r \<longleftrightarrow>
     (ap_status r = ''approved'' \<longrightarrow> votes_approve r (votes_of votes r) \<and> \<not> votes_reject (votes_of votes r)) \<and>
     (ap_disallow_proposer_vote r \<longrightarrow>
        (\<forall>v \<in> set (votes_of votes r). vo_voter_subject v \<noteq> ap_created_by_subject r))"

definition bound_to :: "ExecutionPermit \<Rightarrow> ApprovalRequest \<Rightarrow> bool" where
  "bound_to p r \<longleftrightarrow> ap_id r = pe_approval_request_id p \<and> ap_owner_subject r = pe_owner_subject p \<and>
     ap_policy_id r = pe_policy_id p \<and> ap_command_id r = pe_command_id p \<and>
     ap_executor_agent_id r = pe_executor_agent_id p \<and> ap_action_class r = pe_action_class p \<and>
     ap_tool r = pe_tool p \<and> ap_command_profile r = pe_command_profile p \<and>
     ap_payload_hash r = pe_payload_hash p \<and> ap_policy_generation r = pe_policy_generation p"

definition permit_ok :: "ApprovalRequest list \<Rightarrow> ActionReceipt list \<Rightarrow> ExecutionPermit \<Rightarrow> bool" where
  "permit_ok reqs receipts p \<longleftrightarrow>
     (\<exists>r \<in> set reqs. bound_to p r \<and> ap_status r = ''approved'' \<and> pe_expires_at p \<le> ap_expires_at r) \<and>
     pe_max_uses p = 1 \<and> pe_use_count p = (if pe_claimed_at p = None then 0 else 1) \<and>
     pe_status p \<in> {''active'', ''claimed'', ''consumed'', ''expired'', ''revoked''} \<and>
     (pe_status p = ''active'' \<longrightarrow> pe_claimed_at p = None) \<and>
     (pe_status p \<in> {''claimed'', ''consumed''} \<longrightarrow> pe_claimed_at p \<noteq> None) \<and>
     (pe_status p = ''consumed'' \<longleftrightarrow> (\<exists>x \<in> set receipts. re_permit_id x = pe_id p))"

definition receipt_for :: "ActionReceipt \<Rightarrow> ExecutionPermit \<Rightarrow> bool" where
  "receipt_for x p \<longleftrightarrow> pe_id p = re_permit_id x \<and> pe_owner_subject p = re_owner_subject x \<and>
     pe_approval_request_id p = re_approval_request_id x \<and> pe_command_id p = re_command_id x \<and>
     pe_executor_agent_id p = re_executor_agent_id x \<and> pe_tool p = re_tool x \<and>
     pe_action_class p = re_action_class x \<and> pe_payload_hash p = re_input_hash x"

definition exec_ok ::
  "ApprovalRequest list \<Rightarrow> ApprovalVote list \<Rightarrow> ExecutionPermit list \<Rightarrow> ActionReceipt list \<Rightarrow> bool" where
  "exec_ok reqs votes permits receipts \<longleftrightarrow>
     unique_on ap_id reqs \<and> unique_on pe_id permits \<and> unique_on pe_approval_request_id permits \<and>
     unique_on re_permit_id receipts \<and> unique_on (\<lambda>v. (vo_request_id v, vo_voter_subject v)) votes \<and>
     (\<forall>v \<in> set votes. \<exists>r \<in> set reqs. ap_id r = vo_request_id v) \<and>
     (\<forall>r \<in> set reqs. request_ok votes r) \<and>
     (\<forall>p \<in> set permits. permit_ok reqs receipts p) \<and>
     (\<forall>x \<in> set receipts. \<exists>p \<in> set permits. receipt_for x p)"

definition exec_inv :: "gdb \<Rightarrow> bool" where
  "exec_inv w \<longleftrightarrow> exec_ok (approval_requests w) (approval_votes w) (execution_permits w) (action_receipts w)"

lemmas exec_ok_parts = exec_ok_def request_ok_def permit_ok_def

section \<open>Steps on the tables\<close>

text \<open>A new request whose identifier no request has.\<close>

lemma exec_ok_add_request:
  assumes ok: "exec_ok reqs votes permits receipts" and fresh: "\<forall>q \<in> set reqs. ap_id q \<noteq> ap_id r"
    and status: "ap_status r = ''approved'' \<Longrightarrow> ap_quorum_required r \<le> 0 \<and> \<not> ap_require_admin_approval r"
  shows "exec_ok (reqs @ [r]) votes permits receipts"
proof -
  have none: "votes_of votes r = []"
    using ok fresh by (fastforce simp: exec_ok_def votes_of_def filter_empty_conv)
  then have "request_ok votes r"
    using status by (auto simp: request_ok_def votes_approve_def votes_reject_def)
  then show ?thesis
    using ok fresh by (auto simp: exec_ok_def permit_ok_def)
qed

text \<open>
  A request rewritten in its row: its binding is kept, an approved one stays approved, and the
  votes justify the new state.
\<close>

definition same_binding :: "ApprovalRequest \<Rightarrow> ApprovalRequest \<Rightarrow> bool" where
  "same_binding r r' \<longleftrightarrow> ap_id r' = ap_id r \<and> ap_owner_subject r' = ap_owner_subject r \<and>
     ap_policy_id r' = ap_policy_id r \<and> ap_command_id r' = ap_command_id r \<and>
     ap_executor_agent_id r' = ap_executor_agent_id r \<and> ap_action_class r' = ap_action_class r \<and>
     ap_tool r' = ap_tool r \<and> ap_command_profile r' = ap_command_profile r \<and>
     ap_payload_hash r' = ap_payload_hash r \<and> ap_policy_generation r' = ap_policy_generation r \<and>
     ap_expires_at r' = ap_expires_at r \<and>
     (ap_status r = ''approved'' \<longrightarrow> ap_status r' = ''approved'')"

lemma same_binding_refl [simp]: "same_binding r r"
  by (simp add: same_binding_def)

lemma permit_ok_mono:
  assumes "permit_ok reqs receipts p" and "\<And>r. r \<in> set reqs \<Longrightarrow> \<exists>r' \<in> set reqs'. same_binding r r'"
  shows "permit_ok reqs' receipts p"
proof -
  obtain r where r: "r \<in> set reqs" "bound_to p r" "ap_status r = ''approved''" "pe_expires_at p \<le> ap_expires_at r"
    using assms(1) by (auto simp: permit_ok_def)
  obtain r' where "r' \<in> set reqs'" "same_binding r r'" using assms(2) [OF r(1)] by blast
  then have "\<exists>r \<in> set reqs'. bound_to p r \<and> ap_status r = ''approved'' \<and> pe_expires_at p \<le> ap_expires_at r"
    using r by (auto simp: bound_to_def same_binding_def intro!: bexI [of _ r'])
  then show ?thesis using assms(1) unfolding permit_ok_def by blast
qed

text \<open>Any rewriting of requests that keeps bindings and stays justified by the votes.\<close>

lemma exec_ok_map_requests:
  assumes ok: "exec_ok reqs votes permits receipts"
    and keep: "\<And>r. r \<in> set reqs \<Longrightarrow> same_binding r (f r) \<and> request_ok votes (f r)"
  shows "exec_ok (map f reqs) votes permits receipts"
proof -
  have ids: "map ap_id (map f reqs) = map ap_id reqs"
    using keep by (auto simp: same_binding_def)
  have "\<exists>r' \<in> set (map f reqs). same_binding r r'" if "r \<in> set reqs" for r
    using keep [OF that] that by auto
  then have "\<forall>p \<in> set permits. permit_ok (map f reqs) receipts p"
    using ok by (auto simp: exec_ok_def intro: permit_ok_mono)
  moreover have "\<forall>v \<in> set votes. \<exists>r \<in> set (map f reqs). ap_id r = vo_request_id v"
    using ok keep unfolding exec_ok_def same_binding_def by (metis image_eqI set_map)
  moreover have "unique_on ap_id (map f reqs)"
    using ok unfolding exec_ok_def unique_on_def ids by blast
  ultimately show ?thesis
    using ok keep unfolding exec_ok_def by auto
qed

lemma votes_of_snoc:
  "votes_of (votes @ [v]) r = votes_of votes r @ (if vo_request_id v = ap_id r then [v] else [])"
  by (simp add: votes_of_def)

text \<open>A vote on a pending request, together with the new state of the request.\<close>

lemma exec_ok_vote:
  assumes ok: "exec_ok reqs votes permits receipts" and r: "r \<in> set reqs" "ap_status r \<noteq> ''approved''"
    and v: "vo_request_id v = ap_id r" "\<forall>u \<in> set votes. vo_request_id u = ap_id r \<longrightarrow>
      vo_voter_subject u \<noteq> vo_voter_subject v"
    and r': "same_binding r r'" "request_ok (votes @ [v]) r'"
  shows "exec_ok (update_where (\<lambda>q. ap_id q = ap_id r') (\<lambda>_. r') reqs) (votes @ [v]) permits receipts"
proof -
  have id: "ap_id r' = ap_id r" using r' by (simp add: same_binding_def)
  have u: "unique_on ap_id reqs" using ok by (simp add: exec_ok_def)
  have other: "request_ok (votes @ [v]) q" if "q \<in> set reqs" "ap_id q \<noteq> ap_id r" for q
    using ok that v by (simp add: exec_ok_def request_ok_def votes_of_snoc)
  have pend: "q = r" if "q \<in> set reqs" "ap_id q = ap_id r" for q
    using unique_on_eqD [OF u that(1) r(1) that(2)] .
  let ?f = "\<lambda>q. if ap_id q = ap_id r' then r' else q"
  have "\<exists>q' \<in> set (map ?f reqs). same_binding q q'" if q: "q \<in> set reqs" for q
  proof (rule bexI [of _ "?f q"])
    show "same_binding q (?f q)" using r' id pend [OF q] by auto
    show "?f q \<in> set (map ?f reqs)" using q unfolding set_map by (rule imageI)
  qed
  then have "\<forall>p \<in> set permits. permit_ok (map ?f reqs) receipts p"
    using ok by (auto simp: exec_ok_def intro: permit_ok_mono)
  moreover have "\<forall>q \<in> set (map ?f reqs). request_ok (votes @ [v]) q" using other r'(2) id by auto
  moreover have "unique_on ap_id (map ?f reqs)"
    using u by (auto simp: unique_on_def comp_def if_distrib cong: if_cong)
  moreover have "\<forall>u \<in> set (votes @ [v]). \<exists>q \<in> set (map ?f reqs). ap_id q = vo_request_id u"
  proof
    fix u
    assume "u \<in> set (votes @ [v])"
    then obtain q where "q \<in> set reqs" "ap_id q = vo_request_id u"
      using ok r v by (auto simp: exec_ok_def)
    then have "?f q \<in> set (map ?f reqs)" "ap_id (?f q) = vo_request_id u" by auto
    then show "\<exists>q \<in> set (map ?f reqs). ap_id q = vo_request_id u" by blast
  qed
  ultimately show ?thesis
    using ok v unfolding exec_ok_def update_where_def by auto
qed

text \<open>A permit for an approved request that has none.\<close>

lemma exec_ok_add_permit:
  assumes ok: "exec_ok reqs votes permits receipts"
    and fresh: "\<forall>q \<in> set permits. pe_id q \<noteq> pe_id p \<and> pe_approval_request_id q \<noteq> pe_approval_request_id p"
    and r: "r \<in> set reqs" "bound_to p r" "ap_status r = ''approved''" "pe_expires_at p \<le> ap_expires_at r"
    and p: "pe_max_uses p = 1" "pe_use_count p = 0" "pe_status p = ''active''" "pe_claimed_at p = None"
  shows "exec_ok reqs votes (permits @ [p]) receipts"
proof -
  have "\<forall>x \<in> set receipts. re_permit_id x \<noteq> pe_id p"
    using ok fresh by (fastforce simp: exec_ok_def receipt_for_def)
  then have "permit_ok reqs receipts p" using r p by (auto simp: permit_ok_def)
  then show ?thesis using ok fresh by (auto simp: exec_ok_def)
qed

text \<open>Permits rewritten in their rows, without a receipt.\<close>

definition permit_kept :: "ExecutionPermit \<Rightarrow> ExecutionPermit \<Rightarrow> bool" where
  "permit_kept p p' \<longleftrightarrow> pe_id p' = pe_id p \<and> pe_owner_subject p' = pe_owner_subject p \<and>
     pe_approval_request_id p' = pe_approval_request_id p \<and> pe_policy_id p' = pe_policy_id p \<and>
     pe_command_id p' = pe_command_id p \<and> pe_executor_agent_id p' = pe_executor_agent_id p \<and>
     pe_action_class p' = pe_action_class p \<and> pe_tool p' = pe_tool p \<and>
     pe_command_profile p' = pe_command_profile p \<and> pe_payload_hash p' = pe_payload_hash p \<and>
     pe_policy_generation p' = pe_policy_generation p \<and> pe_expires_at p' = pe_expires_at p \<and>
     pe_max_uses p' = pe_max_uses p"

lemma permit_kept_refl [simp]: "permit_kept p p"
  by (simp add: permit_kept_def)

lemma exec_ok_map_permits:
  assumes ok: "exec_ok reqs votes permits receipts"
    and keep: "\<And>p. p \<in> set permits \<Longrightarrow> permit_kept p (f p) \<and> permit_ok reqs receipts (f p)"
  shows "exec_ok reqs votes (map f permits) receipts"
proof -
  have ids: "map pe_id (map f permits) = map pe_id permits"
    "map pe_approval_request_id (map f permits) = map pe_approval_request_id permits"
    using keep by (auto simp: permit_kept_def)
  have "\<exists>p \<in> set (map f permits). receipt_for x p" if x: "x \<in> set receipts" for x
  proof -
    obtain p where "p \<in> set permits" "receipt_for x p" using ok x unfolding exec_ok_def by blast
    then show ?thesis using keep [of p] by (auto simp: receipt_for_def permit_kept_def)
  qed
  moreover have "unique_on pe_id (map f permits)" "unique_on pe_approval_request_id (map f permits)"
    using ok unfolding exec_ok_def unique_on_def ids by blast+
  ultimately show ?thesis using ok keep unfolding exec_ok_def by auto
qed

text \<open>Receipt of a claimed permit: the permit is consumed in the same step.\<close>

lemma exec_ok_receipt:
  assumes ok: "exec_ok reqs votes permits receipts" and p: "p \<in> set permits" "pe_claimed_at p \<noteq> None"
    and fresh: "\<forall>y \<in> set receipts. re_permit_id y \<noteq> re_permit_id x" and x: "receipt_for x p"
    and p': "permit_kept p p'" "pe_status p' = ''consumed''" "pe_claimed_at p' = pe_claimed_at p"
      "pe_use_count p' = pe_use_count p"
  shows "exec_ok reqs votes (update_where (\<lambda>q. pe_id q = pe_id p') (\<lambda>_. p') permits) (receipts @ [x])"
proof -
  let ?f = "\<lambda>q. if pe_id q = pe_id p' then p' else q"
  have id: "pe_id p' = pe_id p" "re_permit_id x = pe_id p"
    using p' x by (auto simp: permit_kept_def receipt_for_def)
  have u: "unique_on pe_id permits" using ok by (simp add: exec_ok_def)
  have same: "q = p" if "q \<in> set permits" "pe_id q = pe_id p" for q
    using unique_on_eqD [OF u that(1) p(1) that(2)] .
  have pok: "permit_ok reqs receipts p" using ok p by (simp add: exec_ok_def)
  then have "permit_ok reqs (receipts @ [x]) p'"
    using p p' id by (auto simp: permit_ok_def permit_kept_def bound_to_def)
  moreover have "permit_ok reqs (receipts @ [x]) q" if "q \<in> set permits" "pe_id q \<noteq> pe_id p" for q
    using ok that id by (auto simp: exec_ok_def permit_ok_def)
  ultimately have "\<forall>q \<in> set (map ?f permits). permit_ok reqs (receipts @ [x]) q" using id by auto
  moreover have ids: "map pe_id (map ?f permits) = map pe_id permits"
    "map pe_approval_request_id (map ?f permits) = map pe_approval_request_id permits"
    using same p' id by (auto simp: permit_kept_def)
  then have "unique_on pe_id (map ?f permits)" "unique_on pe_approval_request_id (map ?f permits)"
    using ok unfolding exec_ok_def unique_on_def by metis+
  moreover have "\<exists>q \<in> set (map ?f permits). receipt_for y q" if y: "y \<in> set (receipts @ [x])" for y
  proof -
    obtain q where q: "q \<in> set permits" "receipt_for y q"
      using ok y p x unfolding exec_ok_def by auto
    then have "receipt_for y (?f q)"
      using same [of q] p' id by (auto simp: receipt_for_def permit_kept_def)
    moreover have "?f q \<in> set (map ?f permits)" using q(1) unfolding set_map by (rule imageI)
    ultimately show ?thesis by blast
  qed
  ultimately show ?thesis
    using ok fresh unfolding exec_ok_def update_where_def by simp
qed

section \<open>Calls\<close>

text \<open>The tables the argument is about; a step that leaves them alone keeps the invariant.\<close>

definition same_exec :: "gdb \<Rightarrow> gdb \<Rightarrow> bool" where
  "same_exec w w' \<longleftrightarrow> approval_requests w' = approval_requests w \<and> approval_votes w' = approval_votes w \<and>
     execution_permits w' = execution_permits w \<and> action_receipts w' = action_receipts w"

lemma exec_inv_frame: "exec_inv w \<Longrightarrow> same_exec w w' \<Longrightarrow> exec_inv w'"
  by (simp add: exec_inv_def same_exec_def)

lemma exec_inv_simps [simp]:
  "exec_inv (w\<lparr>audit_events := a\<rparr>) = exec_inv w" "exec_inv (w\<lparr>outbox_events := b\<rparr>) = exec_inv w"
  "exec_inv (w\<lparr>id_pos := n\<rparr>) = exec_inv w" "exec_inv (w\<lparr>agent_commands := c\<rparr>) = exec_inv w"
  "exec_inv (w\<lparr>autonomy_policies := p\<rparr>) = exec_inv w" "exec_inv (w\<lparr>autonomy_control_states := s\<rparr>) = exec_inv w"
  "exec_inv (w\<lparr>autonomy_overrides := v\<rparr>) = exec_inv w" "exec_inv (w\<lparr>recovery_loops := l\<rparr>) = exec_inv w"
  "exec_inv (w\<lparr>clock := t\<rparr>) = exec_inv w"
  by (simp_all add: exec_inv_def)

lemma wpr_snapshot_loop:
  assumes "\<And>x. Q x w"
  shows "wpr (snapshot_loop now scopes acc) Q w"
proof (induction scopes arbitrary: acc)
  case Nil
  then show ?case using assms by simp
next
  case (Cons sc scopes)
  obtain a b c where "sc = (a, b, c)" by (cases sc)
  moreover obtain e r g where "acc = (e, r, g)" by (cases acc)
  ultimately show ?case
    using Cons assms by (auto simp: control_row_def Let_def intro!: wpr_query_one)
qed

lemma wpr_control_snapshot: "(\<And>x. Q x w) \<Longrightarrow> wpr (control_snapshot cfg owner room_id policy_id) Q w"
  by (auto simp: control_snapshot_def intro!: wpr_snapshot_loop split: prod.splits)

lemma wpr_assert_enabled: "(\<And>x. Q x w) \<Longrightarrow> wpr (assert_enabled cfg owner room_id p) Q w"
  by (auto simp: assert_enabled_def intro!: wpr_control_snapshot)

lemma wpr_check_request: "(\<And>x. Q x w) \<Longrightarrow> wpr (check_request cfg owner data) Q w"
  unfolding check_request_def get_policy_def get_command_def get_agent_def wp_bind
  by (intro wpr_intros wpr_assert_enabled) simp

lemma wpr_find_key:
  "(\<And>x. Q x w) \<Longrightarrow> wpr (find_approval_key owner k) Q w"
  "(\<And>x. Q' x w) \<Longrightarrow> wpr (find_receipt_key owner k) Q' w"
  "(\<And>x. R x w) \<Longrightarrow> wpr (find_policy_key owner k) R w"
  by (auto simp: find_approval_key_def find_receipt_key_def find_policy_key_def
      intro!: wpr_query_one split: option.splits)

lemma exec_inv_create_approval_request:
  assumes inv: "exec_inv w"
  shows "wpr (create_approval_request cfg owner actor data) (\<lambda>_. exec_inv) w"
  unfolding create_approval_request_def
proof (rule wpr_atomically, unfold wp_bind, rule wpr_check_request, goal_cases)
  case (1 x)
  obtain p c executor execution where x: "x = (p, c, executor, execution)" by (cases x) auto
  show ?case
    unfolding x prod.case wp_bind
  proof (intro wpr_lift wpr_find_key, goal_cases)
    case (1 key existing)
    show ?case
    proof (cases existing)
      case None
      note add = exec_ok_add_request [OF inv [unfolded exec_inv_def]]
      show ?thesis
        unfolding None option.case Let_def wp_bind wp_gets
        by (intro wpr_lift wpr_new_id wpr_on_conflict)
           (auto simp: inv [unfolded exec_inv_def] exec_inv_def list_ex_iff add_approval_def put_command_def
              requested_event_def intro!: wpr_insert_row gateway_events.wpr_emit wpr_find_key add
              split: option.splits)
    qed (simp add: inv)
  qed
qed

lemma wpr_approve_command:
  assumes "\<And>cs. Q () (w\<lparr>agent_commands := cs\<rparr>)"
  shows "wpr (approve_command r now) Q w"
proof -
  have "Q () w" using assms [of "agent_commands w"] by simp
  then show ?thesis
    using assms
    by (auto simp: approve_command_def get_command_def put_command_def intro!: wpr_fetch split: option.splits list.splits)
qed

lemma wpr_decide:
  assumes "votes_reject votes \<Longrightarrow> Q (r\<lparr>ap_status := ''rejected'', ap_rejected_at := Some now\<rparr>) w"
    and "\<And>cs. \<not> votes_reject votes \<Longrightarrow> votes_approve r votes \<Longrightarrow>
      Q (r\<lparr>ap_status := ''approved'', ap_approved_at := Some now\<rparr>) (w\<lparr>agent_commands := cs\<rparr>)"
    and "\<not> votes_reject votes \<Longrightarrow> \<not> votes_approve r votes \<Longrightarrow> Q r w"
  shows "wpr (decide r votes now) Q w"
  using assms by (auto simp: decide_def intro!: wpr_approve_command)

text \<open>A pending request with a permitted new vote: the decided request is justified by its votes.\<close>

lemma request_ok_decided:
  assumes ok: "request_ok votes r" and pend: "ap_status r = ''pending''"
    and v: "vo_request_id v = ap_id r"
      "\<not> (ap_disallow_proposer_vote r \<and> vo_voter_subject v = ap_created_by_subject r)"
    and r': "r' = r\<lparr>ap_status := ap_status r', ap_approved_at := ap_approved_at r', ap_rejected_at := ap_rejected_at r',
      ap_version := ap_version r', ap_updated_at := ap_updated_at r'\<rparr>"
    and status: "ap_status r' = ''approved'' \<Longrightarrow>
      \<not> votes_reject (votes_of (votes @ [v]) r) \<and> votes_approve r (votes_of (votes @ [v]) r)"
  shows "request_ok (votes @ [v]) r'" and "same_binding r r'"
proof -
  have cols: "ap_id r' = ap_id r" "ap_quorum_required r' = ap_quorum_required r"
    "ap_require_admin_approval r' = ap_require_admin_approval r"
    "ap_disallow_proposer_vote r' = ap_disallow_proposer_vote r"
    "ap_created_by_subject r' = ap_created_by_subject r"
    by (subst r', simp)+
  have "votes_of (votes @ [v]) r' = votes_of (votes @ [v]) r" by (simp add: votes_of_def cols)
  then show "request_ok (votes @ [v]) r'"
    using ok v status by (auto simp: request_ok_def votes_approve_def cols votes_of_snoc)
  show "same_binding r r'"
    using pend by (subst r') (simp add: same_binding_def)
qed

lemma exec_inv_voted:
  assumes inv: "exec_inv w" and r: "r \<in> set (approval_requests w)" "ap_status r = ''pending''"
    and v: "vo_request_id v = ap_id r"
      "\<not> (ap_disallow_proposer_vote r \<and> vo_voter_subject v = ap_created_by_subject r)"
      "\<forall>u \<in> set (approval_votes w). vo_request_id u = ap_id r \<longrightarrow> vo_voter_subject u \<noteq> vo_voter_subject v"
    and r': "r' = r\<lparr>ap_status := ap_status r', ap_approved_at := ap_approved_at r', ap_rejected_at := ap_rejected_at r',
      ap_version := ap_version r', ap_updated_at := ap_updated_at r'\<rparr>"
    and status: "ap_status r' = ''approved'' \<Longrightarrow> \<not> votes_reject (votes_of (approval_votes w @ [v]) r) \<and>
      votes_approve r (votes_of (approval_votes w @ [v]) r)"
    and w': "approval_requests w' = update_where (\<lambda>q. ap_id q = ap_id r') (\<lambda>_. r') (approval_requests w)"
      "approval_votes w' = approval_votes w @ [v]" "execution_permits w' = execution_permits w"
      "action_receipts w' = action_receipts w"
  shows "exec_inv w'"
proof -
  have "request_ok (approval_votes w) r" using inv r by (simp add: exec_inv_def exec_ok_def)
  note dec = request_ok_decided [OF this r(2) v(1,2) r' status]
  show ?thesis
    unfolding exec_inv_def w'
    by (rule exec_ok_vote [OF inv [unfolded exec_inv_def] r(1) _ v(1) v(3) dec(2,1)]) (use r(2) in auto)
qed

lemma wpr_finish_vote:
  assumes inv: "exec_inv w" and r: "r \<in> set (approval_requests w)" "ap_status r = ''pending''"
    and v: "vo_request_id v = ap_id r"
      "\<not> (ap_disallow_proposer_vote r \<and> vo_voter_subject v = ap_created_by_subject r)"
      "\<forall>u \<in> set (approval_votes w). vo_request_id u = ap_id r \<longrightarrow> vo_voter_subject u \<noteq> vo_voter_subject v"
    and w2: "approval_requests w2 = approval_requests w" "approval_votes w2 = approval_votes w @ [v]"
      "execution_permits w2 = execution_permits w" "action_receipts w2 = action_receipts w"
    and status: "ap_status r' = ''approved'' \<Longrightarrow> \<not> votes_reject (votes_of (approval_votes w @ [v]) r) \<and>
      votes_approve r (votes_of (approval_votes w @ [v]) r)"
    and r': "r' = r\<lparr>ap_status := ap_status r', ap_approved_at := ap_approved_at r', ap_rejected_at := ap_rejected_at r',
      ap_version := ap_version r', ap_updated_at := ap_updated_at r'\<rparr>"
  shows "wpr (put_request r') (\<lambda>_. wpr (emit_event cfg ev) (\<lambda>_. wpr (ret x) (\<lambda>_. exec_inv))) w2"
  unfolding put_request_def wp_modify
  by (rule gateway_events.wpr_emit, unfold wp_ret, rule exec_inv_voted [OF inv r v r' status])
     (simp_all add: w2)

lemma expire_approval_pending:
  "ap_status (expire_approval now r) = ''pending'' \<Longrightarrow> expire_approval now r = r \<and> ap_status r = ''pending''"
  by (cases "ap_status r = ''pending'' \<and> ap_expires_at r \<le> now") (simp_all add: expire_approval_def)

lemma expire_approval_approved:
  "ap_status (expire_approval now r) = ''approved'' \<Longrightarrow> expire_approval now r = r"
  by (cases "ap_status r = ''pending'' \<and> ap_expires_at r \<le> now") (simp_all add: expire_approval_def)

lemma exec_inv_cast_vote:
  assumes inv: "exec_inv w"
  shows "wpr (cast_vote cfg i user decision reason) (\<lambda>_. exec_inv) w"
  unfolding cast_vote_def
proof (rule wpr_atomically, unfold wp_bind wp_gets Let_def, intro wpr_get_approval wpr_guard, goal_cases)
  case (1 r0)
  have r: "r0 \<in> set (approval_requests w)" "ap_status r0 = ''pending''" "expire_approval (clock w) r0 = r0"
    using 1(1) expire_approval_pending [OF 1(4)] by blast+
  have barred: "\<not> (ap_disallow_proposer_vote r0 \<and> us_subject user = ap_created_by_subject r0)"
    using 1(6) by (simp add: r(3))
  show ?case
    unfolding r(3)
  proof (rule wpr_query_one, goal_cases)
    case (1 v)
    then show ?case using inv by simp
  next
    case 2
    show ?case
      unfolding option.case wp_bind add_vote_def
    proof (intro wpr_new_id wpr_lift wpr_insert_row, unfold wp_gets, goal_cases)
      case (1 i' re)
      let ?v = "\<lparr>vo_id = i', vo_owner_subject = ap_owner_subject r0, vo_request_id = ap_id r0,
        vo_voter_subject = us_subject user, vo_voter_roles = sorted_strings (remdups (us_roles user)),
        vo_decision = decision, vo_reason = re, vo_created_at = clock w\<rparr>"
      have v: "vo_request_id ?v = ap_id r0"
        "\<not> (ap_disallow_proposer_vote r0 \<and> vo_voter_subject ?v = ap_created_by_subject r0)"
        "\<forall>u \<in> set (approval_votes w). vo_request_id u = ap_id r0 \<longrightarrow> vo_voter_subject u \<noteq> vo_voter_subject ?v"
        using 2 barred by auto
      note finish = wpr_finish_vote [OF inv r(1,2) v]
      show ?case
        by (intro wpr_decide finish) (simp_all add: request_votes_def votes_of_def r(2))
    qed
  qed
qed

end
