(* ===== verification/Autonomy_Calls.thy ===== *)
theory Autonomy_Calls
  imports Autonomy_Safety
begin

text \<open>
  What the permit, policy and control calls guarantee when they return, and that each of them
  keeps the invariant of guarded execution.
\<close>

section \<open>Lookups that are repeated\<close>

text \<open>A lookup that returns, with its run, so that a second lookup of the same row agrees.\<close>

lemma fetch_state: "snd (fetch P table d w) = w"
  by (auto simp: fetch_def query_one_def bindS_def gets_def liftE_def raise_def ret_def split: sum.splits option.splits)

lemma wpr_fetch_run:
  assumes "\<And>r. fetch P table d w = (Inr r, w) \<Longrightarrow> r \<in> set (table w) \<Longrightarrow> P r \<Longrightarrow> Q r w"
  shows "wpr (fetch P table d) Q w"
proof (rule wpI)
  fix r t
  assume run: "fetch P table d w = (Inr r, t)"
  then have "t = w" using fetch_state [of P table d w] by simp
  moreover have "r \<in> set (table w) \<and> P r"
    using wp_InrD [OF wpr_fetch [of table w P "\<lambda>r _. r \<in> set (table w) \<and> P r" d] run] by blast
  ultimately show "Q r t" using assms run by blast
qed simp

lemma fetch_unique:
  assumes "fetch P table d w = (Inr r, t)" and "r' \<in> set (table w)" and "P r'"
  shows "r' = r"
  using assms one_or_none_unique [of P "table w" r r']
  by (auto simp: fetch_def query_one_def split: option.splits)

lemma wpr_run: "(\<And>x t. m w = (Inr x, t) \<Longrightarrow> Q x t) \<Longrightarrow> wpr m Q w"
  by (rule wpI) auto

lemma snapshot_loop_state: "snd (snapshot_loop now scopes acc w) = w"
proof (induction scopes arbitrary: acc)
  case (Cons sc scopes)
  obtain a b c where "sc = (a, b, c)" by (cases sc)
  moreover obtain e r g where "acc = (e, r, g)" by (cases acc)
  ultimately show ?case
    using Cons by (simp add: control_row_def query_one_def bindS_def gets_def liftE_def ret_def Let_def
        split: sum.splits option.splits)
qed (simp add: ret_def)

lemma control_snapshot_state: "snd (control_snapshot cfg owner room_id policy_id w) = w"
  using snapshot_loop_state [of "clock w" "control_scopes owner room_id policy_id" "(''enabled'', None, [])" w]
  by (auto simp: control_snapshot_def bindS_def gets_def ret_def split: sum.splits prod.splits)

lemma wpr_assert_enabled_run:
  assumes "\<And>v. po_status p = ''active'' \<Longrightarrow> cv_enabled v \<Longrightarrow>
    control_snapshot cfg owner (Some room_id) (Some (po_id p)) w = (Inr v, w) \<Longrightarrow> Q v w"
  shows "wpr (assert_enabled cfg owner room_id p) Q w"
  unfolding assert_enabled_def wp_bind
proof (intro wpr_guard wpr_run [of _ w], goal_cases)
  case (1 v t)
  then have "t = w" using control_snapshot_state [of cfg owner "Some room_id" "Some (po_id p)" w] by simp
  with 1 assms show ?case by simp
qed

section \<open>Permits\<close>

text \<open>What \<open>_verify_request_integrity\<close> establishes.\<close>

definition request_intact :: "gw_settings \<Rightarrow> gdb \<Rightarrow> ApprovalRequest \<Rightarrow> AutonomyPolicy \<Rightarrow> AgentCommand \<Rightarrow> bool" where
  "request_intact cfg w r p c \<longleftrightarrow>
     get_policy (ap_owner_subject r) (ap_policy_id r) w = (Inr p, w) \<and> p \<in> set (autonomy_policies w) \<and>
     po_id p = ap_policy_id r \<and> po_status p = ''active'' \<and> po_generation p = ap_policy_generation r \<and>
     c \<in> set (agent_commands w) \<and> ap_command_id r = Some (cm_id c) \<and> cm_owner_subject c = ap_owner_subject r \<and>
     sha256 cfg (command_envelope c) = ap_payload_hash r \<and> cm_target_agent_id c = ap_executor_agent_id r"

lemma wpr_verify_request_integrity:
  assumes "\<And>p c. request_intact cfg w r p c \<Longrightarrow> Q c w"
  shows "wpr (verify_request_integrity cfg r) Q w"
  unfolding verify_request_integrity_def get_policy_def wp_bind
proof (intro wpr_fetch_run wpr_guard, goal_cases)
  case (1 p)
  show ?case
  proof (cases "ap_command_id r")
    case (Some i)
    then show ?thesis
      using 1 assms
      by (auto simp: get_command_def get_policy_def request_intact_def simp del: wp_guard intro!: wpr_fetch wpr_guard)
  qed simp
qed

lemma expire_permit_active:
  "pe_status (expire_permit now p) \<in> {''active'', ''claimed''} \<Longrightarrow>
     expire_permit now p = p \<and> now < pe_expires_at p"
  by (cases "pe_status p \<in> {''active'', ''claimed''} \<and> pe_expires_at p \<le> now") (auto simp: expire_permit_def)

text \<open>A permit rewritten in its status columns only.\<close>

lemma permit_ok_kept:
  assumes "permit_ok reqs receipts p" and "permit_kept p p'"
    and "pe_use_count p' = (if pe_claimed_at p' = None then 0 else 1)"
    and "pe_status p' \<in> {''active'', ''claimed'', ''consumed'', ''expired'', ''revoked''}"
    and "pe_status p' = ''active'' \<Longrightarrow> pe_claimed_at p' = None"
    and "pe_status p' \<in> {''claimed'', ''consumed''} \<Longrightarrow> pe_claimed_at p' \<noteq> None"
    and "pe_status p' = ''consumed'' \<longleftrightarrow> pe_status p = ''consumed''"
  shows "permit_ok reqs receipts p'"
  using assms unfolding permit_ok_def permit_kept_def bound_to_def by metis

lemma permit_kept_expire: "permit_kept p (expire_permit now p)"
  by (cases "pe_status p \<in> {''active'', ''claimed''} \<and> pe_expires_at p \<le> now")
     (simp_all add: expire_permit_def permit_kept_def)

lemma exec_inv_issue_permit:
  assumes inv: "exec_inv w"
  shows "wpr (issue_permit cfg owner actor i ttl) (\<lambda>_. exec_inv) w"
  unfolding issue_permit_def
proof (rule wpr_atomically, unfold wp_bind wp_gets Let_def,
    intro wpr_get_approval wpr_guard wpr_verify_request_integrity, goal_cases)
  case (1 r0 p0 c)
  have r: "expire_approval (clock w) r0 = r0" "ap_status r0 = ''approved''"
    using expire_approval_approved [OF 1(4)] 1(4) by auto
  show ?case
    unfolding r(1) get_policy_def wp_bind
  proof (intro wpr_fetch_run wpr_assert_enabled, goal_cases)
    case (1 p v)
    have p: "p = p0" "po_generation p = ap_policy_generation r0" "po_id p = ap_policy_id r0"
      "ap_command_id r0 = Some (cm_id c)"
      using \<open>request_intact cfg w (expire_approval (clock w) r0) p0 c\<close> 1 \<open>ap_owner_subject r0 = owner\<close>
      by (auto simp: request_intact_def get_policy_def r(1))
    show ?case
    proof (rule wpr_query_one, goal_cases)
      case (1 q)
      then show ?case using inv by (auto simp: Let_def)
    next
      case 2
      note add = exec_ok_add_permit [OF inv [unfolded exec_inv_def] _ \<open>r0 \<in> set (approval_requests w)\<close>]
      show ?case
        unfolding option.case add_permit_def issued_event_def wp_bind Let_def
      proof (intro wpr_lift wpr_guard wpr_new_id wpr_insert_row gateway_events.wpr_emit, goal_cases)
        case (1 ttl' i' a b n)
        then show ?case
          using 2 r p \<open>ap_owner_subject r0 = owner\<close>
          by (simp add: exec_inv_def, intro add) (auto simp: list_ex_iff bound_to_def)
      qed
    qed
  qed
qed

text \<open>What a claim does: it returns a claim that stands, or checks everything and marks the permit.\<close>

definition claim_checked ::
  "gw_settings \<Rightarrow> string \<Rightarrow> string \<Rightarrow> gdb \<Rightarrow> ExecutionPermit \<Rightarrow> bool" where
  "claim_checked cfg owner executor w q \<longleftrightarrow>
     pe_status q = ''active'' \<and> pe_executor_agent_id q = executor \<and> clock w < pe_expires_at q \<and>
     (\<exists>r p c v. r \<in> set (approval_requests w) \<and> ap_id r = pe_approval_request_id q \<and>
        request_intact cfg w r p c \<and> cm_status c = ''accepted'' \<and>
        (\<exists>p'. get_policy owner (pe_policy_id q) w = (Inr p', w) \<and> po_status p' = ''active'' \<and>
           po_generation p' = pe_policy_generation q \<and> cv_enabled v \<and>
           control_snapshot cfg owner (Some (ap_room_id r)) (Some (po_id p')) w = (Inr v, w) \<and>
           same_generations (cv_generations v) (cv_generations (pe_control_snapshot q))))"

definition mark_claimed :: "int \<Rightarrow> ExecutionPermit \<Rightarrow> ExecutionPermit" where
  "mark_claimed now x = x\<lparr>pe_status := ''claimed'', pe_claimed_at := Some now,
     pe_use_count := pe_use_count x + 1, pe_updated_at := now\<rparr>"

lemma mark_claimed_simps [simp]:
  "pe_id (mark_claimed now x) = pe_id x" "pe_owner_subject (mark_claimed now x) = pe_owner_subject x"
  "pe_status (mark_claimed now x) = ''claimed''" "pe_claimed_at (mark_claimed now x) = Some now"
  "pe_use_count (mark_claimed now x) = pe_use_count x + 1" "permit_kept x (mark_claimed now x)"
  "pe_executor_agent_id (mark_claimed now x) = pe_executor_agent_id x"
  "pe_expires_at (mark_claimed now x) = pe_expires_at x"
  by (simp_all add: mark_claimed_def permit_kept_def)

definition claim_selects :: "string \<Rightarrow> ExecutionPermit \<Rightarrow> ExecutionPermit \<Rightarrow> bool" where
  "claim_selects owner q x \<longleftrightarrow> pe_id x = pe_id q \<and> pe_owner_subject x = owner \<and> pe_status x = ''active'' \<and>
     pe_fencing_token x = pe_fencing_token q"

lemma wpr_claim_permit:
  assumes again: "\<And>q. q \<in> set (execution_permits w) \<Longrightarrow> pe_id q = i \<Longrightarrow> pe_owner_subject q = owner \<Longrightarrow>
      pe_status q = ''claimed'' \<Longrightarrow> pe_executor_agent_id q = executor \<Longrightarrow> clock w < pe_expires_at q \<Longrightarrow> Q q w"
    and claim: "\<And>q a b n. q \<in> set (execution_permits w) \<Longrightarrow> pe_id q = i \<Longrightarrow> pe_owner_subject q = owner \<Longrightarrow>
      claim_checked cfg owner executor w q \<Longrightarrow>
      Q (mark_claimed (clock w) q) (w\<lparr>execution_permits := update_where (claim_selects owner q)
        (mark_claimed (clock w)) (execution_permits w), audit_events := a, outbox_events := b, id_pos := n\<rparr>)"
  shows "wpr (claim_permit cfg owner i executor) Q w"
  unfolding claim_permit_def get_permit_def
proof (rule wpr_atomically, unfold wp_bind wp_gets Let_def, rule wpr_fetch, goal_cases)
  case (1 q0)
  then have q0: "q0 \<in> set (execution_permits w)" "pe_id q0 = i" "pe_owner_subject q0 = owner" by auto
  let ?q = "expire_permit (clock w) q0"
  show ?case
  proof (cases "pe_status ?q = ''claimed'' \<and> pe_executor_agent_id ?q = executor")
    case True
    then show ?thesis using again [of q0] expire_permit_active [of "clock w" q0] 1 by simp
  next
    case False
    show ?thesis
      unfolding if_not_P [OF False] wp_bind wp_gets wp_modify get_policy_def
    proof (intro wpr_guard wpr_get_approval wpr_verify_request_integrity wpr_fetch_run wpr_assert_enabled_run
        gateway_events.wpr_emit, goal_cases)
      case (1 r p c p' v claimed a b n)
      have q: "?q = q0" "clock w < pe_expires_at q0"
        using expire_permit_active [of "clock w" q0] 1(1) by auto
      have sel: "claim_selects owner q0 q0" using 1 q q0
        by (simp add: claim_selects_def)
      let ?rows = "update_where (claim_selects owner q0) (mark_claimed (clock w)) (execution_permits w)"
      have rows: "update_where (\<lambda>x. pe_id x = pe_id q0 \<and> pe_owner_subject x = owner \<and> pe_status x = ''active'' \<and>
          pe_fencing_token x = pe_fencing_token q0) (\<lambda>x. x\<lparr>pe_status := ''claimed'',
          pe_claimed_at := Some (clock w), pe_use_count := pe_use_count x + 1, pe_updated_at := clock w\<rparr>)
          (execution_permits w) = ?rows"
        by (simp add: update_where_def claim_selects_def mark_claimed_def)
      have mem: "mark_claimed (clock w) q0 \<in> set ?rows"
        using sel q0(1) by (auto simp: set_update_where)
      note run = 1(16) [unfolded q(1) rows]
      have "mark_claimed (clock w) q0 = claimed"
        by (rule fetch_unique [OF run]) (use mem q0 in simp_all)
      moreover have "claim_checked cfg owner executor w q0"
        unfolding claim_checked_def using 1 q by (auto simp: get_policy_def)
      ultimately show ?case
        unfolding q(1) rows wp_ret using claim [OF q0] by simp
    qed
  qed
qed

lemma exec_inv_claim_permit:
  assumes inv: "exec_inv w"
  shows "wpr (claim_permit cfg owner i executor) (\<lambda>_. exec_inv) w"
proof (rule wpr_claim_permit, goal_cases)
  case (2 q a b n)
  let ?f = "\<lambda>x. if claim_selects owner q x then mark_claimed (clock w) x else x"
  have "permit_kept x (?f x) \<and> permit_ok (approval_requests w) (action_receipts w) (?f x)"
    if "x \<in> set (execution_permits w)" for x
  proof (cases "claim_selects owner q x")
    case True
    have ok: "permit_ok (approval_requests w) (action_receipts w) x"
      using inv that by (simp add: exec_inv_def exec_ok_def)
    then have "pe_use_count x = 0" using True by (simp add: permit_ok_def claim_selects_def)
    then have "permit_ok (approval_requests w) (action_receipts w) (mark_claimed (clock w) x)"
      using True by (intro permit_ok_kept [OF ok]) (simp_all add: claim_selects_def)
    then show ?thesis using True by simp
  qed (use inv that in \<open>simp add: exec_inv_def exec_ok_def\<close>)
  then show ?case
    using exec_ok_map_permits [OF inv [unfolded exec_inv_def], of ?f]
    by (simp add: exec_inv_def update_where_def)
qed (rule inv)

text \<open>A receipt: it is stored and consumes its permit, or an earlier receipt is returned.\<close>

definition consume :: "int \<Rightarrow> ExecutionPermit \<Rightarrow> ExecutionPermit" where
  "consume now q = q\<lparr>pe_status := ''consumed'', pe_consumed_at := Some now, pe_updated_at := now\<rparr>"

lemma wpr_find_receipt:
  "(\<And>x. x \<in> set (action_receipts w) \<Longrightarrow> Q (Some x) w) \<Longrightarrow> Q None w \<Longrightarrow> wpr (find_receipt_key owner k) Q w"
  by (auto simp: find_receipt_key_def intro!: wpr_query_one split: option.splits)

lemma wpr_record_receipt:
  assumes again: "\<And>x n. x \<in> set (action_receipts w) \<Longrightarrow> Q x (w\<lparr>id_pos := n\<rparr>)"
    and store: "\<And>q x a b n. q \<in> set (execution_permits w) \<Longrightarrow> pe_id q = strip (rr_permit_id data) \<Longrightarrow>
      pe_owner_subject q = owner \<Longrightarrow> pe_executor_agent_id q = strip (rr_executor_agent_id data) \<Longrightarrow>
      pe_fencing_token q = rr_fencing_token data \<Longrightarrow> pe_status q \<in> {''claimed'', ''revoked''} \<Longrightarrow>
      pe_claimed_at q \<noteq> None \<Longrightarrow> receipt_for x q \<Longrightarrow> re_status x = rr_status data \<Longrightarrow>
      re_output_hash x = output_hash cfg data \<Longrightarrow>
      \<forall>y \<in> set (action_receipts w). re_permit_id y \<noteq> re_permit_id x \<Longrightarrow>
      Q x (w\<lparr>action_receipts := action_receipts w @ [x],
        execution_permits := update_where (\<lambda>p. pe_id p = pe_id q) (\<lambda>_. consume (clock w) q) (execution_permits w),
        audit_events := a, outbox_events := b, id_pos := n\<rparr>)"
  shows "wpr (record_receipt cfg owner data) Q w"
  unfolding record_receipt_def
proof (rule wpr_atomically, unfold wp_bind, intro wpr_lift wpr_find_receipt, goal_cases)
  case (1 key x)
  then show ?case using again [of x "id_pos w"] by simp
next
  case (2 key)
  show ?case
    unfolding option.case wp_bind get_permit_def Let_def wp_gets wp_modify add_receipt_def put_permit_def
      receipt_event_def
  proof (intro wpr_lift wpr_fetch wpr_guard wpr_new_id wpr_on_conflict, unfold wp_bind wp_modify,
      intro wpr_insert_row wpr_query_one gateway_events.wpr_emit, goal_cases)
    case (1 pid q ex _ _ i' err a b n)
    let ?x = "\<lparr>re_id = i', re_owner_subject = owner, re_permit_id = pe_id q,
           re_approval_request_id = pe_approval_request_id q, re_command_id = pe_command_id q,
           re_executor_agent_id = ex, re_action_class = pe_action_class q,
           re_tool = pe_tool q, re_command_profile = pe_command_profile q, re_status = rr_status data,
           re_input_hash = pe_payload_hash q, re_output_hash = output_hash cfg data,
           re_result_summary = rr_result_summary data, re_error = err,
           re_external_references = rr_external_references data, re_idempotency_key = key,
           re_started_at = rr_started_at data, re_completed_at = rr_completed_at data,
           re_created_at = clock w\<rparr>"
    have "\<forall>y \<in> set (action_receipts w). re_permit_id y \<noteq> re_permit_id ?x"
      using 1 by (simp add: list_ex_iff)
    moreover have "receipt_for ?x q" using 1 by (simp add: receipt_for_def)
    ultimately show ?case
      using store [of q ?x] 1 by (simp add: consume_def)
  next
    case (2 pid q ex _ _ i' err)
    show ?case
      by (rule wpr_query_one) (use again in simp_all)
  qed
qed

lemma exec_inv_record_receipt:
  assumes inv: "exec_inv w"
  shows "wpr (record_receipt cfg owner data) (\<lambda>_. exec_inv) w"
proof (rule wpr_record_receipt, goal_cases)
  case (2 q x a b n)
  have "permit_kept q (consume (clock w) q)" by (simp add: permit_kept_def consume_def)
  then have "exec_ok (approval_requests w) (approval_votes w)
      (update_where (\<lambda>p. pe_id p = pe_id (consume (clock w) q)) (\<lambda>_. consume (clock w) q) (execution_permits w))
      (action_receipts w @ [x])"
    by (intro exec_ok_receipt [OF inv [unfolded exec_inv_def] 2(1,7,11,8)]) (simp_all add: consume_def)
  then show ?case by (simp add: exec_inv_def consume_def)
qed (simp add: inv)

section \<open>Revocation, policies and controls\<close>

definition revoke :: "int \<Rightarrow> string \<Rightarrow> ExecutionPermit \<Rightarrow> ExecutionPermit" where
  "revoke now reason p = p\<lparr>pe_status := ''revoked'', pe_revoked_at := Some now,
     pe_revocation_reason := Some (take 10000 reason), pe_updated_at := now\<rparr>"

lemma revoke_permits_eq:
  "revoke_permits owner reason room_id policy_id w =
     (Inr (count_where (revocable owner room_id policy_id w) (execution_permits w)),
      w\<lparr>execution_permits := update_where (revocable owner room_id policy_id w) (revoke (clock w) reason)
        (execution_permits w)\<rparr>)"
  by (simp add: revoke_permits_def Let_def revoke_def [abs_def])

lemma exec_inv_rewrite_permits:
  assumes inv: "exec_inv w"
    and f: "\<And>p. p \<in> set (execution_permits w) \<Longrightarrow> P p \<Longrightarrow> permit_kept p (f p) \<and>
      pe_claimed_at (f p) = pe_claimed_at p \<and> pe_use_count (f p) = pe_use_count p \<and>
      (pe_status (f p) = pe_status p \<or> pe_status p \<in> {''active'', ''claimed''} \<and> pe_status (f p) \<in> {''revoked'', ''expired''})"
  shows "exec_inv (w\<lparr>execution_permits := update_where P f (execution_permits w)\<rparr>)"
proof -
  let ?f = "\<lambda>p. if P p then f p else p"
  have "permit_kept p (?f p) \<and> permit_ok (approval_requests w) (action_receipts w) (?f p)"
    if p: "p \<in> set (execution_permits w)" for p
  proof -
    have ok: "permit_ok (approval_requests w) (action_receipts w) p"
      using inv p by (simp add: exec_inv_def exec_ok_def)
    have "permit_ok (approval_requests w) (action_receipts w) (f p)" if "P p"
      using f [OF p that] ok by (intro permit_ok_kept [OF ok]) (auto simp: permit_ok_def)
    then show ?thesis using ok f [OF p] by simp
  qed
  then show ?thesis
    using exec_ok_map_permits [OF inv [unfolded exec_inv_def], of ?f]
    by (simp add: exec_inv_def update_where_def)
qed

lemma exec_inv_revoke_permits:
  "exec_inv w \<Longrightarrow> exec_inv (snd (revoke_permits owner reason room_id policy_id w))"
  unfolding revoke_permits_eq snd_conv
  by (rule exec_inv_rewrite_permits) (auto simp: revocable_def revoke_def permit_kept_def)

lemma wpr_revoke_permits:
  "exec_inv w \<Longrightarrow> (\<And>n w'. exec_inv w' \<Longrightarrow> Q n w') \<Longrightarrow> wpr (revoke_permits owner reason room_id policy_id) Q w"
  using exec_inv_revoke_permits [of w owner reason room_id policy_id] by (simp add: wp_def revoke_permits_eq)

lemma wpr_pause_or_cancel:
  "exec_inv w \<Longrightarrow> (\<And>n w'. exec_inv w' \<Longrightarrow> Q n w') \<Longrightarrow>
     wpr (pause_or_cancel_recoveries owner st room_id policy_id) Q w"
  by (simp add: wp_def pause_or_cancel_recoveries_def Let_def)

lemma wpr_restrict_owners:
  "exec_inv w \<Longrightarrow> (\<And>n w'. exec_inv w' \<Longrightarrow> Q n w') \<Longrightarrow>
     wpr (restrict_owners owners st reason room_id policy_id acc) Q w"
proof (induction owners st reason room_id policy_id acc arbitrary: w rule: restrict_owners.induct)
  case (2 o' owners st reason room_id policy_id a b)
  then show ?case
    by (simp, intro wpr_revoke_permits wpr_pause_or_cancel) auto
qed simp

lemma wpr_check_coordinator: "Q () w \<Longrightarrow> wpr (check_coordinator owner room_id i) Q w"
  by (auto simp: check_coordinator_def get_agent_def intro!: wpr_fetch split: option.splits)

lemma exec_inv_create_policy:
  assumes inv: "exec_inv w"
  shows "wpr (create_policy cfg owner actor data) (\<lambda>_. exec_inv) w"
  unfolding create_policy_def get_room_def
proof (rule wpr_atomically, unfold wp_bind, intro wpr_lift wpr_fetch wpr_check_coordinator wpr_find_key, goal_cases)
  case (1 room_id r coordinator key existing)
  show ?case
  proof (cases existing)
    case None
    show ?thesis
      unfolding None option.case Let_def wp_bind wp_gets
      by (intro wpr_guard wpr_lift wpr_new_id wpr_on_conflict)
         (auto simp: inv add_policy_def policy_event_def intro!: wpr_insert_row gateway_events.wpr_emit wpr_find_key
            split: option.splits)
  qed (simp add: inv)
qed

lemma exec_inv_update_policy:
  assumes inv: "exec_inv w"
  shows "wpr (update_policy cfg owner actor i v data) (\<lambda>_. exec_inv) w"
  unfolding update_policy_def get_policy_def policy_event_def
proof (rule wpr_atomically, unfold wp_bind wp_gets Let_def, intro wpr_fetch wpr_guard wpr_lift, goal_cases)
  case (1 p head)
  have rest: "wpr (revoke_permits owner reason None (Some (po_id p)))
      (\<lambda>_. wpr (emit_event cfg ev) (\<lambda>_. wpr (ret u) (\<lambda>_. exec_inv))) (w\<lparr>autonomy_policies := ps\<rparr>)" for reason ev u ps
    by (intro wpr_revoke_permits gateway_events.wpr_emit) (use inv in simp_all)
  show ?case
    by (cases "pu_coordinator_agent_id data")
       (auto simp del: wp_lift wp_guard intro!: wpr_check_coordinator wpr_lift wpr_guard rest [simplified])
qed

end
