(* ===== verification/Autonomy_Control.thy ===== *)
theory Autonomy_Control
  imports Autonomy_Calls
begin

text \<open>
  The effect of a control change: which permits and recovery loops it stops, that the snapshot
  of every covered scope is no longer enabled, and that it keeps the invariant of guarded
  execution.
\<close>

section \<open>Stopping a scope\<close>

definition no_live_permit :: "string option \<Rightarrow> string option \<Rightarrow> gdb \<Rightarrow> string \<Rightarrow> bool" where
  "no_live_permit room_id policy_id w o' \<longleftrightarrow>
     (\<forall>p \<in> set (execution_permits w). \<not> revocable o' room_id policy_id w p)"

definition no_live_loop :: "string \<Rightarrow> string option \<Rightarrow> string option \<Rightarrow> gdb \<Rightarrow> string \<Rightarrow> bool" where
  "no_live_loop st room_id policy_id w o' \<longleftrightarrow>
     (\<forall>l \<in> set (recovery_loops w). restrictable o' room_id policy_id l \<longrightarrow> st \<noteq> ''killed'' \<and> rl_status l = ''paused'')"

lemma revocable_frame [simp]:
  "revocable o' room_id policy_id (w\<lparr>execution_permits := ps\<rparr>) = revocable o' room_id policy_id w"
  "revocable o' room_id policy_id (w\<lparr>recovery_loops := ls\<rparr>) = revocable o' room_id policy_id w"
  "revocable o' room_id policy_id (w\<lparr>autonomy_control_states := cs\<rparr>) = revocable o' room_id policy_id w"
  "revocable o' room_id policy_id (w\<lparr>autonomy_overrides := os\<rparr>) = revocable o' room_id policy_id w"
  "revocable o' room_id policy_id (w\<lparr>autonomy_policies := pl\<rparr>) = revocable o' room_id policy_id w"
  "revocable o' room_id policy_id (w\<lparr>audit_events := a\<rparr>) = revocable o' room_id policy_id w"
  "revocable o' room_id policy_id (w\<lparr>outbox_events := b\<rparr>) = revocable o' room_id policy_id w"
  "revocable o' room_id policy_id (w\<lparr>id_pos := n\<rparr>) = revocable o' room_id policy_id w"
  by (auto simp: revocable_def fun_eq_iff split: option.splits)

lemma not_revocable_revoke [simp]: "\<not> revocable o' room_id policy_id w (revoke now reason p)"
  by (simp add: revocable_def revoke_def)

text \<open>One owner: what was stopped stays stopped, and the owner's permits and loops are stopped.\<close>

definition stop :: "int \<Rightarrow> string \<Rightarrow> RecoveryLoop \<Rightarrow> RecoveryLoop" where
  "stop now st l = (let s = (if st = ''killed'' then ''cancelled'' else ''paused'') in
     l\<lparr>rl_status := s, rl_generation := rl_generation l + 1, rl_updated_at := now,
       rl_completed_at := (if s = ''cancelled'' then Some now else rl_completed_at l)\<rparr>)"

lemma pause_or_cancel_eq:
  "pause_or_cancel_recoveries owner st room_id policy_id w =
     (Inr (count_where (restrictable owner room_id policy_id) (recovery_loops w)),
      w\<lparr>recovery_loops := update_where (restrictable owner room_id policy_id) (stop (clock w) st)
        (recovery_loops w)\<rparr>)"
  by (simp add: pause_or_cancel_recoveries_def Let_def stop_def [abs_def])

lemma stop_stopped: "restrictable o' room_id policy_id (stop now st l) \<Longrightarrow> st \<noteq> ''killed'' \<and> rl_status (stop now st l) = ''paused''"
  by (cases "st = ''killed''") (simp_all add: restrictable_def stop_def RECOVERY_TERMINAL_def)

lemma revoked_rows:
  assumes "no_live_permit room_id policy_id w o' \<or> o' = owner"
  shows "\<forall>p \<in> set (update_where (revocable owner room_id policy_id w) (revoke now reason) (execution_permits w)).
    \<not> revocable o' room_id policy_id w p"
  using assms by (auto simp: set_update_where no_live_permit_def)

lemma stopped_rows:
  assumes "no_live_loop st room_id policy_id w o' \<or> o' = owner"
  shows "\<forall>l \<in> set (update_where (restrictable owner room_id policy_id) (stop now st) (recovery_loops w)).
    restrictable o' room_id policy_id l \<longrightarrow> st \<noteq> ''killed'' \<and> rl_status l = ''paused''"
  using assms stop_stopped by (fastforce simp: set_update_where no_live_loop_def)

lemma wpr_restrict_spec:
  assumes "\<And>n ps ls. \<lbrakk>\<And>o'. no_live_permit room_id policy_id w o' \<or> o' \<in> set owners \<Longrightarrow>
        no_live_permit room_id policy_id (w\<lparr>execution_permits := ps, recovery_loops := ls\<rparr>) o';
      \<And>o'. no_live_loop st room_id policy_id w o' \<or> o' \<in> set owners \<Longrightarrow>
        no_live_loop st room_id policy_id (w\<lparr>execution_permits := ps, recovery_loops := ls\<rparr>) o';
      exec_inv w \<Longrightarrow> exec_inv (w\<lparr>execution_permits := ps, recovery_loops := ls\<rparr>);
      map pe_owner_subject ps = map pe_owner_subject (execution_permits w);
      map rl_owner_subject ls = map rl_owner_subject (recovery_loops w)\<rbrakk> \<Longrightarrow>
      Q n (w\<lparr>execution_permits := ps, recovery_loops := ls\<rparr>)"
  shows "wpr (restrict_owners owners st reason room_id policy_id acc) Q w"
  using assms
proof (induction owners arbitrary: w acc)
  case Nil
  show ?case using Nil [where ps = "execution_permits w" and ls = "recovery_loops w"] by simp
next
  case (Cons o1 owners)
  obtain a b where acc: "acc = (a, b)" by (cases acc)
  let ?ps = "update_where (revocable o1 room_id policy_id w) (revoke (clock w) (''autonomy '' @ st @ '': '' @ reason))
    (execution_permits w)"
  let ?ls = "update_where (restrictable o1 room_id policy_id) (stop (clock w) st) (recovery_loops w)"
  let ?w = "w\<lparr>execution_permits := ?ps, recovery_loops := ?ls\<rparr>"
  have p: "no_live_permit room_id policy_id ?w o'" if "no_live_permit room_id policy_id w o' \<or> o' = o1" for o'
    using revoked_rows [OF that] by (simp add: no_live_permit_def)
  have l: "no_live_loop st room_id policy_id ?w o'" if "no_live_loop st room_id policy_id w o' \<or> o' = o1" for o'
    using stopped_rows [OF that] by (simp add: no_live_loop_def)
  have i: "exec_inv ?w" if "exec_inv w"
    using exec_inv_revoke_permits [OF that] by (simp add: revoke_permits_eq)
  have "wpr (restrict_owners owners st reason room_id policy_id acc') Q ?w" for acc'
  proof (rule Cons.IH)
    fix n ps ls
    assume h: "\<And>o'. no_live_permit room_id policy_id ?w o' \<or> o' \<in> set owners \<Longrightarrow>
        no_live_permit room_id policy_id (?w\<lparr>execution_permits := ps, recovery_loops := ls\<rparr>) o'"
      "\<And>o'. no_live_loop st room_id policy_id ?w o' \<or> o' \<in> set owners \<Longrightarrow>
        no_live_loop st room_id policy_id (?w\<lparr>execution_permits := ps, recovery_loops := ls\<rparr>) o'"
      "exec_inv ?w \<Longrightarrow> exec_inv (?w\<lparr>execution_permits := ps, recovery_loops := ls\<rparr>)"
      "map pe_owner_subject ps = map pe_owner_subject (execution_permits ?w)"
      "map rl_owner_subject ls = map rl_owner_subject (recovery_loops ?w)"
    have "Q n (w\<lparr>execution_permits := ps, recovery_loops := ls\<rparr>)"
    proof (rule Cons.prems)
      show "no_live_permit room_id policy_id (w\<lparr>execution_permits := ps, recovery_loops := ls\<rparr>) o'"
        if "no_live_permit room_id policy_id w o' \<or> o' \<in> set (o1 # owners)" for o'
        using h(1) [of o'] p [of o'] that by auto
      show "no_live_loop st room_id policy_id (w\<lparr>execution_permits := ps, recovery_loops := ls\<rparr>) o'"
        if "no_live_loop st room_id policy_id w o' \<or> o' \<in> set (o1 # owners)" for o'
        using h(2) [of o'] l [of o'] that by auto
      show "exec_inv (w\<lparr>execution_permits := ps, recovery_loops := ls\<rparr>)" if "exec_inv w"
        using h(3) i that by simp
      show "map pe_owner_subject ps = map pe_owner_subject (execution_permits w)"
        using h(4) by (simp add: revoke_def)
      show "map rl_owner_subject ls = map rl_owner_subject (recovery_loops w)"
        using h(5) by (simp add: stop_def Let_def)
    qed
    then show "Q n (?w\<lparr>execution_permits := ps, recovery_loops := ls\<rparr>)" by simp
  qed
  then show ?case
    by (simp add: acc wp_def bindS_def revoke_permits_eq pause_or_cancel_eq)
qed

section \<open>The snapshot of a stopped scope\<close>

lemma snapshot_not_enabled:
  assumes "snapshot_loop now scopes acc w = (Inr (e, r, g), t)"
    and "fst acc \<noteq> ''enabled'' \<or> (\<exists>(o', ty, i) \<in> set scopes. \<exists>row \<in> set (autonomy_control_states w).
      ct_owner_subject row = o' \<and> ct_scope_type row = ty \<and> ct_scope_id row = i \<and> state_at now row \<in> {''paused'', ''killed''})"
  shows "e \<noteq> ''enabled''"
  using assms
proof (induction scopes arbitrary: acc)
  case Nil
  then show ?case by auto
next
  case (Cons sc scopes)
  obtain o1 ty i where sc: "sc = (o1, ty, i)" by (cases sc)
  obtain e0 r0 g0 where acc: "acc = (e0, r0, g0)" by (cases acc)
  obtain found where found: "one_or_none (\<lambda>c. ct_owner_subject c = o1 \<and> ct_scope_type c = ty \<and> ct_scope_id c = i)
      (autonomy_control_states w) = Inr found"
    using Cons.prems(1) by (simp add: sc acc control_row_def query_one_def) metis
  show ?case
  proof (cases found)
    case None
    then have "\<forall>row \<in> set (autonomy_control_states w).
        \<not> (ct_owner_subject row = o1 \<and> ct_scope_type row = ty \<and> ct_scope_id row = i)"
      using found by simp
    moreover have "snapshot_loop now scopes (e0, r0, g0 @ [(ty @ '':'' @ i, 0)]) w = (Inr (e, r, g), t)"
      using Cons.prems(1) found None by (simp add: sc acc control_row_def query_one_def)
    ultimately show ?thesis
      using Cons.prems(2) by (intro Cons.IH) (auto simp: sc acc)
  next
    case (Some row)
    note only = one_or_none_unique [OF found [unfolded Some]]
    let ?st = "state_at now row" and ?g = "g0 @ [(ty @ CHR '':'' # i, ct_generation row)]"
    have run: "(if ?st = ''killed'' then ret (''killed'', ct_reason row, ?g)
        else if ?st = ''paused'' \<and> e0 = ''enabled'' then snapshot_loop now scopes (''paused'', ct_reason row, ?g)
        else snapshot_loop now scopes (e0, r0, ?g)) w = (Inr (e, r, g), t)"
      using Cons.prems(1) found Some by (simp add: sc acc control_row_def query_one_def Let_def split del: if_split)
    show ?thesis
    proof (cases "?st = ''killed''")
      case True
      then show ?thesis using run by simp
    next
      case nk: False
      show ?thesis
      proof (cases "?st = ''paused'' \<and> e0 = ''enabled''")
        case True
        then have "snapshot_loop now scopes (''paused'', ct_reason row, ?g) w = (Inr (e, r, g), t)" using run nk by simp
        then show ?thesis by (rule Cons.IH) simp
      next
        case False
        then have "snapshot_loop now scopes (e0, r0, ?g) w = (Inr (e, r, g), t)"
          using run unfolding if_not_P [OF nk] if_not_P [OF False] by simp
        moreover have "e0 \<noteq> ''enabled'' \<or> ?st \<notin> {''paused'', ''killed''}" using False nk by auto
        ultimately show ?thesis using Cons.prems(2) only by (intro Cons.IH) (auto simp: sc acc)
      qed
    qed
  qed
qed

lemma assert_enabled_stopped:
  assumes row: "row \<in> set (autonomy_control_states w)" "state_at (clock w) row \<in> {''paused'', ''killed''}"
    and scope: "(ct_owner_subject row, ct_scope_type row, ct_scope_id row)
      \<in> set (control_scopes owner (Some room_id) (Some (po_id p)))"
  shows "\<not> (\<exists>v t. assert_enabled cfg owner room_id p w = (Inr v, t))"
proof
  assume "\<exists>v t. assert_enabled cfg owner room_id p w = (Inr v, t)"
  then obtain v where en: "cv_enabled v" and run: "control_snapshot cfg owner (Some room_id) (Some (po_id p)) w = (Inr v, w)"
    using wp_InrD [OF wpr_assert_enabled_run [of p cfg owner room_id w "\<lambda>v t. cv_enabled v \<and>
      control_snapshot cfg owner (Some room_id) (Some (po_id p)) w = (Inr v, w)"]] by blast
  have noenv: "\<not> gateway_autonomy_emergency_stop cfg"
    using en run by (auto simp: control_snapshot_def ret_def)
  obtain e r g t where loop: "snapshot_loop (clock w) (control_scopes owner (Some room_id) (Some (po_id p)))
      (''enabled'', None, []) w = (Inr (e, r, g), t)" and e: "cv_enabled v = (e = ''enabled'')"
    using run noenv by (auto simp: control_snapshot_def)
  have "e \<noteq> ''enabled''" using row scope by (intro snapshot_not_enabled [OF loop]) force
  then show False using en e by simp
qed

section \<open>Setting a control\<close>

definition scope_text :: "AutonomyControlUpdate \<Rightarrow> string" where
  "scope_text data = strip (case cu_scope_id data of None \<Rightarrow> [] | Some s \<Rightarrow> s)"

text \<open>The row owner, scope id, room and policy that a change targets.\<close>

definition target_of ::
  "string \<Rightarrow> AutonomyControlUpdate \<Rightarrow> gdb \<Rightarrow> string \<times> string \<times> string option \<times> string option \<Rightarrow> bool" where
  "target_of owner data w tg \<longleftrightarrow>
     (if cu_scope_type data = ''global'' then tg = (''*'', [], None, None)
      else if cu_scope_type data = ''tenant'' then tg = (owner, [], None, None)
      else if cu_scope_type data = ''room''
      then scope_text data \<noteq> [] \<and> tg = (owner, scope_text data, Some (scope_text data), None)
      else scope_text data \<noteq> [] \<and> (\<exists>p \<in> set (autonomy_policies w). po_id p = scope_text data \<and>
        po_owner_subject p = owner \<and> tg = (owner, scope_text data, Some (po_room_id p), Some (scope_text data))))"

lemma wpr_control_target:
  assumes "\<And>tg. target_of owner data w tg \<Longrightarrow> Q tg w"
  shows "wpr (control_target owner (cu_scope_type data) (scope_text data)) Q w"
proof -
  have s: "strip (scope_text data) = scope_text data" by (simp add: scope_text_def)
  consider (g) "cu_scope_type data = ''global''" | (t) "cu_scope_type data = ''tenant''"
    | (r) "cu_scope_type data = ''room''"
    | (p) "cu_scope_type data \<notin> {''global'', ''tenant'', ''room''}" by blast
  then show ?thesis
  proof cases
    case r
    then show ?thesis
      by (auto simp: control_target_def get_room_def target_of_def s simp del: wp_lift
          intro!: wpr_lift wpr_fetch assms)
  next
    case p
    then show ?thesis
      by (auto simp: control_target_def get_policy_def target_of_def s simp del: wp_lift
          intro!: wpr_lift wpr_fetch assms)
  qed (use assms in \<open>auto simp: control_target_def target_of_def\<close>)
qed

lemma wpr_store_control:
  assumes found: "\<And>c. found = Some c \<Longrightarrow> c \<in> set (autonomy_control_states w) \<and> ct_owner_subject c = co \<and>
      ct_scope_type c = ty \<and> ct_scope_id c = i"
    and Q: "\<And>row cs n. row \<in> set cs \<Longrightarrow> ct_owner_subject row = co \<Longrightarrow> ct_scope_type row = ty \<Longrightarrow>
      ct_scope_id row = i \<Longrightarrow> ct_state row = cu_state data \<Longrightarrow> ct_expires_at row = cu_expires_at data \<Longrightarrow>
      ct_generation row = (case found of None \<Rightarrow> 1 | Some c \<Rightarrow> ct_generation c + 1) \<Longrightarrow>
      Q row (w\<lparr>id_pos := n, autonomy_control_states := cs\<rparr>)"
  shows "wpr (store_control co ty i reason actor data found) Q w"
proof (cases found)
  case None
  show ?thesis
    using Q None by (auto simp: store_control_def add_control_def Let_def intro!: wpr_new_id wpr_insert_row)
next
  case (Some c)
  let ?row = "c\<lparr>ct_state := cu_state data, ct_generation := ct_generation c + 1, ct_reason := Some reason,
    ct_changed_by_subject := actor, ct_expires_at := cu_expires_at data, ct_updated_at := clock w\<rparr>"
  have "?row \<in> set (update_where (\<lambda>q. ct_id q = ct_id ?row) (\<lambda>_. ?row) (autonomy_control_states w))"
    using found [OF Some] by (auto simp: set_update_where)
  then have "Q ?row (w\<lparr>id_pos := id_pos w, autonomy_control_states :=
      update_where (\<lambda>q. ct_id q = ct_id ?row) (\<lambda>_. ?row) (autonomy_control_states w)\<rparr>)"
    using found [OF Some] Some by (intro Q) simp_all
  then show ?thesis by (simp add: store_control_def Some put_control_def Let_def)
qed

text \<open>The guarantee of a control change.\<close>

definition control_set ::
  "string \<Rightarrow> AutonomyControlUpdate \<Rightarrow> gdb \<Rightarrow> AutonomyControlState \<Rightarrow> gdb \<Rightarrow> bool" where
  "control_set owner data w row w' \<longleftrightarrow>
     (\<exists>co i room_id policy_id. target_of owner data w (co, i, room_id, policy_id) \<and>
        row \<in> set (autonomy_control_states w') \<and> ct_owner_subject row = co \<and>
        ct_scope_type row = cu_scope_type data \<and> ct_scope_id row = i \<and>
        ct_state row = cu_state data \<and> ct_expires_at row = cu_expires_at data \<and>
        (cu_state data \<in> {''paused'', ''killed''} \<longrightarrow>
          (\<forall>o' \<in> set (active_owners owner (cu_scope_type data) w).
             no_live_permit room_id policy_id w' o' \<and> no_live_loop (cu_state data) room_id policy_id w' o'))) \<and>
     approval_requests w' = approval_requests w \<and> autonomy_policies w' = autonomy_policies w \<and>
     map pe_owner_subject (execution_permits w') = map pe_owner_subject (execution_permits w) \<and>
     map rl_owner_subject (recovery_loops w') = map rl_owner_subject (recovery_loops w) \<and>
     clock w' = clock w \<and> (exec_inv w \<longrightarrow> exec_inv w')"

lemma control_setI:
  assumes "target_of owner data w (co, i, room_id, policy_id)" and "row \<in> set (autonomy_control_states w')"
    and "ct_owner_subject row = co" "ct_scope_type row = cu_scope_type data" "ct_scope_id row = i"
      "ct_state row = cu_state data" "ct_expires_at row = cu_expires_at data"
    and "\<And>o'. cu_state data \<in> {''paused'', ''killed''} \<Longrightarrow> o' \<in> set (active_owners owner (cu_scope_type data) w) \<Longrightarrow>
      no_live_permit room_id policy_id w' o' \<and> no_live_loop (cu_state data) room_id policy_id w' o'"
    and "approval_requests w' = approval_requests w" "autonomy_policies w' = autonomy_policies w"
      "map pe_owner_subject (execution_permits w') = map pe_owner_subject (execution_permits w)"
      "map rl_owner_subject (recovery_loops w') = map rl_owner_subject (recovery_loops w)"
      "clock w' = clock w" "exec_inv w \<Longrightarrow> exec_inv w'"
  shows "control_set owner data w row w'"
  using assms unfolding control_set_def by blast

lemma wpr_set_control: "wpr (set_control cfg owner actor roles data) (control_set owner data w) w"
  unfolding set_control_def
proof (rule wpr_atomically, unfold Let_def wp_bind scope_text_def [symmetric],
    intro wpr_guard wpr_control_target, goal_cases)
  case (1 tg)
  obtain co i room_id policy_id where tg: "tg = (co, i, room_id, policy_id)" by (cases tg) auto
  note tg' = 1(3) [unfolded tg]
  show ?case
    unfolding tg prod.case wp_bind control_row_def
  proof (intro wpr_lift, rule wpr_run, goal_cases)
    case (1 reason found t)
    then have t: "t = w" and found: "\<And>c. found = Some c \<Longrightarrow> c \<in> set (autonomy_control_states w) \<and>
        ct_owner_subject c = co \<and> ct_scope_type c = cu_scope_type data \<and> ct_scope_id c = i"
      by (auto simp: query_one_def dest!: sym [of "Inr _"] one_or_none_Some)
    show ?case
      unfolding t
    proof (rule wpr_store_control [OF found], assumption, goal_cases)
      case (1 row cs n)
      let ?w = "w\<lparr>id_pos := n, autonomy_control_states := cs\<rparr>"
      have row: "row \<in> set cs \<and>
          ct_owner_subject row = co \<and> ct_scope_type row = cu_scope_type data \<and> ct_scope_id row = i \<and>
          ct_state row = cu_state data \<and> ct_expires_at row = cu_expires_at data"
        using 1 by simp
      have owners: "active_owners owner (cu_scope_type data) ?w = active_owners owner (cu_scope_type data) w"
        by (simp add: active_owners_def)
      show ?case
      proof (cases "cu_state data \<in> {''paused'', ''killed''}")
        case True
        show ?thesis
          unfolding if_P [OF True] wp_bind wp_gets
        proof (rule wpr_restrict_spec, goal_cases)
          case (1 x ps ls)
          let ?w' = "?w\<lparr>execution_permits := ps, recovery_loops := ls\<rparr>"
          have live: "no_live_permit room_id policy_id ?w' o'" "no_live_loop (cu_state data) room_id policy_id ?w' o'"
            if "o' \<in> set (active_owners owner (cu_scope_type data) w)" for o'
            using 1(1,2) [of o'] that by (simp_all only: owners simp_thms)
          have inv: "exec_inv w \<Longrightarrow> exec_ok (approval_requests w) (approval_votes w) ps (action_receipts w)"
            using 1(3) by (simp add: exec_inv_def)
          obtain m k where x: "x = (m, k)" by (cases x)
          show ?case
            unfolding x prod.case wp_bind wp_gets add_override_def
            by (intro wpr_new_id wpr_insert_row gateway_events.wpr_emit, unfold wp_ret, rule control_setI [OF tg'])
               (use row live inv 1(4,5) in \<open>simp_all add: no_live_permit_def no_live_loop_def exec_inv_def\<close>)
        qed
      next
        case False
        show ?thesis
          unfolding if_not_P [OF False] wp_ret prod.case wp_bind wp_gets add_override_def
          by (intro wpr_new_id wpr_insert_row gateway_events.wpr_emit, rule control_setI [OF tg'])
             (use row False in simp_all)
      qed
    qed
  qed
qed

section \<open>Listings\<close>

lemma exec_inv_list_permits: "exec_inv w \<Longrightarrow> exec_inv (snd (list_permits owner status w))"
  unfolding list_permits_def Let_def snd_conv
proof (rule exec_inv_rewrite_permits, goal_cases)
  case (2 p)
  show ?case
    using permit_kept_expire [of p "clock w"]
    by (cases "pe_status p \<in> {''active'', ''claimed''} \<and> pe_expires_at p \<le> clock w") (auto simp: expire_permit_def)
qed

lemma same_binding_expire: "same_binding r (expire_approval now r)"
  by (cases "ap_status r = ''pending'' \<and> ap_expires_at r \<le> now") (simp_all add: expire_approval_def same_binding_def)

lemma request_ok_expire: "request_ok votes r \<Longrightarrow> request_ok votes (expire_approval now r)"
  by (cases "ap_status r = ''pending'' \<and> ap_expires_at r \<le> now")
     (simp_all add: expire_approval_def request_ok_def votes_of_def)

lemma exec_inv_expire_requests:
  assumes inv: "exec_inv w"
  shows "exec_inv (w\<lparr>approval_requests := update_where P (expire_approval now) (approval_requests w)\<rparr>)"
proof -
  let ?f = "\<lambda>r. if P r then expire_approval now r else r"
  have "same_binding r (?f r) \<and> request_ok (approval_votes w) (?f r)" if "r \<in> set (approval_requests w)" for r
  proof -
    have "request_ok (approval_votes w) r" using inv that by (simp add: exec_inv_def exec_ok_def)
    then show ?thesis by (simp add: same_binding_expire request_ok_expire)
  qed
  then show ?thesis
    using exec_ok_map_requests [OF inv [unfolded exec_inv_def], of ?f] by (simp add: exec_inv_def update_where_def)
qed

lemma exec_inv_list_approval_requests:
  "exec_inv w \<Longrightarrow> exec_inv (snd (list_approval_requests who room_id status w))"
  by (simp add: list_approval_requests_def Let_def exec_inv_expire_requests)

end
