(* ===== verification/Store_Frames.thy ===== *)
theory Store_Frames
  imports Gateway_Store
begin

text \<open>
  Relations between the tables before and after a call that hold whatever the call answers:
  that a table is left alone, that rows are only added, that a clock does not move. Queries,
  new identifiers and events satisfy each of them, so a call does when its writes do.
\<close>

section \<open>Relations over the store\<close>

locale store_relation = state_relation R for R :: "gdb \<Rightarrow> gdb \<Rightarrow> bool" +
  assumes rel_events: "only_events w w' \<Longrightarrow> R w w'"
begin

lemma keeps_new_id: "keeps R new_id"
  using events_new_id rel_events by (auto simp: keeps_def)

lemma keeps_emit_event: "keeps R (emit_event cfg ev)"
  using gateway_events.emit_frame [of cfg ev] rel_events by (auto simp: keeps_def)

lemma keeps_query_one: "keeps R (query_one P table)"
  unfolding query_one_def by (intro keeps_intros)

lemma keeps_fetch: "keeps R (fetch P table d)"
  unfolding fetch_def by (intro keeps_intros keeps_query_one)

lemma keeps_get_approval: "keeps R (get_approval i)"
  unfolding get_approval_def by (intro keeps_intros)

lemma keeps_insert_row: "(\<And>w. R w (add w)) \<Longrightarrow> keeps R (insert_row clash table add)"
  by (simp add: keeps_def insert_row_def rel_refl)

lemma keeps_atomically: "keeps R m \<Longrightarrow> keeps R (atomically m)"
  unfolding keeps_def atomically_def by (metis (mono_tags, lifting) case_prod_conv prod.collapse rel_refl snd_conv sum.case_eq_if)

lemma keeps_on_conflict:
  assumes "keeps R m" and "keeps R h"
  shows "keeps R (on_conflict m h)"
  unfolding keeps_def
proof
  fix w
  have "R w (snd (m w))" "R w (snd (h w))" using assms by (auto simp: keeps_def)
  then show "R w (snd (on_conflict m h w))"
    by (cases "m w") (auto simp: on_conflict_def split: sum.splits)
qed

lemma keeps_if: "keeps R a \<Longrightarrow> keeps R b \<Longrightarrow> keeps R (if c then a else b)"
  by simp

lemma keeps_let: "(\<And>x. keeps R (f x)) \<Longrightarrow> keeps R (let x = v in f x)"
  by simp

lemma keeps_pair: "(\<And>x y. keeps R (f x y)) \<Longrightarrow> keeps R (case p of (x, y) \<Rightarrow> f x y)"
  by (cases p) simp

lemma keeps_list:
  "keeps R m \<Longrightarrow> (\<And>x xs. keeps R (f x xs)) \<Longrightarrow> keeps R (case l of [] \<Rightarrow> m | x # xs \<Rightarrow> f x xs)"
  by (cases l) auto

lemmas keeps_store = keeps_ret keeps_raise keeps_gets keeps_guard keeps_lift keeps_bind keeps_for keeps_option
  keeps_new_id keeps_emit_event keeps_query_one keeps_fetch keeps_get_approval keeps_insert_row keeps_atomically
  keeps_on_conflict keeps_if keeps_let keeps_pair keeps_list keeps_modify

end

section \<open>A table that is left alone\<close>

definition same :: "(gdb \<Rightarrow> 'a) \<Rightarrow> gdb \<Rightarrow> gdb \<Rightarrow> bool" where
  "same t w w' \<longleftrightarrow> t w' = t w"

lemma sameI: "t w' = t w \<Longrightarrow> same t w w'"
  by (simp add: same_def)

lemma sameD: "keeps (same t) m \<Longrightarrow> m w = (r, w') \<Longrightarrow> t w' = t w"
  using keepsD [of "same t" m w r w'] by (simp add: same_def)

lemma same_after: "keeps (same t) m \<Longrightarrow> t (snd (m w)) = t w"
  by (simp add: keeps_def same_def)

locale untouched =
  fixes t :: "gdb \<Rightarrow> 'a"
  assumes no_event: "t (w\<lparr>audit_events := a, outbox_events := b, id_pos := n\<rparr>) = t w"

sublocale untouched \<subseteq> store_relation "same t"
  by unfold_locales (auto simp: same_def only_events_def no_event)

lemma wp_keeps:
  "keeps R m \<Longrightarrow> (\<And>x t. R w t \<Longrightarrow> Q x t) \<Longrightarrow> (\<And>e t. R w t \<Longrightarrow> E e t) \<Longrightarrow> wp m Q E w"
  by (rule wpI) (auto dest: keepsD)

lemma wpr_keeps: "keeps R m \<Longrightarrow> (\<And>x t. R w t \<Longrightarrow> Q x t) \<Longrightarrow> wpr m Q w"
  by (rule wpI) (auto dest: keepsD)

section \<open>Calls that roll back\<close>

text \<open>A call that raises leaves the tables alone, so it keeps what its returning runs keep.\<close>

definition rolls_back :: "'a gw \<Rightarrow> bool" where
  "rolls_back m \<longleftrightarrow> (\<forall>w e t. m w = (Inl e, t) \<longrightarrow> t = w)"

lemma rolls_back_atomically: "rolls_back (atomically m)"
  using atomically_Inl by (auto simp: rolls_back_def)

lemma rolls_back_keeps:
  assumes "rolls_back m" and "wpr m (\<lambda>_. I) w" and "I w"
  shows "I (snd (m w))"
proof (cases "m w")
  case (Pair r t)
  then show ?thesis using assms wp_InrD [OF assms(2)] by (cases r) (auto simp: rolls_back_def)
qed

lemma wpr_rolls_back: "rolls_back m \<Longrightarrow> wpr m (\<lambda>_. R w) w \<Longrightarrow> R w w \<Longrightarrow> R w (snd (m w))"
  by (rule rolls_back_keeps)

lemma keeps_wpr: "rolls_back m \<Longrightarrow> (\<And>w. wpr m (\<lambda>_. R w) w) \<Longrightarrow> (\<And>w. R w w) \<Longrightarrow> keeps R m"
  by (simp add: keeps_def rolls_back_keeps)

lemma keeps_wp: "(\<And>w. wp m (\<lambda>_. R w) (\<lambda>_. R w) w) \<Longrightarrow> keeps R m"
  unfolding keeps_def wp_def by (metis (mono_tags, lifting) case_prod_unfold sum.case_eq_if)

lemma wp_fetch:
  "(\<And>r. r \<in> set (table w) \<Longrightarrow> P r \<Longrightarrow> Q r w) \<Longrightarrow> (\<And>e. E e w) \<Longrightarrow> wp (fetch P table d) Q E w"
  by (auto simp: fetch_def query_one_def dest: one_or_none_Some split: sum.splits option.splits)

lemma wp_atomically:
  "wp m Q (\<lambda>e _. E e w) w \<Longrightarrow> wp (atomically m) Q E w"
  by (auto simp: wp_def atomically_def split: prod.splits sum.splits)

lemma fetch_rolls_back: "rolls_back (fetch P table d)"
  by (auto simp: rolls_back_def fetch_def query_one_def bindS_def gets_def liftE_def raise_def ret_def
      split: sum.splits option.splits)

lemma wp_note:
  "(\<And>a b n. Q () (w\<lparr>audit_events := a, outbox_events := b, id_pos := n\<rparr>)) \<Longrightarrow> (\<And>e t. E e t) \<Longrightarrow>
     wp (emit_event cfg ev) Q E w"
  by (rule wp_keeps [OF gateway_events.emit_frame]) (auto simp: only_events_def)

section \<open>Rows that move\<close>

text \<open>
  A table whose rows live through a state machine: a step lets every stored row make a move and
  may add new rows, and the keys stay unique.
\<close>

definition rows_step :: "('r \<Rightarrow> 'k) \<Rightarrow> ('r \<Rightarrow> 'r \<Rightarrow> bool) \<Rightarrow> ('r \<Rightarrow> bool) \<Rightarrow> 'r list \<Rightarrow> 'r list \<Rightarrow> bool" where
  "rows_step key move fresh rows rows' \<longleftrightarrow> unique_on key rows' \<and> (\<exists>f new. rows' = map f rows @ new \<and>
     (\<forall>r \<in> set rows. move r (f r)) \<and> (\<forall>r \<in> set new. fresh r))"

definition put_all :: "('r \<Rightarrow> 'k) \<Rightarrow> 'r list \<Rightarrow> 'r list \<Rightarrow> 'r list" where
  "put_all key rs rows = fold (\<lambda>r. update_where (\<lambda>q. key q = key r) (\<lambda>_. r)) rs rows"

locale row_moves =
  fixes key :: "'r \<Rightarrow> 'k" and move :: "'r \<Rightarrow> 'r \<Rightarrow> bool" and fresh :: "'r \<Rightarrow> bool"
  assumes move_refl: "move r r" and move_key: "move r r' \<Longrightarrow> key r' = key r"
begin

lemma step_map:
  assumes "unique_on key rows" and "\<And>r. r \<in> set rows \<Longrightarrow> move r (f r)"
  shows "rows_step key move fresh rows (map f rows)"
proof -
  have "map key (map f rows) = map key rows" using assms(2) move_key by auto
  then have "unique_on key (map f rows)" using assms(1) unfolding unique_on_def by metis
  then show ?thesis
    unfolding rows_step_def using assms(2) by (intro conjI exI [of _ f] exI [of _ "[]"]) auto
qed

lemma step_refl: "unique_on key rows \<Longrightarrow> rows_step key move fresh rows rows"
  using step_map [of rows "\<lambda>r. r"] by (simp add: move_refl)

lemma step_update:
  assumes "unique_on key rows" and "\<And>r. r \<in> set rows \<Longrightarrow> P r \<Longrightarrow> move r (f r)"
  shows "rows_step key move fresh rows (update_where P f rows)"
  unfolding update_where_def using assms move_refl by (intro step_map) auto

lemma step_put:
  assumes u: "unique_on key rows" and r: "r \<in> set rows" and m: "move r r'"
  shows "rows_step key move fresh rows (update_where (\<lambda>q. key q = key r') (\<lambda>_. r') rows)"
proof -
  have k: "key r' = key r" by (rule move_key [OF m])
  have "move q r'" if "q \<in> set rows" "key q = key r'" for q
    using unique_on_eqD [OF u that(1) r] that(2) m k by simp
  then show ?thesis by (rule step_update [OF u])
qed

lemma step_put_at:
  assumes "unique_on key rows" and "r \<in> set rows" and "move r r'"
  shows "rows_step key move fresh rows (update_where (\<lambda>q. key q = key r) (\<lambda>_. r') rows)"
  using step_put [OF assms] by (simp add: move_key [OF assms(3)])

lemma step_add:
  assumes "unique_on key rows" and "\<forall>q \<in> set rows. key q \<noteq> key r" and "fresh r"
  shows "rows_step key move fresh rows (rows @ [r])"
proof -
  have "unique_on key (rows @ [r])" using assms by auto
  then show ?thesis
    unfolding rows_step_def using assms(3)
    by (intro conjI exI [of _ "\<lambda>r. r"] exI [of _ "[r]"]) (auto intro: move_refl)
qed

lemma step_row:
  assumes "rows_step key move fresh rows rows'" and "r \<in> set rows"
  shows "\<exists>r' \<in> set rows'. move r r'"
  using assms unfolding rows_step_def by auto

lemma step_origin:
  assumes "rows_step key move fresh rows rows'" and "r' \<in> set rows'"
  shows "(\<exists>r \<in> set rows. move r r') \<or> fresh r' \<and> key r' \<notin> key ` set rows"
proof -
  obtain f new where step: "unique_on key rows'" "rows' = map f rows @ new" "\<forall>r \<in> set rows. move r (f r)"
      "\<forall>r \<in> set new. fresh r"
    using assms(1) unfolding rows_step_def by (elim conjE exE) rule
  show ?thesis
  proof (cases "r' \<in> set new")
    case True
    have "key ` set rows \<inter> key ` set new = {}"
      using step(1,3) move_key unfolding step(2) unique_on_def by (force simp: image_iff)
    with True step(4) show ?thesis by blast
  qed (use assms(2) step in auto)
qed

text \<open>Several distinct rows written one after the other.\<close>

lemma step_put_all:
  assumes u: "unique_on key rows" and sub: "set rs \<subseteq> set rows" and d: "distinct rs" and m: "list_all2 move rs rs'"
  shows "\<exists>f. put_all key rs' rows = map f rows \<and> (\<forall>r \<in> set rows. move r (f r)) \<and>
    (\<forall>r \<in> set rows. r \<notin> set rs \<longrightarrow> f r = r) \<and> map f rs = rs'"
  using m sub d u
proof (induction rs rs' arbitrary: rows rule: list_all2_induct)
  case Nil
  show ?case by (intro exI [of _ "\<lambda>r. r"]) (simp add: put_all_def move_refl)
next
  case (Cons r rs r' rs')
  let ?g = "\<lambda>q. if key q = key r' then r' else q"
  have k: "key r' = key r" by (rule move_key [OF Cons.hyps(1)])
  have only: "q = r" if "q \<in> set rows" "key q = key r" for q
    using unique_on_eqD [OF Cons.prems(3) that(1) _ that(2)] Cons.prems(1) by simp
  have keep: "?g q = q" if "q \<in> set rs" for q
    using only [of q] that Cons.prems(1,2) k by auto
  have "set rs \<subseteq> set (map ?g rows)" using keep Cons.prems(1) by (force simp: image_iff)
  moreover have "unique_on key (map ?g rows)"
    using unique_on_update_where [OF Cons.prems(3), of "\<lambda>q. key q = key r'" "\<lambda>_. r'"] by (simp add: update_where_def)
  ultimately obtain f where f: "put_all key rs' (map ?g rows) = map f (map ?g rows)"
      "\<forall>q \<in> set (map ?g rows). move q (f q)" "\<forall>q \<in> set (map ?g rows). q \<notin> set rs \<longrightarrow> f q = q" "map f rs = rs'"
    using Cons.IH [of "map ?g rows"] Cons.prems(2) by auto
  have r': "r' \<in> set (map ?g rows)" using Cons.prems(1) k by (force simp: image_iff)
  have "r' \<notin> set rs"
  proof
    assume mem: "r' \<in> set rs"
    then have "r' = r" using only [of r'] k Cons.prems(1) by auto
    with mem Cons.prems(2) show False by simp
  qed
  then have fr': "f r' = r'" using f(3) r' by blast
  have "map (f \<circ> ?g) rs = map f rs"
  proof (rule map_cong [OF refl])
    fix q
    assume "q \<in> set rs"
    from keep [OF this] show "(f \<circ> ?g) q = f q" unfolding comp_apply by (rule arg_cong)
  qed
  then have fg: "map (f \<circ> ?g) rs = rs'" using f(4) by simp
  have "put_all key (r' # rs') rows = map (f \<circ> ?g) rows" using f(1) by (simp add: put_all_def update_where_def)
  moreover have "move q ((f \<circ> ?g) q) \<and> (q \<notin> set (r # rs) \<longrightarrow> (f \<circ> ?g) q = q)" if q: "q \<in> set rows" for q
  proof (cases "key q = key r'")
    case True
    then show ?thesis using only [OF q] k fr' Cons.hyps(1) by simp
  next
    case False
    then have "q \<in> set (map ?g rows)" using q by (force simp: image_iff)
    then show ?thesis using False f(2,3) by auto
  qed
  moreover have "map (f \<circ> ?g) (r # rs) = r' # rs'" using fg k fr' by simp
  ultimately show ?case by (intro exI [of _ "f \<circ> ?g"] conjI ballI impI) (simp_all add: comp_def)
qed

end

end
