(* ===== verification/Autonomy_Correct.thy ===== *)
theory Autonomy_Correct
  imports Autonomy_Control Store_Frames
begin

text \<open>
  The guarded execution system as a whole: the calls of the service as one step relation, the
  states it reaches, and the properties of the approval, permit and control components.
\<close>

section \<open>The system\<close>

datatype autonomy_call =
    CreatePolicy string string AutonomyPolicyCreate
  | UpdatePolicy string string string int AutonomyPolicyUpdate
  | SetControl string string "string list" AutonomyControlUpdate
  | RequestApproval string string ApprovalRequestCreate
  | CastVote string User string "string option"
  | IssuePermit string string string "int option"
  | ClaimPermit string string string
  | RecordReceipt string ActionReceiptCreate
  | ListApprovals "string + User" "string option" "string option"
  | ListPermits string "string option"

fun autonomy_step :: "gw_settings \<Rightarrow> autonomy_call \<Rightarrow> gdb \<Rightarrow> gdb" where
  "autonomy_step cfg (CreatePolicy owner actor data) w = snd (create_policy cfg owner actor data w)"
| "autonomy_step cfg (UpdatePolicy owner actor i v data) w = snd (update_policy cfg owner actor i v data w)"
| "autonomy_step cfg (SetControl owner actor roles data) w = snd (set_control cfg owner actor roles data w)"
| "autonomy_step cfg (RequestApproval owner actor data) w = snd (create_approval_request cfg owner actor data w)"
| "autonomy_step cfg (CastVote i user decision reason) w = snd (cast_vote cfg i user decision reason w)"
| "autonomy_step cfg (IssuePermit owner actor i ttl) w = snd (issue_permit cfg owner actor i ttl w)"
| "autonomy_step cfg (ClaimPermit owner i executor) w = snd (claim_permit cfg owner i executor w)"
| "autonomy_step cfg (RecordReceipt owner data) w = snd (record_receipt cfg owner data w)"
| "autonomy_step cfg (ListApprovals who room_id status) w = snd (list_approval_requests who room_id status w)"
| "autonomy_step cfg (ListPermits owner status) w = snd (list_permits owner status w)"

text \<open>
  Between calls the clock moves and other services change tables of their own (\<open>other\<close>), and
  the MCP federation broker stores pending requests (\<open>broker\<close>).
\<close>

inductive autonomy_reachable :: "gw_settings \<Rightarrow> gdb \<Rightarrow> bool" for cfg where
  start: "approval_requests w = [] \<Longrightarrow> approval_votes w = [] \<Longrightarrow> execution_permits w = [] \<Longrightarrow>
    action_receipts w = [] \<Longrightarrow> autonomy_reachable cfg w"
| call: "autonomy_reachable cfg w \<Longrightarrow> autonomy_reachable cfg (autonomy_step cfg c w)"
| other: "autonomy_reachable cfg w \<Longrightarrow> same_exec w w' \<Longrightarrow> autonomy_reachable cfg w'"
| broker: "autonomy_reachable cfg w \<Longrightarrow> ap_status r = ''pending'' \<Longrightarrow>
    \<forall>q \<in> set (approval_requests w). ap_id q \<noteq> ap_id r \<Longrightarrow>
    autonomy_reachable cfg (w\<lparr>approval_requests := approval_requests w @ [r]\<rparr>)"

lemma rolls_back_calls:
  "rolls_back (create_policy cfg owner actor pc)" "rolls_back (update_policy cfg owner actor i v pu)"
  "rolls_back (set_control cfg owner actor roles cu)" "rolls_back (create_approval_request cfg owner actor rc)"
  "rolls_back (cast_vote cfg i user decision reason)" "rolls_back (issue_permit cfg owner actor i ttl)"
  "rolls_back (claim_permit cfg owner i executor)" "rolls_back (record_receipt cfg owner rd)"
  by (simp_all only: create_policy_def update_policy_def set_control_def create_approval_request_def cast_vote_def
      issue_permit_def claim_permit_def record_receipt_def rolls_back_atomically)

lemma exec_inv_step:
  assumes inv: "exec_inv w"
  shows "exec_inv (autonomy_step cfg c w)"
proof (cases c)
  case (SetControl owner actor roles data)
  have "wpr (set_control cfg owner actor roles data) (\<lambda>_. exec_inv) w"
    by (rule wpr_mono [OF wpr_set_control]) (use inv in \<open>simp add: control_set_def\<close>)
  with inv SetControl show ?thesis by (simp add: rolls_back_keeps rolls_back_calls)
qed (simp_all add: inv exec_inv_list_permits exec_inv_list_approval_requests rolls_back_keeps rolls_back_calls
    exec_inv_create_policy exec_inv_update_policy exec_inv_create_approval_request exec_inv_cast_vote
    exec_inv_issue_permit exec_inv_claim_permit exec_inv_record_receipt)

lemma exec_inv_reachable: "autonomy_reachable cfg w \<Longrightarrow> exec_inv w"
proof (induction rule: autonomy_reachable.induct)
  case (start w)
  then show ?case by (simp add: exec_inv_def exec_ok_def unique_on_def)
next
  case (broker w r)
  then show ?case
    unfolding exec_inv_def using exec_ok_add_request [of _ _ _ _ r] by simp
qed (auto intro: exec_inv_step exec_inv_frame)

section \<open>A run\<close>

definition auto_cfg :: gw_settings where
  "auto_cfg = \<lparr>gateway_autonomy_emergency_stop = False, gateway_autonomy_assignment_batch_size = 50,
     gateway_autonomy_approval_ttl_seconds = 900, gateway_autonomy_permit_ttl_seconds = 300,
     gateway_outbox_enabled = False, gateway_outbox_max_attempts = 10, gateway_outbox_batch_size = 100,
     gateway_outbox_lock_ttl_seconds = 60, gateway_outbox_retry_base_us = 1000000,
     gateway_outbox_retry_max_us = 300000000, gateway_nats_subject_prefix = ''gw'',
     sha256_hex = (\<lambda>s. int_dec (int (length s)))\<rparr>"

definition auto_policy :: AutonomyPolicy where
  "auto_policy = \<lparr>po_id = ''p1'', po_owner_subject = ''ann'', po_room_id = ''r1'', po_name = ''main'',
     po_status = ''active'', po_assignment_mode = ''manual'', po_coordinator_agent_id = None,
     po_allowed_action_classes = [''read'', ''write''], po_allowed_tools = [''git_status''],
     po_allowed_command_profiles = [], po_max_parallel_assignments = 1,
     po_approval_rules = [(''write'', \<lparr>ar_quorum = 1, ar_require_admin = False, ar_disallow_proposer = True\<rparr>)],
     po_recovery_policy = DEFAULT_RECOVERY_POLICY, po_generation = 1, po_version = 1,
     po_idempotency_key = None, po_created_by_subject = ''ann'', po_created_at = 0, po_updated_at = 0\<rparr>"

definition auto_agent :: AgentInstance where
  "auto_agent = \<lparr>ag_id = ''a1'', ag_owner_subject = ''ann'', ag_logical_agent_id = ''worker'',
     ag_instance_id = ''i1'', ag_display_name = ''Worker'', ag_status = ''active'', ag_capabilities = [],
     ag_labels = [], ag_current_room_id = Some ''r1'', ag_current_work_item_id = None,
     ag_last_heartbeat_at = 0, ag_expires_at = None, ag_created_at = 0, ag_updated_at = 0\<rparr>"

definition auto_command :: AgentCommand where
  "auto_command = \<lparr>cm_id = ''c1'', cm_owner_subject = ''ann'', cm_room_id = ''r1'', cm_issuer_agent_id = ''a0'',
     cm_target_agent_id = ''a1'', cm_kind = ''run_tool'', cm_instruction = ''status'',
     cm_structured_payload = [(''tool'', JStr ''git_status'')], cm_constraints = [], cm_priority = 0,
     cm_status = ''accepted'', cm_requires_approval = True, cm_approved_by_subject = None,
     cm_correlation_id = None, cm_causation_id = None, cm_idempotency_key = None, cm_delivery_attempts = 1,
     cm_delivered_at = None, cm_acknowledged_at = None, cm_accepted_at = None, cm_completed_at = None,
     cm_expires_at = None, cm_result = [], cm_error = None, cm_created_at = 0, cm_updated_at = 0\<rparr>"

definition auto_db :: gdb where
  "auto_db = \<lparr>clock = 1000, id_src = nat_dec, id_pos = 0, access_grants = [], audit_events = [],
     outbox_events = [], agent_instances = [auto_agent], collaboration_rooms = [],
     agent_commands = [auto_command], agent_work_items = [], autonomy_policies = [auto_policy],
     autonomy_control_states = [], autonomy_overrides = [], autonomy_assignments = [],
     approval_requests = [], approval_votes = [], execution_permits = [], action_receipts = [],
     recovery_loops = [], agent_messages = [], agent_message_deliveries = [],
     resource_leases = [], agent_handoff_barriers = [], agent_integration_records = [],
     file_change_sets = [], outbox_delivery_attempts = [], processed_broker_messages = []\<rparr>"

definition auto_request :: ApprovalRequestCreate where
  "auto_request = \<lparr>rc_policy_id = ''p1'', rc_command_id = ''c1'', rc_executor_agent_id = ''a1'',
     rc_action_class = ''write'', rc_action_kind = [], rc_ttl_seconds = None, rc_idempotency_key = None\<rparr>"

definition auto_admin :: User where
  "auto_admin = \<lparr>us_subject = ''root'', us_roles = [''gateway-admin'']\<rparr>"

definition auto_receipt :: ActionReceiptCreate where
  "auto_receipt = \<lparr>rr_permit_id = ''0'', rr_executor_agent_id = ''a1'', rr_fencing_token = 1,
     rr_status = ''succeeded'', rr_result_summary = [], rr_error = None, rr_external_references = [],
     rr_started_at = 1, rr_completed_at = 2, rr_idempotency_key = None\<rparr>"

text \<open>
  The rows of the run that requests approval of a command, has it approved by an administrator,
  issues a permit, claims it and stores its receipt.
\<close>

definition auto_pending :: ApprovalRequest where
  "auto_pending = \<lparr>ap_id = ''0'', ap_owner_subject = ''ann'', ap_room_id = ''r1'', ap_policy_id = ''p1'',
     ap_command_id = Some ''c1'', ap_work_item_id = None, ap_integration_id = None,
     ap_proposer_agent_id = Some ''a0'', ap_executor_agent_id = ''a1'', ap_action_kind = ''run_tool'',
     ap_action_class = ''write'', ap_tool = ''git_status'', ap_command_profile = None, ap_payload_hash = ''181'',
     ap_payload_summary = [(''command_id'', JStr ''c1''), (''tool'', JStr ''git_status''),
       (''command_profile'', JNull), (''argument_keys'', JList []), (''constraint_keys'', JList [])],
     ap_quorum_required = 1, ap_require_admin_approval = False, ap_disallow_proposer_vote = True,
     ap_status = ''pending'', ap_policy_generation = 1, ap_version = 1, ap_idempotency_key = None,
     ap_created_by_subject = ''ann'', ap_expires_at = 900001000, ap_approved_at = None, ap_rejected_at = None,
     ap_revoked_at = None, ap_created_at = 1000, ap_updated_at = 1000\<rparr>"

definition auto_vote :: ApprovalVote where
  "auto_vote = \<lparr>vo_id = ''0'', vo_owner_subject = ''ann'', vo_request_id = ''0'', vo_voter_subject = ''root'',
     vo_voter_roles = [''gateway-admin''], vo_decision = ''approve'', vo_reason = None, vo_created_at = 1000\<rparr>"

definition auto_approval :: ApprovalRequest where
  "auto_approval = auto_pending\<lparr>ap_status := ''approved'', ap_approved_at := Some 1000, ap_version := 2\<rparr>"

definition auto_permit :: ExecutionPermit where
  "auto_permit = \<lparr>pe_id = ''0'', pe_owner_subject = ''ann'', pe_approval_request_id = ''0'', pe_policy_id = ''p1'',
     pe_command_id = Some ''c1'', pe_executor_agent_id = ''a1'', pe_action_class = ''write'',
     pe_tool = ''git_status'', pe_command_profile = None, pe_payload_hash = ''181'', pe_status = ''active'',
     pe_policy_generation = 1,
     pe_control_snapshot = \<lparr>cv_enabled = True, cv_effective_state = ''enabled'', cv_reason = None,
       cv_generations = [(''global:'', 0), (''tenant:'', 0), (''room:r1'', 0), (''policy:p1'', 0)]\<rparr>,
     pe_fencing_token = 1, pe_max_uses = 1, pe_use_count = 0, pe_issued_by_subject = ''ann'',
     pe_issued_at = 1000, pe_expires_at = 300001000, pe_claimed_at = None, pe_consumed_at = None,
     pe_revoked_at = None, pe_revocation_reason = None, pe_created_at = 1000, pe_updated_at = 1000\<rparr>"

definition auto_requested :: gdb where
  "auto_requested = auto_db\<lparr>approval_requests := [auto_pending]\<rparr>"

definition auto_approved :: gdb where
  "auto_approved = auto_db\<lparr>approval_requests := [auto_approval], approval_votes := [auto_vote]\<rparr>"

definition auto_issued :: gdb where
  "auto_issued = auto_approved\<lparr>execution_permits := [auto_permit]\<rparr>"

definition auto_claimed :: gdb where
  "auto_claimed = auto_approved\<lparr>execution_permits := [mark_claimed 1000 auto_permit]\<rparr>"

lemma auto_request_run:
  "same_exec (autonomy_step auto_cfg (RequestApproval ''ann'' ''ann'' auto_request) auto_db) auto_requested"
  by code_simp

lemma auto_vote_run:
  "same_exec (autonomy_step auto_cfg (CastVote ''0'' auto_admin ''approve'' None) auto_requested) auto_approved"
  by code_simp

lemma auto_issue_run:
  "same_exec (autonomy_step auto_cfg (IssuePermit ''ann'' ''ann'' ''0'' None) auto_approved) auto_issued"
  by code_simp

lemma auto_claim_run:
  "same_exec (autonomy_step auto_cfg (ClaimPermit ''ann'' ''0'' ''a1'') auto_issued) auto_claimed"
  by code_simp

lemma auto_receipt_run:
  "map re_permit_id (action_receipts (autonomy_step auto_cfg (RecordReceipt ''ann'' auto_receipt) auto_claimed)) = [''0'']"
  by code_simp

definition auto_done :: gdb where
  "auto_done = autonomy_step auto_cfg (RecordReceipt ''ann'' auto_receipt) auto_claimed"

lemma auto_reachable:
  "autonomy_reachable auto_cfg auto_requested" "autonomy_reachable auto_cfg auto_approved"
  "autonomy_reachable auto_cfg auto_issued" "autonomy_reachable auto_cfg auto_claimed"
  "autonomy_reachable auto_cfg auto_done"
proof -
  have "autonomy_reachable auto_cfg auto_db" by (rule autonomy_reachable.start) (simp_all add: auto_db_def)
  note r1 = autonomy_reachable.other [OF autonomy_reachable.call [OF this] auto_request_run]
  note r2 = autonomy_reachable.other [OF autonomy_reachable.call [OF r1] auto_vote_run]
  note r3 = autonomy_reachable.other [OF autonomy_reachable.call [OF r2] auto_issue_run]
  note r4 = autonomy_reachable.other [OF autonomy_reachable.call [OF r3] auto_claim_run]
  show "autonomy_reachable auto_cfg auto_requested" by (rule r1)
  show "autonomy_reachable auto_cfg auto_approved" by (rule r2)
  show "autonomy_reachable auto_cfg auto_issued" by (rule r3)
  show "autonomy_reachable auto_cfg auto_claimed" by (rule r4)
  show "autonomy_reachable auto_cfg auto_done" unfolding auto_done_def by (rule autonomy_reachable.call [OF r4])
qed

section \<open>Guarded execution\<close>

text \<open>The evidence that stands behind one receipt.\<close>

definition justified :: "gdb \<Rightarrow> ActionReceipt \<Rightarrow> ExecutionPermit \<Rightarrow> ApprovalRequest \<Rightarrow> bool" where
  "justified w x p r \<longleftrightarrow>
     p \<in> set (execution_permits w) \<and> receipt_for x p \<and> pe_status p = ''consumed'' \<and> pe_use_count p = pe_max_uses p \<and>
     r \<in> set (approval_requests w) \<and> bound_to p r \<and> ap_status r = ''approved'' \<and>
     (let votes = votes_of (approval_votes w) r in
        ap_quorum_required r \<le> int (card (vo_voter_subject ` {v \<in> set votes. approves v})) \<and>
        (\<forall>v \<in> set votes. vo_decision v \<noteq> ''reject'') \<and>
        (ap_require_admin_approval r \<longrightarrow> (\<exists>v \<in> set votes. approves v \<and> ''gateway-admin'' \<in> set (vo_voter_roles v))) \<and>
        (ap_disallow_proposer_vote r \<longrightarrow> (\<forall>v \<in> set votes. vo_voter_subject v \<noteq> ap_created_by_subject r)))"

lemma distinct_voters:
  assumes "unique_on (\<lambda>v. (vo_request_id v, vo_voter_subject v)) votes"
  shows "card (vo_voter_subject ` {v \<in> set (votes_of votes r). approves v}) =
    length (filter approves (votes_of votes r))"
proof -
  have "distinct (map (\<lambda>v. (vo_request_id v, vo_voter_subject v)) (votes_of votes r))"
    using assms unfolding unique_on_def votes_of_def by (simp add: distinct_map_filter)
  moreover have "map (\<lambda>v. (vo_request_id v, vo_voter_subject v)) (votes_of votes r) =
      map (Pair (ap_id r)) (map vo_voter_subject (votes_of votes r))"
    by (auto simp: votes_of_def)
  ultimately have "distinct (map vo_voter_subject (filter approves (votes_of votes r)))"
    by (metis distinct_map distinct_map_filter)
  then show ?thesis
    by (metis distinct_card length_map list.set_map set_filter)
qed

lemma justified_receipt:
  assumes inv: "exec_inv w" and x: "x \<in> set (action_receipts w)"
  shows "\<exists>p r. justified w x p r"
proof -
  obtain p where p: "p \<in> set (execution_permits w)" "receipt_for x p"
    using inv x unfolding exec_inv_def exec_ok_def by blast
  then have ok: "permit_ok (approval_requests w) (action_receipts w) p"
    using inv by (simp add: exec_inv_def exec_ok_def)
  then obtain r where r: "r \<in> set (approval_requests w)" "bound_to p r" "ap_status r = ''approved''"
    by (auto simp: permit_ok_def)
  have used: "pe_status p = ''consumed''" "pe_use_count p = pe_max_uses p"
    using ok p x by (auto simp: permit_ok_def receipt_for_def)
  have "request_ok (approval_votes w) r" using inv r by (simp add: exec_inv_def exec_ok_def)
  moreover have "unique_on (\<lambda>v. (vo_request_id v, vo_voter_subject v)) (approval_votes w)"
    using inv by (simp add: exec_inv_def exec_ok_def)
  ultimately have "justified w x p r"
    using p r used distinct_voters [of "approval_votes w" r]
    by (auto simp: justified_def request_ok_def votes_approve_def votes_reject_def list_ex_iff)
  then show ?thesis by blast
qed





end
