(* ===== verification/Autonomy_Stop.thy ===== *)
theory Autonomy_Stop
  imports Autonomy_Correct
begin

text \<open>
  Correctness of the operator's controls, of policy changes and of votes: a pause or kill stops
  every permit and recovery loop it covers and blocks new ones, a policy change revokes what
  was permitted under the old generation, a vote gives a request the outcome of its votes.
\<close>

section \<open>Pausing and killing\<close>

definition covers :: "string \<Rightarrow> AutonomyControlUpdate \<Rightarrow> string \<Rightarrow> string \<Rightarrow> string \<Rightarrow> bool" where
  "covers owner data o' room_id policy_id \<longleftrightarrow>
     cu_scope_type data = ''global'' \<or>
     o' = owner \<and> (cu_scope_type data = ''tenant'' \<or>
       cu_scope_type data = ''room'' \<and> room_id = scope_text data \<or>
       cu_scope_type data = ''policy'' \<and> policy_id = scope_text data)"

definition policy_in_room :: "gdb \<Rightarrow> string \<Rightarrow> string \<Rightarrow> string \<Rightarrow> bool" where
  "policy_in_room w o' policy_id room_id \<longleftrightarrow>
     (\<forall>p \<in> set (autonomy_policies w). po_id p = policy_id \<and> po_owner_subject p = o' \<longrightarrow> po_room_id p = room_id)"

lemma covers_target:
  assumes "target_of owner data w (co, i, rm, pol)" and "covers owner data o' room_id policy_id"
    and "policy_in_room w o' policy_id room_id"
  shows "opt_is rm room_id" and "opt_is pol policy_id"
  using assms by (auto simp: target_of_def covers_def policy_in_room_def opt_is_def split: if_splits)

lemma covers_scope:
  assumes "target_of owner data w (co, i, rm, pol)" and "covers owner data o' room_id policy_id"
  shows "(co, cu_scope_type data, i) \<in> set (control_scopes o' (Some room_id) (Some policy_id))"
  using assms
  by (cases "scope_text data") (auto simp: target_of_def covers_def control_scopes_def split: if_splits list.splits)

lemma set_control_spec:
  "set_control cfg owner actor roles data w = (Inr row, w') \<Longrightarrow> control_set owner data w row w'"
  by (rule wp_InrD [OF wpr_set_control])

lemma stopped_permit:
  assumes set: "control_set owner data w row w'" and st: "cu_state data \<in> {''paused'', ''killed''}"
    and p: "p \<in> set (execution_permits w')"
    and r: "find (\<lambda>r. ap_id r = pe_approval_request_id p) (approval_requests w') = Some r"
    and cov: "covers owner data (pe_owner_subject p) (ap_room_id r) (pe_policy_id p)"
    and room: "policy_in_room w (pe_owner_subject p) (pe_policy_id p) (ap_room_id r)"
  shows "pe_status p \<notin> {''active'', ''claimed''}"
proof -
  obtain co i rm pol where tg: "target_of owner data w (co, i, rm, pol)"
    and live: "\<And>o'. o' \<in> set (active_owners owner (cu_scope_type data) w) \<Longrightarrow> no_live_permit rm pol w' o'"
    using set st unfolding control_set_def by blast
  have "set (map pe_owner_subject (execution_permits w')) = set (map pe_owner_subject (execution_permits w))"
    using set by (simp add: control_set_def)
  then have "pe_owner_subject p \<in> set (active_owners owner (cu_scope_type data) w)"
    using p cov by (force simp: active_owners_def covers_def)
  then have "\<not> revocable (pe_owner_subject p) rm pol w' p" using live p by (simp add: no_live_permit_def)
  then show ?thesis
    using r covers_target [OF tg cov room] by (auto simp: revocable_def)
qed

lemma stopped_loop:
  assumes set: "control_set owner data w row w'" and st: "cu_state data \<in> {''paused'', ''killed''}"
    and l: "l \<in> set (recovery_loops w')" and cov: "covers owner data (rl_owner_subject l) (rl_room_id l) (rl_policy_id l)"
    and room: "policy_in_room w (rl_owner_subject l) (rl_policy_id l) (rl_room_id l)"
  shows "rl_status l \<in> set RECOVERY_TERMINAL \<or> cu_state data = ''paused'' \<and> rl_status l = ''paused''"
proof -
  obtain co i rm pol where tg: "target_of owner data w (co, i, rm, pol)"
    and live: "\<And>o'. o' \<in> set (active_owners owner (cu_scope_type data) w) \<Longrightarrow> no_live_loop (cu_state data) rm pol w' o'"
    using set st unfolding control_set_def by blast
  have "set (map rl_owner_subject (recovery_loops w')) = set (map rl_owner_subject (recovery_loops w))"
    using set by (simp add: control_set_def)
  then have "rl_owner_subject l \<in> set (active_owners owner (cu_scope_type data) w)"
    using l cov by (force simp: active_owners_def covers_def)
  then show ?thesis
    using live [of "rl_owner_subject l"] l st covers_target [OF tg cov room]
    by (auto simp: no_live_loop_def restrictable_def)
qed

text \<open>
  C3: An operator who pauses or kills autonomy is an administrator, and when the call returns
  every execution permit it covers is neither active nor claimed and every recovery loop it
  covers is terminal, or paused by a pause. A permit is covered by its owner, the room of its
  request and its policy, in the tenant, room or policy the control names, or in all of them.
\<close>

theorem set_control_stops:
  assumes "set_control cfg owner actor roles data w = (Inr row, w')"
    and "cu_state data \<in> {''paused'', ''killed''}"
  shows "''gateway-admin'' \<in> set roles \<and>
    (\<forall>p \<in> set (execution_permits w'). \<forall>r.
       find (\<lambda>r. ap_id r = pe_approval_request_id p) (approval_requests w') = Some r \<and>
       covers owner data (pe_owner_subject p) (ap_room_id r) (pe_policy_id p) \<and>
       policy_in_room w (pe_owner_subject p) (pe_policy_id p) (ap_room_id r) \<longrightarrow>
       pe_status p \<notin> {''active'', ''claimed''}) \<and>
    (\<forall>l \<in> set (recovery_loops w'). covers owner data (rl_owner_subject l) (rl_room_id l) (rl_policy_id l) \<and>
       policy_in_room w (rl_owner_subject l) (rl_policy_id l) (rl_room_id l) \<longrightarrow>
       rl_status l \<in> set RECOVERY_TERMINAL \<or> cu_state data = ''paused'' \<and> rl_status l = ''paused'')"
proof -
  have "''gateway-admin'' \<in> set roles"
  proof (rule ccontr)
    assume "''gateway-admin'' \<notin> set roles"
    then have "wpr (set_control cfg owner actor roles data) (\<lambda>_ _. False) w"
      unfolding set_control_def by (intro wpr_atomically) (simp add: Let_def)
    then show False using assms(1) by (auto dest: wp_InrD)
  qed
  then show ?thesis
    using stopped_permit stopped_loop set_control_spec [OF assms(1)] assms(2) by blast
qed

definition auto_kill :: AutonomyControlUpdate where
  "auto_kill = \<lparr>cu_scope_type = ''room'', cu_scope_id = Some ''r1'', cu_state = ''killed'',
     cu_reason = ''incident'', cu_expires_at = None\<rparr>"

definition auto_room :: CollaborationRoom where
  "auto_room = \<lparr>ro_id = ''r1'', ro_owner_subject = ''ann'', ro_title = ''Room'', ro_project_path = None,
     ro_repository_identity = None, ro_base_commit = None, ro_status = ''active'', ro_policy = [],
     ro_created_by_agent_id = None, ro_idempotency_key = None, ro_created_at = 0, ro_updated_at = 0\<rparr>"

definition auto_live :: gdb where
  "auto_live = auto_claimed\<lparr>collaboration_rooms := [auto_room]\<rparr>"

lemma auto_kill_run:
  "case set_control auto_cfg ''ann'' ''root'' [''gateway-admin''] auto_kill auto_live of
     (Inl e, w') \<Rightarrow> False
   | (Inr row, w') \<Rightarrow> map pe_id (execution_permits w') = [''0''] \<and> approval_requests w' = [auto_approval]"
  by code_simp

lemma auto_killed:
  obtains row p w' where "set_control auto_cfg ''ann'' ''root'' [''gateway-admin''] auto_kill auto_live = (Inr row, w')"
    and "p \<in> set (execution_permits w')" and "pe_id p = ''0''" and "approval_requests w' = [auto_approval]"
proof -
  obtain res w' where run: "set_control auto_cfg ''ann'' ''root'' [''gateway-admin''] auto_kill auto_live = (res, w')"
    by (cases "set_control auto_cfg ''ann'' ''root'' [''gateway-admin''] auto_kill auto_live")
  then obtain row where "res = Inr row" "map pe_id (execution_permits w') = [''0'']" "approval_requests w' = [auto_approval]"
    using auto_kill_run by (cases res) auto
  with run that show thesis by auto
qed

theorem set_control_stops_witness:
  "\<exists>row w'. set_control auto_cfg ''ann'' ''root'' [''gateway-admin''] auto_kill auto_live = (Inr row, w') \<and>
     (\<exists>p \<in> set (execution_permits w'). pe_id p = ''0'') \<and>
     (\<forall>p \<in> set (execution_permits w'). \<forall>r.
        find (\<lambda>r. ap_id r = pe_approval_request_id p) (approval_requests w') = Some r \<and>
        covers ''ann'' auto_kill (pe_owner_subject p) (ap_room_id r) (pe_policy_id p) \<and>
        policy_in_room auto_live (pe_owner_subject p) (pe_policy_id p) (ap_room_id r) \<longrightarrow>
        pe_status p \<notin> {''active'', ''claimed''})"
proof (rule auto_killed)
  fix row p w'
  assume run: "set_control auto_cfg ''ann'' ''root'' [''gateway-admin''] auto_kill auto_live = (Inr row, w')"
    and p: "p \<in> set (execution_permits w')" "pe_id p = ''0''"
  have "cu_state auto_kill \<in> {''paused'', ''killed''}" by (simp add: auto_kill_def)
  from set_control_stops [OF run this] show ?thesis using run p by blast
qed

text \<open>A permit is issued only when autonomy is enabled for the policy and room of the request.\<close>

lemma wpr_const: "P \<Longrightarrow> wpr m (\<lambda>x. wpr (f x) (\<lambda>_ _. P)) w"
  by (simp add: wp_def split: prod.splits sum.splits)

lemma issue_needs_enabled:
  assumes run: "issue_permit cfg owner actor i ttl w = (Inr q, t)"
    and r: "find (\<lambda>q. ap_id q = i) (approval_requests w) = Some r"
  shows "\<exists>p v t. po_id p = ap_policy_id r \<and> assert_enabled cfg owner (ap_room_id r) p w = (Inr v, t)"
    (is ?P)
proof -
  have cols: "ap_room_id (expire_approval now r) = ap_room_id r" "ap_policy_id (expire_approval now r) = ap_policy_id r" for now
    by (simp_all add: expire_approval_def)
  have "wpr (issue_permit cfg owner actor i ttl) (\<lambda>_ _. ?P) w"
    unfolding issue_permit_def get_approval_def get_policy_def
  proof (rule wpr_atomically, unfold wp_bind wp_gets r option.case wp_ret Let_def cols,
      intro wpr_guard wpr_verify_request_integrity wpr_fetch, goal_cases)
    case (1 p0 c p)
    show ?case
    proof (rule wpr_run)
      fix v t
      assume "assert_enabled cfg owner (ap_room_id r) p w = (Inr v, t)"
      with 1 have ?P by blast
      then show "wpr (query_one (\<lambda>q. pe_approval_request_id q = ap_id (expire_approval (clock w) r)) execution_permits)
          (\<lambda>x. wpr (f x) (\<lambda>_ _. ?P)) t" for f
        by (rule wpr_const)
    qed
  qed
  then show ?thesis using run by (auto dest: wp_InrD)
qed

text \<open>
  C4: Once autonomy is paused or killed in a scope, for a time that has not run out, no permit
  can be issued for a request in the scope and no permit of such a request can be claimed.
\<close>

theorem set_control_blocks:
  assumes run: "set_control cfg owner actor roles data w = (Inr row, w')"
    and st: "cu_state data \<in> {''paused'', ''killed''}"
    and time: "case cu_expires_at data of None \<Rightarrow> True | Some e \<Rightarrow> clock w < e"
    and r: "find (\<lambda>q. ap_id q = i) (approval_requests w') = Some r"
    and cov: "covers owner data (ap_owner_subject r) (ap_room_id r) (ap_policy_id r)"
    and room: "policy_in_room w (ap_owner_subject r) (ap_policy_id r) (ap_room_id r)"
  shows "isl (fst (issue_permit cfg (ap_owner_subject r) actor' i ttl w')) \<and>
    (\<forall>p \<in> set (execution_permits w'). bound_to p r \<and> unique_on pe_id (execution_permits w') \<longrightarrow>
      isl (fst (claim_permit cfg (pe_owner_subject p) (pe_id p) executor w')))"
proof -
  note set = set_control_spec [OF run]
  obtain co j rm pol where tg: "target_of owner data w (co, j, rm, pol)"
    and row: "row \<in> set (autonomy_control_states w')" "ct_owner_subject row = co"
      "ct_scope_type row = cu_scope_type data" "ct_scope_id row = j" "ct_state row = cu_state data"
      "ct_expires_at row = cu_expires_at data"
    and clock: "clock w' = clock w"
    using set unfolding control_set_def by blast
  have state: "state_at (clock w') row \<in> {''paused'', ''killed''}"
    using st time row clock by (auto simp: state_at_def split: option.splits)
  have "isl (fst (issue_permit cfg (ap_owner_subject r) actor' i ttl w'))"
  proof (rule ccontr)
    assume "\<not> ?thesis"
    from issue_needs_enabled [OF run_Inr [OF this] r]
    obtain p v t where p: "po_id p = ap_policy_id r"
      "assert_enabled cfg (ap_owner_subject r) (ap_room_id r) p w' = (Inr v, t)" by blast
    then show False
      using assert_enabled_stopped [OF row(1) state] covers_scope [OF tg cov] row(2,3,4) by metis
  qed
  moreover have "isl (fst (claim_permit cfg (pe_owner_subject p) (pe_id p) executor w'))"
    if p: "p \<in> set (execution_permits w')" "bound_to p r" "unique_on pe_id (execution_permits w')" for p
  proof (rule ccontr)
    assume "\<not> ?thesis"
    note claim = run_Inr [OF this]
    have find: "find (\<lambda>q. ap_id q = pe_approval_request_id p) (approval_requests w') = Some r"
      using r p(2) find_Some_in [OF r] by (auto simp: bound_to_def)
    have stopped: "pe_status p \<notin> {''active'', ''claimed''}"
      by (rule stopped_permit [OF set st p(1) find]) (use cov room p(2) in \<open>simp_all add: bound_to_def\<close>)
    have "wpr (claim_permit cfg (pe_owner_subject p) (pe_id p) executor) (\<lambda>_ _. False) w'"
    proof (rule wpr_claim_permit, goal_cases)
      case (1 q)
      then show ?case using stopped unique_on_eqD [OF p(3) 1(1) p(1)] by simp
    next
      case (2 q)
      then show ?case using stopped unique_on_eqD [OF p(3) 2(1) p(1)] by (auto simp: claim_checked_def)
    qed
    then show False using claim by (rule wp_InrD)
  qed
  ultimately show ?thesis by blast
qed

theorem set_control_blocks_witness:
  "\<exists>row w'. set_control auto_cfg ''ann'' ''root'' [''gateway-admin''] auto_kill auto_live = (Inr row, w') \<and>
     isl (fst (issue_permit auto_cfg ''ann'' ''ann'' ''0'' None w'))"
proof (rule auto_killed)
  fix row p w'
  assume run: "set_control auto_cfg ''ann'' ''root'' [''gateway-admin''] auto_kill auto_live = (Inr row, w')"
    and reqs: "approval_requests w' = [auto_approval]"
  have "find (\<lambda>q. ap_id q = ''0'') (approval_requests w') = Some auto_approval"
    by (simp add: reqs auto_approval_def auto_pending_def)
  from set_control_blocks [OF run _ _ this, of "''ann''" None "''a1''"]
  have "isl (fst (issue_permit auto_cfg (ap_owner_subject auto_approval) ''ann'' ''0'' None w'))"
    by (simp add: auto_kill_def covers_def scope_text_def strip_def py_isspace_def policy_in_room_def auto_live_def
        auto_claimed_def auto_approved_def auto_db_def auto_policy_def auto_approval_def auto_pending_def)
  then show ?thesis using run by (simp add: auto_approval_def auto_pending_def)
qed

section \<open>Changing a policy\<close>

definition policy_key :: "AutonomyPolicy \<Rightarrow> string \<times> string \<times> string" where
  "policy_key p = (po_id p, po_owner_subject p, po_room_id p)"

lemma set_if_key:
  "set_if d check upd r = Inr r' \<Longrightarrow> (\<And>v x. policy_key (upd v x) = policy_key x) \<Longrightarrow> policy_key r' = policy_key r"
  by (auto simp: set_if_def split: option.splits)

lemma update_columns:
  "policy_update_head data p = Inr h \<Longrightarrow> policy_key h = policy_key p"
  "policy_update_tail data h = Inr c \<Longrightarrow> policy_key c = policy_key h"
  unfolding policy_update_head_def policy_update_tail_def bindE_eq_Inr
  by (elim exE conjE, (drule set_if_key, simp add: policy_key_def)+, simp)+

definition policy_changed :: "string \<Rightarrow> string \<Rightarrow> int \<Rightarrow> gdb \<Rightarrow> AutonomyPolicy \<Rightarrow> gdb \<Rightarrow> bool" where
  "policy_changed owner i v w u w' \<longleftrightarrow>
     (\<exists>p \<in> set (autonomy_policies w). po_id p = i \<and> po_owner_subject p = owner \<and> po_version p = v \<and>
        po_version u = v + 1 \<and> po_generation u = po_generation p + 1 \<and> po_id u = i \<and>
        po_owner_subject u = owner \<and> po_room_id u = po_room_id p \<and>
        autonomy_policies w' = update_where (\<lambda>q. po_id q = i \<and> po_owner_subject q = owner \<and> po_version q = v)
          (\<lambda>_. u) (autonomy_policies w)) \<and>
     execution_permits w' = update_where (revocable owner None (Some i) w)
       (revoke (clock w) ''policy generation changed'') (execution_permits w) \<and>
     approval_requests w' = approval_requests w \<and> action_receipts w' = action_receipts w \<and>
     autonomy_control_states w' = autonomy_control_states w"

lemma wpr_revoke: "Q n' w' \<Longrightarrow> revoke_permits owner reason room_id policy_id w = (Inr n', w') \<Longrightarrow>
    wpr (revoke_permits owner reason room_id policy_id) Q w"
  by (simp add: wp_def)

lemma wpr_update_policy: "wpr (update_policy cfg owner actor i v data) (policy_changed owner i v w) w"
  unfolding update_policy_def get_policy_def policy_event_def
proof (rule wpr_atomically, unfold wp_bind wp_gets Let_def, intro wpr_fetch wpr_guard wpr_lift, goal_cases)
  case (1 p head)
  have rest: "wpr (revoke_permits owner ''policy generation changed'' None (Some (po_id p)))
      (\<lambda>_. wpr (emit_event cfg ev) (\<lambda>_. wpr (ret u) (policy_changed owner i v w))) (w\<lparr>autonomy_policies := ps\<rparr>)"
    if "u = changed\<lparr>po_version := po_version p + 1, po_generation := po_generation p + 1, po_updated_at := clock w\<rparr>"
      "policy_update_tail data head = Inr changed"
      "ps = update_where (\<lambda>q. po_id q = po_id p \<and> po_owner_subject q = owner \<and> po_version q = v) (\<lambda>_. u) (autonomy_policies w)"
    for ev u ps changed
    by (rule wpr_revoke [OF gateway_events.wpr_emit revoke_permits_eq])
       (use 1 that update_columns [of data] in \<open>auto simp: policy_changed_def policy_key_def\<close>)
  show ?case
    by (cases "pu_coordinator_agent_id data")
       (auto simp del: wp_lift wp_guard intro!: wpr_check_coordinator wpr_lift wpr_guard rest)
qed

text \<open>
  C6: A policy update returns only at the version the caller saw. It raises the version and the
  generation by one, keeps the policy's identity and room, revokes every active or claimed
  permit of the policy, and touches no receipt or request; an update that raises, as one at a
  stale version does, changes nothing.
\<close>

theorem update_policy_revokes:
  assumes "update_policy cfg owner actor i v data w = (res, w')"
  shows "(case res of Inl e \<Rightarrow> w' = w | Inr u \<Rightarrow> policy_changed owner i v w u w' \<and>
      (\<forall>p \<in> set (execution_permits w'). pe_owner_subject p = owner \<and> pe_policy_id p = i \<and>
         pe_approval_request_id p \<in> ap_id ` set (approval_requests w') \<longrightarrow> pe_status p \<notin> {''active'', ''claimed''})) \<and>
    ((\<forall>p \<in> set (autonomy_policies w). po_id p = i \<and> po_owner_subject p = owner \<longrightarrow> po_version p \<noteq> v) \<longrightarrow> isl res)"
proof -
  have chg: "policy_changed owner i v w u w'" if "res = Inr u" for u
    using wp_InrD [OF wpr_update_policy] assms that by blast
  have dead: "pe_status p \<notin> {''active'', ''claimed''}"
    if res: "res = Inr u" and p: "p \<in> set (execution_permits w')" "pe_owner_subject p = owner" "pe_policy_id p = i"
      "pe_approval_request_id p \<in> ap_id ` set (approval_requests w')" for u p
  proof -
    have "\<not> revocable owner None (Some i) w p"
      using chg [OF res] p(1) by (auto simp: policy_changed_def set_update_where)
    moreover obtain r where "find (\<lambda>r. ap_id r = pe_approval_request_id p) (approval_requests w) = Some r"
      using p(4) chg [OF res] by (cases "find (\<lambda>r. ap_id r = pe_approval_request_id p) (approval_requests w)")
        (auto simp: find_None_iff policy_changed_def)
    ultimately show ?thesis using p by (auto simp: revocable_def opt_is_def)
  qed
  have "isl res" if "\<forall>p \<in> set (autonomy_policies w). po_id p = i \<and> po_owner_subject p = owner \<longrightarrow> po_version p \<noteq> v"
    using chg that by (cases res) (auto simp: policy_changed_def)
  then show ?thesis
    using chg dead assms rolls_back_calls(2) by (cases res) (auto simp: rolls_back_def)
qed

definition auto_pause :: AutonomyPolicyUpdate where
  "auto_pause = \<lparr>pu_name = None, pu_status = Some ''paused'', pu_assignment_mode = None,
     pu_coordinator_agent_id = None, pu_allowed_action_classes = None, pu_allowed_tools = None,
     pu_allowed_command_profiles = None, pu_max_parallel_assignments = None, pu_approval_rules = None,
     pu_recovery_policy = None\<rparr>"

lemma auto_pause_run: "\<not> isl (fst (update_policy auto_cfg ''ann'' ''ann'' ''p1'' 1 auto_pause auto_live))"
  by code_simp

theorem update_policy_revokes_witness:
  "\<exists>u w'. update_policy auto_cfg ''ann'' ''ann'' ''p1'' 1 auto_pause auto_live = (Inr u, w') \<and>
     policy_changed ''ann'' ''p1'' 1 auto_live u w'"
proof -
  obtain u w' where run: "update_policy auto_cfg ''ann'' ''ann'' ''p1'' 1 auto_pause auto_live = (Inr u, w')"
    using run_Inr [OF auto_pause_run] by blast
  have "policy_changed ''ann'' ''p1'' 1 auto_live u w'" using update_policy_revokes [OF run] by simp
  with run show ?thesis by blast
qed

section \<open>Deciding a request\<close>

lemma expire_approval_live: "ap_status (expire_approval now r) = ''pending'' \<Longrightarrow> now < ap_expires_at r"
  by (cases "ap_status r = ''pending'' \<and> ap_expires_at r \<le> now") (auto simp: expire_approval_def)

definition outcome :: "ApprovalRequest \<Rightarrow> ApprovalVote list \<Rightarrow> string" where
  "outcome r votes = (if votes_reject votes then ''rejected'' else if votes_approve r votes then ''approved'' else ''pending'')"

definition voted :: "User \<Rightarrow> string \<Rightarrow> gdb \<Rightarrow> ApprovalRequest \<Rightarrow> ApprovalRequest \<Rightarrow> gdb \<Rightarrow> bool" where
  "voted user decision w r r' w' \<longleftrightarrow>
     (\<exists>v. vo_request_id v = ap_id r \<and> vo_voter_subject v = us_subject user \<and> vo_decision v = decision \<and>
        set (vo_voter_roles v) = set (us_roles user) \<and> approval_votes w' = approval_votes w @ [v]) \<and>
     (\<forall>v \<in> set (approval_votes w). vo_request_id v = ap_id r \<longrightarrow> vo_voter_subject v \<noteq> us_subject user) \<and>
     ap_status r' = outcome r (votes_of (approval_votes w') r) \<and> ap_version r' = ap_version r + 1 \<and>
     approval_requests w' = update_where (\<lambda>q. ap_id q = ap_id r) (\<lambda>_. r') (approval_requests w) \<and>
     execution_permits w' = execution_permits w"

lemma votedI:
  assumes "vo_request_id v = ap_id r" "vo_voter_subject v = us_subject user" "vo_decision v = decision"
    "set (vo_voter_roles v) = set (us_roles user)" "approval_votes w' = approval_votes w @ [v]"
    and "\<forall>v \<in> set (approval_votes w). vo_request_id v = ap_id r \<longrightarrow> vo_voter_subject v \<noteq> us_subject user"
    and "ap_status r' = outcome r (votes_of (approval_votes w @ [v]) r)" "ap_version r' = ap_version r + 1"
    and "approval_requests w' = update_where (\<lambda>q. ap_id q = ap_id r) (\<lambda>_. r') (approval_requests w)"
    and "execution_permits w' = execution_permits w"
  shows "voted user decision w r r' w'"
  using assms unfolding voted_def by auto

lemma wpr_cast_vote:
  "wpr (cast_vote cfg i user decision reason) (\<lambda>r' w'.
     \<exists>r \<in> set (approval_requests w). ap_id r = i \<and> ap_status r = ''pending'' \<and> clock w < ap_expires_at r \<and>
       approval_user_can_vote r user w \<and> decision \<in> {''approve'', ''reject''} \<and>
       \<not> (ap_disallow_proposer_vote r \<and> us_subject user = ap_created_by_subject r) \<and>
       (r' = r \<and> w' = w \<and> (\<exists>v \<in> set (approval_votes w). vo_request_id v = i \<and>
          vo_voter_subject v = us_subject user \<and> vo_decision v = decision) \<or> voted user decision w r r' w')) w"
  unfolding cast_vote_def
proof (rule wpr_atomically, unfold wp_bind wp_gets Let_def, intro wpr_get_approval wpr_guard, goal_cases)
  case (1 r)
  have r: "r \<in> set (approval_requests w)" "ap_id r = i" "ap_status r = ''pending''"
      "expire_approval (clock w) r = r" "clock w < ap_expires_at r"
    using 1(1,2) expire_approval_pending [OF 1(4)] expire_approval_live [OF 1(4)] by blast+
  have bar: "\<not> (ap_disallow_proposer_vote r \<and> us_subject user = ap_created_by_subject r)"
    using 1(6) by (simp add: r(4))
  show ?case
    unfolding r(4)
  proof (rule wpr_query_one, goal_cases)
    case (1 v)
    then show ?case using r bar \<open>decision \<in> _\<close> \<open>approval_user_can_vote r user w\<close> by auto
  next
    case 2
    show ?case
      unfolding option.case wp_bind add_vote_def
    proof (intro wpr_new_id wpr_lift wpr_insert_row, unfold wp_gets, goal_cases)
      case (1 i' re)
      let ?v = "\<lparr>vo_id = i', vo_owner_subject = ap_owner_subject r, vo_request_id = ap_id r,
        vo_voter_subject = us_subject user, vo_voter_roles = sorted_strings (remdups (us_roles user)),
        vo_decision = decision, vo_reason = re, vo_created_at = clock w\<rparr>"
      show ?case
        using 2 r bar \<open>decision \<in> _\<close> \<open>approval_user_can_vote r user w\<close>
        by (intro wpr_decide; unfold put_request_def wp_modify; intro gateway_events.wpr_emit; unfold wp_ret;
            intro bexI [of _ r] conjI disjI2 votedI [of ?v])
           (simp_all add: outcome_def request_votes_def votes_of_def sorted_strings_def)
    qed
  qed
qed

text \<open>
  C5: A vote is accepted only on a pending, unexpired request, from a user entitled to vote who
  is not its barred proposer. A repeated vote changes nothing; a new one is stored as the
  voter's only vote on the request, whose status becomes exactly the outcome of the votes then
  recorded: rejected by any rejection, approved by the quorum with an administrator where one
  is required, otherwise still pending.
\<close>

theorem cast_vote_decides:
  assumes "cast_vote cfg i user decision reason w = (Inr r', w')"
  shows "\<exists>r \<in> set (approval_requests w). ap_id r = i \<and> ap_status r = ''pending'' \<and> clock w < ap_expires_at r \<and>
       approval_user_can_vote r user w \<and> decision \<in> {''approve'', ''reject''} \<and>
       \<not> (ap_disallow_proposer_vote r \<and> us_subject user = ap_created_by_subject r) \<and>
       (r' = r \<and> w' = w \<and> (\<exists>v \<in> set (approval_votes w). vo_request_id v = i \<and>
          vo_voter_subject v = us_subject user \<and> vo_decision v = decision) \<or> voted user decision w r r' w')"
  by (rule wp_InrD [OF wpr_cast_vote assms])

theorem cast_vote_decides_witness:
  "\<exists>r r' w'. cast_vote auto_cfg ''0'' auto_admin ''approve'' None auto_requested = (Inr r', w') \<and>
     voted auto_admin ''approve'' auto_requested r r' w' \<and> ap_status r' = ''approved''"
proof -
  obtain res w' where run: "cast_vote auto_cfg ''0'' auto_admin ''approve'' None auto_requested = (res, w')"
    by (cases "cast_vote auto_cfg ''0'' auto_admin ''approve'' None auto_requested")
  then have same: "approval_votes w' = [auto_vote]" using auto_vote_run by (simp add: same_exec_def auto_approved_def)
  have "approval_votes auto_requested = []" by (simp add: auto_requested_def auto_db_def)
  then obtain r' where r': "res = Inr r'"
    using run same rolls_back_calls(5) [of auto_cfg "''0''" auto_admin "''approve''" None, unfolded rolls_back_def]
    by (cases res) fastforce+
  from cast_vote_decides [OF run [unfolded r']]
  obtain r where r: "r \<in> set (approval_requests auto_requested)" "voted auto_admin ''approve'' auto_requested r r' w'"
    using \<open>approval_votes auto_requested = []\<close> by auto
  have "ap_status r' = ''approved''"
    using r same by (simp add: auto_requested_def auto_db_def voted_def outcome_def votes_reject_def votes_approve_def
        votes_of_def auto_pending_def auto_vote_def approves_def)
  then show ?thesis using run r' r by blast
qed

end
