(* ===== verification/Agent_Collaboration.thy ===== *)
theory Agent_Collaboration
  imports Gateway_Store "HOL-Library.Product_Lexorder"
begin

text \<open>
  The collaboration service, \<open>agent_collaboration.py\<close>: agents and rooms, messages with their
  deliveries, commands and work items. A method that commits halfway (\<open>_expire_stale_agents\<close>)
  is followed by a second transaction; every other method is one.
\<close>

section \<open>Arguments and lookups\<close>

definition ACTIVE_AGENT_STATUSES :: "string list" where
  "ACTIVE_AGENT_STATUSES = [''active'', ''busy'', ''idle'']"

definition MESSAGE_KINDS :: "string list" where
  "MESSAGE_KINDS = [''answer'', ''artifact_reference'', ''barrier'', ''blocker'', ''conflict_warning'',
     ''handoff'', ''information'', ''proposal'', ''question'', ''review_request'', ''review_result'',
     ''status_update'']"

definition TERMINAL_COMMANDS :: "string list" where
  "TERMINAL_COMMANDS = [''cancelled'', ''completed'', ''expired'', ''failed'', ''rejected'']"

definition WORK_ITEM_STATUSES :: "string list" where
  "WORK_ITEM_STATUSES = [''blocked'', ''cancelled'', ''completed'', ''failed'', ''in_progress'', ''open'', ''review'']"

definition bounded_priority :: "int \<Rightarrow> int" where
  "bounded_priority value = max 0 (min value 100)"

definition bounded_limit :: "int \<Rightarrow> nat" where
  "bounded_limit value = nat (max 1 (min value 200))"

text \<open>\<open>int(value or default)\<close>, with the default 120 and the maximum 3600.\<close>

definition bounded_ttl :: "int \<Rightarrow> int" where
  "bounded_ttl value = max 30 (min (if value = 0 then 120 else value) 3600)"

definition collab_agent :: "string \<Rightarrow> string \<Rightarrow> AgentInstance gw" where
  "collab_agent owner_subject agent_id =
     fetch (\<lambda>a. ag_id a = agent_id \<and> ag_owner_subject a = owner_subject) agent_instances ''Agent not found''"

definition collab_room :: "string \<Rightarrow> string \<Rightarrow> CollaborationRoom gw" where
  "collab_room owner_subject room_id =
     fetch (\<lambda>r. ro_id r = room_id \<and> ro_owner_subject r = owner_subject) collaboration_rooms
       ''Collaboration room not found''"

definition require_agent_in_room :: "AgentInstance \<Rightarrow> string \<Rightarrow> unit gw" where
  "require_agent_in_room a room_id = guardS (ag_current_room_id a = Some room_id)
     (HTTPException 409 ''Agent is not joined to the collaboration room'')"

definition collab_item :: "string \<Rightarrow> string \<Rightarrow> AgentWorkItem gw" where
  "collab_item owner_subject work_item_id =
     fetch (\<lambda>i. wi_id i = work_item_id \<and> wi_owner_subject i = owner_subject) agent_work_items
       ''Work item not found''"

text \<open>\<open>sorted({str(v).strip() for v in values if str(v).strip()})\<close>\<close>

definition sorted_texts :: "string list \<Rightarrow> string list" where
  "sorted_texts values = sort (remdups (filter (\<lambda>v. v \<noteq> []) (map strip values)))"

definition note_event ::
  "gw_settings \<Rightarrow> string \<Rightarrow> string \<Rightarrow> string \<Rightarrow> string \<Rightarrow> string \<Rightarrow> (string \<times> json) list \<Rightarrow> string \<Rightarrow> unit gw" where
  "note_event cfg owner_subject event_type action resource_type resource_id payload status =
     emit_event cfg \<lparr>ev_type = event_type, ev_actor = owner_subject, ev_act = action,
       ev_resource_type = resource_type, ev_resource_id = Some resource_id, ev_payload = payload,
       ev_owner = None, ev_status = status\<rparr>"

text \<open>\<open>dict(_safe_structured(dict(value or {}), field))\<close> of an object.\<close>

definition safe_dict :: "(string \<times> json) list \<Rightarrow> string \<Rightarrow> (string \<times> json) list res" where
  "safe_dict value field = bindE (safe_structured (JObj value) field) (\<lambda>_. Inr value)"

lemma safe_dict_Inr: "safe_dict d f = Inr d' \<Longrightarrow> d' = d"
  by (auto simp: safe_dict_def)

section \<open>Agents\<close>

definition add_agent :: "AgentInstance \<Rightarrow> unit gw" where
  "add_agent a = insert_row (\<lambda>b. ag_id b = ag_id a \<or>
       (ag_owner_subject b = ag_owner_subject a \<and> ag_instance_id b = ag_instance_id a))
     agent_instances (\<lambda>w. w\<lparr>agent_instances := agent_instances w @ [a]\<rparr>)"

definition is_stale :: "string \<Rightarrow> int \<Rightarrow> AgentInstance \<Rightarrow> bool" where
  "is_stale owner_subject now a \<longleftrightarrow> ag_owner_subject a = owner_subject \<and>
     ag_status a \<in> set ACTIVE_AGENT_STATUSES \<and>
     (case ag_expires_at a of None \<Rightarrow> False | Some e \<Rightarrow> e \<le> now)"

definition expire_stale_agents :: "string \<Rightarrow> unit gw" where
  "expire_stale_agents owner_subject = modify (\<lambda>w. w\<lparr>agent_instances :=
     update_where (is_stale owner_subject (clock w))
       (\<lambda>a. a\<lparr>ag_status := ''offline'', ag_updated_at := clock w\<rparr>) (agent_instances w)\<rparr>)"

record AgentRegister =
  rg_logical_agent_id :: string
  rg_instance_id :: string
  rg_display_name :: "string option"
  rg_capabilities :: "string list"
  rg_labels :: "(string \<times> json) list"
  rg_room_id :: "string option"
  rg_ttl_seconds :: int

definition check_room :: "string \<Rightarrow> string option \<Rightarrow> unit gw" where
  "check_room owner_subject room_id = (case room_id of
     Some (c # cs) \<Rightarrow> bindS (collab_room owner_subject (c # cs)) (\<lambda>_. ret ())
   | _ \<Rightarrow> ret ())"

definition register_agent :: "gw_settings \<Rightarrow> string \<Rightarrow> AgentRegister \<Rightarrow> AgentInstance gw" where
  "register_agent cfg owner_subject data = atomically (
     bindS (liftE (required_text (rg_logical_agent_id data) ''logical_agent_id'' 160)) (\<lambda>logical_agent_id.
     bindS (liftE (required_text (rg_instance_id data) ''instance_id'' 160)) (\<lambda>instance_id.
     bindS (liftE (optional_text (rg_display_name data) 160)) (\<lambda>display_name.
     bindS (liftE (optional_text (rg_room_id data) 36)) (\<lambda>current_room_id.
     bindS (check_room owner_subject current_room_id) (\<lambda>_.
     bindS (query_one (\<lambda>a. ag_owner_subject a = owner_subject \<and> ag_instance_id a = instance_id) agent_instances)
       (\<lambda>found.
     bindS (case found of None \<Rightarrow> new_id | Some a \<Rightarrow> ret (ag_id a)) (\<lambda>i.
     bindS (gets clock) (\<lambda>now.
     bindS (liftE (safe_dict (rg_labels data) ''agent labels'')) (\<lambda>labels.
     let fresh = \<lparr>ag_id = i, ag_owner_subject = owner_subject, ag_logical_agent_id = logical_agent_id,
           ag_instance_id = instance_id, ag_display_name = [], ag_status = ''active'', ag_capabilities = [],
           ag_labels = [], ag_current_room_id = None, ag_current_work_item_id = None,
           ag_last_heartbeat_at = now, ag_expires_at = None, ag_created_at = now, ag_updated_at = now\<rparr>;
         a = (case found of None \<Rightarrow> fresh | Some a \<Rightarrow> a)\<lparr>ag_logical_agent_id := logical_agent_id,
           ag_display_name := (case display_name of None \<Rightarrow> logical_agent_id | Some d \<Rightarrow> d),
           ag_status := ''active'', ag_capabilities := sorted_texts (rg_capabilities data),
           ag_labels := labels, ag_current_room_id := current_room_id, ag_last_heartbeat_at := now,
           ag_expires_at := Some (now + seconds (bounded_ttl (rg_ttl_seconds data))), ag_updated_at := now\<rparr>
     in bindS (case found of None \<Rightarrow> add_agent a | Some _ \<Rightarrow> put_agent a) (\<lambda>_.
     bindS (note_event cfg owner_subject ''gateway.agent.registered.v1''
              (if found = None then ''registered'' else ''refreshed'') ''agent_instance'' (ag_id a)
              [(''agent_id'', JStr (ag_id a)), (''logical_agent_id'', JStr (ag_logical_agent_id a)),
               (''instance_id'', JStr (ag_instance_id a)), (''status'', JStr (ag_status a)),
               (''room_id'', jopt (ag_current_room_id a))] ''success'') (\<lambda>_.
     ret a))))))))))))"

text \<open>The clients list agents by their display name, then id.\<close>

definition list_agents :: "string \<Rightarrow> string option \<Rightarrow> AgentInstance list gw" where
  "list_agents owner_subject room_id =
     bindS (expire_stale_agents owner_subject) (\<lambda>_.
     bindS (check_room owner_subject room_id) (\<lambda>_.
     bindS (gets agent_instances) (\<lambda>rows.
     ret (sort_key (\<lambda>a. (ag_display_name a, ag_id a)) (filter (\<lambda>a. ag_owner_subject a = owner_subject \<and>
       (case room_id of Some (c # cs) \<Rightarrow> ag_current_room_id a = Some (c # cs) | _ \<Rightarrow> True)) rows)))))"

text \<open>A field the client leaves out is \<open>None\<close>; a room that is null leaves the room.\<close>

record AgentHeartbeat =
  ht_status :: "string option"
  ht_capabilities :: "string list option"
  ht_labels :: "(string \<times> json) list option"
  ht_room_id :: "string option option"
  ht_ttl_seconds :: int

definition heartbeat_agent :: "gw_settings \<Rightarrow> string \<Rightarrow> string \<Rightarrow> AgentHeartbeat \<Rightarrow> AgentInstance gw" where
  "heartbeat_agent cfg owner_subject agent_id data = atomically (
     bindS (collab_agent owner_subject agent_id) (\<lambda>a.
     let room_id = (case ht_room_id data of None \<Rightarrow> ag_current_room_id a | Some r \<Rightarrow> r);
         status = (case ht_status data of Some (c # cs) \<Rightarrow> c # cs | _ \<Rightarrow> ''active'')
     in bindS (check_room owner_subject room_id) (\<lambda>_.
     bindS (guardS (status \<in> set ACTIVE_AGENT_STATUSES)
              (HTTPException 400 ''Unsupported active agent status'')) (\<lambda>_.
     bindS (case ht_labels data of None \<Rightarrow> ret (ag_labels a)
            | Some l \<Rightarrow> liftE (safe_dict l ''agent labels'')) (\<lambda>labels.
     bindS (gets clock) (\<lambda>now.
     let a = a\<lparr>ag_status := status,
           ag_capabilities := (case ht_capabilities data of None \<Rightarrow> ag_capabilities a
             | Some cs \<Rightarrow> sorted_texts cs),
           ag_labels := labels, ag_current_room_id := room_id, ag_last_heartbeat_at := now,
           ag_expires_at := Some (now + seconds (bounded_ttl (ht_ttl_seconds data))), ag_updated_at := now\<rparr>
     in bindS (put_agent a) (\<lambda>_.
     bindS (note_event cfg owner_subject ''gateway.agent.heartbeat.v1'' ''heartbeat'' ''agent_instance'' (ag_id a)
              [(''agent_id'', JStr (ag_id a)), (''status'', JStr (ag_status a)),
               (''room_id'', jopt (ag_current_room_id a))] ''success'') (\<lambda>_.
     ret a))))))))"

definition unregister_agent :: "gw_settings \<Rightarrow> string \<Rightarrow> string \<Rightarrow> AgentInstance gw" where
  "unregister_agent cfg owner_subject agent_id = atomically (
     bindS (collab_agent owner_subject agent_id) (\<lambda>a.
     bindS (gets clock) (\<lambda>now.
     let a = a\<lparr>ag_status := ''offline'', ag_expires_at := Some now, ag_updated_at := now\<rparr>
     in bindS (put_agent a) (\<lambda>_.
     bindS (note_event cfg owner_subject ''gateway.agent.unregistered.v1'' ''unregistered'' ''agent_instance'' (ag_id a)
              [(''agent_id'', JStr (ag_id a))] ''success'') (\<lambda>_.
     ret a)))))"

section \<open>Rooms\<close>

record CollaborationRoomCreate =
  rm_title :: string
  rm_project_path :: "string option"
  rm_repository_identity :: "string option"
  rm_base_commit :: "string option"
  rm_policy :: "(string \<times> json) list"
  rm_created_by_agent_id :: "string option"
  rm_idempotency_key :: "string option"

definition add_room :: "CollaborationRoom \<Rightarrow> unit gw" where
  "add_room r = insert_row (\<lambda>q. ro_id q = ro_id r \<or>
       (ro_owner_subject q = ro_owner_subject r \<and> same_key (ro_idempotency_key q) (ro_idempotency_key r)))
     collaboration_rooms (\<lambda>w. w\<lparr>collaboration_rooms := collaboration_rooms w @ [r]\<rparr>)"

text \<open>The row an idempotency key names, in any of the tables that have one.\<close>

definition find_key :: "(gdb \<Rightarrow> 'r list) \<Rightarrow> ('r \<Rightarrow> string) \<Rightarrow> ('r \<Rightarrow> string option) \<Rightarrow> string \<Rightarrow> string option \<Rightarrow>
    'r option gw" where
  "find_key table owner key owner_subject idempotency_key =
     (case idempotency_key of
        None \<Rightarrow> ret None
      | Some k \<Rightarrow> query_one (\<lambda>r. owner r = owner_subject \<and> key r = Some k) table)"

definition check_agent :: "string \<Rightarrow> string option \<Rightarrow> unit gw" where
  "check_agent owner_subject agent_id = (case agent_id of
     None \<Rightarrow> ret () | Some i \<Rightarrow> bindS (collab_agent owner_subject i) (\<lambda>_. ret ()))"

definition create_room :: "gw_settings \<Rightarrow> string \<Rightarrow> CollaborationRoomCreate \<Rightarrow> CollaborationRoom gw" where
  "create_room cfg owner_subject data = atomically (
     bindS (liftE (optional_text (rm_idempotency_key data) 160)) (\<lambda>idempotency_key.
     bindS (find_key collaboration_rooms ro_owner_subject ro_idempotency_key owner_subject idempotency_key)
       (\<lambda>existing.
     case existing of Some r \<Rightarrow> ret r | None \<Rightarrow>
     bindS (liftE (optional_text (rm_created_by_agent_id data) 36)) (\<lambda>created_by_agent_id.
     bindS (check_agent owner_subject created_by_agent_id) (\<lambda>_.
     bindS new_id (\<lambda>i.
     bindS (liftE (required_text (rm_title data) ''title'' 200)) (\<lambda>title.
     bindS (liftE (optional_text (rm_project_path data) 4096)) (\<lambda>project_path.
     bindS (liftE (optional_text (rm_repository_identity data) 255)) (\<lambda>repository_identity.
     bindS (liftE (optional_text (rm_base_commit data) 128)) (\<lambda>base_commit.
     bindS (liftE (safe_dict (rm_policy data) ''room policy'')) (\<lambda>policy.
     bindS (gets clock) (\<lambda>now.
     let r = \<lparr>ro_id = i, ro_owner_subject = owner_subject, ro_title = title, ro_project_path = project_path,
           ro_repository_identity = repository_identity, ro_base_commit = base_commit, ro_status = ''active'',
           ro_policy = policy, ro_created_by_agent_id = created_by_agent_id,
           ro_idempotency_key = idempotency_key, ro_created_at = now, ro_updated_at = now\<rparr>
     in on_conflict
          (bindS (add_room r) (\<lambda>_.
           bindS (note_event cfg owner_subject ''gateway.collaboration.room.created.v1'' ''created''
                    ''collaboration_room'' i
                    [(''room_id'', JStr i), (''repository_identity'', jopt repository_identity),
                     (''base_commit'', jopt base_commit),
                     (''created_by_agent_id'', jopt created_by_agent_id)] ''success'') (\<lambda>_. ret r)))
          (bindS (find_key collaboration_rooms ro_owner_subject ro_idempotency_key owner_subject idempotency_key)
             (\<lambda>existing. case existing of Some r \<Rightarrow> ret r
              | None \<Rightarrow> raise (HTTPException 409 ''Collaboration room idempotency conflict'')))))))))))))))"

definition join_room :: "gw_settings \<Rightarrow> string \<Rightarrow> string \<Rightarrow> string \<Rightarrow> AgentInstance gw" where
  "join_room cfg owner_subject room_id agent_id = atomically (
     bindS (collab_room owner_subject room_id) (\<lambda>r.
     bindS (guardS (ro_status r = ''active'') (HTTPException 409 ''Collaboration room is not active'')) (\<lambda>_.
     bindS (collab_agent owner_subject agent_id) (\<lambda>a.
     bindS (gets clock) (\<lambda>now.
     let a = a\<lparr>ag_current_room_id := Some (ro_id r), ag_status := ''active'', ag_updated_at := now\<rparr>
     in bindS (put_agent a) (\<lambda>_.
     bindS (note_event cfg owner_subject ''gateway.agent.room_joined.v1'' ''joined'' ''collaboration_room'' (ro_id r)
              [(''room_id'', JStr (ro_id r)), (''agent_id'', JStr (ag_id a))] ''success'') (\<lambda>_.
     ret a)))))))"

section \<open>Messages\<close>

definition add_message :: "AgentMessage \<Rightarrow> unit gw" where
  "add_message m = insert_row (\<lambda>n. am_id n = am_id m \<or>
       (am_owner_subject n = am_owner_subject m \<and> same_key (am_idempotency_key n) (am_idempotency_key m)) \<or>
       (am_owner_subject n = am_owner_subject m \<and> am_room_id n = am_room_id m \<and>
        am_sequence_number n = am_sequence_number m))
     agent_messages (\<lambda>w. w\<lparr>agent_messages := agent_messages w @ [m]\<rparr>)"

definition add_delivery :: "AgentMessageDelivery \<Rightarrow> unit gw" where
  "add_delivery d = insert_row (\<lambda>e. md_id e = md_id d \<or>
       (md_message_id e = md_message_id d \<and> md_recipient_agent_id e = md_recipient_agent_id d))
     agent_message_deliveries (\<lambda>w. w\<lparr>agent_message_deliveries := agent_message_deliveries w @ [d]\<rparr>)"

definition put_delivery :: "AgentMessageDelivery \<Rightarrow> unit gw" where
  "put_delivery d = modify (\<lambda>w. w\<lparr>agent_message_deliveries :=
     update_where (\<lambda>e. md_id e = md_id d) (\<lambda>_. d) (agent_message_deliveries w)\<rparr>)"

record AgentMessageCreate =
  mc_room_id :: string
  mc_sender_agent_id :: string
  mc_recipient_agent_id :: "string option"
  mc_recipient_selector :: "string option"
  mc_kind :: string
  mc_body :: string
  mc_payload :: "(string \<times> json) list"
  mc_priority :: int
  mc_correlation_id :: "string option"
  mc_causation_id :: "string option"
  mc_idempotency_key :: "string option"

text \<open>The recipients after stale agents have been expired.\<close>

definition message_recipients ::
  "string \<Rightarrow> string \<Rightarrow> string \<Rightarrow> string option \<Rightarrow> string option \<Rightarrow> AgentInstance list gw" where
  "message_recipients owner_subject room_id sender_agent_id recipient_agent_id recipient_selector =
     (case recipient_agent_id of
        Some i \<Rightarrow>
          bindS (collab_agent owner_subject i) (\<lambda>recipient.
          bindS (require_agent_in_room recipient room_id) (\<lambda>_. ret [recipient]))
      | None \<Rightarrow>
          bindS (guardS (recipient_selector \<in> {Some ''all'', Some ''room''})
            (HTTPException 400 ''recipient_agent_id or recipient_selector=room is required'')) (\<lambda>_.
          bindS (gets agent_instances) (\<lambda>rows.
          let recipients = sort_key ag_id (filter (\<lambda>a. ag_owner_subject a = owner_subject \<and>
                ag_current_room_id a = Some room_id \<and> ag_id a \<noteq> sender_agent_id \<and>
                ag_status a \<in> set ACTIVE_AGENT_STATUSES) rows)
          in bindS (guardS (recipients \<noteq> [])
               (HTTPException 409 ''No active message recipients in the room'')) (\<lambda>_.
             ret recipients))))"

definition next_sequence :: "string \<Rightarrow> string \<Rightarrow> AgentMessage list \<Rightarrow> int" where
  "next_sequence owner_subject room_id rows =
     fold max (map am_sequence_number
       (filter (\<lambda>m. am_owner_subject m = owner_subject \<and> am_room_id m = room_id) rows)) 0 + 1"

fun add_deliveries :: "string \<Rightarrow> string \<Rightarrow> int \<Rightarrow> AgentInstance list \<Rightarrow> unit gw" where
  "add_deliveries owner_subject message_id now [] = ret ()"
| "add_deliveries owner_subject message_id now (a # as) =
     bindS new_id (\<lambda>i.
     bindS (add_delivery \<lparr>md_id = i, md_owner_subject = owner_subject, md_message_id = message_id,
       md_recipient_agent_id = ag_id a, md_status = ''pending'', md_attempt_count = 0,
       md_delivered_at = None, md_acknowledged_at = None, md_visibility_deadline = None,
       md_created_at = now, md_updated_at = now\<rparr>) (\<lambda>_.
     add_deliveries owner_subject message_id now as))"

text \<open>The message an idempotency key names, with the number of its deliveries.\<close>

definition find_sent :: "string \<Rightarrow> string option \<Rightarrow> (AgentMessage \<times> nat) option gw" where
  "find_sent owner_subject idempotency_key =
     bindS (find_key agent_messages am_owner_subject am_idempotency_key owner_subject idempotency_key) (\<lambda>existing.
     case existing of
       None \<Rightarrow> ret None
     | Some m \<Rightarrow> bindS (gets (\<lambda>w. count_where (\<lambda>d. md_owner_subject d = owner_subject \<and> md_message_id d = am_id m)
                  (agent_message_deliveries w))) (\<lambda>n. ret (Some (m, n))))"

definition store_message ::
  "gw_settings \<Rightarrow> string \<Rightarrow> AgentMessageCreate \<Rightarrow> string \<Rightarrow> string \<Rightarrow> string option \<Rightarrow> string \<Rightarrow>
     string option \<Rightarrow> string option \<Rightarrow> (AgentMessage \<times> nat) gw" where
  "store_message cfg owner_subject data room_id sender_agent_id idempotency_key kind recipient_agent_id
     recipient_selector = atomically (
     bindS (message_recipients owner_subject room_id sender_agent_id recipient_agent_id recipient_selector)
       (\<lambda>recipients.
     bindS (gets (\<lambda>w. next_sequence owner_subject room_id (agent_messages w))) (\<lambda>sequence_number.
     bindS new_id (\<lambda>i.
     bindS (liftE (required_text (mc_body data) ''body'' 100000)) (\<lambda>body.
     bindS (liftE (safe_dict (mc_payload data) ''message payload'')) (\<lambda>payload.
     bindS (liftE (optional_text (mc_correlation_id data) 160)) (\<lambda>correlation_id.
     bindS (liftE (optional_text (mc_causation_id data) 160)) (\<lambda>causation_id.
     bindS (gets clock) (\<lambda>now.
     let m = \<lparr>am_id = i, am_owner_subject = owner_subject, am_room_id = room_id,
           am_sender_agent_id = sender_agent_id, am_recipient_agent_id = recipient_agent_id,
           am_recipient_selector = recipient_selector, am_kind = kind, am_body = body, am_payload = payload,
           am_priority = bounded_priority (mc_priority data), am_correlation_id = correlation_id,
           am_causation_id = causation_id, am_sequence_number = sequence_number,
           am_idempotency_key = idempotency_key, am_expires_at = None, am_created_at = now\<rparr>
     in on_conflict
          (bindS (add_message m) (\<lambda>_.
           bindS (add_deliveries owner_subject i now recipients) (\<lambda>_.
           bindS (note_event cfg owner_subject ''gateway.agent.message.sent.v1'' ''sent'' ''agent_message'' i
                    [(''message_id'', JStr i), (''room_id'', JStr room_id),
                     (''sender_agent_id'', JStr sender_agent_id),
                     (''recipient_agent_ids'', JList (map (\<lambda>a. JStr (ag_id a)) recipients)),
                     (''kind'', JStr kind), (''priority'', JInt (am_priority m)),
                     (''sequence_number'', JInt sequence_number), (''correlation_id'', jopt correlation_id),
                     (''causation_id'', jopt causation_id)] ''success'') (\<lambda>_.
           ret (m, length recipients)))))
          (bindS (find_key agent_messages am_owner_subject am_idempotency_key owner_subject idempotency_key)
             (\<lambda>existing. case existing of
                Some m \<Rightarrow> gets (\<lambda>w. (m, count_where (\<lambda>d. md_message_id d = am_id m) (agent_message_deliveries w)))
              | None \<Rightarrow> raise (HTTPException 409 ''Message sequence or idempotency conflict''))))))))))))"

definition send_message :: "gw_settings \<Rightarrow> string \<Rightarrow> AgentMessageCreate \<Rightarrow> (AgentMessage \<times> nat) gw" where
  "send_message cfg owner_subject data =
     bindS (liftE (required_text (mc_room_id data) ''room_id'' 36)) (\<lambda>room_id.
     bindS (liftE (required_text (mc_sender_agent_id data) ''sender_agent_id'' 36)) (\<lambda>sender_agent_id.
     bindS (collab_room owner_subject room_id) (\<lambda>r.
     bindS (guardS (ro_status r = ''active'') (HTTPException 409 ''Collaboration room is not active'')) (\<lambda>_.
     bindS (collab_agent owner_subject sender_agent_id) (\<lambda>sender.
     bindS (require_agent_in_room sender room_id) (\<lambda>_.
     bindS (liftE (optional_text (mc_idempotency_key data) 160)) (\<lambda>idempotency_key.
     bindS (find_sent owner_subject idempotency_key) (\<lambda>existing.
     case existing of Some r \<Rightarrow> ret r | None \<Rightarrow>
     let kind = (if mc_kind data = [] then ''information'' else mc_kind data)
     in bindS (guardS (kind \<in> set MESSAGE_KINDS) (HTTPException 400 ''Unsupported message kind'')) (\<lambda>_.
     bindS (liftE (optional_text (mc_recipient_agent_id data) 36)) (\<lambda>recipient_agent_id.
     bindS (liftE (optional_text (mc_recipient_selector data) 80)) (\<lambda>recipient_selector.
     bindS (expire_stale_agents owner_subject) (\<lambda>_.
     store_message cfg owner_subject data room_id sender_agent_id idempotency_key kind recipient_agent_id
       recipient_selector))))))))))))"

definition inbox_row :: "string \<Rightarrow> string \<Rightarrow> int \<Rightarrow> AgentMessage \<times> AgentMessageDelivery \<Rightarrow> bool" where
  "inbox_row owner_subject agent_id now md \<longleftrightarrow> (case md of (m, d) \<Rightarrow>
     md_message_id d = am_id m \<and> am_owner_subject m = owner_subject \<and> md_owner_subject d = owner_subject \<and>
     md_recipient_agent_id d = agent_id \<and> md_status d \<noteq> ''acknowledged'' \<and>
     (case am_expires_at m of None \<Rightarrow> True | Some e \<Rightarrow> now < e))"

definition after_cursor :: "AgentMessage option \<Rightarrow> AgentMessage \<Rightarrow> bool" where
  "after_cursor cursor m = (case cursor of None \<Rightarrow> True
     | Some c \<Rightarrow> am_created_at c < am_created_at m \<or> am_created_at m = am_created_at c \<and> am_id c < am_id m)"

definition mark_delivered :: "int \<Rightarrow> AgentMessageDelivery \<Rightarrow> AgentMessageDelivery" where
  "mark_delivered now d = d\<lparr>md_status := ''delivered'', md_attempt_count := md_attempt_count d + 1,
     md_delivered_at := Some now, md_visibility_deadline := Some (now + seconds 300), md_updated_at := now\<rparr>"

definition read_inbox ::
  "string \<Rightarrow> string \<Rightarrow> int \<Rightarrow> string option \<Rightarrow> (AgentMessage \<times> AgentMessageDelivery) list gw" where
  "read_inbox owner_subject agent_id limit after_message_id =
     bindS (collab_agent owner_subject agent_id) (\<lambda>_.
     bindS (case after_message_id of
              Some (c # cs) \<Rightarrow> bindS (fetch (\<lambda>m. am_id m = c # cs \<and> am_owner_subject m = owner_subject)
                agent_messages ''Inbox cursor message not found'') (\<lambda>m. ret (Some m))
            | _ \<Rightarrow> ret None) (\<lambda>cursor.
     bindS (gets (\<lambda>w. take (bounded_limit limit)
       (sort_key (\<lambda>(m, d). (- am_priority m, am_created_at m, am_id m))
         (filter (\<lambda>md. inbox_row owner_subject agent_id (clock w) md \<and> after_cursor cursor (fst md))
           (List.product (agent_messages w) (agent_message_deliveries w)))))) (\<lambda>rows.
     bindS (gets clock) (\<lambda>now.
     bindS (modify (\<lambda>w. w\<lparr>agent_message_deliveries :=
       update_where (\<lambda>d. md_id d \<in> (\<lambda>(m, d). md_id d) ` set rows) (mark_delivered now)
         (agent_message_deliveries w)\<rparr>)) (\<lambda>_.
     ret (map (\<lambda>(m, d). (m, mark_delivered now d)) rows))))))"

definition ack_message :: "gw_settings \<Rightarrow> string \<Rightarrow> string \<Rightarrow> string \<Rightarrow> AgentMessageDelivery gw" where
  "ack_message cfg owner_subject agent_id message_id = atomically (
     bindS (collab_agent owner_subject agent_id) (\<lambda>_.
     bindS (fetch (\<lambda>(m, d). am_id m = md_message_id d \<and> md_owner_subject d = owner_subject \<and>
              md_message_id d = message_id \<and> md_recipient_agent_id d = agent_id \<and>
              am_owner_subject m = owner_subject)
            (\<lambda>w. List.product (agent_messages w) (agent_message_deliveries w)) ''Message delivery not found'')
       (\<lambda>(m, d).
     if md_status d = ''acknowledged'' then ret d else
     bindS (gets clock) (\<lambda>now.
     let d = d\<lparr>md_status := ''acknowledged'', md_acknowledged_at := Some now, md_updated_at := now\<rparr>
     in bindS (put_delivery d) (\<lambda>_.
     bindS (note_event cfg owner_subject ''gateway.agent.message.acknowledged.v1'' ''acknowledged'' ''agent_message''
              (am_id m) [(''message_id'', JStr (am_id m)), (''room_id'', JStr (am_room_id m)),
                (''recipient_agent_id'', JStr agent_id)] ''success'') (\<lambda>_.
     ret d))))))"

section \<open>Commands\<close>

definition add_command :: "AgentCommand \<Rightarrow> unit gw" where
  "add_command c = insert_row (\<lambda>d. cm_id d = cm_id c \<or>
       (cm_owner_subject d = cm_owner_subject c \<and> same_key (cm_idempotency_key d) (cm_idempotency_key c)))
     agent_commands (\<lambda>w. w\<lparr>agent_commands := agent_commands w @ [c]\<rparr>)"

record AgentCommandCreate =
  ic_room_id :: string
  ic_issuer_agent_id :: string
  ic_target_agent_id :: string
  ic_kind :: string
  ic_instruction :: string
  ic_structured_payload :: "(string \<times> json) list"
  ic_constraints :: "(string \<times> json) list"
  ic_priority :: int
  ic_requires_approval :: bool
  ic_correlation_id :: "string option"
  ic_causation_id :: "string option"
  ic_idempotency_key :: "string option"

definition issue_command :: "gw_settings \<Rightarrow> string \<Rightarrow> AgentCommandCreate \<Rightarrow> AgentCommand gw" where
  "issue_command cfg owner_subject data = atomically (
     bindS (liftE (required_text (ic_room_id data) ''room_id'' 36)) (\<lambda>room_id.
     bindS (liftE (required_text (ic_issuer_agent_id data) ''issuer_agent_id'' 36)) (\<lambda>issuer_agent_id.
     bindS (liftE (required_text (ic_target_agent_id data) ''target_agent_id'' 36)) (\<lambda>target_agent_id.
     bindS (collab_room owner_subject room_id) (\<lambda>_.
     bindS (collab_agent owner_subject issuer_agent_id) (\<lambda>issuer.
     bindS (collab_agent owner_subject target_agent_id) (\<lambda>target.
     bindS (require_agent_in_room issuer room_id) (\<lambda>_.
     bindS (require_agent_in_room target room_id) (\<lambda>_.
     bindS (liftE (optional_text (ic_idempotency_key data) 160)) (\<lambda>idempotency_key.
     bindS (find_key agent_commands cm_owner_subject cm_idempotency_key owner_subject idempotency_key) (\<lambda>existing.
     case existing of Some c \<Rightarrow> ret c | None \<Rightarrow>
     let kind = (if ic_kind data = [] then ''instruction'' else ic_kind data)
     in bindS (liftE (safe_dict (ic_structured_payload data) ''command structured_payload'')) (\<lambda>payload.
     bindS (liftE (safe_dict (ic_constraints data) ''command constraints'')) (\<lambda>constraints.
     bindS (liftE (policy_to_http (validate_agent_command_for_delivery
              [(''kind'', JStr kind), (''instruction'', JStr (ic_instruction data)),
               (''structured_payload'', JObj payload)]))) (\<lambda>_.
     bindS new_id (\<lambda>i.
     bindS (liftE (required_text (ic_instruction data) ''instruction'' 100000)) (\<lambda>instruction.
     bindS (liftE (optional_text (ic_correlation_id data) 160)) (\<lambda>correlation_id.
     bindS (liftE (optional_text (ic_causation_id data) 160)) (\<lambda>causation_id.
     bindS (gets clock) (\<lambda>now.
     let c = \<lparr>cm_id = i, cm_owner_subject = owner_subject, cm_room_id = room_id,
           cm_issuer_agent_id = issuer_agent_id, cm_target_agent_id = target_agent_id, cm_kind = kind,
           cm_instruction = instruction, cm_structured_payload = payload, cm_constraints = constraints,
           cm_priority = bounded_priority (ic_priority data), cm_status = ''pending'',
           cm_requires_approval = ic_requires_approval data, cm_approved_by_subject = None,
           cm_correlation_id = correlation_id, cm_causation_id = causation_id,
           cm_idempotency_key = idempotency_key, cm_delivery_attempts = 0, cm_delivered_at = None,
           cm_acknowledged_at = None, cm_accepted_at = None, cm_completed_at = None, cm_expires_at = None,
           cm_result = [], cm_error = None, cm_created_at = now, cm_updated_at = now\<rparr>
     in on_conflict
          (bindS (add_command c) (\<lambda>_.
           bindS (note_event cfg owner_subject ''gateway.agent.command.issued.v1'' ''issued'' ''agent_command'' i
                    [(''command_id'', JStr i), (''room_id'', JStr room_id),
                     (''issuer_agent_id'', JStr issuer_agent_id), (''target_agent_id'', JStr target_agent_id),
                     (''kind'', JStr kind), (''priority'', JInt (cm_priority c)),
                     (''requires_approval'', JBool (cm_requires_approval c)),
                     (''correlation_id'', jopt correlation_id), (''causation_id'', jopt causation_id)]
                    ''success'') (\<lambda>_. ret c)))
          (bindS (find_key agent_commands cm_owner_subject cm_idempotency_key owner_subject idempotency_key)
             (\<lambda>existing. case existing of Some c \<Rightarrow> ret c
              | None \<Rightarrow> raise (HTTPException 409 ''Agent command idempotency conflict''))))))))))))))))))))))"

text \<open>What listing does to one command: it expires, is delivered, or is delivered once more.\<close>

definition deliver_command :: "int \<Rightarrow> AgentCommand \<Rightarrow> AgentCommand" where
  "deliver_command now c =
     (if (case cm_expires_at c of None \<Rightarrow> False | Some e \<Rightarrow> e \<le> now) \<and> cm_status c \<notin> set TERMINAL_COMMANDS
      then c\<lparr>cm_status := ''expired'', cm_completed_at := Some now, cm_updated_at := now\<rparr>
      else if cm_status c \<in> {''pending'', ''delivered''}
      then c\<lparr>cm_status := ''delivered'', cm_delivery_attempts := cm_delivery_attempts c + 1,
             cm_delivered_at := Some now, cm_updated_at := now\<rparr>
      else c)"

definition list_commands :: "string \<Rightarrow> string \<Rightarrow> string option \<Rightarrow> int \<Rightarrow> AgentCommand list gw" where
  "list_commands owner_subject agent_id status limit =
     bindS (collab_agent owner_subject agent_id) (\<lambda>_.
     bindS (gets (\<lambda>w. take (bounded_limit limit)
       (sort_key (\<lambda>c. (- cm_priority c, cm_created_at c, cm_id c))
         (filter (\<lambda>c. cm_owner_subject c = owner_subject \<and> cm_target_agent_id c = agent_id \<and>
            (case status of Some (s # ss) \<Rightarrow> cm_status c = s # ss | _ \<Rightarrow> cm_status c \<notin> set TERMINAL_COMMANDS))
           (agent_commands w))))) (\<lambda>rows.
     bindS (gets clock) (\<lambda>now.
     bindS (modify (\<lambda>w. w\<lparr>agent_commands := update_where (\<lambda>c. cm_id c \<in> cm_id ` set rows)
       (deliver_command now) (agent_commands w)\<rparr>)) (\<lambda>_.
     ret (map (deliver_command now) rows)))))"

definition target_command :: "string \<Rightarrow> string \<Rightarrow> string \<Rightarrow> AgentCommand gw" where
  "target_command owner_subject agent_id command_id =
     fetch (\<lambda>c. cm_id c = command_id \<and> cm_owner_subject c = owner_subject \<and> cm_target_agent_id c = agent_id)
       agent_commands ''Agent command not found''"

definition ack_command :: "gw_settings \<Rightarrow> string \<Rightarrow> string \<Rightarrow> string \<Rightarrow> AgentCommand gw" where
  "ack_command cfg owner_subject agent_id command_id = atomically (
     bindS (target_command owner_subject agent_id command_id) (\<lambda>c.
     bindS (guardS (cm_status c \<notin> set TERMINAL_COMMANDS)
              (HTTPException 409 ''Terminal command cannot be acknowledged'')) (\<lambda>_.
     if cm_status c \<notin> {''pending'', ''delivered''} then ret c else
     bindS (gets clock) (\<lambda>now.
     let c = c\<lparr>cm_status := ''acknowledged'', cm_acknowledged_at := Some now, cm_updated_at := now\<rparr>
     in bindS (put_command c) (\<lambda>_.
     bindS (note_event cfg owner_subject ''gateway.agent.command.acknowledged.v1'' ''acknowledged'' ''agent_command''
              (cm_id c) [(''command_id'', JStr (cm_id c)), (''room_id'', JStr (cm_room_id c)),
                (''target_agent_id'', JStr agent_id)] ''success'') (\<lambda>_.
     ret c))))))"

definition accept_command :: "gw_settings \<Rightarrow> string \<Rightarrow> string \<Rightarrow> string \<Rightarrow> AgentCommand gw" where
  "accept_command cfg owner_subject agent_id command_id = atomically (
     bindS (target_command owner_subject agent_id command_id) (\<lambda>c.
     bindS (guardS (cm_status c \<in> {''pending'', ''delivered'', ''acknowledged''})
              (HTTPException 409 ''Command cannot be accepted from its current status'')) (\<lambda>_.
     bindS (guardS (\<not> (cm_requires_approval c \<and> or_else (cm_approved_by_subject c) [] = []))
              (HTTPException 409 ''Command requires approval before acceptance'')) (\<lambda>_.
     bindS (gets clock) (\<lambda>now.
     let c = c\<lparr>cm_status := ''accepted'', cm_accepted_at := Some now, cm_updated_at := now\<rparr>
     in bindS (put_command c) (\<lambda>_.
     bindS (note_event cfg owner_subject ''gateway.agent.command.accepted.v1'' ''accepted'' ''agent_command''
              (cm_id c) [(''command_id'', JStr (cm_id c)), (''room_id'', JStr (cm_room_id c)),
                (''target_agent_id'', JStr agent_id)] ''success'') (\<lambda>_.
     ret c)))))))"

definition completed_event :: "gw_settings \<Rightarrow> string \<Rightarrow> AgentCommand \<Rightarrow> string \<Rightarrow> unit gw" where
  "completed_event cfg owner_subject c status =
     note_event cfg owner_subject ''gateway.agent.command.completed.v1'' (cm_status c) ''agent_command'' (cm_id c)
       [(''command_id'', JStr (cm_id c)), (''room_id'', JStr (cm_room_id c)), (''status'', JStr (cm_status c))] status"

definition reject_command ::
  "gw_settings \<Rightarrow> string \<Rightarrow> string \<Rightarrow> string \<Rightarrow> string option \<Rightarrow> AgentCommand gw" where
  "reject_command cfg owner_subject agent_id command_id error = atomically (
     bindS (target_command owner_subject agent_id command_id) (\<lambda>c.
     if cm_status c \<in> set TERMINAL_COMMANDS then ret c else
     bindS (liftE (optional_text error 10000)) (\<lambda>error.
     bindS (gets clock) (\<lambda>now.
     let c = c\<lparr>cm_status := ''rejected'', cm_error := error, cm_completed_at := Some now, cm_updated_at := now\<rparr>
     in bindS (put_command c) (\<lambda>_.
     bindS (completed_event cfg owner_subject c ''warning'') (\<lambda>_.
     ret c))))))"

text \<open>A privileged tool run completes only with the outcome its receipt records.\<close>

definition check_receipt :: "string \<Rightarrow> string \<Rightarrow> AgentCommand \<Rightarrow> string \<Rightarrow> unit gw" where
  "check_receipt owner_subject agent_id c status =
     (if cm_kind c = ''run_tool'' \<and> cm_requires_approval c then
        bindS (query_one (\<lambda>x. re_owner_subject x = owner_subject \<and> re_command_id x = Some (cm_id c) \<and>
                 re_executor_agent_id x = agent_id) action_receipts) (\<lambda>found.
        case found of
          None \<Rightarrow> raise (HTTPException 409 ''Privileged command requires an action receipt before completion'')
        | Some x \<Rightarrow> guardS (status = (if re_status x = ''succeeded'' then ''completed'' else ''failed''))
            (HTTPException 409 ''Command completion status does not match action receipt''))
      else ret ())"

definition complete_command ::
  "gw_settings \<Rightarrow> string \<Rightarrow> string \<Rightarrow> string \<Rightarrow> string \<Rightarrow> (string \<times> json) list \<Rightarrow> string option \<Rightarrow>
     AgentCommand gw" where
  "complete_command cfg owner_subject agent_id command_id status result error = atomically (
     bindS (target_command owner_subject agent_id command_id) (\<lambda>c.
     bindS (guardS (cm_status c \<in> {''accepted'', ''running''})
              (HTTPException 409 ''Command must be accepted before completion'')) (\<lambda>_.
     bindS (guardS (status \<in> {''completed'', ''failed''})
              (HTTPException 400 ''Command completion status must be completed or failed'')) (\<lambda>_.
     bindS (check_receipt owner_subject agent_id c status) (\<lambda>_.
     bindS (liftE (safe_dict result ''command result'')) (\<lambda>result.
     bindS (liftE (optional_text error 10000)) (\<lambda>error.
     bindS (gets clock) (\<lambda>now.
     let c = c\<lparr>cm_status := status, cm_result := result, cm_error := error, cm_completed_at := Some now,
           cm_updated_at := now\<rparr>
     in bindS (put_command c) (\<lambda>_.
     bindS (completed_event cfg owner_subject c (if status = ''completed'' then ''success'' else ''warning'')) (\<lambda>_.
     ret c))))))))))"

definition cancel_command :: "gw_settings \<Rightarrow> string \<Rightarrow> string \<Rightarrow> string \<Rightarrow> AgentCommand gw" where
  "cancel_command cfg owner_subject issuer_agent_id command_id = atomically (
     bindS (collab_agent owner_subject issuer_agent_id) (\<lambda>issuer.
     bindS (fetch (\<lambda>c. cm_id c = command_id \<and> cm_owner_subject c = owner_subject \<and>
              cm_issuer_agent_id c = ag_id issuer) agent_commands ''Agent command not found'') (\<lambda>c.
     if cm_status c \<in> set TERMINAL_COMMANDS then ret c else
     bindS (gets clock) (\<lambda>now.
     let c = c\<lparr>cm_status := ''cancelled'', cm_completed_at := Some now, cm_updated_at := now\<rparr>
     in bindS (put_command c) (\<lambda>_.
     bindS (note_event cfg owner_subject ''gateway.agent.command.cancelled.v1'' ''cancelled'' ''agent_command''
              (cm_id c) [(''command_id'', JStr (cm_id c)), (''room_id'', JStr (cm_room_id c)),
                (''issuer_agent_id'', JStr (ag_id issuer))] ''success'') (\<lambda>_.
     ret c))))))"

section \<open>Work items\<close>

definition add_item :: "AgentWorkItem \<Rightarrow> unit gw" where
  "add_item i = insert_row (\<lambda>j. wi_id j = wi_id i \<or>
       (wi_owner_subject j = wi_owner_subject i \<and> same_key (wi_idempotency_key j) (wi_idempotency_key i)))
     agent_work_items (\<lambda>w. w\<lparr>agent_work_items := agent_work_items w @ [i]\<rparr>)"

record AgentWorkItemCreate =
  wc_room_id :: string
  wc_parent_id :: "string option"
  wc_title :: string
  wc_description :: string
  wc_priority :: int
  wc_base_commit :: "string option"
  wc_dependencies :: "string list"
  wc_acceptance_criteria :: "string list"
  wc_required_capabilities :: "string list"
  wc_assignment_constraints :: "(string \<times> json) list"
  wc_idempotency_key :: "string option"

definition room_item :: "string \<Rightarrow> string \<Rightarrow> string \<Rightarrow> string \<Rightarrow> unit gw" where
  "room_item owner_subject room_id detail i =
     bindS (fetch (\<lambda>j. wi_id j = i \<and> wi_owner_subject j = owner_subject \<and> wi_room_id j = room_id)
       agent_work_items detail) (\<lambda>_. ret ())"

definition create_work_item :: "gw_settings \<Rightarrow> string \<Rightarrow> AgentWorkItemCreate \<Rightarrow> AgentWorkItem gw" where
  "create_work_item cfg owner_subject data = atomically (
     bindS (liftE (required_text (wc_room_id data) ''room_id'' 36)) (\<lambda>room_id.
     bindS (collab_room owner_subject room_id) (\<lambda>_.
     bindS (liftE (optional_text (wc_idempotency_key data) 160)) (\<lambda>idempotency_key.
     bindS (find_key agent_work_items wi_owner_subject wi_idempotency_key owner_subject idempotency_key) (\<lambda>existing.
     case existing of Some i \<Rightarrow> ret i | None \<Rightarrow>
     bindS (liftE (optional_text (wc_parent_id data) 36)) (\<lambda>parent_id.
     bindS (case parent_id of None \<Rightarrow> ret ()
            | Some p \<Rightarrow> room_item owner_subject room_id ''Parent work item not found'' p) (\<lambda>_.
     bindS (forS (room_item owner_subject room_id ''Work item dependency not found'') (wc_dependencies data)) (\<lambda>_.
     bindS new_id (\<lambda>i.
     bindS (liftE (required_text (wc_title data) ''title'' 240)) (\<lambda>title.
     bindS (liftE (optional_text (wc_base_commit data) 128)) (\<lambda>base_commit.
     bindS (liftE (safe_dict (wc_assignment_constraints data) ''work item assignment constraints'')) (\<lambda>constraints.
     bindS (gets clock) (\<lambda>now.
     let item = \<lparr>wi_id = i, wi_owner_subject = owner_subject, wi_room_id = room_id, wi_parent_id = parent_id,
           wi_title = title, wi_description = wc_description data, wi_status = ''open'',
           wi_priority = bounded_priority (wc_priority data), wi_assigned_agent_id = None, wi_version = 1,
           wi_base_commit = base_commit, wi_dependencies = wc_dependencies data,
           wi_acceptance_criteria = wc_acceptance_criteria data,
           wi_required_capabilities = filter (\<lambda>v. v \<noteq> []) (map strip (wc_required_capabilities data)),
           wi_assignment_constraints = constraints, wi_result = [], wi_idempotency_key = idempotency_key,
           wi_created_at = now, wi_updated_at = now\<rparr>
     in on_conflict
          (bindS (add_item item) (\<lambda>_.
           bindS (note_event cfg owner_subject ''gateway.work_item.created.v1'' ''created'' ''agent_work_item'' i
                    [(''work_item_id'', JStr i), (''room_id'', JStr room_id), (''priority'', JInt (wi_priority item)),
                     (''version'', JInt 1)] ''success'') (\<lambda>_. ret item)))
          (bindS (find_key agent_work_items wi_owner_subject wi_idempotency_key owner_subject idempotency_key)
             (\<lambda>existing. case existing of Some i \<Rightarrow> ret i
              | None \<Rightarrow> raise (HTTPException 409 ''Work item idempotency conflict''))))))))))))))))"

definition list_work_items :: "string \<Rightarrow> string \<Rightarrow> string option \<Rightarrow> int \<Rightarrow> AgentWorkItem list gw" where
  "list_work_items owner_subject room_id status limit =
     bindS (collab_room owner_subject room_id) (\<lambda>_.
     gets (\<lambda>w. take (bounded_limit limit) (sort_key (\<lambda>i. (- wi_priority i, wi_created_at i))
       (filter (\<lambda>i. wi_owner_subject i = owner_subject \<and> wi_room_id i = room_id \<and>
          (case status of Some (s # ss) \<Rightarrow> wi_status i = s # ss | _ \<Rightarrow> True)) (agent_work_items w)))))"

definition dependencies_done :: "string \<Rightarrow> AgentWorkItem \<Rightarrow> gdb \<Rightarrow> bool" where
  "dependencies_done owner_subject item w \<longleftrightarrow> wi_dependencies item = [] \<or>
     count_where (\<lambda>j. wi_owner_subject j = owner_subject \<and> wi_room_id j = wi_room_id item \<and>
       wi_id j \<in> set (wi_dependencies item) \<and> wi_status j = ''completed'') (agent_work_items w) =
     length (remdups (wi_dependencies item))"

text \<open>A conditional update that must hit one row.\<close>

definition update_one :: "(AgentWorkItem \<Rightarrow> bool) \<Rightarrow> (AgentWorkItem \<Rightarrow> AgentWorkItem) \<Rightarrow> string \<Rightarrow> unit gw" where
  "update_one sel f detail =
     bindS (gets (\<lambda>w. count_where sel (agent_work_items w))) (\<lambda>changed.
     bindS (guardS (changed = 1) (HTTPException 409 detail)) (\<lambda>_.
     modify (\<lambda>w. w\<lparr>agent_work_items := update_where sel f (agent_work_items w)\<rparr>)))"

definition claim_work_item ::
  "gw_settings \<Rightarrow> string \<Rightarrow> string \<Rightarrow> string \<Rightarrow> int \<Rightarrow> AgentWorkItem gw" where
  "claim_work_item cfg owner_subject agent_id work_item_id expected_version = atomically (
     bindS (collab_agent owner_subject agent_id) (\<lambda>a.
     bindS (collab_item owner_subject work_item_id) (\<lambda>item.
     bindS (require_agent_in_room a (wi_room_id item)) (\<lambda>_.
     bindS (gets (dependencies_done owner_subject item)) (\<lambda>ready.
     bindS (guardS ready (HTTPException 409 ''Work item dependencies are not completed'')) (\<lambda>_.
     bindS (gets clock) (\<lambda>now.
     bindS (update_one (\<lambda>i. wi_id i = work_item_id \<and> wi_owner_subject i = owner_subject \<and> wi_status i = ''open'' \<and>
              wi_assigned_agent_id i = None \<and> wi_version i = expected_version)
            (\<lambda>i. i\<lparr>wi_status := ''in_progress'', wi_assigned_agent_id := Some (ag_id a),
              wi_version := wi_version i + 1, wi_updated_at := now\<rparr>) ''Work item claim conflict'') (\<lambda>_.
     bindS (put_agent (a\<lparr>ag_current_work_item_id := Some work_item_id, ag_status := ''busy'',
              ag_updated_at := now\<rparr>)) (\<lambda>_.
     bindS (collab_item owner_subject work_item_id) (\<lambda>claimed.
     bindS (note_event cfg owner_subject ''gateway.work_item.claimed.v1'' ''claimed'' ''agent_work_item'' (wi_id claimed)
              [(''work_item_id'', JStr (wi_id claimed)), (''room_id'', JStr (wi_room_id claimed)),
               (''agent_id'', JStr (ag_id a)), (''version'', JInt (wi_version claimed))] ''success'') (\<lambda>_.
     ret claimed)))))))))))"

record AgentWorkItemUpdate =
  wu_status :: string
  wu_description :: "string option"
  wu_result :: "(string \<times> json) list option"

definition update_work_item ::
  "gw_settings \<Rightarrow> string \<Rightarrow> string \<Rightarrow> string \<Rightarrow> int \<Rightarrow> AgentWorkItemUpdate \<Rightarrow> AgentWorkItem gw" where
  "update_work_item cfg owner_subject agent_id work_item_id expected_version data = atomically (
     bindS (collab_agent owner_subject agent_id) (\<lambda>a.
     bindS (collab_item owner_subject work_item_id) (\<lambda>item.
     bindS (require_agent_in_room a (wi_room_id item)) (\<lambda>_.
     bindS (guardS (wi_assigned_agent_id item = Some (ag_id a))
              (HTTPException 403 ''Only the assigned agent can update the work item'')) (\<lambda>_.
     let status = (if wu_status data = [] then wi_status item else wu_status data)
     in bindS (guardS (status \<in> set WORK_ITEM_STATUSES \<and> status \<noteq> ''open'')
              (HTTPException 400 ''Unsupported work item update status'')) (\<lambda>_.
     bindS (case wu_result data of None \<Rightarrow> ret None
            | Some r \<Rightarrow> bindS (liftE (safe_dict r ''work item result'')) (\<lambda>r. ret (Some r))) (\<lambda>result.
     bindS (gets clock) (\<lambda>now.
     bindS (update_one (\<lambda>i. wi_id i = work_item_id \<and> wi_owner_subject i = owner_subject \<and>
              wi_assigned_agent_id i = Some (ag_id a) \<and> wi_version i = expected_version)
            (\<lambda>i. i\<lparr>wi_status := status, wi_version := wi_version i + 1, wi_updated_at := now,
              wi_result := (case result of None \<Rightarrow> wi_result i | Some r \<Rightarrow> r),
              wi_description := (case wu_description data of None \<Rightarrow> wi_description i | Some d \<Rightarrow> d)\<rparr>)
            ''Work item version conflict'') (\<lambda>_.
     bindS (if status \<in> {''cancelled'', ''completed'', ''failed''}
            then put_agent (a\<lparr>ag_current_work_item_id := None, ag_status := ''active'', ag_updated_at := now\<rparr>)
            else ret ()) (\<lambda>_.
     bindS (collab_item owner_subject work_item_id) (\<lambda>updated.
     bindS (note_event cfg owner_subject ''gateway.work_item.updated.v1'' status ''agent_work_item'' (wi_id updated)
              [(''work_item_id'', JStr (wi_id updated)), (''room_id'', JStr (wi_room_id updated)),
               (''agent_id'', JStr (ag_id a)), (''status'', JStr (wi_status updated)),
               (''version'', JInt (wi_version updated))] ''success'') (\<lambda>_.
     ret updated))))))))))))"

end
