(* ===== verification/Autonomy_Recovery.thy ===== *)
theory Autonomy_Recovery
  imports Autonomy_Policy Agent_Collaboration
begin

text \<open>
  The recovery loops of \<open>agent_autonomy.py\<close>: a loop watches a command, a work item or a receipt,
  and a cycle of the worker issues a new command for each loop that is due, through the
  collaboration service, until an outcome ends the loop or its attempts are used up.
\<close>

section \<open>Creating a loop\<close>

record RecoveryLoopCreate =
  lc_policy_id :: string
  lc_room_id :: string
  lc_source_type :: string
  lc_source_id :: string
  lc_target_agent_id :: string
  lc_strategy :: "(string \<times> json) list"
  lc_max_attempts :: "int option"
  lc_base_backoff_seconds :: "int option"
  lc_idempotency_key :: "string option"

text \<open>\<open>str(strategy.get("kind") or "instruction")\<close>\<close>

definition strategy_kind :: "(string \<times> json) list \<Rightarrow> string" where
  "strategy_kind strategy =
     (if truthy (dget strategy ''kind'') then py_str (dget strategy ''kind'') else ''instruction'')"

definition recovery_source :: "string \<Rightarrow> string \<Rightarrow> string \<Rightarrow> string \<Rightarrow> unit gw" where
  "recovery_source owner_subject room_id source_type source_id =
     (if source_type = ''command'' then
        bindS (get_command owner_subject source_id) (\<lambda>c.
        guardS (cm_room_id c = room_id) (HTTPException 409 ''Recovery command room mismatch''))
      else if source_type = ''work_item'' then
        bindS (get_work_item owner_subject source_id) (\<lambda>i.
        guardS (wi_room_id i = room_id) (HTTPException 409 ''Recovery work item room mismatch''))
      else if source_type = ''action_receipt'' then
        bindS (fetch (\<lambda>x. re_id x = source_id \<and> re_owner_subject x = owner_subject) action_receipts
          ''Recovery receipt not found'') (\<lambda>_. ret ())
      else raise (HTTPException 400 ''Unsupported recovery source type''))"

definition create_recovery_loop :: "gw_settings \<Rightarrow> string \<Rightarrow> string \<Rightarrow> RecoveryLoopCreate \<Rightarrow> RecoveryLoop gw" where
  "create_recovery_loop cfg owner_subject actor_subject data = atomically (
     bindS (liftE (required_text (lc_policy_id data) ''policy_id'' 36)) (\<lambda>policy_id.
     bindS (get_policy owner_subject policy_id) (\<lambda>p.
     bindS (liftE (required_text (lc_room_id data) ''room_id'' 36)) (\<lambda>room_id.
     bindS (guardS (po_room_id p = room_id) (HTTPException 409 ''Recovery policy room mismatch'')) (\<lambda>_.
     bindS (assert_enabled cfg owner_subject room_id p) (\<lambda>_.
     bindS (liftE (required_text (lc_target_agent_id data) ''target_agent_id'' 36)) (\<lambda>target_id.
     bindS (get_agent owner_subject target_id) (\<lambda>target.
     bindS (guardS (ag_current_room_id target = Some room_id)
              (HTTPException 409 ''Recovery target is not in room'')) (\<lambda>_.
     bindS (liftE (required_text (lc_source_id data) ''source_id'' 160)) (\<lambda>source_id.
     bindS (recovery_source owner_subject room_id (lc_source_type data) source_id) (\<lambda>_.
     bindS (liftE (safe_dict (lc_strategy data) ''recovery strategy'')) (\<lambda>strategy.
     bindS (liftE (dict_or_empty (dget strategy ''structured_payload''))) (\<lambda>payload.
     bindS (liftE (policy_to_http (validate_agent_command_for_delivery
              [(''kind'', JStr (strategy_kind strategy)), (''instruction'', dget strategy ''instruction''),
               (''structured_payload'', JObj payload)]))) (\<lambda>_.
     bindS (liftE (optional_text (lc_idempotency_key data) 160)) (\<lambda>idempotency_key.
     bindS (find_key recovery_loops rl_owner_subject rl_idempotency_key owner_subject idempotency_key) (\<lambda>existing.
     case existing of Some l \<Rightarrow> ret l | None \<Rightarrow>
     let rule = po_recovery_policy p
     in bindS (liftE (bounded_int (jint (lc_max_attempts data)) ''max_attempts'' 1 (rr_max_attempts rule)
                (Some (rr_max_attempts rule)))) (\<lambda>max_attempts.
     bindS (liftE (bounded_int (jint (lc_base_backoff_seconds data)) ''base_backoff_seconds'' 1
                (rr_max_backoff_seconds rule) (Some (rr_base_backoff_seconds rule)))) (\<lambda>base_backoff.
     bindS (gets clock) (\<lambda>now.
     bindS new_id (\<lambda>i.
     let l = \<lparr>rl_id = i, rl_owner_subject = owner_subject, rl_room_id = room_id, rl_policy_id = po_id p,
           rl_source_type = lc_source_type data, rl_source_id = source_id, rl_target_agent_id = ag_id target,
           rl_strategy = strategy, rl_status = ''planned'', rl_attempt_count = 0, rl_max_attempts = max_attempts,
           rl_base_backoff_seconds = base_backoff, rl_next_attempt_at = now, rl_last_command_id = None,
           rl_last_error = None, rl_policy_generation = po_generation p, rl_generation = 1,
           rl_idempotency_key = idempotency_key, rl_created_by_subject = actor_subject, rl_created_at = now,
           rl_updated_at = now, rl_completed_at = None\<rparr>
     in on_conflict
          (bindS (add_recovery l) (\<lambda>_.
           bindS (note_event cfg actor_subject ''gateway.autonomy.recovery.created.v1'' ''created''
                    ''recovery_loop'' i
                    [(''recovery_loop_id'', JStr i), (''policy_id'', JStr (po_id p)), (''room_id'', JStr room_id),
                     (''source_type'', JStr (lc_source_type data)), (''source_id'', JStr source_id),
                     (''target_agent_id'', JStr (ag_id target)), (''max_attempts'', JInt max_attempts),
                     (''policy_generation'', JInt (po_generation p))] ''success'') (\<lambda>_. ret l)))
          (bindS (find_key recovery_loops rl_owner_subject rl_idempotency_key owner_subject idempotency_key)
             (\<lambda>existing. case existing of Some l \<Rightarrow> ret l
              | None \<Rightarrow> raise (HTTPException 409 ''Recovery loop conflict'')))))))))))))))))))))))"

section \<open>A cycle of the worker\<close>

record cycle_result =
  cy_considered :: nat
  cy_issued :: nat
  cy_paused :: nat

text \<open>The command of one attempt.\<close>

definition attempt_command :: "string \<Rightarrow> RecoveryLoop \<Rightarrow> int \<Rightarrow> AgentCommandCreate res" where
  "attempt_command coordinator_id l attempt =
     (let strategy = rl_strategy l in
      bindE (dict_or_empty (dget strategy ''structured_payload'')) (\<lambda>payload.
      bindE (dict_or_empty (dget strategy ''constraints'')) (\<lambda>constraints.
      case py_int (dget_or strategy ''priority'' (JInt 80)) of
        None \<Rightarrow> Inl (ValueError ''int'')
      | Some priority \<Rightarrow>
          Inr \<lparr>ic_room_id = rl_room_id l, ic_issuer_agent_id = coordinator_id,
            ic_target_agent_id = rl_target_agent_id l, ic_kind = strategy_kind strategy,
            ic_instruction = str_or_empty (dget strategy ''instruction''), ic_structured_payload = payload,
            ic_constraints = dset ''source_id'' (JStr (rl_source_id l)) (dset ''source_type'' (JStr (rl_source_type l))
              (dset ''recovery_attempt'' (JInt attempt) (dset ''recovery_loop_id'' (JStr (rl_id l)) constraints))),
            ic_priority = priority,
            ic_requires_approval = truthy (dget_or strategy ''requires_approval'' (JBool (strategy_kind strategy = ''run_tool''))),
            ic_correlation_id = Some (rl_id l), ic_causation_id = Some (rl_source_id l),
            ic_idempotency_key = Some (''recovery:'' @ rl_id l @ '':'' @ int_dec attempt)\<rparr>)))"

fun recover_loops :: "gw_settings \<Rightarrow> string \<Rightarrow> string \<Rightarrow> AutonomyPolicy \<Rightarrow> string \<Rightarrow> int \<Rightarrow> RecoveryLoop list \<Rightarrow>
    cycle_result \<Rightarrow> cycle_result gw" where
  "recover_loops cfg owner_subject actor_subject p coordinator_id now [] result = ret result"
| "recover_loops cfg owner_subject actor_subject p coordinator_id now (l # loops) result =
     (if rl_policy_generation l \<noteq> po_generation p then
        bindS (put_loop (l\<lparr>rl_status := ''paused'', rl_last_error := Some ''policy generation changed'',
                 rl_generation := rl_generation l + 1, rl_updated_at := now\<rparr>)) (\<lambda>_.
        recover_loops cfg owner_subject actor_subject p coordinator_id now loops
          (result\<lparr>cy_paused := cy_paused result + 1\<rparr>))
      else if rl_attempt_count l \<ge> rl_max_attempts l then
        bindS (put_loop (l\<lparr>rl_status := ''exhausted'', rl_completed_at := Some now, rl_updated_at := now\<rparr>)) (\<lambda>_.
        recover_loops cfg owner_subject actor_subject p coordinator_id now loops result)
      else
        let attempt = rl_attempt_count l + 1
        in bindS (liftE (attempt_command coordinator_id l attempt)) (\<lambda>data.
        bindS (issue_command cfg owner_subject data) (\<lambda>c.
        bindS (atomically (
          bindS (put_loop (l\<lparr>rl_attempt_count := attempt, rl_last_command_id := Some (cm_id c),
                   rl_status := ''waiting'', rl_updated_at := now\<rparr>)) (\<lambda>_.
          note_event cfg actor_subject ''gateway.autonomy.recovery.attempted.v1'' ''attempted'' ''recovery_loop'' (rl_id l)
            [(''recovery_loop_id'', JStr (rl_id l)), (''policy_id'', JStr (po_id p)), (''room_id'', JStr (rl_room_id l)),
             (''attempt'', JInt attempt), (''max_attempts'', JInt (rl_max_attempts l)),
             (''command_id'', JStr (cm_id c)), (''target_agent_id'', JStr (rl_target_agent_id l))] ''success''))) (\<lambda>_.
        recover_loops cfg owner_subject actor_subject p coordinator_id now loops
          (result\<lparr>cy_issued := cy_issued result + 1\<rparr>)))))"

definition is_due :: "string \<Rightarrow> string \<Rightarrow> int \<Rightarrow> RecoveryLoop \<Rightarrow> bool" where
  "is_due owner_subject policy_id now l \<longleftrightarrow> rl_owner_subject l = owner_subject \<and> rl_policy_id l = policy_id \<and>
     rl_status l = ''planned'' \<and> rl_next_attempt_at l \<le> now"

definition due_loops :: "string \<Rightarrow> string \<Rightarrow> int \<Rightarrow> gdb \<Rightarrow> RecoveryLoop list" where
  "due_loops owner_subject policy_id limit w = take (nat (max 1 (min limit 100)))
     (sort_key (\<lambda>l. (rl_next_attempt_at l, rl_created_at l))
       (filter (is_due owner_subject policy_id (clock w)) (recovery_loops w)))"

definition run_recovery_cycle :: "gw_settings \<Rightarrow> string \<Rightarrow> string \<Rightarrow> string \<Rightarrow> int \<Rightarrow> cycle_result gw" where
  "run_recovery_cycle cfg owner_subject policy_id actor_subject limit =
     bindS (get_policy owner_subject policy_id) (\<lambda>p.
     bindS (assert_enabled cfg owner_subject (po_room_id p) p) (\<lambda>_.
     case po_coordinator_agent_id p of
       Some (c # cs) \<Rightarrow>
         bindS (get_agent owner_subject (c # cs)) (\<lambda>coordinator.
         if ag_current_room_id coordinator \<noteq> Some (po_room_id p)
         then ret \<lparr>cy_considered = 0, cy_issued = 0, cy_paused = 0\<rparr>
         else
           bindS (gets clock) (\<lambda>now.
           bindS (gets (due_loops owner_subject (po_id p) limit)) (\<lambda>loops.
           recover_loops cfg owner_subject actor_subject p (ag_id coordinator) now loops
             \<lparr>cy_considered = length loops, cy_issued = 0, cy_paused = 0\<rparr>)))
     | _ \<Rightarrow> ret \<lparr>cy_considered = 0, cy_issued = 0, cy_paused = 0\<rparr>))"

section \<open>Outcomes\<close>

definition retry_delay :: "recovery_rule \<Rightarrow> RecoveryLoop \<Rightarrow> int" where
  "retry_delay rule l = min (rr_max_backoff_seconds rule)
     (rl_base_backoff_seconds l * 2 ^ nat (max 0 (rl_attempt_count l - 1)))"

definition outcome_loop :: "string \<Rightarrow> string \<Rightarrow> string option \<Rightarrow> RecoveryLoop \<Rightarrow> RecoveryLoop gw" where
  "outcome_loop owner_subject status error l =
     bindS (gets clock) (\<lambda>now.
     if status = ''succeeded'' then
       ret (l\<lparr>rl_status := ''succeeded'', rl_completed_at := Some now, rl_last_error := None\<rparr>)
     else if status = ''cancelled'' then
       bindS (liftE (optional_text error 10000)) (\<lambda>error.
       ret (l\<lparr>rl_status := ''cancelled'', rl_completed_at := Some now, rl_last_error := error\<rparr>))
     else if status = ''failed'' then
       bindS (liftE (optional_text error 10000)) (\<lambda>error.
       if rl_attempt_count l \<ge> rl_max_attempts l then
         ret (l\<lparr>rl_last_error := error, rl_status := ''exhausted'', rl_completed_at := Some now\<rparr>)
       else
         bindS (get_policy owner_subject (rl_policy_id l)) (\<lambda>p.
         ret (l\<lparr>rl_last_error := error, rl_status := ''planned'',
           rl_next_attempt_at := now + seconds (retry_delay (po_recovery_policy p) l)\<rparr>)))
     else raise (HTTPException 400 ''Unsupported recovery outcome''))"

definition record_recovery_outcome ::
  "gw_settings \<Rightarrow> string \<Rightarrow> string \<Rightarrow> string \<Rightarrow> string option \<Rightarrow> string option \<Rightarrow> RecoveryLoop gw" where
  "record_recovery_outcome cfg owner_subject loop_id status command_id error = atomically (
     bindS (get_recovery owner_subject loop_id) (\<lambda>l.
     if rl_status l \<in> set RECOVERY_TERMINAL then ret l else
     bindS (guardS (rl_status l \<in> {''waiting'', ''running'', ''paused''})
              (HTTPException 409 ''Recovery loop has no active attempt'')) (\<lambda>_.
     bindS (guardS (case command_id of Some (c # cs) \<Rightarrow> rl_last_command_id l = Some (c # cs) | _ \<Rightarrow> True)
              (HTTPException 409 ''Recovery command does not match latest attempt'')) (\<lambda>_.
     bindS (outcome_loop owner_subject status error l) (\<lambda>l.
     bindS (gets clock) (\<lambda>now.
     let l = l\<lparr>rl_generation := rl_generation l + 1, rl_updated_at := now\<rparr>
     in bindS (put_loop l) (\<lambda>_.
     bindS (note_event cfg owner_subject ''gateway.autonomy.recovery.completed.v1'' status ''recovery_loop'' (rl_id l)
              [(''recovery_loop_id'', JStr (rl_id l)), (''policy_id'', JStr (rl_policy_id l)),
               (''room_id'', JStr (rl_room_id l)), (''attempt_count'', JInt (rl_attempt_count l)),
               (''max_attempts'', JInt (rl_max_attempts l)), (''status'', JStr (rl_status l)),
               (''command_id'', jopt (rl_last_command_id l))]
              (if status = ''succeeded'' then ''success'' else ''warning'')) (\<lambda>_.
     ret l))))))))"

definition list_recovery_loops :: "string \<Rightarrow> string option \<Rightarrow> string option \<Rightarrow> RecoveryLoop list gw" where
  "list_recovery_loops owner_subject room_id status = gets (\<lambda>w. sort_key (\<lambda>l. - rl_created_at l)
     (filter (\<lambda>l. rl_owner_subject l = owner_subject \<and>
        (case room_id of Some (c # cs) \<Rightarrow> rl_room_id l = c # cs | _ \<Rightarrow> True) \<and>
        (case status of Some (c # cs) \<Rightarrow> rl_status l = c # cs | _ \<Rightarrow> True)) (recovery_loops w)))"

end
