(* ===== verification/Collaboration_Commands.thy ===== *)
theory Collaboration_Commands
  imports Agent_Collaboration Store_Frames
begin

text \<open>
  The life of an agent command through the calls of \<open>agent_collaboration.py\<close>: the calls as one
  step function, the moves a stored command can make, and that every call makes only those.
\<close>

section \<open>The calls of the service\<close>

datatype collab_call =
    RegisterAgent string AgentRegister
  | ListAgents string "string option"
  | HeartbeatAgent string string AgentHeartbeat
  | UnregisterAgent string string
  | CreateRoom string CollaborationRoomCreate
  | JoinRoom string string string
  | SendMessage string AgentMessageCreate
  | ReadInbox string string int "string option"
  | AckMessage string string string
  | IssueCommand string AgentCommandCreate
  | ListCommands string string "string option" int
  | AckCommand string string string
  | AcceptCommand string string string
  | RejectCommand string string string "string option"
  | CompleteCommand string string string string "(string \<times> json) list" "string option"
  | CancelCommand string string string
  | CreateWorkItem string AgentWorkItemCreate
  | ListWorkItems string string "string option" int
  | ClaimWorkItem string string string int
  | UpdateWorkItem string string string int AgentWorkItemUpdate

fun collab_step :: "gw_settings \<Rightarrow> collab_call \<Rightarrow> gdb \<Rightarrow> gdb" where
  "collab_step cfg (RegisterAgent owner data) w = snd (register_agent cfg owner data w)"
| "collab_step cfg (ListAgents owner room_id) w = snd (list_agents owner room_id w)"
| "collab_step cfg (HeartbeatAgent owner i data) w = snd (heartbeat_agent cfg owner i data w)"
| "collab_step cfg (UnregisterAgent owner i) w = snd (unregister_agent cfg owner i w)"
| "collab_step cfg (CreateRoom owner data) w = snd (create_room cfg owner data w)"
| "collab_step cfg (JoinRoom owner room_id i) w = snd (join_room cfg owner room_id i w)"
| "collab_step cfg (SendMessage owner data) w = snd (send_message cfg owner data w)"
| "collab_step cfg (ReadInbox owner i limit after) w = snd (read_inbox owner i limit after w)"
| "collab_step cfg (AckMessage owner i m) w = snd (ack_message cfg owner i m w)"
| "collab_step cfg (IssueCommand owner data) w = snd (issue_command cfg owner data w)"
| "collab_step cfg (ListCommands owner i status limit) w = snd (list_commands owner i status limit w)"
| "collab_step cfg (AckCommand owner i c) w = snd (ack_command cfg owner i c w)"
| "collab_step cfg (AcceptCommand owner i c) w = snd (accept_command cfg owner i c w)"
| "collab_step cfg (RejectCommand owner i c error) w = snd (reject_command cfg owner i c error w)"
| "collab_step cfg (CompleteCommand owner i c status result error) w =
     snd (complete_command cfg owner i c status result error w)"
| "collab_step cfg (CancelCommand owner i c) w = snd (cancel_command cfg owner i c w)"
| "collab_step cfg (CreateWorkItem owner data) w = snd (create_work_item cfg owner data w)"
| "collab_step cfg (ListWorkItems owner room_id status limit) w = snd (list_work_items owner room_id status limit w)"
| "collab_step cfg (ClaimWorkItem owner i item v) w = snd (claim_work_item cfg owner i item v w)"
| "collab_step cfg (UpdateWorkItem owner i item v data) w = snd (update_work_item cfg owner i item v data w)"

section \<open>Calls that leave the commands alone\<close>

interpretation commands: untouched agent_commands
  by unfold_locales simp

lemmas lookup_defs = collab_agent_def collab_room_def collab_item_def require_agent_in_room_def check_room_def
  check_agent_def find_key_def target_command_def note_event_def completed_event_def room_item_def

lemmas write_defs = put_agent_def put_delivery_def put_command_def put_item_def add_agent_def add_room_def
  add_message_def add_delivery_def add_command_def add_item_def update_one_def expire_stale_agents_def

lemma commands_add_deliveries: "keeps (same agent_commands) (add_deliveries owner m now as)"
  by (induction as) (auto simp: write_defs intro!: commands.keeps_store sameI)

lemma commands_agents:
  "keeps (same agent_commands) (register_agent cfg owner rg)"
  "keeps (same agent_commands) (list_agents owner room_id)"
  "keeps (same agent_commands) (heartbeat_agent cfg owner i ht)"
  "keeps (same agent_commands) (unregister_agent cfg owner i)"
  "keeps (same agent_commands) (create_room cfg owner rm)"
  "keeps (same agent_commands) (join_room cfg owner rid i)"
  unfolding register_agent_def list_agents_def heartbeat_agent_def unregister_agent_def create_room_def
    join_room_def lookup_defs write_defs
  by (intro commands.keeps_store sameI; simp)+

lemma commands_messages:
  "keeps (same agent_commands) (send_message cfg owner mc)"
  "keeps (same agent_commands) (read_inbox owner i limit cursor)"
  "keeps (same agent_commands) (ack_message cfg owner i m)"
  unfolding send_message_def store_message_def read_inbox_def ack_message_def find_sent_def message_recipients_def
    lookup_defs write_defs [unfolded add_delivery_def]
  by (intro commands.keeps_store commands_add_deliveries sameI; simp)+

lemma commands_items:
  "keeps (same agent_commands) (create_work_item cfg owner wc)"
  "keeps (same agent_commands) (list_work_items owner rid status limit)"
  "keeps (same agent_commands) (claim_work_item cfg owner i item v)"
  "keeps (same agent_commands) (update_work_item cfg owner i item v wu)"
  unfolding create_work_item_def list_work_items_def claim_work_item_def update_work_item_def lookup_defs write_defs
  by (intro commands.keeps_store sameI; simp)+

section \<open>The moves of a command\<close>

text \<open>What the issuer asked for, and who approved it: no call of this service changes them.\<close>

definition same_order :: "AgentCommand \<Rightarrow> AgentCommand \<Rightarrow> bool" where
  "same_order c c' \<longleftrightarrow> cm_id c' = cm_id c \<and> cm_owner_subject c' = cm_owner_subject c \<and>
     cm_room_id c' = cm_room_id c \<and> cm_issuer_agent_id c' = cm_issuer_agent_id c \<and>
     cm_target_agent_id c' = cm_target_agent_id c \<and> cm_kind c' = cm_kind c \<and>
     cm_instruction c' = cm_instruction c \<and> cm_structured_payload c' = cm_structured_payload c \<and>
     cm_constraints c' = cm_constraints c \<and> cm_priority c' = cm_priority c \<and>
     cm_requires_approval c' = cm_requires_approval c \<and> cm_approved_by_subject c' = cm_approved_by_subject c \<and>
     cm_idempotency_key c' = cm_idempotency_key c \<and> cm_created_at c' = cm_created_at c"

definition approved_if_required :: "AgentCommand \<Rightarrow> bool" where
  "approved_if_required c \<longleftrightarrow> cm_requires_approval c \<longrightarrow> (\<exists>s. s \<noteq> [] \<and> cm_approved_by_subject c = Some s)"

text \<open>The receipt a privileged command needs for an outcome.\<close>

definition privileged :: "AgentCommand \<Rightarrow> bool" where
  "privileged c \<longleftrightarrow> cm_kind c = ''run_tool'' \<and> cm_requires_approval c"

definition outcome_receipt :: "AgentCommand \<Rightarrow> string \<Rightarrow> ActionReceipt \<Rightarrow> bool" where
  "outcome_receipt c status x \<longleftrightarrow> re_owner_subject x = cm_owner_subject c \<and> re_command_id x = Some (cm_id c) \<and>
     re_executor_agent_id x = cm_target_agent_id c \<and>
     status = (if re_status x = ''succeeded'' then ''completed'' else ''failed'')"

inductive command_move :: "ActionReceipt list \<Rightarrow> AgentCommand \<Rightarrow> AgentCommand \<Rightarrow> bool" for receipts where
  stay: "command_move receipts c c"
| deliver: "cm_status c \<in> {''pending'', ''delivered''} \<Longrightarrow> cm_status c' = ''delivered'' \<Longrightarrow>
    cm_delivery_attempts c' = cm_delivery_attempts c + 1 \<Longrightarrow> same_order c c' \<Longrightarrow> command_move receipts c c'"
| acknowledge: "cm_status c \<in> {''pending'', ''delivered''} \<Longrightarrow> cm_status c' = ''acknowledged'' \<Longrightarrow>
    same_order c c' \<Longrightarrow> command_move receipts c c'"
| accept: "cm_status c \<in> {''pending'', ''delivered'', ''acknowledged''} \<Longrightarrow> cm_status c' = ''accepted'' \<Longrightarrow>
    approved_if_required c \<Longrightarrow> same_order c c' \<Longrightarrow> command_move receipts c c'"
| finish: "cm_status c \<in> {''accepted'', ''running''} \<Longrightarrow> cm_status c' \<in> {''completed'', ''failed''} \<Longrightarrow>
    (privileged c \<Longrightarrow> \<exists>x \<in> set receipts. outcome_receipt c (cm_status c') x) \<Longrightarrow>
    same_order c c' \<Longrightarrow> command_move receipts c c'"
| withdraw: "cm_status c \<notin> set TERMINAL_COMMANDS \<Longrightarrow> cm_status c' \<in> {''rejected'', ''cancelled'', ''expired''} \<Longrightarrow>
    same_order c c' \<Longrightarrow> command_move receipts c c'"

inductive_cases command_moveE: "command_move receipts c c'"

lemma same_order_refl: "same_order c c"
  by (simp add: same_order_def)

lemma command_move_order: "command_move receipts c c' \<Longrightarrow> same_order c c'"
  by (auto elim: command_moveE simp: same_order_refl)

lemma command_move_terminal:
  "command_move receipts c c' \<Longrightarrow> cm_status c \<in> set TERMINAL_COMMANDS \<Longrightarrow> c' = c"
  by (erule command_moveE) (auto simp: TERMINAL_COMMANDS_def)

definition fresh_command :: "AgentCommand \<Rightarrow> bool" where
  "fresh_command c \<longleftrightarrow> cm_status c = ''pending'' \<and> cm_approved_by_subject c = None \<and> cm_delivery_attempts c = 0 \<and>
     cm_accepted_at c = None \<and> cm_completed_at c = None"

interpretation command_rows: row_moves cm_id "command_move receipts" fresh_command for receipts
  using command_move_order by unfold_locales (auto simp: same_order_def intro: command_move.stay)

section \<open>Every call makes only these moves\<close>

abbreviation steps_commands :: "gdb \<Rightarrow> gdb \<Rightarrow> bool" where
  "steps_commands w w' \<equiv>
     rows_step cm_id (command_move (action_receipts w)) fresh_command (agent_commands w) (agent_commands w')"

lemma steps_put:
  assumes "unique_on cm_id (agent_commands w)" and "c \<in> set (agent_commands w)"
    and "command_move (action_receipts w) c c'"
  shows "steps_commands w (w\<lparr>agent_commands := update_where (\<lambda>q. cm_id q = cm_id c') (\<lambda>_. c') (agent_commands w),
    audit_events := a, outbox_events := b, id_pos := n\<rparr>)"
  using command_rows.step_put [OF assms] by simp

lemma or_else_nonempty: "or_else o' [] \<noteq> [] \<longleftrightarrow> (\<exists>s. s \<noteq> [] \<and> o' = Some s)"
  by (cases o') (auto simp: or_else_def split: list.splits)

lemma wpr_target_command:
  assumes "\<And>c. c \<in> set (agent_commands w) \<Longrightarrow> cm_id c = i \<Longrightarrow> cm_owner_subject c = owner \<Longrightarrow>
    cm_target_agent_id c = agent \<Longrightarrow> Q c w"
  shows "wpr (target_command owner agent i) Q w"
  unfolding target_command_def using assms by (intro wpr_fetch) auto

lemma wpr_note_event:
  "(\<And>a b n. Q () (w\<lparr>audit_events := a, outbox_events := b, id_pos := n\<rparr>)) \<Longrightarrow>
     wpr (note_event cfg owner ty act rt ri pl st) Q w"
  unfolding note_event_def by (rule gateway_events.wpr_emit)

lemma deliver_command_move: "command_move receipts c (deliver_command now c)"
proof (cases "(case cm_expires_at c of None \<Rightarrow> False | Some e \<Rightarrow> e \<le> now) \<and> cm_status c \<notin> set TERMINAL_COMMANDS")
  case True
  then show ?thesis by (intro command_move.withdraw) (auto simp: deliver_command_def same_order_def)
next
  case False
  show ?thesis
  proof (cases "cm_status c \<in> {''pending'', ''delivered''}")
    case True
    then show ?thesis using False by (intro command_move.deliver) (auto simp: deliver_command_def same_order_def)
  qed (use False in \<open>auto simp: deliver_command_def intro: command_move.stay\<close>)
qed

lemma steps_list_commands:
  assumes "unique_on cm_id (agent_commands w)"
  shows "wpr (list_commands owner agent status limit) (\<lambda>_. steps_commands w) w"
  unfolding list_commands_def collab_agent_def wp_bind
  using assms
  by (intro wpr_fetch) (auto intro!: command_rows.step_update deliver_command_move)

lemma steps_ack_command:
  assumes "unique_on cm_id (agent_commands w)"
  shows "wpr (ack_command cfg owner agent i) (\<lambda>_. steps_commands w) w"
  unfolding ack_command_def put_command_def
proof (rule wpr_atomically, unfold wp_bind, intro wpr_target_command wpr_guard, goal_cases)
  case (1 c)
  show ?case
  proof (cases "cm_status c \<notin> {''pending'', ''delivered''}")
    case False
    then show ?thesis
      unfolding if_not_P [OF False] wp_bind wp_gets Let_def wp_modify wp_ret
      by (intro wpr_note_event steps_put assms command_move.acknowledge) (use 1 in \<open>auto simp: same_order_def\<close>)
  qed (simp add: command_rows.step_refl assms)
qed

lemma steps_accept_command:
  assumes "unique_on cm_id (agent_commands w)"
  shows "wpr (accept_command cfg owner agent i) (\<lambda>_. steps_commands w) w"
  unfolding accept_command_def put_command_def
proof (rule wpr_atomically, unfold wp_bind wp_gets Let_def wp_modify wp_ret,
    intro wpr_target_command wpr_guard wpr_note_event steps_put [OF assms], assumption, goal_cases)
  case (1 c a b n)
  then have "approved_if_required c"
    using or_else_nonempty [of "cm_approved_by_subject c"] by (auto simp: approved_if_required_def)
  with 1 show ?case by (intro command_move.accept) (auto simp: same_order_def)
qed

lemma steps_reject_command:
  assumes "unique_on cm_id (agent_commands w)"
  shows "wpr (reject_command cfg owner agent i error) (\<lambda>_. steps_commands w) w"
  unfolding reject_command_def
proof (rule wpr_atomically, unfold wp_bind, intro wpr_target_command, goal_cases)
  case (1 c)
  then show ?case
    using assms unfolding put_command_def completed_event_def
    by (auto simp: Let_def same_order_def split: sum.splits
        intro!: wpr_note_event command_rows.step_put_at [of _ c] command_rows.step_refl command_move.withdraw)
qed

lemma wpr_check_receipt:
  assumes "(privileged c \<Longrightarrow> \<exists>x \<in> set (action_receipts w). re_owner_subject x = owner \<and>
      re_command_id x = Some (cm_id c) \<and> re_executor_agent_id x = agent \<and>
      status = (if re_status x = ''succeeded'' then ''completed'' else ''failed'')) \<Longrightarrow> Q () w"
  shows "wpr (check_receipt owner agent c status) Q w"
proof (cases "privileged c")
  case True
  then show ?thesis
    unfolding check_receipt_def privileged_def if_P [OF True [unfolded privileged_def]] wp_bind
    by (intro wpr_query_one; simp; intro impI assms bexI conjI) auto
next
  case False
  then show ?thesis using assms unfolding check_receipt_def privileged_def by auto
qed

lemma steps_complete_command:
  assumes "unique_on cm_id (agent_commands w)"
  shows "wpr (complete_command cfg owner agent i status result error) (\<lambda>_. steps_commands w) w"
  unfolding complete_command_def
proof (rule wpr_atomically, unfold wp_bind, intro wpr_target_command wpr_guard wpr_check_receipt wpr_lift, goal_cases)
  case (1 c r e)
  then have "command_move (action_receipts w) c (c\<lparr>cm_status := status, cm_result := r, cm_error := e,
      cm_completed_at := Some (clock w), cm_updated_at := clock w\<rparr>)"
    by (intro command_move.finish) (auto simp: same_order_def outcome_receipt_def)
  then show ?case
    using assms 1(1) unfolding put_command_def completed_event_def
    by (auto simp: Let_def intro!: wpr_note_event command_rows.step_put_at [of _ c])
qed

lemma steps_cancel_command:
  assumes "unique_on cm_id (agent_commands w)"
  shows "wpr (cancel_command cfg owner issuer i) (\<lambda>_. steps_commands w) w"
  unfolding cancel_command_def collab_agent_def
proof (rule wpr_atomically, unfold wp_bind, intro wpr_fetch, goal_cases)
  case (1 a c)
  then show ?case
    using assms unfolding put_command_def
    by (auto simp: Let_def same_order_def
        intro!: wpr_note_event command_rows.step_put_at [of _ c] command_rows.step_refl command_move.withdraw)
qed

lemma wpr_keyed_row:
  assumes "\<And>r. r \<in> set (table w) \<Longrightarrow> Q (Some r) w" and "Q None w"
  shows "wpr (find_key table owner key o' k) Q w"
  using assms by (auto simp: find_key_def intro!: wpr_query_one split: option.splits)

lemma steps_issue_command:
  assumes u: "unique_on cm_id (agent_commands w)"
  shows "wpr (issue_command cfg owner data) (\<lambda>_. steps_commands w) w"
  unfolding issue_command_def
proof (rule wpr_atomically, unfold wp_bind collab_room_def collab_agent_def require_agent_in_room_def,
    intro wpr_lift wpr_fetch wpr_guard wpr_keyed_row, goal_cases)
  case (1 room_id issuer_id target_id r issuer target key c)
  then show ?case by (simp add: command_rows.step_refl u)
next
  case (2 room_id issuer_id target_id r issuer target key)
  show ?case
    unfolding option.case Let_def wp_bind wp_gets
  proof (intro wpr_lift wpr_new_id wpr_on_conflict, goal_cases)
    case (1 payload constraints x i instruction correlation causation)
    then show ?case
      unfolding add_command_def wp_bind
      by (intro wpr_insert_row wpr_note_event)
         (auto simp: list_ex_iff fresh_command_def intro!: command_rows.step_add u)
  next
    case (2 payload constraints x i instruction correlation causation)
    then show ?case
      unfolding wp_bind by (intro wpr_keyed_row) (simp_all add: command_rows.step_refl u)
  qed
qed

lemma rolls_back_commands:
  "rolls_back (issue_command cfg owner ic)" "rolls_back (ack_command cfg owner i c)"
  "rolls_back (accept_command cfg owner i c)" "rolls_back (reject_command cfg owner i c error)"
  "rolls_back (complete_command cfg owner i c status result error)" "rolls_back (cancel_command cfg owner i c)"
  by (simp_all only: issue_command_def ack_command_def accept_command_def reject_command_def complete_command_def
      cancel_command_def rolls_back_atomically)

lemma rolls_back_list_commands: "rolls_back (list_commands owner i status limit)"
  using fetch_rolls_back by (fastforce simp: rolls_back_def list_commands_def collab_agent_def bindS_Inl)

lemma collab_commands_step:
  assumes u: "unique_on cm_id (agent_commands w)"
  shows "steps_commands w (collab_step cfg c w)"
  by (cases c)
     (simp_all add: command_rows.step_refl u commands_agents [THEN same_after] commands_messages [THEN same_after]
        commands_items [THEN same_after] wpr_rolls_back [where R = steps_commands] rolls_back_commands
        rolls_back_list_commands steps_issue_command steps_list_commands steps_ack_command steps_accept_command
        steps_reject_command steps_complete_command steps_cancel_command)

end
