(* ===== verification/Recovery_Cycle.thy ===== *)
theory Recovery_Cycle
  imports Autonomy_Recovery Collaboration_Commands Autonomy_Control
begin

text \<open>
  The life of a recovery loop: the moves it can make, that every call of the recovery component
  makes only those, and what a cycle achieves.
\<close>

section \<open>The moves of a loop\<close>

definition same_plan :: "RecoveryLoop \<Rightarrow> RecoveryLoop \<Rightarrow> bool" where
  "same_plan l l' \<longleftrightarrow> rl_id l' = rl_id l \<and> rl_owner_subject l' = rl_owner_subject l \<and> rl_room_id l' = rl_room_id l \<and>
     rl_policy_id l' = rl_policy_id l \<and> rl_source_type l' = rl_source_type l \<and> rl_source_id l' = rl_source_id l \<and>
     rl_target_agent_id l' = rl_target_agent_id l \<and> rl_strategy l' = rl_strategy l \<and>
     rl_max_attempts l' = rl_max_attempts l \<and> rl_base_backoff_seconds l' = rl_base_backoff_seconds l \<and>
     rl_policy_generation l' = rl_policy_generation l \<and> rl_created_at l' = rl_created_at l"

text \<open>The moves at a time, with the policies that bound the delay of a retry.\<close>

inductive loop_move :: "int \<Rightarrow> AutonomyPolicy list \<Rightarrow> RecoveryLoop \<Rightarrow> RecoveryLoop \<Rightarrow> bool" for now policies where
  stay: "loop_move now policies l l"
| attempt: "rl_status l = ''planned'' \<Longrightarrow> rl_next_attempt_at l \<le> now \<Longrightarrow> rl_attempt_count l < rl_max_attempts l \<Longrightarrow>
    rl_status l' = ''waiting'' \<Longrightarrow> rl_attempt_count l' = rl_attempt_count l + 1 \<Longrightarrow> rl_last_command_id l' \<noteq> None \<Longrightarrow>
    same_plan l l' \<Longrightarrow> loop_move now policies l l'"
| retry: "rl_status l \<in> {''waiting'', ''running'', ''paused''} \<Longrightarrow> rl_attempt_count l < rl_max_attempts l \<Longrightarrow>
    p \<in> set policies \<Longrightarrow> po_id p = rl_policy_id l \<Longrightarrow> rl_status l' = ''planned'' \<Longrightarrow>
    rl_attempt_count l' = rl_attempt_count l \<Longrightarrow>
    rl_next_attempt_at l' = now + seconds (retry_delay (po_recovery_policy p) l) \<Longrightarrow> same_plan l l' \<Longrightarrow>
    loop_move now policies l l'"
| exhaust: "rl_status l \<notin> set RECOVERY_TERMINAL \<Longrightarrow> rl_max_attempts l \<le> rl_attempt_count l \<Longrightarrow>
    rl_status l' = ''exhausted'' \<Longrightarrow> rl_attempt_count l' = rl_attempt_count l \<Longrightarrow> same_plan l l' \<Longrightarrow>
    loop_move now policies l l'"
| stop: "rl_status l \<notin> set RECOVERY_TERMINAL \<Longrightarrow> rl_status l' \<in> {''paused'', ''succeeded'', ''cancelled''} \<Longrightarrow>
    rl_attempt_count l' = rl_attempt_count l \<Longrightarrow> same_plan l l' \<Longrightarrow> loop_move now policies l l'"

inductive_cases loop_moveE: "loop_move now policies l l'"

definition fresh_loop :: "RecoveryLoop \<Rightarrow> bool" where
  "fresh_loop l \<longleftrightarrow> rl_status l = ''planned'' \<and> rl_attempt_count l = 0 \<and> 1 \<le> rl_max_attempts l \<and>
     rl_last_command_id l = None"

lemma loop_move_plan: "loop_move now policies l l' \<Longrightarrow> same_plan l l'"
  by (auto elim: loop_moveE simp: same_plan_def)

lemma loop_move_terminal:
  "loop_move now policies l l' \<Longrightarrow> rl_status l \<in> set RECOVERY_TERMINAL \<Longrightarrow> l' = l"
  by (erule loop_moveE) (auto simp: RECOVERY_TERMINAL_def)

lemma loop_move_attempts:
  "loop_move now policies l l' \<Longrightarrow> rl_attempt_count l \<le> rl_max_attempts l \<Longrightarrow>
     rl_attempt_count l \<le> rl_attempt_count l' \<and> rl_attempt_count l' \<le> rl_max_attempts l'"
  by (erule loop_moveE) (auto simp: same_plan_def)

interpretation loop_rows: row_moves rl_id "loop_move now policies" fresh_loop for now policies
  using loop_move_plan by unfold_locales (auto simp: same_plan_def intro: loop_move.stay)

abbreviation steps_loops :: "gdb \<Rightarrow> gdb \<Rightarrow> bool" where
  "steps_loops w w' \<equiv>
     rows_step rl_id (loop_move (clock w) (autonomy_policies w)) fresh_loop (recovery_loops w) (recovery_loops w')"

section \<open>Creating and ending loops\<close>

lemma bounded_int_low: "bounded_int v f lo hi d = Inr i \<Longrightarrow> lo \<le> i"
  using bounded_int_Inr by blast

lemma wpr_recovery_source: "Q () w \<Longrightarrow> wpr (recovery_source owner room_id ty i) Q w"
  unfolding recovery_source_def get_command_def get_work_item_def by (auto intro!: wpr_fetch)

lemma steps_create_recovery_loop:
  assumes u: "unique_on rl_id (recovery_loops w)"
  shows "wpr (create_recovery_loop cfg owner actor data) (\<lambda>_. steps_loops w) w"
  unfolding create_recovery_loop_def
proof (rule wpr_atomically, unfold wp_bind get_policy_def get_agent_def,
    intro wpr_lift wpr_fetch wpr_guard wpr_assert_enabled wpr_recovery_source wpr_keyed_row, goal_cases)
  case 1
  then show ?case by (simp add: loop_rows.step_refl u)
next
  case (2 policy_id p room_id x target_id target source_id strategy payload v key)
  show ?case
    unfolding option.case Let_def wp_bind wp_gets
  proof (intro wpr_lift wpr_new_id wpr_on_conflict, goal_cases)
    case (1 max_attempts base i)
    then show ?case
      unfolding add_recovery_def wp_bind
      by (intro wpr_insert_row wpr_note_event)
         (auto simp: list_ex_iff fresh_loop_def dest: bounded_int_low intro!: loop_rows.step_add u)
  next
    case (2 max_attempts base i)
    then show ?case
      unfolding wp_bind by (intro wpr_keyed_row) (simp_all add: loop_rows.step_refl u)
  qed
qed

lemma wpr_outcome_loop:
  assumes active: "rl_status l \<in> {''waiting'', ''running'', ''paused''}"
    and Q: "\<And>l'. (\<And>g t. loop_move (clock w) (autonomy_policies w) l (l'\<lparr>rl_generation := g, rl_updated_at := t\<rparr>)) \<Longrightarrow> Q l' w"
  shows "wpr (outcome_loop owner status error l) Q w"
proof -
  have nonterm: "rl_status l \<notin> set RECOVERY_TERMINAL" using active by (auto simp: RECOVERY_TERMINAL_def)
  show ?thesis
    unfolding outcome_loop_def wp_bind wp_gets
  proof (split if_split, intro conjI impI, goal_cases)
    case 1
    show ?case unfolding wp_ret by (rule Q, rule loop_move.stop [OF nonterm]) (auto simp: same_plan_def)
  next
    case 2
    show ?case
    proof (split if_split, intro conjI impI, goal_cases)
      case 1
      show ?case
        unfolding wp_bind
        by (intro wpr_lift, unfold wp_ret, rule Q, rule loop_move.stop [OF nonterm]) (auto simp: same_plan_def)
    next
      case 2
      show ?case
      proof (split if_split, intro conjI impI, goal_cases)
        case 1
        show ?case
          unfolding wp_bind
        proof (intro wpr_lift, split if_split, intro conjI impI, goal_cases)
          case (1 e)
          then show ?case
            unfolding wp_ret by (intro Q loop_move.exhaust [OF nonterm]) (auto simp: same_plan_def)
        next
          case (2 e)
          show ?case
            unfolding wp_bind get_policy_def
          proof (intro wpr_fetch, unfold wp_ret, rule Q, goal_cases)
            case (1 p)
            then show ?case
              by (intro loop_move.retry [OF active, of p]) (use 2 in \<open>auto simp: same_plan_def\<close>)
          qed
        qed
      qed simp
    qed
  qed
qed

lemma steps_record_recovery_outcome:
  assumes u: "unique_on rl_id (recovery_loops w)"
  shows "wpr (record_recovery_outcome cfg owner i status command_id error) (\<lambda>_. steps_loops w) w"
  unfolding record_recovery_outcome_def get_recovery_def
proof (rule wpr_atomically, unfold wp_bind, intro wpr_fetch, goal_cases)
  case (1 l)
  show ?case
  proof (cases "rl_status l \<in> set RECOVERY_TERMINAL")
    case False
    show ?thesis
      unfolding if_not_P [OF False] put_loop_def Let_def wp_bind wp_gets wp_modify wp_ret
    proof (intro wpr_guard, rule wpr_outcome_loop, assumption, intro wpr_note_event, goal_cases)
      case (1 l' a b n)
      from loop_rows.step_put [OF u \<open>l \<in> set (recovery_loops w)\<close> 1(3)] show ?case by simp
    qed
  qed (simp add: loop_rows.step_refl u)
qed

section \<open>A cycle\<close>

interpretation loops: untouched recovery_loops
  by unfold_locales simp

lemma loops_issue_command: "keeps (same recovery_loops) (issue_command cfg owner data)"
  unfolding issue_command_def lookup_defs write_defs
  by (intro loops.keeps_store sameI; simp)+

lemma loops_note_event: "keeps (same recovery_loops) (note_event cfg owner ty act rt ri pl st)"
  unfolding note_event_def by (rule loops.keeps_emit_event)

text \<open>What a cycle does to the loops it considers, and that it leaves the others alone.\<close>

definition cycle_moves :: "int \<Rightarrow> RecoveryLoop list \<Rightarrow> RecoveryLoop list \<Rightarrow> (RecoveryLoop \<Rightarrow> RecoveryLoop) \<Rightarrow> bool" where
  "cycle_moves now ls rows f \<longleftrightarrow> (\<forall>l \<in> set rows. if l \<in> set ls then loop_move now [] l (f l) else f l = l)"

definition cycle_advances :: "RecoveryLoop list \<Rightarrow> (RecoveryLoop \<Rightarrow> RecoveryLoop) \<Rightarrow> bool" where
  "cycle_advances ls f \<longleftrightarrow> (\<forall>l \<in> set ls. rl_status (f l) \<in> {''waiting'', ''paused'', ''exhausted''})"

lemma cycle_cons:
  assumes u: "unique_on rl_id rows" and l: "l \<in> set rows" "l \<notin> set ls" "set ls \<subseteq> set rows"
    and planned: "\<forall>q \<in> set ls. rl_status q = ''planned''"
    and l1: "loop_move now [] l l1" "rl_status l1 \<in> {''waiting'', ''paused'', ''exhausted''}"
    and f1: "cycle_moves now ls (update_where (\<lambda>q. rl_id q = rl_id l1) (\<lambda>_. l1) rows) f1"
  shows "\<exists>f. map f1 (update_where (\<lambda>q. rl_id q = rl_id l1) (\<lambda>_. l1) rows) = map f rows \<and>
    cycle_moves now (l # ls) rows f \<and> (cycle_advances ls f1 \<longrightarrow> cycle_advances (l # ls) f)"
proof -
  have id: "rl_id l1 = rl_id l" using loop_move_plan [OF l1(1)] by (simp add: same_plan_def)
  have only: "q = l" if "q \<in> set rows" "rl_id q = rl_id l" for q using unique_on_eqD [OF u that(1) l(1) that(2)] .
  let ?f = "\<lambda>q. if rl_id q = rl_id l1 then f1 l1 else f1 q"
  have mem: "q \<in> set (update_where (\<lambda>q. rl_id q = rl_id l1) (\<lambda>_. l1) rows)" if "q \<in> set rows" "rl_id q \<noteq> rl_id l" for q
    using that id by (auto simp: set_update_where)
  have "l1 \<in> set (update_where (\<lambda>q. rl_id q = rl_id l1) (\<lambda>_. l1) rows)" using l(1) id by (force simp: set_update_where)
  moreover have "l1 \<notin> set ls" using planned l1(2) by auto
  ultimately have fl1: "f1 l1 = l1" using f1 by (auto simp: cycle_moves_def)
  have ids: "rl_id q \<noteq> rl_id l" if "q \<in> set ls" for q using only that l by blast
  have "cycle_moves now (l # ls) rows ?f"
    unfolding cycle_moves_def
  proof
    fix q
    assume q: "q \<in> set rows"
    show "if q \<in> set (l # ls) then loop_move now [] q (?f q) else ?f q = q"
      using f1 mem [OF q] only [OF q] l1(1) fl1 id q by (auto simp: cycle_moves_def)
  qed
  moreover have "cycle_advances (l # ls) ?f" if "cycle_advances ls f1"
    using that ids l1(2) fl1 id by (auto simp: cycle_advances_def)
  moreover have "map f1 (update_where (\<lambda>q. rl_id q = rl_id l1) (\<lambda>_. l1) rows) = map ?f rows"
    by (auto simp: update_where_def)
  ultimately show ?thesis by blast
qed

lemma wp_recover_loops:
  assumes "unique_on rl_id (recovery_loops w)" and "set ls \<subseteq> set (recovery_loops w)" and "distinct ls"
    and "\<forall>l \<in> set ls. rl_status l = ''planned'' \<and> rl_next_attempt_at l \<le> now"
    and "\<And>w' f r. recovery_loops w' = map f (recovery_loops w) \<Longrightarrow> cycle_moves now ls (recovery_loops w) f \<Longrightarrow>
      cycle_advances ls f \<Longrightarrow> Q r w'"
    and "\<And>w' f e. recovery_loops w' = map f (recovery_loops w) \<Longrightarrow> cycle_moves now ls (recovery_loops w) f \<Longrightarrow> E e w'"
  shows "wp (recover_loops cfg owner actor p c now ls r) Q E w"
  using assms
proof (induction ls arbitrary: w r)
  case Nil
  show ?case
    using Nil.prems(5) [of w "\<lambda>l. l" r] by (simp add: cycle_moves_def cycle_advances_def)
next
  case (Cons l ls)
  note u = Cons.prems(1)
  have l: "l \<in> set (recovery_loops w)" "l \<notin> set ls" "set ls \<subseteq> set (recovery_loops w)"
    "rl_status l = ''planned''" "rl_next_attempt_at l \<le> now" "\<forall>q \<in> set ls. rl_status q = ''planned''"
    using Cons.prems by auto
  have nonterm: "rl_status l \<notin> set RECOVERY_TERMINAL" using l by (simp add: RECOVERY_TERMINAL_def)
  have "next": "wp (recover_loops cfg owner actor p c now ls r') Q E w1"
    if l1: "loop_move now [] l l1" "rl_status l1 \<in> {''waiting'', ''paused'', ''exhausted''}"
      and w1: "recovery_loops w1 = update_where (\<lambda>q. rl_id q = rl_id l1) (\<lambda>_. l1) (recovery_loops w)" for l1 w1 r'
  proof (rule Cons.IH)
    have id: "rl_id l1 = rl_id l" using loop_move_plan [OF l1(1)] by (simp add: same_plan_def)
    show "unique_on rl_id (recovery_loops w1)"
      unfolding w1 using u by (rule unique_on_update_where) (simp add: id)
    show "set ls \<subseteq> set (recovery_loops w1)"
      unfolding w1 using l unique_on_eqD [OF u _ l(1)] id by (fastforce simp: set_update_where)
    show "distinct ls" "\<forall>q \<in> set ls. rl_status q = ''planned'' \<and> rl_next_attempt_at q \<le> now" using Cons.prems by auto
    note combine = cycle_cons [OF u l(1-3) l(6) l1]
    show "Q r'' w'" if "recovery_loops w' = map f (recovery_loops w1)" "cycle_moves now ls (recovery_loops w1) f"
        "cycle_advances ls f" for w' f r''
      using that combine [of f] Cons.prems(5) unfolding w1 by metis
    show "E e w'" if "recovery_loops w' = map f (recovery_loops w1)" "cycle_moves now ls (recovery_loops w1) f" for w' f e
      using that combine [of f] Cons.prems(6) unfolding w1 by metis
  qed
  have stays: "E e w'" if "recovery_loops w' = recovery_loops w" for e w'
    using Cons.prems(6) [of w' "\<lambda>l. l"] that by (simp add: cycle_moves_def loop_move.stay)
  show ?case
  proof (cases "rl_policy_generation l \<noteq> po_generation p")
    case True
    have "loop_move now [] l (l\<lparr>rl_status := ''paused'', rl_last_error := Some ''policy generation changed'',
        rl_generation := rl_generation l + 1, rl_updated_at := now\<rparr>)"
      by (rule loop_move.stop [OF nonterm]) (auto simp: same_plan_def)
    from "next" [OF this] True show ?thesis by (simp add: put_loop_def)
  next
    case gen: False
    show ?thesis
    proof (cases "rl_attempt_count l \<ge> rl_max_attempts l")
      case True
      have "loop_move now [] l (l\<lparr>rl_status := ''exhausted'', rl_completed_at := Some now, rl_updated_at := now\<rparr>)"
        by (rule loop_move.exhaust [OF nonterm True]) (auto simp: same_plan_def)
      from "next" [OF this] gen True show ?thesis by (simp add: put_loop_def)
    next
      case False
      let ?l = "\<lambda>c. l\<lparr>rl_attempt_count := rl_attempt_count l + 1, rl_last_command_id := Some (cm_id c),
        rl_status := ''waiting'', rl_updated_at := now\<rparr>"
      have move: "loop_move now [] l (?l c)" for c
        by (rule loop_move.attempt) (use l False in \<open>auto simp: same_plan_def\<close>)
      show ?thesis
        unfolding recover_loops.simps if_not_P [OF gen] if_not_P [OF False] Let_def wp_bind
      proof (intro wp_liftI wp_keeps [OF loops_issue_command], goal_cases)
        case (1 data cmd w1)
        then have w1: "recovery_loops w1 = recovery_loops w" by (simp add: same_def)
        show ?case
        proof (rule wp_atomically, unfold put_loop_def wp_bind wp_modify,
            rule wp_keeps [OF loops_note_event], goal_cases)
          case (1 x w2)
          then show ?case by (intro "next" [OF move]) (simp_all add: same_def w1)
        next
          case (2 e w2)
          show ?case by (simp add: stays w1)
        qed
      qed (auto simp: same_def stays)
    qed
  qed
qed

lemma due_loopsD:
  assumes "unique_on rl_id (recovery_loops w)"
  shows "set (due_loops owner i limit w) \<subseteq> set (recovery_loops w)" "distinct (due_loops owner i limit w)"
    "\<forall>l \<in> set (due_loops owner i limit w). rl_status l = ''planned'' \<and> rl_next_attempt_at l \<le> clock w"
proof -
  have "distinct (recovery_loops w)" using assms by (simp add: unique_on_def distinct_map)
  then show "distinct (due_loops owner i limit w)" by (simp add: due_loops_def)
qed (auto simp: due_loops_def is_due_def dest!: in_set_takeD)

lemma wp_assert_enabled: "(\<And>v. Q v w) \<Longrightarrow> (\<And>e. E e w) \<Longrightarrow> wp (assert_enabled cfg owner room_id p) Q E w"
  using control_snapshot_state [of cfg owner "Some room_id" "Some (po_id p)" w]
  by (auto simp: assert_enabled_def wp_def bindS_def guardS_def ret_def raise_def split: prod.splits sum.splits)

lemma wp_run_recovery_cycle:
  assumes u: "unique_on rl_id (recovery_loops w)"
    and idle: "Q \<lparr>cy_considered = 0, cy_issued = 0, cy_paused = 0\<rparr> w"
    and cycle: "\<And>p f r w'. p \<in> set (autonomy_policies w) \<Longrightarrow> po_id p = i \<Longrightarrow>
      recovery_loops w' = map f (recovery_loops w) \<Longrightarrow>
      cycle_moves (clock w) (due_loops owner i limit w) (recovery_loops w) f \<Longrightarrow>
      cycle_advances (due_loops owner i limit w) f \<Longrightarrow> Q r w'"
    and fail: "\<And>f e w'. recovery_loops w' = map f (recovery_loops w) \<Longrightarrow>
      cycle_moves (clock w) (due_loops owner i limit w) (recovery_loops w) f \<Longrightarrow> E e w'"
  shows "wp (run_recovery_cycle cfg owner i actor limit) Q E w"
proof -
  have E: "E e w" for e using fail [of w "\<lambda>l. l"] by (simp add: cycle_moves_def loop_move.stay)
  show ?thesis
    unfolding run_recovery_cycle_def get_policy_def get_agent_def wp_bind
  proof (intro wp_fetch wp_assert_enabled E, goal_cases)
    case (1 p v)
    then have p: "p \<in> set (autonomy_policies w)" "po_id p = i" by auto
    note cycle' = cycle [OF p]
    have "wp (recover_loops cfg owner actor p c (clock w) (due_loops owner (po_id p) limit w) r) Q E w" for c r
      unfolding p(2) by (rule wp_recover_loops [OF u due_loopsD [OF u]]) (auto intro: cycle' fail)
    then show ?case
      by (auto simp: idle E intro!: wp_fetch split: option.splits list.splits)
  qed
qed

lemma loop_move_mono: "loop_move now [] l l' \<Longrightarrow> loop_move now policies l l'"
  by (erule loop_moveE) (auto intro: loop_move.intros)

lemma steps_cycle:
  assumes "unique_on rl_id (recovery_loops w)" and "recovery_loops w' = map f (recovery_loops w)"
    and "cycle_moves (clock w) ls (recovery_loops w) f"
  shows "steps_loops w w'"
  unfolding assms(2)
proof (rule loop_rows.step_map [OF assms(1)])
  fix l
  assume "l \<in> set (recovery_loops w)"
  then show "loop_move (clock w) (autonomy_policies w) l (f l)"
    using assms(3) loop_move_mono [of "clock w" l "f l"]
    by (cases "l \<in> set ls") (auto simp: cycle_moves_def intro: loop_move.stay)
qed

lemma steps_run_recovery_cycle:
  assumes u: "unique_on rl_id (recovery_loops w)"
  shows "wp (run_recovery_cycle cfg owner i actor limit) (\<lambda>_. steps_loops w) (\<lambda>_. steps_loops w) w"
proof (rule wp_run_recovery_cycle [OF u], goal_cases)
  case (2 p f r w')
  show ?case by (rule steps_cycle [OF u 2(3,4)])
next
  case (3 f e w')
  show ?case by (rule steps_cycle [OF u 3])
qed (rule loop_rows.step_refl [OF u])

lemma steps_pause_or_cancel:
  assumes u: "unique_on rl_id (recovery_loops w)"
  shows "steps_loops w (snd (pause_or_cancel_recoveries owner st room_id policy_id w))"
  by (auto simp: pause_or_cancel_recoveries_def restrictable_def same_plan_def Let_def
      intro!: loop_rows.step_update [OF u] loop_move.stop)

section \<open>The system\<close>

datatype recovery_call =
    CreateRecovery string string RecoveryLoopCreate
  | RunCycle string string string int
  | RecordOutcome string string string "string option" "string option"
  | Restrict string string "string option" "string option"

fun recovery_step :: "gw_settings \<Rightarrow> recovery_call \<Rightarrow> gdb \<Rightarrow> gdb" where
  "recovery_step cfg (CreateRecovery owner actor data) w = snd (create_recovery_loop cfg owner actor data w)"
| "recovery_step cfg (RunCycle owner policy_id actor limit) w = snd (run_recovery_cycle cfg owner policy_id actor limit w)"
| "recovery_step cfg (RecordOutcome owner i status command_id error) w =
     snd (record_recovery_outcome cfg owner i status command_id error w)"
| "recovery_step cfg (Restrict owner state room_id policy_id) w =
     snd (pause_or_cancel_recoveries owner state room_id policy_id w)"

lemma recovery_steps_loops:
  assumes u: "unique_on rl_id (recovery_loops w)"
  shows "steps_loops w (recovery_step cfg c w)"
proof (cases c)
  case (RunCycle owner i actor limit)
  show ?thesis
    using steps_run_recovery_cycle [OF u, of cfg owner i actor limit] RunCycle
    by (auto simp: wp_def split: prod.splits sum.splits)
next
  case (CreateRecovery owner actor data)
  have "rolls_back (create_recovery_loop cfg owner actor data)"
    unfolding create_recovery_loop_def by (rule rolls_back_atomically)
  from wpr_rolls_back [where R = steps_loops, OF this steps_create_recovery_loop [OF u] loop_rows.step_refl [OF u]]
  show ?thesis using CreateRecovery by simp
next
  case (RecordOutcome owner i status command_id error)
  have "rolls_back (record_recovery_outcome cfg owner i status command_id error)"
    unfolding record_recovery_outcome_def by (rule rolls_back_atomically)
  from wpr_rolls_back [where R = steps_loops, OF this steps_record_recovery_outcome [OF u] loop_rows.step_refl [OF u]]
  show ?thesis using RecordOutcome by simp
qed (simp add: steps_pause_or_cancel [OF u])

inductive recovery_reachable :: "gw_settings \<Rightarrow> gdb \<Rightarrow> bool" for cfg where
  start: "recovery_loops w = [] \<Longrightarrow> recovery_reachable cfg w"
| call: "recovery_reachable cfg w \<Longrightarrow> recovery_reachable cfg (recovery_step cfg c w)"
| other: "recovery_reachable cfg w \<Longrightarrow> recovery_loops w' = recovery_loops w \<Longrightarrow> recovery_reachable cfg w'"

definition recovery_inv :: "gdb \<Rightarrow> bool" where
  "recovery_inv w \<longleftrightarrow> unique_on rl_id (recovery_loops w) \<and>
     (\<forall>l \<in> set (recovery_loops w). 0 \<le> rl_attempt_count l \<and> rl_attempt_count l \<le> rl_max_attempts l)"

lemma recovery_inv_step:
  assumes inv: "recovery_inv w"
  shows "recovery_inv (recovery_step cfg c w)"
proof -
  have step: "steps_loops w (recovery_step cfg c w)"
    using inv by (intro recovery_steps_loops) (simp add: recovery_inv_def)
  have "0 \<le> rl_attempt_count l' \<and> rl_attempt_count l' \<le> rl_max_attempts l'"
    if "l' \<in> set (recovery_loops (recovery_step cfg c w))" for l'
    using loop_rows.step_origin [OF step that] inv loop_move_attempts
    by (fastforce simp: recovery_inv_def fresh_loop_def)
  then show ?thesis using step by (simp add: recovery_inv_def rows_step_def)
qed

lemma recovery_inv_reachable: "recovery_reachable cfg w \<Longrightarrow> recovery_inv w"
proof (induction rule: recovery_reachable.induct)
  case (start w)
  then show ?case by (simp add: recovery_inv_def)
next
  case (other w w')
  then show ?case by (simp add: recovery_inv_def)
qed (rule recovery_inv_step)

end
