(* ===== verification/Collaboration_Messages.thy ===== *)
theory Collaboration_Messages
  imports Collaboration_Commands
begin

text \<open>
  The messages of a room and their deliveries: which calls write them, what one send stores, and
  the invariant that numbers the messages of each room without gaps and keeps an acknowledged
  delivery acknowledged.
\<close>

section \<open>Calls that leave the messages alone\<close>

definition mailbox :: "gdb \<Rightarrow> AgentMessage list \<times> AgentMessageDelivery list" where
  "mailbox w = (agent_messages w, agent_message_deliveries w)"

interpretation mailbox: untouched mailbox
  by unfold_locales (simp add: mailbox_def)

lemma mailbox_agents:
  "keeps (same mailbox) (register_agent cfg owner rg)"
  "keeps (same mailbox) (list_agents owner room_id)"
  "keeps (same mailbox) (heartbeat_agent cfg owner i ht)"
  "keeps (same mailbox) (unregister_agent cfg owner i)"
  "keeps (same mailbox) (create_room cfg owner rm)"
  "keeps (same mailbox) (join_room cfg owner rid i)"
  unfolding register_agent_def list_agents_def heartbeat_agent_def unregister_agent_def create_room_def
    join_room_def lookup_defs write_defs
  by (intro mailbox.keeps_store sameI; simp add: mailbox_def)+

lemma mailbox_commands:
  "keeps (same mailbox) (issue_command cfg owner ic)"
  "keeps (same mailbox) (list_commands owner i status limit)"
  "keeps (same mailbox) (ack_command cfg owner i c)"
  "keeps (same mailbox) (accept_command cfg owner i c)"
  "keeps (same mailbox) (reject_command cfg owner i c error)"
  "keeps (same mailbox) (complete_command cfg owner i c st result error)"
  "keeps (same mailbox) (cancel_command cfg owner i c)"
  unfolding issue_command_def list_commands_def ack_command_def accept_command_def reject_command_def
    complete_command_def check_receipt_def cancel_command_def lookup_defs write_defs
  by (intro mailbox.keeps_store sameI; simp add: mailbox_def)+

lemma mailbox_items:
  "keeps (same mailbox) (create_work_item cfg owner wc)"
  "keeps (same mailbox) (list_work_items owner rid status limit)"
  "keeps (same mailbox) (claim_work_item cfg owner i item v)"
  "keeps (same mailbox) (update_work_item cfg owner i item v wu)"
  unfolding create_work_item_def list_work_items_def claim_work_item_def update_work_item_def lookup_defs write_defs
  by (intro mailbox.keeps_store sameI; simp add: mailbox_def)+

section \<open>What one send stores\<close>

definition room_log :: "string \<Rightarrow> string \<Rightarrow> AgentMessage list \<Rightarrow> AgentMessage list" where
  "room_log owner room_id ms = filter (\<lambda>m. am_owner_subject m = owner \<and> am_room_id m = room_id) ms"

text \<open>The deliveries one message adds: pending, one per recipient, with new keys.\<close>

definition pending_for :: "string \<Rightarrow> string \<Rightarrow> string list \<Rightarrow> AgentMessageDelivery list \<Rightarrow> bool" where
  "pending_for owner m recipients ds \<longleftrightarrow> map md_recipient_agent_id ds = recipients \<and>
     (\<forall>d \<in> set ds. md_owner_subject d = owner \<and> md_message_id d = m \<and> md_status d = ''pending'' \<and> md_attempt_count d = 0)"

definition deliveries_ok :: "AgentMessageDelivery list \<Rightarrow> bool" where
  "deliveries_ok ds \<longleftrightarrow> unique_on md_id ds \<and> unique_on (\<lambda>d. (md_message_id d, md_recipient_agent_id d)) ds"

lemma wpr_add_deliveries:
  assumes "\<And>ds n. pending_for owner m (map ag_id as) ds \<Longrightarrow>
      deliveries_ok (agent_message_deliveries w) \<longrightarrow> deliveries_ok (agent_message_deliveries w @ ds) \<Longrightarrow>
      Q () (w\<lparr>agent_message_deliveries := agent_message_deliveries w @ ds, id_pos := n\<rparr>)"
  shows "wpr (add_deliveries owner m now as) Q w"
  using assms
proof (induction as arbitrary: w)
  case Nil
  show ?case
    using Nil [of "[]" "id_pos w"] by (simp add: pending_for_def)
next
  case (Cons a as)
  show ?case
    unfolding add_deliveries.simps wp_bind add_delivery_def
  proof (intro wpr_new_id wpr_insert_row Cons.IH, goal_cases)
    case (1 i ds n)
    let ?d = "\<lparr>md_id = i, md_owner_subject = owner, md_message_id = m, md_recipient_agent_id = ag_id a,
      md_status = ''pending'', md_attempt_count = 0, md_delivered_at = None, md_acknowledged_at = None,
      md_visibility_deadline = None, md_created_at = now, md_updated_at = now\<rparr>"
    have "deliveries_ok (agent_message_deliveries w) \<longrightarrow> deliveries_ok (agent_message_deliveries w @ [?d])"
      using 1(1) by (auto simp: list_ex_iff deliveries_ok_def)
    then show ?case
      using Cons.prems [of "?d # ds" n] 1(2,3) by (auto simp: pending_for_def)
  qed
qed

text \<open>The message a successful send stores.\<close>

definition stored_message :: "gdb \<Rightarrow> string \<Rightarrow> string \<Rightarrow> string option \<Rightarrow> AgentMessage \<Rightarrow> bool" where
  "stored_message w owner room_id key m \<longleftrightarrow> am_owner_subject m = owner \<and> am_room_id m = room_id \<and>
     am_idempotency_key m = key \<and> am_expires_at m = None \<and> am_created_at m = clock w \<and>
     am_sequence_number m = next_sequence owner room_id (agent_messages w) \<and>
     (\<forall>n \<in> set (agent_messages w). am_id n \<noteq> am_id m)"

lemma wpr_store_message:
  assumes again: "\<And>m n w'. m \<in> set (agent_messages w) \<Longrightarrow> am_owner_subject m = owner \<Longrightarrow>
      key = am_idempotency_key m \<Longrightarrow> key \<noteq> None \<Longrightarrow> mailbox w' = mailbox w \<Longrightarrow> Q (m, n) w'"
    and send: "\<And>m ds (as :: AgentInstance list) w'. stored_message w owner room_id key m \<Longrightarrow> am_recipient_agent_id m = recipient \<Longrightarrow>
      pending_for owner (am_id m) (map ag_id as) ds \<Longrightarrow>
      (\<forall>i. recipient = Some i \<longrightarrow> map ag_id as = [i]) \<Longrightarrow> as \<noteq> [] \<Longrightarrow>
      deliveries_ok (agent_message_deliveries w) \<longrightarrow> deliveries_ok (agent_message_deliveries w @ ds) \<Longrightarrow>
      agent_messages w' = agent_messages w @ [m] \<Longrightarrow>
      agent_message_deliveries w' = agent_message_deliveries w @ ds \<Longrightarrow> Q (m, length as) w'"
  shows "wpr (store_message cfg owner data room_id sender key kind recipient selector) Q w"
proof -
  have recipients: "wpr (message_recipients owner room_id sender recipient selector) P w"
    if "\<And>as. (\<forall>i. recipient = Some i \<longrightarrow> map ag_id as = [i]) \<Longrightarrow> as \<noteq> [] \<Longrightarrow> P as w" for P
    unfolding message_recipients_def collab_agent_def require_agent_in_room_def
    by (cases recipient) (auto simp: Let_def that intro!: wpr_fetch)
  show ?thesis
    unfolding store_message_def
  proof (rule wpr_atomically, unfold wp_bind wp_gets Let_def, rule recipients, intro wpr_new_id wpr_lift
      wpr_on_conflict, goal_cases)
    case (1 as i body payload correlation causation)
    show ?case
      unfolding wp_bind add_message_def
    proof (intro wpr_insert_row wpr_add_deliveries wpr_note_event, unfold wp_ret, goal_cases)
      case (1 ds n a b n')
      then show ?case
        using \<open>\<forall>i. recipient = Some i \<longrightarrow> map ag_id as = [i]\<close> \<open>as \<noteq> []\<close>
        by (intro send [of _ as ds]) (auto simp: stored_message_def list_ex_iff)
    qed
  next
    case (2 as i body payload correlation causation)
    show ?case
      unfolding wp_bind
    proof (cases key)
      case (Some k)
      show "wpr (find_key agent_messages am_owner_subject am_idempotency_key owner key) (\<lambda>existing. wpr
          (case existing of None \<Rightarrow> raise (HTTPException 409 ''Message sequence or idempotency conflict'')
           | Some m \<Rightarrow> gets (\<lambda>w. (m, count_where (\<lambda>d. md_message_id d = am_id m) (agent_message_deliveries w)))) Q)
          (w\<lparr>id_pos := Suc (id_pos w)\<rparr>)"
        unfolding find_key_def Some
        by (simp, intro wpr_query_one) (auto simp: mailbox_def Some intro!: again)
    qed (simp add: find_key_def)
  qed
qed

lemma wpr_find_sent:
  assumes "\<And>m n. m \<in> set (agent_messages w) \<Longrightarrow> am_owner_subject m = owner \<Longrightarrow> key = am_idempotency_key m \<Longrightarrow>
      key \<noteq> None \<Longrightarrow> Q (Some (m, n)) w" and "Q None w"
  shows "wpr (find_sent owner key) Q w"
proof (cases key)
  case (Some k)
  then show ?thesis
    unfolding find_sent_def find_key_def wp_bind
    using assms by (simp, intro wpr_query_one) auto
qed (simp add: find_sent_def find_key_def assms)

lemma wpr_send_message:
  assumes again: "\<And>m n w'. m \<in> set (agent_messages w) \<Longrightarrow> am_owner_subject m = owner \<Longrightarrow>
      optional_text (mc_idempotency_key data) 160 = Inr (am_idempotency_key m) \<Longrightarrow> am_idempotency_key m \<noteq> None \<Longrightarrow>
      mailbox w' = mailbox w \<Longrightarrow> Q (m, n) w'"
    and send: "\<And>m ds key (as :: AgentInstance list) w'. stored_message w owner (strip (mc_room_id data)) key m \<Longrightarrow>
      optional_text (mc_idempotency_key data) 160 = Inr key \<Longrightarrow>
      optional_text (mc_recipient_agent_id data) 36 = Inr (am_recipient_agent_id m) \<Longrightarrow>
      pending_for owner (am_id m) (map ag_id as) ds \<Longrightarrow>
      (\<forall>i. am_recipient_agent_id m = Some i \<longrightarrow> map ag_id as = [i]) \<Longrightarrow> as \<noteq> [] \<Longrightarrow>
      deliveries_ok (agent_message_deliveries w) \<longrightarrow> deliveries_ok (agent_message_deliveries w @ ds) \<Longrightarrow>
      agent_messages w' = agent_messages w @ [m] \<Longrightarrow>
      agent_message_deliveries w' = agent_message_deliveries w @ ds \<Longrightarrow> Q (m, length as) w'"
  shows "wpr (send_message cfg owner data) Q w"
  unfolding send_message_def collab_room_def collab_agent_def require_agent_in_room_def wp_bind
proof (intro wpr_lift wpr_fetch wpr_guard, goal_cases)
  case (1 room_id sender_id r sender key)
  then have room: "room_id = strip (mc_room_id data)" by simp
  have store: "wpr (store_message cfg owner data room_id sender_id key kind recipient selector) Q w'"
    if w': "optional_text (mc_recipient_agent_id data) 36 = Inr recipient" "mailbox w' = mailbox w" "clock w' = clock w"
    for kind recipient selector w'
  proof (rule wpr_store_message, goal_cases)
    case (1 m n u)
    then show ?case using w' \<open>optional_text (mc_idempotency_key data) 160 = Inr key\<close>
      by (intro again [of m]) (auto simp: mailbox_def)
  next
    case (2 m ds as u)
    then show ?case using w' \<open>optional_text (mc_idempotency_key data) 160 = Inr key\<close>
      by (intro send [of key m as ds]) (auto simp: mailbox_def stored_message_def room)
  qed
  show ?case
  proof (rule wpr_find_sent, goal_cases)
    case (1 m n)
    then show ?case using \<open>optional_text (mc_idempotency_key data) 160 = Inr key\<close>
      by (auto intro!: again [of m])
  next
    case 2
    show ?case
      unfolding option.case Let_def wp_bind expire_stale_agents_def wp_modify
      by (intro wpr_guard wpr_lift store) (auto simp: mailbox_def)
  qed
qed

section \<open>The mailbox invariant\<close>

definition gapless :: "AgentMessage list \<Rightarrow> bool" where
  "gapless ms \<longleftrightarrow> (\<forall>owner room_id. map am_sequence_number (room_log owner room_id ms) =
     map int [1..<Suc (length (room_log owner room_id ms))])"

definition mail_ok :: "gdb \<Rightarrow> bool" where
  "mail_ok w \<longleftrightarrow> gapless (agent_messages w) \<and> unique_on am_id (agent_messages w) \<and>
     deliveries_ok (agent_message_deliveries w)"

lemma fold_max_upto: "fold max (map int [Suc 0..<Suc n]) 0 = int n"
  by (induction n) auto

lemma next_sequence_gapless:
  "gapless ms \<Longrightarrow> next_sequence owner room_id ms = int (Suc (length (room_log owner room_id ms)))"
  unfolding next_sequence_def gapless_def room_log_def by (simp add: fold_max_upto del: upt_Suc)

lemma gapless_snoc:
  assumes g: "gapless ms" and m: "am_sequence_number m = next_sequence (am_owner_subject m) (am_room_id m) ms"
  shows "gapless (ms @ [m])"
  unfolding gapless_def
proof (intro allI)
  fix owner room_id
  show "map am_sequence_number (room_log owner room_id (ms @ [m])) =
      map int [1..<Suc (length (room_log owner room_id (ms @ [m])))]"
    using g m next_sequence_gapless [OF g, of owner room_id] unfolding gapless_def by (auto simp: room_log_def)
qed

text \<open>A step over the mailbox: the log grows, and an acknowledged delivery is kept as it is.\<close>

definition mail_step :: "gdb \<Rightarrow> gdb \<Rightarrow> bool" where
  "mail_step w w' \<longleftrightarrow> mail_ok w \<longrightarrow> mail_ok w' \<and> (\<exists>new. agent_messages w' = agent_messages w @ new) \<and>
     (\<forall>d \<in> set (agent_message_deliveries w). md_status d = ''acknowledged'' \<longrightarrow> d \<in> set (agent_message_deliveries w'))"

lemma mail_step_same: "mailbox w' = mailbox w \<Longrightarrow> mail_step w w'"
  by (simp add: mail_step_def mail_ok_def mailbox_def)

lemma mail_step_trans: "mail_step u v \<Longrightarrow> mail_step v w \<Longrightarrow> mail_step u w"
  unfolding mail_step_def by (metis append_assoc)

interpretation mail: store_relation mail_step
  by unfold_locales (auto intro: mail_step_same mail_step_trans simp: only_events_def mailbox_def)

lemma mail_step_deliveries:
  assumes "agent_messages w' = agent_messages w"
    and "mail_ok w \<Longrightarrow> agent_message_deliveries w' = map f (agent_message_deliveries w)"
    and "\<And>d. mail_ok w \<Longrightarrow> d \<in> set (agent_message_deliveries w) \<Longrightarrow> md_id (f d) = md_id d \<and>
      md_message_id (f d) = md_message_id d \<and> md_recipient_agent_id (f d) = md_recipient_agent_id d \<and>
      (md_status d = ''acknowledged'' \<longrightarrow> f d = d)"
  shows "mail_step w w'"
  unfolding mail_step_def
proof
  assume ok: "mail_ok w"
  let ?ds = "agent_message_deliveries w"
  have ids: "map md_id (map f ?ds) = map md_id ?ds"
    "map (\<lambda>d. (md_message_id d, md_recipient_agent_id d)) (map f ?ds) =
       map (\<lambda>d. (md_message_id d, md_recipient_agent_id d)) ?ds"
    using assms(3) [OF ok] by auto
  have "deliveries_ok (map f ?ds)"
    using ok unfolding mail_ok_def deliveries_ok_def unique_on_def ids by blast
  moreover have "d \<in> set (map f ?ds)" if "d \<in> set ?ds" "md_status d = ''acknowledged''" for d
    using assms(3) [OF ok that(1)] that by (metis image_eqI list.set_map)
  ultimately show "mail_ok w' \<and> (\<exists>new. agent_messages w' = agent_messages w @ new) \<and>
      (\<forall>d \<in> set ?ds. md_status d = ''acknowledged'' \<longrightarrow> d \<in> set (agent_message_deliveries w'))"
    using ok assms(1) assms(2) [OF ok] by (simp add: mail_ok_def)
qed

lemma mail_store_message:
  "keeps mail_step (store_message cfg owner data room_id sender key kind recipient selector)"
proof (rule keeps_wpr)
  show "rolls_back (store_message cfg owner data room_id sender key kind recipient selector)"
    unfolding store_message_def by (rule rolls_back_atomically)
  fix w
  show "wpr (store_message cfg owner data room_id sender key kind recipient selector) (\<lambda>_. mail_step w) w"
  proof (rule wpr_store_message, goal_cases)
    case (2 m ds as w')
    then have "am_sequence_number m = next_sequence (am_owner_subject m) (am_room_id m) (agent_messages w)"
      by (simp add: stored_message_def)
    then show ?case
      using 2 gapless_snoc [of "agent_messages w" m]
      by (auto simp: mail_step_def mail_ok_def stored_message_def)
  qed (rule mail_step_same)
qed (rule mail.rel_refl)

lemma mail_send_message: "keeps mail_step (send_message cfg owner data)"
  unfolding send_message_def find_sent_def lookup_defs expire_stale_agents_def
  by (intro mail.keeps_store mail_store_message mail_step_same) (simp_all add: mailbox_def)

text \<open>The page of the inbox that a read returns, and what the read leaves behind.\<close>

definition inbox_page :: "string \<Rightarrow> string \<Rightarrow> int \<Rightarrow> AgentMessage option \<Rightarrow> gdb \<Rightarrow>
    (AgentMessage \<times> AgentMessageDelivery) list" where
  "inbox_page owner agent limit cursor w = take (bounded_limit limit)
     (sort_key (\<lambda>(m, d). (- am_priority m, am_created_at m, am_id m))
       (filter (\<lambda>md. inbox_row owner agent (clock w) md \<and> after_cursor cursor (fst md))
         (List.product (agent_messages w) (agent_message_deliveries w))))"

definition page_delivered :: "(AgentMessage \<times> AgentMessageDelivery) list \<Rightarrow> gdb \<Rightarrow> gdb" where
  "page_delivered rows w = w\<lparr>agent_message_deliveries := update_where (\<lambda>d. md_id d \<in> (\<lambda>(m, d). md_id d) ` set rows)
     (mark_delivered (clock w)) (agent_message_deliveries w)\<rparr>"

lemma wp_read_inbox:
  assumes "\<And>c. (cursor = None \<longrightarrow> c = None) \<Longrightarrow> Q (map (\<lambda>(m, d). (m, mark_delivered (clock w) d)) (inbox_page owner agent limit c w))
      (page_delivered (inbox_page owner agent limit c w) w)"
    and "\<And>e. E e w"
  shows "wp (read_inbox owner agent limit cursor) Q E w"
  unfolding read_inbox_def collab_agent_def wp_bind wp_gets wp_modify wp_ret inbox_page_def [symmetric]
    page_delivered_def [symmetric]
proof (rule wp_fetch, goal_cases)
  case (1 a)
  show ?case
    using assms [unfolded page_delivered_def]
    by (cases cursor) (auto intro!: wp_fetch split: list.splits)
qed (rule assms(2))

lemma inbox_pageD:
  assumes "(m, d) \<in> set (inbox_page owner agent limit c w)"
  shows "m \<in> set (agent_messages w)" "d \<in> set (agent_message_deliveries w)" "inbox_row owner agent (clock w) (m, d)"
  using assms by (auto simp: inbox_page_def dest!: in_set_takeD)

lemma mail_read_inbox: "keeps mail_step (read_inbox owner agent limit cursor)"
proof (rule keeps_wp, rule wp_read_inbox, goal_cases)
  case (1 w c)
  let ?rows = "inbox_page owner agent limit c w"
  show ?case
  proof (rule mail_step_deliveries [where f = "\<lambda>d. if md_id d \<in> (\<lambda>(m, d). md_id d) ` set ?rows
      then mark_delivered (clock w) d else d"], goal_cases)
    case (3 d)
    have "md_status d \<noteq> ''acknowledged''" if "md_id d \<in> (\<lambda>(m, d). md_id d) ` set ?rows"
    proof -
      from that obtain m e where x: "(m, e) \<in> set ?rows" "md_id e = md_id d" by (auto simp: case_prod_beta)
      then have "e = d"
        using 3 inbox_pageD(2) [OF x(1)] unique_on_eqD [of md_id "agent_message_deliveries w" e d]
        by (auto simp: mail_ok_def deliveries_ok_def)
      then show ?thesis using inbox_pageD(3) [OF x(1)] by (simp add: inbox_row_def)
    qed
    then show ?case by (auto simp: mark_delivered_def)
  qed (simp_all add: update_where_def page_delivered_def)
qed (rule mail.rel_refl)

lemma mail_ack_message: "keeps mail_step (ack_message cfg owner agent i)"
proof (rule keeps_wpr)
  show "rolls_back (ack_message cfg owner agent i)"
    unfolding ack_message_def by (rule rolls_back_atomically)
  fix w
  show "wpr (ack_message cfg owner agent i) (\<lambda>_. mail_step w) w"
    unfolding ack_message_def
  proof (rule wpr_atomically, unfold wp_bind collab_agent_def, intro wpr_fetch, goal_cases)
    case (1 a md)
    obtain m d where md: "md = (m, d)" by (cases md)
    with 1 have d: "d \<in> set (agent_message_deliveries w)" by auto
    let ?d = "d\<lparr>md_status := ''acknowledged'', md_acknowledged_at := Some (clock w), md_updated_at := clock w\<rparr>"
    show ?case
    proof (cases "md_status d = ''acknowledged''")
      case False
      have same: "e = d" if "mail_ok w" "e \<in> set (agent_message_deliveries w)" "md_id e = md_id d" for e
        using that d unique_on_eqD by (auto simp: mail_ok_def deliveries_ok_def)
      have "mail_step w (w\<lparr>agent_message_deliveries := update_where (\<lambda>e. md_id e = md_id d) (\<lambda>_. ?d)
          (agent_message_deliveries w), audit_events := a, outbox_events := b, id_pos := n\<rparr>)" for a b n
        by (rule mail_step_deliveries [where f = "\<lambda>e. if md_id e = md_id d then ?d else e"])
           (use same False in \<open>auto simp: update_where_def\<close>)
      then show ?thesis
        unfolding md prod.case if_not_P [OF False] wp_bind wp_gets Let_def put_delivery_def wp_modify wp_ret
        by (intro wpr_note_event) simp
    qed (simp add: md mail.rel_refl)
  qed
qed (rule mail.rel_refl)

lemma mail_after: "keeps (same mailbox) m \<Longrightarrow> mail_step w (snd (m w))"
  by (simp add: mail_step_same same_after)

lemma collab_mail_step: "mail_step w (collab_step cfg c w)"
  by (cases c)
     (simp_all add: mail_after mailbox_agents mailbox_commands mailbox_items
        mail_send_message [unfolded keeps_def] mail_read_inbox [unfolded keeps_def] mail_ack_message [unfolded keeps_def])

end
