(* ===== verification/Collaboration_Items.thy ===== *)
theory Collaboration_Items
  imports Collaboration_Messages
begin

text \<open>
  Work items: what a successful claim establishes, and why no second claim of the same version
  can succeed.
\<close>

definition claimed_item :: "string \<Rightarrow> int \<Rightarrow> AgentWorkItem \<Rightarrow> AgentWorkItem" where
  "claimed_item agent now i = i\<lparr>wi_status := ''in_progress'', wi_assigned_agent_id := Some agent,
     wi_version := wi_version i + 1, wi_updated_at := now\<rparr>"

definition dependencies_completed :: "AgentWorkItem list \<Rightarrow> AgentWorkItem \<Rightarrow> bool" where
  "dependencies_completed items i \<longleftrightarrow> (\<forall>dep \<in> set (wi_dependencies i). \<exists>j \<in> set items.
     wi_id j = dep \<and> wi_owner_subject j = wi_owner_subject i \<and> wi_room_id j = wi_room_id i \<and> wi_status j = ''completed'')"

text \<open>Counting the completed dependencies decides it, because identifiers are unique.\<close>

lemma card_sub_iff: "finite B \<Longrightarrow> A \<subseteq> B \<Longrightarrow> card A = card B \<longleftrightarrow> A = B"
  by (auto dest: card_subset_eq)

lemma dependencies_done_iff:
  assumes u: "unique_on wi_id (agent_work_items w)" and owner: "wi_owner_subject i = owner"
  shows "dependencies_done owner i w \<longleftrightarrow> dependencies_completed (agent_work_items w) i"
proof -
  let ?P = "\<lambda>j. wi_owner_subject j = owner \<and> wi_room_id j = wi_room_id i \<and> wi_id j \<in> set (wi_dependencies i) \<and>
    wi_status j = ''completed''"
  let ?S = "wi_id ` {j \<in> set (agent_work_items w). ?P j}"
  have "distinct (map wi_id (filter ?P (agent_work_items w)))"
    using u unfolding unique_on_def by (simp add: distinct_map_filter)
  then have "count_where ?P (agent_work_items w) = card ?S"
    using distinct_card [of "map wi_id (filter ?P (agent_work_items w))"] by (simp add: count_where_def)
  moreover have "length (remdups (wi_dependencies i)) = card (set (wi_dependencies i))"
    by (simp add: length_remdups_card_conv)
  moreover have "?S \<subseteq> set (wi_dependencies i)" by auto
  then have "card ?S = card (set (wi_dependencies i)) \<longleftrightarrow> ?S = set (wi_dependencies i)"
    by (rule card_sub_iff [OF List.finite_set])
  moreover have "?S = set (wi_dependencies i) \<longleftrightarrow> (\<forall>dep \<in> set (wi_dependencies i). dep \<in> ?S)"
    using \<open>?S \<subseteq> _\<close> by blast
  moreover have "(\<forall>dep \<in> set (wi_dependencies i). dep \<in> ?S) \<longleftrightarrow> dependencies_completed (agent_work_items w) i"
    unfolding dependencies_completed_def owner by (rule ball_cong [OF refl]) (auto simp: image_iff)
  moreover have "wi_dependencies i = [] \<Longrightarrow> dependencies_completed (agent_work_items w) i"
    by (simp add: dependencies_completed_def)
  ultimately show ?thesis unfolding dependencies_done_def by auto
qed

lemma wpr_update_one:
  "(count_where sel (agent_work_items w) = 1 \<Longrightarrow>
     Q () (w\<lparr>agent_work_items := update_where sel f (agent_work_items w)\<rparr>)) \<Longrightarrow> wpr (update_one sel f d) Q w"
  by (simp add: update_one_def)

lemma count_where_one: "count_where P rows = 1 \<Longrightarrow> \<exists>r \<in> set rows. P r"
  unfolding count_where_def by (metis One_nat_def filter_empty_conv length_0_conv zero_neq_one)

text \<open>A filter that selects one row of a table selects it by its key.\<close>

lemma update_where_unique:
  assumes u: "unique_on k rows" and r: "r \<in> set rows" "P r" and key: "\<And>q. P q \<Longrightarrow> k q = k r"
  shows "update_where P f rows = update_where (\<lambda>q. k q = k r) f rows"
  unfolding update_where_def
proof (rule map_cong [OF refl])
  fix q
  assume "q \<in> set rows"
  then have "P q \<longleftrightarrow> k q = k r" using unique_on_eqD [OF u _ r(1)] r(2) key by metis
  then show "(if P q then f q else q) = (if k q = k r then f q else q)" by simp
qed

lemma wpr_claim_work_item:
  assumes u: "unique_on wi_id (agent_work_items w)"
    and claim: "\<And>i w'. i \<in> set (agent_work_items w) \<Longrightarrow> wi_id i = item_id \<Longrightarrow> wi_owner_subject i = owner \<Longrightarrow>
      wi_status i = ''open'' \<Longrightarrow> wi_assigned_agent_id i = None \<Longrightarrow> wi_version i = v \<Longrightarrow>
      dependencies_completed (agent_work_items w) i \<Longrightarrow>
      agent_work_items w' = update_where (\<lambda>j. wi_id j = item_id) (claimed_item agent (clock w)) (agent_work_items w) \<Longrightarrow>
      Q (claimed_item agent (clock w) i) w'"
  shows "wpr (claim_work_item cfg owner agent item_id v) Q w"
  unfolding claim_work_item_def collab_agent_def collab_item_def require_agent_in_room_def
proof (rule wpr_atomically, unfold wp_bind wp_gets, intro wpr_fetch wpr_guard wpr_update_one, goal_cases)
  case (1 a i)
  let ?sel = "\<lambda>i. wi_id i = item_id \<and> wi_owner_subject i = owner \<and> wi_status i = ''open'' \<and>
    wi_assigned_agent_id i = None \<and> wi_version i = v"
  obtain i' where i': "i' \<in> set (agent_work_items w)" "?sel i'" using count_where_one 1 by blast
  then have "i' = i" using unique_on_eqD [OF u] 1 by blast
  then have i: "i \<in> set (agent_work_items w)" "?sel i" using i' by auto
  have rows: "update_where ?sel (\<lambda>i. i\<lparr>wi_status := ''in_progress'', wi_assigned_agent_id := Some (ag_id a),
      wi_version := wi_version i + 1, wi_updated_at := clock w\<rparr>) (agent_work_items w) =
      update_where (\<lambda>j. wi_id j = item_id) (claimed_item agent (clock w)) (agent_work_items w)"
    using update_where_unique [where P = ?sel, OF u i] i(2) \<open>ag_id a = agent \<and> _\<close>
    by (simp add: claimed_item_def [abs_def])
  have "dependencies_completed (agent_work_items w) i"
    using dependencies_done_iff [OF u] 1 i by blast
  note done_claim = claim [OF i(1) _ _ _ _ _ this]
  show ?case
    unfolding rows put_agent_def wp_modify
  proof (intro wpr_fetch wpr_note_event, unfold wp_ret, goal_cases)
    case (1 c)
    then have "c \<in> set (update_where (\<lambda>j. wi_id j = item_id) (claimed_item agent (clock w)) (agent_work_items w))"
      by simp
    then have "c = claimed_item agent (clock w) i"
    proof (cases rule: in_update_where)
      case (changed j)
      then have "j = i" by (intro unique_on_eqD [OF u _ i(1)]) (use i(2) in simp_all)
      with changed show ?thesis by simp
    qed (use 1 in simp)
    then show ?case using i(2) by (simp add: done_claim)
  qed
qed

lemma claim_stale_version:
  assumes "\<forall>i \<in> set (agent_work_items w). wi_id i = item_id \<longrightarrow> wi_version i \<noteq> v"
  shows "\<exists>e. claim_work_item cfg owner agent item_id v w = (Inl e, w)"
proof -
  have "wpr (claim_work_item cfg owner agent item_id v) (\<lambda>_ _. False) w"
    unfolding claim_work_item_def collab_agent_def collab_item_def require_agent_in_room_def
    by (rule wpr_atomically, unfold wp_bind wp_gets, intro wpr_fetch wpr_guard wpr_update_one)
       (use assms count_where_one in blast)
  moreover have "rolls_back (claim_work_item cfg owner agent item_id v)"
    unfolding claim_work_item_def by (rule rolls_back_atomically)
  ultimately show ?thesis
    by (cases "claim_work_item cfg owner agent item_id v w"; cases "fst (claim_work_item cfg owner agent item_id v w)")
       (auto simp: wp_def rolls_back_def)
qed

end
