(* ===== verification/Collaboration_Correct.thy ===== *)
theory Collaboration_Correct
  imports Collaboration_Items Autonomy_Correct
begin

text \<open>
  The properties of the collaboration service: the life cycle of commands, the message log of a
  room, the round trip of a message through the inbox of its recipient, and exclusive claims of
  work items.
\<close>

section \<open>Runs\<close>

text \<open>Calls of the service, with other services that leave messages and deliveries alone between them.\<close>

inductive collab_run :: "gw_settings \<Rightarrow> gdb \<Rightarrow> gdb \<Rightarrow> bool" for cfg w where
  begin_run: "collab_run cfg w w"
| call: "collab_run cfg w u \<Longrightarrow> collab_run cfg w (collab_step cfg c u)"
| other: "collab_run cfg w u \<Longrightarrow> mailbox u' = mailbox u \<Longrightarrow> collab_run cfg w u'"

lemma collab_run_mail: "collab_run cfg w u \<Longrightarrow> mail_step w u"
  by (induction rule: collab_run.induct)
     (auto intro: mail.rel_refl mail_step_trans collab_mail_step mail_step_same)

definition lab_agent :: "string \<Rightarrow> AgentInstance" where
  "lab_agent i = auto_agent\<lparr>ag_id := i, ag_instance_id := i\<rparr>"

definition lab_room :: CollaborationRoom where
  "lab_room = \<lparr>ro_id = ''r1'', ro_owner_subject = ''ann'', ro_title = ''lab'', ro_project_path = None,
     ro_repository_identity = None, ro_base_commit = None, ro_status = ''active'', ro_policy = [],
     ro_created_by_agent_id = None, ro_idempotency_key = None, ro_created_at = 0, ro_updated_at = 0\<rparr>"

definition lab_item :: "string \<Rightarrow> string \<Rightarrow> string list \<Rightarrow> AgentWorkItem" where
  "lab_item i status deps = \<lparr>wi_id = i, wi_owner_subject = ''ann'', wi_room_id = ''r1'', wi_parent_id = None,
     wi_title = i, wi_description = [], wi_status = status, wi_priority = 50, wi_assigned_agent_id = None,
     wi_version = 1, wi_base_commit = None, wi_dependencies = deps, wi_acceptance_criteria = [],
     wi_required_capabilities = [], wi_assignment_constraints = [], wi_result = [], wi_idempotency_key = None,
     wi_created_at = 0, wi_updated_at = 0\<rparr>"

definition lab_db :: gdb where
  "lab_db = auto_db\<lparr>agent_instances := [lab_agent ''a1'', lab_agent ''a2''], collaboration_rooms := [lab_room],
     agent_work_items := [lab_item ''t0'' ''completed'' [], lab_item ''t1'' ''open'' [''t0'']]\<rparr>"

definition lab_note :: AgentMessageCreate where
  "lab_note = \<lparr>mc_room_id = ''r1'', mc_sender_agent_id = ''a1'', mc_recipient_agent_id = Some ''a2'',
     mc_recipient_selector = None, mc_kind = ''question'', mc_body = ''ready?'', mc_payload = [], mc_priority = 50,
     mc_correlation_id = None, mc_causation_id = None, mc_idempotency_key = None\<rparr>"

definition lab_message :: AgentMessage where
  "lab_message = \<lparr>am_id = ''0'', am_owner_subject = ''ann'', am_room_id = ''r1'', am_sender_agent_id = ''a1'',
     am_recipient_agent_id = Some ''a2'', am_recipient_selector = None, am_kind = ''question'', am_body = ''ready?'',
     am_payload = [], am_priority = 50, am_correlation_id = None, am_causation_id = None, am_sequence_number = 1,
     am_idempotency_key = None, am_expires_at = None, am_created_at = 1000\<rparr>"

definition lab_delivery :: AgentMessageDelivery where
  "lab_delivery = \<lparr>md_id = ''1'', md_owner_subject = ''ann'', md_message_id = ''0'', md_recipient_agent_id = ''a2'',
     md_status = ''pending'', md_attempt_count = 0, md_delivered_at = None, md_acknowledged_at = None,
     md_visibility_deadline = None, md_created_at = 1000, md_updated_at = 1000\<rparr>"

definition lab_sent :: gdb where
  "lab_sent = lab_db\<lparr>agent_messages := [lab_message], agent_message_deliveries := [lab_delivery]\<rparr>"

text \<open>What the calls of the run answer and leave in the mailbox.\<close>

definition answers :: "('e + 'a) \<times> gdb \<Rightarrow> ('a \<Rightarrow> gdb \<Rightarrow> bool) \<Rightarrow> bool" where
  "answers r P \<longleftrightarrow> (case r of (Inl e, _) \<Rightarrow> False | (Inr x, w) \<Rightarrow> P x w)"

lemma answersD: "answers r P \<Longrightarrow> \<exists>x w'. r = (Inr x, w') \<and> P x w'"
  by (auto simp: answers_def split: prod.splits sum.splits)

lemma lab_send_run:
  "answers (send_message auto_cfg ''ann'' lab_note lab_db) (\<lambda>r w'. r = (lab_message, 1) \<and> mailbox w' = mailbox lab_sent)"
  by code_simp

lemma lab_claim_run:
  "answers (claim_work_item auto_cfg ''ann'' ''a1'' ''t1'' 1 lab_db)
     (\<lambda>i w'. wi_id i = ''t1'' \<and> wi_assigned_agent_id i = Some ''a1'')"
  by code_simp

lemma lab_ack_run:
  "answers (ack_message auto_cfg ''ann'' ''a2'' ''0'' lab_sent)
     (\<lambda>d w'. md_status d = ''acknowledged'' \<and> answers (read_inbox ''ann'' ''a2'' 10 None w') (\<lambda>rows w''. True))"
  by code_simp

section \<open>Commands\<close>

text \<open>
  C17: Whatever the service is asked to do, a stored command only makes the moves of its life
  cycle, and a command in a terminal status is never changed again. An approval the command
  requires is there before it is accepted, and a privileged tool run is completed or failed
  only with the receipt that says so. Commands keep their identifiers, and new ones are pending.
\<close>

theorem command_life_cycle:
  assumes "unique_on cm_id (agent_commands w)"
  shows "unique_on cm_id (agent_commands (collab_step cfg call w)) \<and>
    (\<forall>c \<in> set (agent_commands w). \<exists>c' \<in> set (agent_commands (collab_step cfg call w)).
       command_move (action_receipts w) c c' \<and> (cm_status c \<in> set TERMINAL_COMMANDS \<longrightarrow> c' = c)) \<and>
    (\<forall>c' \<in> set (agent_commands (collab_step cfg call w)). cm_id c' \<notin> cm_id ` set (agent_commands w) \<longrightarrow> fresh_command c')"
proof -
  have step: "steps_commands w (collab_step cfg call w)" by (rule collab_commands_step [OF assms])
  have "\<exists>c' \<in> set (agent_commands (collab_step cfg call w)). command_move (action_receipts w) c c' \<and>
      (cm_status c \<in> set TERMINAL_COMMANDS \<longrightarrow> c' = c)" if "c \<in> set (agent_commands w)" for c
    using command_rows.step_row [OF step that] command_move_terminal by blast
  moreover have "fresh_command c'" if "c' \<in> set (agent_commands (collab_step cfg call w))"
      "cm_id c' \<notin> cm_id ` set (agent_commands w)" for c'
    using command_rows.step_origin [OF step that(1)] that(2) command_rows.move_key by (metis image_eqI)
  moreover have "unique_on cm_id (agent_commands (collab_step cfg call w))" using step by (simp add: rows_step_def)
  ultimately show ?thesis by blast
qed

theorem command_life_cycle_witness:
  "\<exists>c' \<in> set (agent_commands (collab_step auto_cfg (CancelCommand ''ann'' ''a0'' ''c1'') lab_db)).
     command_move [] auto_command c'"
proof -
  have "unique_on cm_id (agent_commands lab_db)" by (simp add: lab_db_def auto_db_def unique_on_def)
  note life = command_life_cycle [OF this, of auto_cfg "CancelCommand ''ann'' ''a0'' ''c1''"]
  have "auto_command \<in> set (agent_commands lab_db)" "action_receipts lab_db = []"
    by (simp_all add: lab_db_def auto_db_def)
  with life show ?thesis by metis
qed

section \<open>Messages\<close>

text \<open>
  C18: The messages of a room are numbered 1, 2, 3, ... without a gap or a repetition, in the
  order they were stored, after any run that starts with no messages.
\<close>

theorem message_log_gapless:
  assumes "collab_run cfg w0 w" and "agent_messages w0 = []" and "agent_message_deliveries w0 = []"
  shows "map am_sequence_number (room_log owner room_id (agent_messages w)) =
    map int [1..<Suc (length (room_log owner room_id (agent_messages w)))]"
proof -
  have "mail_ok w0" using assms by (simp add: mail_ok_def gapless_def room_log_def deliveries_ok_def)
  then have "mail_ok w" using collab_run_mail [OF assms(1)] by (simp add: mail_step_def)
  then show ?thesis unfolding mail_ok_def gapless_def by blast
qed

lemma lab_db_empty: "agent_messages lab_db = []" "agent_message_deliveries lab_db = []"
  by (simp_all add: lab_db_def auto_db_def)

lemma lab_run: "collab_run auto_cfg lab_db lab_sent"
proof -
  obtain r w' where "send_message auto_cfg ''ann'' lab_note lab_db = (Inr r, w')" "mailbox w' = mailbox lab_sent"
    using answersD [OF lab_send_run] by blast
  then have "mailbox lab_sent = mailbox (collab_step auto_cfg (SendMessage ''ann'' lab_note) lab_db)" by simp
  then show ?thesis by (rule collab_run.other [OF collab_run.call [OF collab_run.begin_run]])
qed

theorem message_log_gapless_witness:
  "map am_sequence_number (room_log ''ann'' ''r1'' (agent_messages lab_sent)) = [1]"
  using message_log_gapless [OF lab_run lab_db_empty, of "''ann''" "''r1''"]
  by (simp add: lab_sent_def room_log_def lab_message_def)



text \<open>
  C20: A message that an agent has acknowledged is never returned from that agent's inbox again,
  whatever happens in between.
\<close>

theorem acknowledged_final:
  assumes ok: "mail_ok w" and ack: "ack_message cfg owner agent i w = (Inr d, w1)" and run: "collab_run cfg w1 w2"
    and read: "read_inbox owner agent limit cursor w2 = (Inr rows, w3)"
  shows "\<forall>row \<in> set rows. am_id (fst row) \<noteq> i"
proof -
  have "wpr (ack_message cfg owner agent i) (\<lambda>d w1. d \<in> set (agent_message_deliveries w1) \<and>
      md_status d = ''acknowledged'' \<and> md_message_id d = i \<and> md_recipient_agent_id d = agent) w"
    unfolding ack_message_def
  proof (rule wpr_atomically, unfold wp_bind collab_agent_def, intro wpr_fetch, goal_cases)
    case (1 a md)
    then show ?case
      unfolding put_delivery_def Let_def
      by (cases md) (auto simp: set_update_where intro!: wpr_note_event)
  qed
  then have d: "d \<in> set (agent_message_deliveries w1)" "md_status d = ''acknowledged''" "md_message_id d = i"
      "md_recipient_agent_id d = agent"
    using ack by (auto dest: wp_InrD)
  have "mail_ok w1" using keepsD [OF mail_ack_message ack] ok by (simp add: mail_step_def)
  then have ok2: "mail_ok w2" and d2: "d \<in> set (agent_message_deliveries w2)"
    using collab_run_mail [OF run] d by (auto simp: mail_step_def)
  have "wpr (read_inbox owner agent limit cursor) (\<lambda>rows _. \<forall>row \<in> set rows. am_id (fst row) \<noteq> i) w2"
  proof (rule wp_read_inbox)
    fix c
    have "am_id m \<noteq> i" if "(m, e) \<in> set (inbox_page owner agent limit c w2)" for m e
      using inbox_pageD(2,3) [OF that] ok2 d d2
        unique_on_eqD [of "\<lambda>d. (md_message_id d, md_recipient_agent_id d)" "agent_message_deliveries w2" e d]
      by (auto simp: inbox_row_def mail_ok_def deliveries_ok_def)
    then show "\<forall>row \<in> set (map (\<lambda>(m, d). (m, mark_delivered (clock w2) d)) (inbox_page owner agent limit c w2)).
        am_id (fst row) \<noteq> i" by fastforce
  qed simp
  then show ?thesis using read by (rule wp_InrD)
qed

theorem acknowledged_final_witness:
  "\<exists>d w1 rows w3. ack_message auto_cfg ''ann'' ''a2'' ''0'' lab_sent = (Inr d, w1) \<and>
     read_inbox ''ann'' ''a2'' 10 None w1 = (Inr rows, w3) \<and> (\<forall>row \<in> set rows. am_id (fst row) \<noteq> ''0'')"
proof -
  obtain d w1 where ack: "ack_message auto_cfg ''ann'' ''a2'' ''0'' lab_sent = (Inr d, w1)"
      "answers (read_inbox ''ann'' ''a2'' 10 None w1) (\<lambda>rows w''. True)"
    using answersD [OF lab_ack_run] by blast
  then obtain rows w3 where read: "read_inbox ''ann'' ''a2'' 10 None w1 = (Inr rows, w3)"
    using answersD [OF ack(2)] by blast
  have "mail_ok lab_db" by (simp add: mail_ok_def lab_db_empty gapless_def room_log_def deliveries_ok_def)
  then have "mail_ok lab_sent" using collab_run_mail [OF lab_run] by (simp add: mail_step_def)
  from acknowledged_final [OF this ack(1) collab_run.begin_run read] ack read show ?thesis by blast
qed

section \<open>Work items\<close>

text \<open>
  C21: A claim of a work item succeeds only when the item is open, unassigned, at the version the
  claimant saw, and every dependency is completed in the same room. It assigns that item alone,
  raises its version, and every other claim at the old version fails from then on.
\<close>

theorem claim_work_item_exclusive:
  assumes u: "unique_on wi_id (agent_work_items w)"
    and claim: "claim_work_item cfg owner agent item_id v w = (Inr item, w')"
  shows "\<exists>i \<in> set (agent_work_items w). wi_id i = item_id \<and> wi_owner_subject i = owner \<and> wi_status i = ''open'' \<and>
      wi_assigned_agent_id i = None \<and> wi_version i = v \<and> dependencies_completed (agent_work_items w) i \<and>
      item = claimed_item agent (clock w) i \<and>
      agent_work_items w' = update_where (\<lambda>j. wi_id j = item_id) (claimed_item agent (clock w)) (agent_work_items w) \<and>
      (\<forall>cfg' owner' agent'. \<exists>e. claim_work_item cfg' owner' agent' item_id v w' = (Inl e, w'))"
proof -
  have "wpr (claim_work_item cfg owner agent item_id v) (\<lambda>item w'. \<exists>i \<in> set (agent_work_items w). wi_id i = item_id \<and>
      wi_owner_subject i = owner \<and> wi_status i = ''open'' \<and> wi_assigned_agent_id i = None \<and> wi_version i = v \<and>
      dependencies_completed (agent_work_items w) i \<and> item = claimed_item agent (clock w) i \<and>
      agent_work_items w' = update_where (\<lambda>j. wi_id j = item_id) (claimed_item agent (clock w)) (agent_work_items w)) w"
    by (rule wpr_claim_work_item [OF u]) blast
  then obtain i where i: "i \<in> set (agent_work_items w)" "wi_id i = item_id" "wi_owner_subject i = owner"
      "wi_status i = ''open''" "wi_assigned_agent_id i = None" "wi_version i = v"
      "dependencies_completed (agent_work_items w) i" "item = claimed_item agent (clock w) i"
      "agent_work_items w' = update_where (\<lambda>j. wi_id j = item_id) (claimed_item agent (clock w)) (agent_work_items w)"
    using claim by (auto dest: wp_InrD)
  have "\<forall>j \<in> set (agent_work_items w'). wi_id j = item_id \<longrightarrow> wi_version j \<noteq> v"
  proof (intro ballI impI)
    fix j
    assume "j \<in> set (agent_work_items w')" and id: "wi_id j = item_id"
    then show "wi_version j \<noteq> v"
      unfolding i(9)
    proof (cases rule: in_update_where)
      case (changed k)
      then have "k = i" using unique_on_eqD [OF u changed(1) i(1)] i(2) by simp
      then show ?thesis using changed i by (simp add: claimed_item_def)
    qed (use id in simp)
  qed
  from claim_stale_version [OF this] i show ?thesis by blast
qed

theorem claim_work_item_exclusive_witness:
  "\<exists>item w'. claim_work_item auto_cfg ''ann'' ''a1'' ''t1'' 1 lab_db = (Inr item, w') \<and> wi_version item = 2 \<and>
     (\<exists>e. claim_work_item auto_cfg ''ann'' ''a2'' ''t1'' 1 w' = (Inl e, w'))"
proof -
  obtain item w' where run: "claim_work_item auto_cfg ''ann'' ''a1'' ''t1'' 1 lab_db = (Inr item, w')"
    using answersD [OF lab_claim_run] by blast
  have "unique_on wi_id (agent_work_items lab_db)" by (simp add: lab_db_def lab_item_def unique_on_def)
  from claim_work_item_exclusive [OF this run] run show ?thesis by (auto simp: claimed_item_def)
qed

end
