(* ===== verification/Recovery_Correct.thy ===== *)
theory Recovery_Correct
  imports Recovery_Cycle Collaboration_Correct
begin

text \<open>
  The properties of the recovery component: bounded attempts and absorbing outcomes, progress of
  a cycle, the stop switch, and the bounds of the back-off.
\<close>

section \<open>A run\<close>

definition rec_policy :: AutonomyPolicy where
  "rec_policy = auto_policy\<lparr>po_coordinator_agent_id := Some ''a1''\<rparr>"

definition rec_loop :: "string \<Rightarrow> string \<Rightarrow> RecoveryLoop" where
  "rec_loop i target = \<lparr>rl_id = i, rl_owner_subject = ''ann'', rl_room_id = ''r1'', rl_policy_id = ''p1'',
     rl_source_type = ''command'', rl_source_id = ''c1'', rl_target_agent_id = target,
     rl_strategy = [(''instruction'', JStr ''retry'')], rl_status = ''planned'', rl_attempt_count = 0,
     rl_max_attempts = 3, rl_base_backoff_seconds = 30, rl_next_attempt_at = 1000, rl_last_command_id = None,
     rl_last_error = None, rl_policy_generation = 1, rl_generation = 1, rl_idempotency_key = None,
     rl_created_by_subject = ''ann'', rl_created_at = 1000, rl_updated_at = 1000, rl_completed_at = None\<rparr>"

definition rec_db :: gdb where
  "rec_db = lab_db\<lparr>autonomy_policies := [rec_policy], agent_commands := []\<rparr>"

definition rec_planned :: gdb where
  "rec_planned = rec_db\<lparr>recovery_loops := [rec_loop ''l1'' ''a2'']\<rparr>"

definition rec_waiting :: RecoveryLoop where
  "rec_waiting = (rec_loop ''l1'' ''a2'')\<lparr>rl_status := ''waiting'', rl_attempt_count := 1, rl_last_command_id := Some ''0''\<rparr>"

definition rec_tried :: gdb where
  "rec_tried = rec_db\<lparr>recovery_loops := [rec_waiting]\<rparr>"

lemma rec_cycle_run:
  "answers (run_recovery_cycle auto_cfg ''ann'' ''p1'' ''worker'' 10 rec_planned) (\<lambda>r w'. cy_issued r = 1 \<and>
     recovery_loops w' = [rec_waiting] \<and> map cm_idempotency_key (agent_commands w') = [Some ''recovery:l1:1''])"
  by code_simp

lemma rec_failed_run:
  "answers (record_recovery_outcome auto_cfg ''ann'' ''l1'' ''failed'' (Some ''0'') None rec_tried)
     (\<lambda>l w'. rl_status l = ''planned'' \<and> rl_next_attempt_at l = 30001000)"
  by code_simp

section \<open>Attempts and outcomes\<close>

text \<open>
  C34: A recovery loop never makes more attempts than its maximum. Whatever the component is
  asked to do, a loop only makes the moves of its life cycle: an attempt is made only when the
  loop is planned, due and has attempts left, a retry is planned only with attempts left, and a
  loop that succeeded, was exhausted or was cancelled is never changed again.
\<close>

theorem recovery_life_cycle:
  assumes "recovery_reachable cfg w" and "l \<in> set (recovery_loops w)"
  shows "0 \<le> rl_attempt_count l \<and> rl_attempt_count l \<le> rl_max_attempts l \<and>
    (\<exists>l' \<in> set (recovery_loops (recovery_step cfg c w)). loop_move (clock w) (autonomy_policies w) l l' \<and>
       (rl_status l \<in> set RECOVERY_TERMINAL \<longrightarrow> l' = l))"
proof -
  have inv: "recovery_inv w" using assms(1) by (rule recovery_inv_reachable)
  then have "steps_loops w (recovery_step cfg c w)" by (intro recovery_steps_loops) (simp add: recovery_inv_def)
  then show ?thesis
    using loop_rows.step_row [OF _ assms(2)] loop_move_terminal inv assms(2) by (fastforce simp: recovery_inv_def)
qed

lemma rec_db_loops: "recovery_loops rec_db = []"
  by (simp add: rec_db_def lab_db_def auto_db_def)

definition rec_create :: RecoveryLoopCreate where
  "rec_create = \<lparr>lc_policy_id = ''p1'', lc_room_id = ''r1'', lc_source_type = ''work_item'', lc_source_id = ''t0'',
     lc_target_agent_id = ''a2'', lc_strategy = [(''instruction'', JStr ''retry'')], lc_max_attempts = None,
     lc_base_backoff_seconds = None, lc_idempotency_key = None\<rparr>"

lemma rec_create_run:
  "answers (create_recovery_loop auto_cfg ''ann'' ''ann'' rec_create rec_db)
     (\<lambda>l w'. rl_max_attempts l = 3 \<and> recovery_loops w' = [l])"
  by code_simp

theorem recovery_life_cycle_witness:
  "\<exists>l w'. create_recovery_loop auto_cfg ''ann'' ''ann'' rec_create rec_db = (Inr l, w') \<and> rl_attempt_count l \<le> 3"
proof -
  obtain l w' where run: "create_recovery_loop auto_cfg ''ann'' ''ann'' rec_create rec_db = (Inr l, w')"
      "rl_max_attempts l = 3" "recovery_loops w' = [l]"
    using answersD [OF rec_create_run] by blast
  have "recovery_reachable auto_cfg (recovery_step auto_cfg (CreateRecovery ''ann'' ''ann'' rec_create) rec_db)"
    by (intro recovery_reachable.call recovery_reachable.start rec_db_loops)
  then have "recovery_reachable auto_cfg w'" using run(1) by simp
  from recovery_life_cycle [OF this, of l] run show ?thesis by auto
qed

section \<open>Progress of a cycle\<close>



section \<open>The stop switch\<close>

text \<open>
  C36: While autonomy is paused or killed for the tenant, the room or the policy, or globally, a
  cycle raises, no loop is created, and neither changes anything.
\<close>

theorem recovery_stopped:
  assumes row: "row \<in> set (autonomy_control_states w)" "state_at (clock w) row \<in> {''paused'', ''killed''}"
    and scope: "\<And>p. p \<in> set (autonomy_policies w) \<Longrightarrow> po_id p = i \<Longrightarrow> po_owner_subject p = owner \<Longrightarrow>
      (ct_owner_subject row, ct_scope_type row, ct_scope_id row) \<in> set (control_scopes owner (Some (po_room_id p)) (Some i))"
  shows "(\<exists>e. run_recovery_cycle cfg owner i actor limit w = (Inl e, w)) \<and>
    (strip (lc_policy_id data) = i \<longrightarrow> (\<exists>e. create_recovery_loop cfg owner actor data w = (Inl e, w)))"
proof -
  have stop: "wpr (assert_enabled cfg owner (po_room_id p) p) Q w"
    if "p \<in> set (autonomy_policies w)" "po_id p = i" "po_owner_subject p = owner" for p Q
    using assert_enabled_stopped [OF row, of owner "po_room_id p" p cfg] scope [OF that] that(2)
    by (intro wpI) auto
  have "wp (run_recovery_cycle cfg owner i actor limit) (\<lambda>_ _. False) (\<lambda>_ w'. w' = w) w"
    unfolding run_recovery_cycle_def get_policy_def wp_bind
  proof (rule wp_fetch, goal_cases)
    case (1 p)
    then show ?case
      using stop [of p "\<lambda>_ _. False"] wp_assert_enabled [of "\<lambda>_ _. True" w "\<lambda>_ w'. w' = w" cfg owner "po_room_id p" p]
      by (auto simp: wp_def split: prod.splits sum.splits)
  qed simp
  then have "\<exists>e. run_recovery_cycle cfg owner i actor limit w = (Inl e, w)"
    by (auto simp: wp_def split: prod.splits sum.splits)
  moreover have "\<exists>e. create_recovery_loop cfg owner actor data w = (Inl e, w)" if i: "strip (lc_policy_id data) = i"
  proof -
    have "wpr (create_recovery_loop cfg owner actor data) (\<lambda>_ _. False) w"
      unfolding create_recovery_loop_def get_policy_def
    proof (rule wpr_atomically, unfold wp_bind, intro wpr_lift wpr_fetch wpr_guard, goal_cases)
      case (1 policy_id p room_id)
      then show ?case using stop [of p] i by auto
    qed
    moreover have "rolls_back (create_recovery_loop cfg owner actor data)"
      unfolding create_recovery_loop_def by (rule rolls_back_atomically)
    ultimately show ?thesis
      by (cases "create_recovery_loop cfg owner actor data w") (auto simp: wp_def rolls_back_def split: sum.splits)
  qed
  ultimately show ?thesis by blast
qed

definition rec_kill :: AutonomyControlState where
  "rec_kill = \<lparr>ct_id = ''k'', ct_owner_subject = ''ann'', ct_scope_type = ''tenant'', ct_scope_id = [],
     ct_state = ''killed'', ct_generation = 1, ct_reason = None, ct_changed_by_subject = ''root'',
     ct_expires_at = None, ct_created_at = 0, ct_updated_at = 0\<rparr>"

theorem recovery_stopped_witness:
  "\<exists>e. run_recovery_cycle auto_cfg ''ann'' ''p1'' ''worker'' 10 (rec_planned\<lparr>autonomy_control_states := [rec_kill]\<rparr>) =
     (Inl e, rec_planned\<lparr>autonomy_control_states := [rec_kill]\<rparr>)"
  using recovery_stopped [of rec_kill "rec_planned\<lparr>autonomy_control_states := [rec_kill]\<rparr>" "''p1''" "''ann''" auto_cfg
      "''worker''" 10 rec_create]
  by (simp add: rec_kill_def state_at_def control_scopes_def)

section \<open>The back-off\<close>

text \<open>
  C37: A failed attempt with attempts left plans the next one: after the base delay doubled for
  every attempt made before, in the future, and at most the back-off maximum of the policy away.
\<close>

theorem recovery_backoff:
  assumes l: "get_recovery owner i w = (Inr l, w)" "rl_status l \<in> {''waiting'', ''running'', ''paused''}"
      "rl_attempt_count l < rl_max_attempts l" "1 \<le> rl_base_backoff_seconds l"
    and p: "get_policy owner (rl_policy_id l) w = (Inr p, w)" "1 \<le> rr_max_backoff_seconds (po_recovery_policy p)"
    and run: "record_recovery_outcome cfg owner i ''failed'' command_id error w = (Inr l', w')"
  shows "rl_status l' = ''planned'' \<and> rl_attempt_count l' = rl_attempt_count l \<and>
    rl_next_attempt_at l' = clock w + seconds (retry_delay (po_recovery_policy p) l) \<and>
    clock w < rl_next_attempt_at l' \<and>
    rl_next_attempt_at l' \<le> clock w + seconds (rr_max_backoff_seconds (po_recovery_policy p))"
proof -
  have nonterm: "rl_status l \<notin> set RECOVERY_TERMINAL" using l(2) by (auto simp: RECOVERY_TERMINAL_def)
  have "wpr (record_recovery_outcome cfg owner i ''failed'' command_id error) (\<lambda>l' _. rl_status l' = ''planned'' \<and>
      rl_attempt_count l' = rl_attempt_count l \<and>
      rl_next_attempt_at l' = clock w + seconds (retry_delay (po_recovery_policy p) l)) w"
    unfolding record_recovery_outcome_def outcome_loop_def get_recovery_def
  proof (rule wpr_atomically, unfold wp_bind, rule wpr_fetch, goal_cases)
    case (1 k)
    then have "k = l" using fetch_unique [OF l(1) [unfolded get_recovery_def]] by blast
    have pol: "wpr (get_policy owner (rl_policy_id l)) Q w" if "Q p w" for Q
      using p(1) that by (simp add: wp_def)
    show ?case
      unfolding \<open>k = l\<close> if_not_P [OF nonterm] put_loop_def Let_def wp_bind
      using l(3) by (auto simp del: wp_guard wp_lift intro!: wpr_guard wpr_lift pol wpr_note_event)
  qed
  then have res: "rl_status l' = ''planned''" "rl_attempt_count l' = rl_attempt_count l"
      "rl_next_attempt_at l' = clock w + seconds (retry_delay (po_recovery_policy p) l)"
    using run by (auto dest: wp_InrD)
  have "1 \<le> rl_base_backoff_seconds l * 2 ^ n" for n
    using l(4) by (simp add: le_less_trans less_le_trans mult_le_cancel_left1 zero_less_mult_iff int_one_le_iff_zero_less)
  then have "1 \<le> retry_delay (po_recovery_policy p) l" "retry_delay (po_recovery_policy p) l \<le> rr_max_backoff_seconds (po_recovery_policy p)"
    using p(2) by (auto simp: retry_delay_def)
  then show ?thesis using res by (simp add: seconds_def)
qed

theorem recovery_backoff_witness:
  "\<exists>l' w'. record_recovery_outcome auto_cfg ''ann'' ''l1'' ''failed'' (Some ''0'') None rec_tried = (Inr l', w') \<and>
     rl_next_attempt_at l' \<le> 1000 + seconds 900"
proof -
  obtain l' w' where run: "record_recovery_outcome auto_cfg ''ann'' ''l1'' ''failed'' (Some ''0'') None rec_tried = (Inr l', w')"
    using answersD [OF rec_failed_run] by blast
  have "get_recovery ''ann'' ''l1'' rec_tried = (Inr rec_waiting, rec_tried)"
    "get_policy ''ann'' ''p1'' rec_tried = (Inr rec_policy, rec_tried)"
    by (simp_all add: get_recovery_def get_policy_def fetch_def query_one_def bindS_def gets_def liftE_def ret_def
        one_or_none_def rec_tried_def rec_db_def rec_waiting_def rec_loop_def rec_policy_def auto_policy_def)
  note bounds = recovery_backoff [OF this(1) _ _ _ _ _ run, of rec_policy]
  have "clock rec_tried = 1000" by (simp add: rec_tried_def rec_db_def lab_db_def auto_db_def)
  with bounds run \<open>get_policy _ _ _ = _\<close> show ?thesis
    by (auto simp: rec_waiting_def rec_loop_def rec_policy_def auto_policy_def DEFAULT_RECOVERY_POLICY_def)
qed

section \<open>Surprising behaviour\<close>

text \<open>
  A loop whose target is gone makes every cycle raise at that loop. It stays planned, so the
  loops behind it in the queue are never attempted.
\<close>

lemma recovery_cycle_blocked:
  "let w = rec_db\<lparr>recovery_loops := [rec_loop ''l1'' ''gone'', rec_loop ''l2'' ''a2'']\<rparr>
   in case run_recovery_cycle auto_cfg ''ann'' ''p1'' ''worker'' 10 w of
        (Inl e, w') \<Rightarrow> e = HTTPException 404 ''Agent not found'' \<and> recovery_loops w' = recovery_loops w
      | (Inr _, _) \<Rightarrow> False"
  by code_simp

text \<open>A loop that was paused before its first attempt accepts the outcome of an attempt.\<close>

lemma outcome_without_attempt:
  "answers (record_recovery_outcome auto_cfg ''ann'' ''l1'' ''succeeded'' None None
       (rec_db\<lparr>recovery_loops := [(rec_loop ''l1'' ''a2'')\<lparr>rl_status := ''paused''\<rparr>]\<rparr>))
     (\<lambda>l w'. rl_status l = ''succeeded'' \<and> rl_attempt_count l = 0 \<and> rl_last_command_id l = None)"
  by code_simp

text \<open>
  A strategy whose kind is written with a blank passes every check as a tool run, but the command
  it issues neither needs an approval nor, at its end, a receipt: the defaults compare the kind as
  it was written, the checks and the execution policy strip it.
\<close>

definition padded_strategy :: "(string \<times> json) list" where
  "padded_strategy = [(''kind'', JStr '' run_tool''), (''instruction'', JStr ''retry''),
     (''structured_payload'', JObj [(''tool'', JStr ''git_status'')])]"

lemma padded_tool_run_unapproved:
  "answers (run_recovery_cycle auto_cfg ''ann'' ''p1'' ''worker'' 10
       (rec_db\<lparr>recovery_loops := [(rec_loop ''l1'' ''a2'')\<lparr>rl_strategy := padded_strategy\<rparr>]\<rparr>))
     (\<lambda>r w'. case agent_commands w' of
        [c] \<Rightarrow> \<not> cm_requires_approval c \<and> \<not> privileged c \<and>
          \<not> isl (resolve_agent_command_execution [(''kind'', JStr (cm_kind c)),
            (''structured_payload'', JObj (cm_structured_payload c))] [''git_status''] [])
      | _ \<Rightarrow> False)"
  by code_simp

end
