(* ===== verification/Outbox.thy ===== *)
theory Outbox
  imports Gateway_Store "HOL-Library.Product_Lexorder"
begin

text \<open>
  The outbox publisher, \<open>outbox.py\<close>: stored events are claimed in batches under a lock token,
  published to the broker, and marked as published, to be retried, or as dead letters. Each
  method is a transaction of its own; several replicas run them against the same table.
\<close>

section \<open>Rows\<close>

definition get_event :: "string \<Rightarrow> OutboxEvent option gw" where
  "get_event event_id = gets (\<lambda>w. find (\<lambda>e. ob_id e = event_id) (outbox_events w))"

definition put_event :: "OutboxEvent \<Rightarrow> unit gw" where
  "put_event e = modify (\<lambda>w. w\<lparr>outbox_events := update_where (\<lambda>q. ob_id q = ob_id e) (\<lambda>_. e) (outbox_events w)\<rparr>)"

definition add_attempt :: "OutboxDeliveryAttempt \<Rightarrow> unit gw" where
  "add_attempt a = insert_row (\<lambda>b. oa_id b = oa_id a \<or>
       (oa_outbox_event_id b = oa_outbox_event_id a \<and> oa_attempt_number b = oa_attempt_number a))
     outbox_delivery_attempts (\<lambda>w. w\<lparr>outbox_delivery_attempts := outbox_delivery_attempts w @ [a]\<rparr>)"

text \<open>\<open>emit_event(..., enqueue_outbox=False)\<close>: the audit row alone.\<close>

definition emit_audit :: "gw_settings \<Rightarrow> event_request \<Rightarrow> unit gw" where
  "emit_audit cfg ev = emit_event (cfg\<lparr>gateway_outbox_enabled := False\<rparr>) ev"

definition outbox_audit :: "gw_settings \<Rightarrow> string \<Rightarrow> string \<Rightarrow> string \<Rightarrow> string \<Rightarrow> (string \<times> json) list \<Rightarrow> string \<Rightarrow> unit gw" where
  "outbox_audit cfg event_type actor action event_id payload status =
     emit_audit cfg \<lparr>ev_type = event_type, ev_actor = actor, ev_act = action, ev_resource_type = ''outbox_event'',
       ev_resource_id = Some event_id, ev_payload = payload, ev_owner = None, ev_status = status\<rparr>"

section \<open>Claiming\<close>

definition is_stale_claim :: "int \<Rightarrow> OutboxEvent \<Rightarrow> bool" where
  "is_stale_claim cutoff e \<longleftrightarrow> ob_status e = ''processing'' \<and>
     (case ob_locked_at e of None \<Rightarrow> False | Some t \<Rightarrow> t \<le> cutoff)"

definition release_stale_claims :: "gw_settings \<Rightarrow> nat gw" where
  "release_stale_claims cfg = (\<lambda>w.
     let now = clock w;
         sel = is_stale_claim (now - seconds (max 1 (gateway_outbox_lock_ttl_seconds cfg)))
     in (Inr (count_where sel (outbox_events w)), w\<lparr>outbox_events := update_where sel (\<lambda>e. e\<lparr>ob_status := ''retry'',
          ob_available_at := now, ob_locked_by := None, ob_lock_token := None, ob_locked_at := None,
          ob_last_error := Some ''stale publisher claim released'', ob_updated_at := now\<rparr>) (outbox_events w)\<rparr>))"

definition is_claimable :: "int \<Rightarrow> OutboxEvent \<Rightarrow> bool" where
  "is_claimable now e \<longleftrightarrow> ob_status e \<in> {''pending'', ''retry''} \<and> ob_available_at e \<le> now"

fun lock_rows :: "string \<Rightarrow> int \<Rightarrow> OutboxEvent list \<Rightarrow> OutboxEvent list gw" where
  "lock_rows replica_id now [] = ret []"
| "lock_rows replica_id now (e # es) =
     bindS new_id (\<lambda>token.
     let e = e\<lparr>ob_status := ''processing'', ob_locked_by := Some replica_id, ob_lock_token := Some token,
           ob_locked_at := Some now, ob_updated_at := now\<rparr>
     in bindS (put_event e) (\<lambda>_.
     bindS (lock_rows replica_id now es) (\<lambda>locked.
     ret (e # locked))))"

definition batch_limit :: "gw_settings \<Rightarrow> int option \<Rightarrow> nat" where
  "batch_limit cfg limit = nat (max 1 (min (case limit of
     Some l \<Rightarrow> if l = 0 then gateway_outbox_batch_size cfg else l | None \<Rightarrow> gateway_outbox_batch_size cfg) 1000))"

definition claim_batch :: "gw_settings \<Rightarrow> string \<Rightarrow> int option \<Rightarrow> OutboxEvent list gw" where
  "claim_batch cfg replica_id limit =
     bindS (release_stale_claims cfg) (\<lambda>_.
     bindS (gets clock) (\<lambda>now.
     bindS (gets (\<lambda>w. take (batch_limit cfg limit) (sort_key (\<lambda>e. (ob_available_at e, ob_created_at e, ob_id e))
       (filter (is_claimable now) (outbox_events w))))) (\<lambda>rows.
     lock_rows replica_id now rows)))"

section \<open>Recording\<close>

record BrokerPublishAck =
  ack_stream :: "string option"
  ack_sequence :: "int option"
  ack_duplicate :: bool

definition holds_lock :: "string \<Rightarrow> string \<Rightarrow> OutboxEvent \<Rightarrow> bool" where
  "holds_lock replica_id lock_token e \<longleftrightarrow> ob_status e = ''processing'' \<and> ob_locked_by e = Some replica_id \<and>
     ob_lock_token e = Some lock_token"

definition unlock :: "int \<Rightarrow> OutboxEvent \<Rightarrow> OutboxEvent" where
  "unlock now e = e\<lparr>ob_locked_by := None, ob_lock_token := None, ob_locked_at := None, ob_updated_at := now\<rparr>"

definition attempt_row ::
  "string \<Rightarrow> int \<Rightarrow> OutboxEvent \<Rightarrow> string \<Rightarrow> string \<Rightarrow> string option \<Rightarrow> string option \<Rightarrow> int option \<Rightarrow>
     OutboxDeliveryAttempt" where
  "attempt_row replica_id now e i status error stream sequence =
     \<lparr>oa_id = i, oa_outbox_event_id = ob_id e, oa_attempt_number = ob_attempt_count e + 1,
      oa_replica_id = replica_id, oa_status = status, oa_error = error, oa_broker_stream = stream,
      oa_broker_sequence = sequence, oa_started_at = (case ob_locked_at e of None \<Rightarrow> now | Some t \<Rightarrow> t),
      oa_completed_at = Some now\<rparr>"

definition published_event :: "int \<Rightarrow> BrokerPublishAck \<Rightarrow> OutboxEvent \<Rightarrow> OutboxEvent" where
  "published_event now ack e = unlock now (e\<lparr>ob_attempt_count := ob_attempt_count e + 1, ob_status := ''published'',
     ob_published_at := Some now, ob_broker_stream := ack_stream ack, ob_broker_sequence := ack_sequence ack,
     ob_last_error := None\<rparr>)"

definition record_success :: "string \<Rightarrow> string \<Rightarrow> string \<Rightarrow> BrokerPublishAck \<Rightarrow> bool gw" where
  "record_success replica_id event_id lock_token ack = atomically (
     bindS (get_event event_id) (\<lambda>found.
     case found of
       None \<Rightarrow> ret False
     | Some e \<Rightarrow>
         if \<not> holds_lock replica_id lock_token e then ret False
         else
           bindS (gets clock) (\<lambda>now.
           bindS (put_event (published_event now ack e)) (\<lambda>_.
           bindS new_id (\<lambda>i.
           bindS (add_attempt (attempt_row replica_id now e i (if ack_duplicate ack then ''duplicate'' else ''published'')
                    None (ack_stream ack) (ack_sequence ack))) (\<lambda>_.
           ret True))))))"

text \<open>The delay before a retry, in microseconds: the base doubled, capped, and at least ten milliseconds.\<close>

definition outbox_delay :: "gw_settings \<Rightarrow> int \<Rightarrow> int" where
  "outbox_delay cfg attempt = max 10000 (min (gateway_outbox_retry_max_us cfg)
     (gateway_outbox_retry_base_us cfg * 2 ^ nat (max 0 (attempt - 1))))"

text \<open>An exception as its class name and its text.\<close>

definition error_text :: "string \<times> string \<Rightarrow> string" where
  "error_text err = (let t = take 10000 (snd err) in if t = [] then fst err else t)"

definition is_terminal :: "OutboxEvent \<Rightarrow> bool" where
  "is_terminal e \<longleftrightarrow> ob_attempt_count e + 1 \<ge> max 1 (ob_max_attempts e)"

definition failure_status :: "OutboxEvent \<Rightarrow> string" where
  "failure_status e = (if is_terminal e then ''dead_letter'' else ''retry'')"

definition failed_event :: "gw_settings \<Rightarrow> int \<Rightarrow> string \<Rightarrow> OutboxEvent \<Rightarrow> OutboxEvent" where
  "failed_event cfg now text e = unlock now (e\<lparr>ob_attempt_count := ob_attempt_count e + 1, ob_status := failure_status e,
     ob_available_at := (if is_terminal e then ob_available_at e
       else now + outbox_delay cfg (ob_attempt_count e + 1)),
     ob_last_error := Some text\<rparr>)"

definition record_failure :: "gw_settings \<Rightarrow> string \<Rightarrow> string \<Rightarrow> string \<Rightarrow> string \<times> string \<Rightarrow> string gw" where
  "record_failure cfg replica_id event_id lock_token err = atomically (
     bindS (get_event event_id) (\<lambda>found.
     case found of
       None \<Rightarrow> ret ''stale''
     | Some e \<Rightarrow>
         if \<not> holds_lock replica_id lock_token e then ret ''stale''
         else
           bindS (gets clock) (\<lambda>now.
           bindS (put_event (failed_event cfg now (error_text err) e)) (\<lambda>_.
           bindS new_id (\<lambda>i.
           bindS (add_attempt (attempt_row replica_id now e i (failure_status e) (Some (error_text err)) None None)) (\<lambda>_.
           bindS (if is_terminal e then
                    outbox_audit cfg ''gateway.outbox.dead_lettered.v1'' (''system:'' @ replica_id) ''dead_lettered'' (ob_id e)
                      [(''outbox_event_id'', JStr (ob_id e)), (''audit_event_id'', JStr (ob_audit_event_id e)),
                       (''event_type'', JStr (ob_event_type e)), (''attempt_count'', JInt (ob_attempt_count e + 1)),
                       (''last_error'', JStr (error_text err))] ''warning''
                  else ret ()) (\<lambda>_.
           ret (failure_status e))))))))"

section \<open>A run of the publisher\<close>

text \<open>
  The broker is a parameter: what it answers to a subject, a payload, a message id and headers.
  The payload is handed over as the stored object; the broker client encodes it.
\<close>

type_synonym broker = "string \<Rightarrow> (string \<times> json) list \<Rightarrow> string \<Rightarrow> (string \<times> string) list \<Rightarrow>
  (string \<times> string) + BrokerPublishAck"

record OutboxRunResult =
  rs_claimed :: nat
  rs_published :: nat
  rs_retried :: nat
  rs_dead_lettered :: nat

fun set_header :: "string \<Rightarrow> string \<Rightarrow> (string \<times> string) list \<Rightarrow> (string \<times> string) list" where
  "set_header k v [] = [(k, v)]"
| "set_header k v ((k', v') # hs) = (if k' = k then (k, v) # hs else (k', v') # set_header k v hs)"

definition delivery_headers :: "OutboxEvent \<Rightarrow> string \<times> (string \<times> string) list" where
  "delivery_headers e =
     (let headers = map (\<lambda>(k, v). (k, py_str v)) (ob_headers e);
          delivery_id = or_else (map_of headers ''Nats-Msg-Id'') (ob_audit_event_id e)
      in (delivery_id, set_header ''Nats-Msg-Id'' delivery_id headers))"

definition lock_text :: "OutboxEvent \<Rightarrow> string" where
  "lock_text e = (case ob_lock_token e of None \<Rightarrow> [] | Some t \<Rightarrow> t)"

definition publish_row :: "broker \<Rightarrow> OutboxEvent \<Rightarrow> (string \<times> string) + BrokerPublishAck" where
  "publish_row broker e = (let (delivery_id, headers) = delivery_headers e
     in broker (ob_subject e) (ob_payload e) delivery_id headers)"

text \<open>\<open>except Exception\<close>: an error of the recording transaction is a failed publication too.\<close>

definition error_of :: "err \<Rightarrow> string \<times> string" where
  "error_of e = (case e of
     IntegrityError \<Rightarrow> (''IntegrityError'', ''IntegrityError'')
   | HTTPException status detail \<Rightarrow> (''HTTPException'', detail)
   | ValueError m \<Rightarrow> (''ValueError'', m)
   | LookupError m \<Rightarrow> (''LookupError'', m)
   | MultipleResultsFound \<Rightarrow> (''MultipleResultsFound'', ''Multiple rows were found when one or none was required''))"

fun publish_rows :: "gw_settings \<Rightarrow> broker \<Rightarrow> string \<Rightarrow> OutboxEvent list \<Rightarrow> OutboxRunResult \<Rightarrow> OutboxRunResult gw" where
  "publish_rows cfg broker replica_id [] result = ret result"
| "publish_rows cfg broker replica_id (e # es) result =
     bindS (let failed = (\<lambda>err. bindS (record_failure cfg replica_id (ob_id e) (lock_text e) err) (\<lambda>status.
                  ret (if status = ''dead_letter'' then result\<lparr>rs_dead_lettered := rs_dead_lettered result + 1\<rparr>
                       else if status = ''retry'' then result\<lparr>rs_retried := rs_retried result + 1\<rparr> else result)))
            in case publish_row broker e of
                 Inl err \<Rightarrow> failed err
               | Inr ack \<Rightarrow> catchS (bindS (record_success replica_id (ob_id e) (lock_text e) ack) (\<lambda>accepted.
                     ret (if accepted then result\<lparr>rs_published := rs_published result + 1\<rparr> else result)))
                   (\<lambda>x. failed (error_of x))) (\<lambda>result.
     publish_rows cfg broker replica_id es result)"

definition run_once :: "gw_settings \<Rightarrow> broker \<Rightarrow> string \<Rightarrow> int option \<Rightarrow> OutboxRunResult gw" where
  "run_once cfg broker replica_id limit =
     bindS (claim_batch cfg replica_id limit) (\<lambda>rows.
     publish_rows cfg broker replica_id rows
       \<lparr>rs_claimed = length rows, rs_published = 0, rs_retried = 0, rs_dead_lettered = 0\<rparr>)"

section \<open>Operator actions\<close>

definition replay_id :: "OutboxEvent \<Rightarrow> string" where
  "replay_id e = ob_audit_event_id e @ '':replay:'' @ int_dec (ob_replay_count e + 1)"

definition replayed_event :: "gw_settings \<Rightarrow> int \<Rightarrow> OutboxEvent \<Rightarrow> OutboxEvent" where
  "replayed_event cfg now e = unlock now (e\<lparr>ob_status := ''pending'', ob_available_at := now,
     ob_max_attempts := max (ob_max_attempts e) (ob_attempt_count e + max 1 (gateway_outbox_max_attempts cfg)),
     ob_replay_count := ob_replay_count e + 1,
     ob_headers := dset ''X-Gateway-Replay-Count'' (JStr (int_dec (ob_replay_count e + 1)))
       (dset ''Nats-Msg-Id'' (JStr (replay_id e)) (ob_headers e)),
     ob_published_at := None, ob_broker_stream := None, ob_broker_sequence := None, ob_last_error := None\<rparr>)"

definition replay :: "gw_settings \<Rightarrow> string \<Rightarrow> string \<Rightarrow> string option \<Rightarrow> string option \<Rightarrow> OutboxEvent gw" where
  "replay cfg replica_id event_id actor_subject reason = atomically (
     bindS (get_event event_id) (\<lambda>found.
     case found of
       None \<Rightarrow> raise (LookupError ''Outbox event not found'')
     | Some e \<Rightarrow>
         bindS (guardS (ob_status e \<in> {''dead_letter'', ''cancelled'', ''published''})
                  (ValueError ''Only terminal outbox events can be replayed'')) (\<lambda>_.
         bindS (gets clock) (\<lambda>now.
         bindS (put_event (replayed_event cfg now e)) (\<lambda>_.
         bindS (outbox_audit cfg ''gateway.outbox.replayed.v1'' (or_else actor_subject (''system:'' @ replica_id)) ''replayed'' (ob_id e)
                  [(''outbox_event_id'', JStr (ob_id e)), (''audit_event_id'', JStr (ob_audit_event_id e)),
                   (''event_type'', JStr (ob_event_type e)), (''replay_count'', JInt (ob_replay_count e + 1)),
                   (''delivery_id'', JStr (replay_id e)),
                   (''reason'', (let r = take 1000 (case reason of None \<Rightarrow> [] | Some s \<Rightarrow> s) in if r = [] then JNull else JStr r))]
                  ''success'') (\<lambda>_.
         ret (replayed_event cfg now e)))))))"

definition cancelled_event :: "int \<Rightarrow> OutboxEvent \<Rightarrow> OutboxEvent" where
  "cancelled_event now e = unlock now (e\<lparr>ob_status := ''cancelled''\<rparr>)"

definition cancel :: "gw_settings \<Rightarrow> string \<Rightarrow> string \<Rightarrow> string option \<Rightarrow> OutboxEvent gw" where
  "cancel cfg replica_id event_id actor_subject = atomically (
     bindS (get_event event_id) (\<lambda>found.
     case found of
       None \<Rightarrow> raise (LookupError ''Outbox event not found'')
     | Some e \<Rightarrow>
         bindS (guardS (ob_status e \<noteq> ''published'') (ValueError ''Published outbox events cannot be cancelled'')) (\<lambda>_.
         bindS (gets clock) (\<lambda>now.
         bindS (put_event (cancelled_event now e)) (\<lambda>_.
         bindS (outbox_audit cfg ''gateway.outbox.cancelled.v1'' (or_else actor_subject (''system:'' @ replica_id)) ''cancelled'' (ob_id e)
                  [(''outbox_event_id'', JStr (ob_id e)), (''audit_event_id'', JStr (ob_audit_event_id e)),
                   (''event_type'', JStr (ob_event_type e))] ''warning'') (\<lambda>_.
         ret (cancelled_event now e)))))))"

definition mark_processed :: "gw_settings \<Rightarrow> string \<Rightarrow> string \<Rightarrow> string \<Rightarrow> string option \<Rightarrow> string option \<Rightarrow> bool gw" where
  "mark_processed cfg message_id subject payload stream consumer =
     bindS (gets (\<lambda>w. find (\<lambda>m. pm_message_id m = message_id) (processed_broker_messages w))) (\<lambda>found.
     case found of
       Some _ \<Rightarrow> ret False
     | None \<Rightarrow>
         bindS (gets clock) (\<lambda>now.
         on_conflict
           (bindS (insert_row (\<lambda>m. pm_message_id m = message_id) processed_broker_messages
              (\<lambda>w. w\<lparr>processed_broker_messages := processed_broker_messages w @
                [\<lparr>pm_message_id = message_id, pm_stream = stream, pm_consumer = consumer, pm_subject = subject,
                  pm_payload_sha256 = sha256_hex cfg payload, pm_processed_at = now\<rparr>]\<rparr>)) (\<lambda>_. ret True))
           (ret False)))"

end
