(* ===== verification/Outbox_Steps.thy ===== *)
theory Outbox_Steps
  imports Outbox Store_Frames
begin

text \<open>
  What each method of the publisher does to the stored events: the moves of one event, the
  tokens that lock it, and the delivery attempts recorded for it.
\<close>

section \<open>The moves of an event\<close>

definition same_event :: "OutboxEvent \<Rightarrow> OutboxEvent \<Rightarrow> bool" where
  "same_event e e' \<longleftrightarrow> ob_id e' = ob_id e \<and> ob_audit_event_id e' = ob_audit_event_id e \<and>
     ob_owner_subject e' = ob_owner_subject e \<and> ob_event_type e' = ob_event_type e \<and>
     ob_subject e' = ob_subject e \<and> ob_payload e' = ob_payload e \<and> ob_created_at e' = ob_created_at e"

definition unlocked :: "OutboxEvent \<Rightarrow> bool" where
  "unlocked e \<longleftrightarrow> ob_locked_by e = None \<and> ob_lock_token e = None \<and> ob_locked_at e = None"

inductive outbox_move :: "gw_settings \<Rightarrow> int \<Rightarrow> OutboxEvent \<Rightarrow> OutboxEvent \<Rightarrow> bool" for cfg now where
  stay: "outbox_move cfg now e e"
| claim: "is_claimable now e \<Longrightarrow> ob_status e' = ''processing'' \<Longrightarrow> ob_locked_by e' \<noteq> None \<Longrightarrow>
    ob_lock_token e' \<noteq> None \<Longrightarrow> ob_locked_at e' = Some now \<Longrightarrow> ob_attempt_count e' = ob_attempt_count e \<Longrightarrow>
    ob_max_attempts e' = ob_max_attempts e \<Longrightarrow> same_event e e' \<Longrightarrow> outbox_move cfg now e e'"
| release: "is_stale_claim (now - seconds (max 1 (gateway_outbox_lock_ttl_seconds cfg))) e \<Longrightarrow>
    ob_status e' = ''retry'' \<Longrightarrow> unlocked e' \<Longrightarrow> ob_attempt_count e' = ob_attempt_count e \<Longrightarrow>
    ob_max_attempts e' = ob_max_attempts e \<Longrightarrow> same_event e e' \<Longrightarrow> outbox_move cfg now e e'"
| publish: "ob_status e = ''processing'' \<Longrightarrow> ob_status e' = ''published'' \<Longrightarrow> unlocked e' \<Longrightarrow>
    ob_published_at e' = Some now \<Longrightarrow> ob_attempt_count e' = ob_attempt_count e + 1 \<Longrightarrow>
    ob_max_attempts e' = ob_max_attempts e \<Longrightarrow> same_event e e' \<Longrightarrow> outbox_move cfg now e e'"
| retry: "ob_status e = ''processing'' \<Longrightarrow> ob_attempt_count e + 1 < max 1 (ob_max_attempts e) \<Longrightarrow>
    ob_status e' = ''retry'' \<Longrightarrow> unlocked e' \<Longrightarrow> ob_attempt_count e' = ob_attempt_count e + 1 \<Longrightarrow>
    ob_available_at e' = now + outbox_delay cfg (ob_attempt_count e') \<Longrightarrow>
    ob_max_attempts e' = ob_max_attempts e \<Longrightarrow> same_event e e' \<Longrightarrow> outbox_move cfg now e e'"
| bury: "ob_status e = ''processing'' \<Longrightarrow> max 1 (ob_max_attempts e) \<le> ob_attempt_count e + 1 \<Longrightarrow>
    ob_status e' = ''dead_letter'' \<Longrightarrow> unlocked e' \<Longrightarrow> ob_attempt_count e' = ob_attempt_count e + 1 \<Longrightarrow>
    ob_max_attempts e' = ob_max_attempts e \<Longrightarrow> same_event e e' \<Longrightarrow> outbox_move cfg now e e'"
| cancel: "ob_status e \<noteq> ''published'' \<Longrightarrow> ob_status e' = ''cancelled'' \<Longrightarrow> unlocked e' \<Longrightarrow>
    ob_attempt_count e' = ob_attempt_count e \<Longrightarrow> ob_max_attempts e' = ob_max_attempts e \<Longrightarrow> same_event e e' \<Longrightarrow>
    outbox_move cfg now e e'"
| replay: "ob_status e \<in> {''dead_letter'', ''cancelled'', ''published''} \<Longrightarrow> ob_status e' = ''pending'' \<Longrightarrow> unlocked e' \<Longrightarrow>
    ob_attempt_count e' = ob_attempt_count e \<Longrightarrow> ob_attempt_count e < ob_max_attempts e' \<Longrightarrow>
    ob_replay_count e' = ob_replay_count e + 1 \<Longrightarrow> same_event e e' \<Longrightarrow> outbox_move cfg now e e'"

inductive_cases outbox_moveE: "outbox_move cfg now e e'"

text \<open>A lock is there exactly while an event is being processed, and an open event has attempts left.\<close>

definition event_ok :: "OutboxEvent \<Rightarrow> bool" where
  "event_ok e \<longleftrightarrow>
     (if ob_status e = ''processing'' then ob_locked_by e \<noteq> None \<and> ob_lock_token e \<noteq> None \<and> ob_locked_at e \<noteq> None
      else unlocked e) \<and>
     0 \<le> ob_attempt_count e \<and> ob_attempt_count e \<le> ob_max_attempts e \<and>
     (ob_status e \<in> {''pending'', ''retry'', ''processing''} \<longrightarrow> ob_attempt_count e < ob_max_attempts e) \<and>
     (ob_status e = ''dead_letter'' \<longrightarrow> ob_attempt_count e = ob_max_attempts e) \<and>
     ob_status e \<in> {''pending'', ''retry'', ''processing'', ''published'', ''dead_letter'', ''cancelled''}"

definition fresh_event :: "OutboxEvent \<Rightarrow> bool" where
  "fresh_event e \<longleftrightarrow> ob_status e = ''pending'' \<and> unlocked e \<and> ob_attempt_count e = 0 \<and> 1 \<le> ob_max_attempts e"

lemma outbox_move_same: "outbox_move cfg now e e' \<Longrightarrow> same_event e e'"
  by (auto elim: outbox_moveE simp: same_event_def)

lemma outbox_move_ok: "outbox_move cfg now e e' \<Longrightarrow> event_ok e \<Longrightarrow> event_ok e'"
  by (erule outbox_moveE) (auto simp: event_ok_def is_claimable_def is_stale_claim_def)

lemma fresh_event_ok: "fresh_event e \<Longrightarrow> event_ok e"
  by (simp add: fresh_event_def event_ok_def)

text \<open>One call may move an event twice: a claim releases a stale lock before it takes the event.\<close>

abbreviation outbox_moves :: "gw_settings \<Rightarrow> int \<Rightarrow> OutboxEvent \<Rightarrow> OutboxEvent \<Rightarrow> bool" where
  "outbox_moves cfg now \<equiv> (outbox_move cfg now)\<^sup>*\<^sup>*"

lemma outbox_moves_same: "outbox_moves cfg now e e' \<Longrightarrow> same_event e e'"
proof (induction rule: rtranclp_induct)
  case (step e' e'')
  then show ?case using outbox_move_same [OF step(2)] by (simp add: same_event_def)
qed (simp add: same_event_def)

lemma outbox_moves_ok: "outbox_moves cfg now e e' \<Longrightarrow> event_ok e \<Longrightarrow> event_ok e'"
  by (induction rule: rtranclp_induct) (auto intro: outbox_move_ok)

interpretation event_rows: row_moves ob_id "outbox_moves cfg now" fresh_event for cfg now
  using outbox_moves_same by unfold_locales (auto simp: same_event_def)

abbreviation steps_events :: "gw_settings \<Rightarrow> gdb \<Rightarrow> gdb \<Rightarrow> bool" where
  "steps_events cfg w w' \<equiv>
     rows_step ob_id (outbox_moves cfg (clock w)) fresh_event (outbox_events w) (outbox_events w')"

section \<open>Claiming\<close>

definition lock_row :: "string \<Rightarrow> int \<Rightarrow> string \<Rightarrow> OutboxEvent \<Rightarrow> OutboxEvent" where
  "lock_row replica now token e = e\<lparr>ob_status := ''processing'', ob_locked_by := Some replica, ob_lock_token := Some token,
     ob_locked_at := Some now, ob_updated_at := now\<rparr>"

fun locked_rows :: "string \<Rightarrow> int \<Rightarrow> (nat \<Rightarrow> string) \<Rightarrow> nat \<Rightarrow> OutboxEvent list \<Rightarrow> OutboxEvent list" where
  "locked_rows replica now src n [] = []"
| "locked_rows replica now src n (e # es) = lock_row replica now (src n) e # locked_rows replica now src (Suc n) es"

lemma lock_rows_eq:
  "lock_rows replica now es w = (let l = locked_rows replica now (id_src w) (id_pos w) es
     in (Inr l, w\<lparr>outbox_events := put_all ob_id l (outbox_events w), id_pos := id_pos w + length es\<rparr>))"
proof (induction es arbitrary: w)
  case Nil
  show ?case by (simp add: ret_def put_all_def)
next
  case (Cons e es)
  show ?case
    by (simp add: bindS_def new_id_def put_event_def modify_def ret_def Cons.IH Let_def put_all_def lock_row_def)
qed

lemma locked_rows_move:
  "\<forall>e \<in> set es. is_claimable now e \<Longrightarrow> list_all2 (outbox_moves cfg now) es (locked_rows replica now src n es)"
  by (induction es arbitrary: n)
     (auto simp: lock_row_def same_event_def intro!: r_into_rtranclp outbox_move.claim)

lemma locked_rows_token:
  "e' \<in> set (locked_rows replica now src n es) \<Longrightarrow> \<exists>k. n \<le> k \<and> k < n + length es \<and> ob_lock_token e' = Some (src k)"
proof (induction es arbitrary: n)
  case (Cons e es)
  show ?case
  proof (cases "e' = lock_row replica now (src n) e")
    case False
    then obtain k where "Suc n \<le> k" "k < Suc n + length es" "ob_lock_token e' = Some (src k)"
      using Cons.IH [of "Suc n"] Cons.prems by auto
    then show ?thesis by (intro exI [of _ k]) simp
  qed (auto simp: lock_row_def)
qed simp

definition released :: "gw_settings \<Rightarrow> int \<Rightarrow> OutboxEvent \<Rightarrow> OutboxEvent" where
  "released cfg now e = (if is_stale_claim (now - seconds (max 1 (gateway_outbox_lock_ttl_seconds cfg))) e
     then e\<lparr>ob_status := ''retry'', ob_available_at := now, ob_locked_by := None, ob_lock_token := None,
       ob_locked_at := None, ob_last_error := Some ''stale publisher claim released'', ob_updated_at := now\<rparr> else e)"

definition batch_of :: "gw_settings \<Rightarrow> int option \<Rightarrow> int \<Rightarrow> OutboxEvent list \<Rightarrow> OutboxEvent list" where
  "batch_of cfg limit now rows = take (batch_limit cfg limit)
     (sort_key (\<lambda>e. (ob_available_at e, ob_created_at e, ob_id e)) (filter (is_claimable now) rows))"

lemma claim_batch_eq:
  "claim_batch cfg replica limit w =
     (let rows = map (released cfg (clock w)) (outbox_events w);
          batch = batch_of cfg limit (clock w) rows;
          l = locked_rows replica (clock w) (id_src w) (id_pos w) batch
      in (Inr l, w\<lparr>outbox_events := put_all ob_id l rows, id_pos := id_pos w + length batch\<rparr>))"
  by (simp add: claim_batch_def release_stale_claims_def bindS_def gets_def lock_rows_eq Let_def batch_of_def
      update_where_def released_def [abs_def])

lemma released_move: "outbox_moves cfg now e (released cfg now e)"
  by (auto simp: released_def unlocked_def same_event_def intro!: r_into_rtranclp outbox_move.release)

lemma batch_ofD:
  "set (batch_of cfg limit now rows) \<subseteq> set rows" "\<forall>e \<in> set (batch_of cfg limit now rows). is_claimable now e"
  "distinct rows \<Longrightarrow> distinct (batch_of cfg limit now rows)"
  by (auto simp: batch_of_def dest: in_set_takeD)

text \<open>A claim as one function on the rows: the batch is locked, the others are at most released.\<close>

lemma claim_batch_map:
  fixes cfg :: gw_settings and w :: gdb and limit :: "int option"
  assumes u: "unique_on ob_id (outbox_events w)"
  defines "rows \<equiv> map (released cfg (clock w)) (outbox_events w)"
  defines "batch \<equiv> batch_of cfg limit (clock w) rows"
  shows "unique_on ob_id rows" "distinct batch" "set batch \<subseteq> set rows"
    "\<exists>f. put_all ob_id (locked_rows replica (clock w) src n batch) rows = map f rows \<and>
      (\<forall>e \<in> set rows. outbox_moves cfg (clock w) e (f e)) \<and> (\<forall>e \<in> set rows. e \<notin> set batch \<longrightarrow> f e = e) \<and>
      map f batch = locked_rows replica (clock w) src n batch"
proof -
  show u': "unique_on ob_id rows"
    using event_rows.step_map [OF u, of cfg "clock w" "released cfg (clock w)"] released_move
    by (auto simp: rows_def rows_step_def)
  then have "distinct rows" by (simp add: unique_on_def distinct_map)
  then show d: "distinct batch" by (simp add: batch_def batch_ofD)
  show sub: "set batch \<subseteq> set rows" by (simp add: batch_def batch_ofD(1))
  show "\<exists>f. put_all ob_id (locked_rows replica (clock w) src n batch) rows = map f rows \<and>
      (\<forall>e \<in> set rows. outbox_moves cfg (clock w) e (f e)) \<and> (\<forall>e \<in> set rows. e \<notin> set batch \<longrightarrow> f e = e) \<and>
      map f batch = locked_rows replica (clock w) src n batch"
    by (rule event_rows.step_put_all [OF u' sub d locked_rows_move]) (simp add: batch_def batch_ofD(2))
qed

lemma steps_claim_batch:
  assumes u: "unique_on ob_id (outbox_events w)"
  shows "steps_events cfg w (snd (claim_batch cfg replica limit w))"
proof -
  let ?rows = "map (released cfg (clock w)) (outbox_events w)"
  obtain f where f: "put_all ob_id (locked_rows replica (clock w) (id_src w) (id_pos w)
        (batch_of cfg limit (clock w) ?rows)) ?rows = map f ?rows" "\<forall>e \<in> set ?rows. outbox_moves cfg (clock w) e (f e)"
    using claim_batch_map(4) [OF u] by blast
  have "rows_step ob_id (outbox_moves cfg (clock w)) fresh_event (outbox_events w)
      (map (\<lambda>e. f (released cfg (clock w) e)) (outbox_events w))"
  proof (rule event_rows.step_map [OF u])
    fix e
    assume "e \<in> set (outbox_events w)"
    then have "outbox_moves cfg (clock w) (released cfg (clock w) e) (f (released cfg (clock w) e))" using f(2) by simp
    with released_move show "outbox_moves cfg (clock w) e (f (released cfg (clock w) e))" by (rule rtranclp_trans)
  qed
  then show ?thesis by (simp add: claim_batch_eq Let_def f(1) [unfolded map_map] comp_def)
qed

section \<open>Recording and operator actions\<close>

lemma get_event_find: "get_event i w = (Inr (find (\<lambda>e. ob_id e = i) (outbox_events w)), w)"
  by (simp add: get_event_def gets_def)

lemma wpr_get_event:
  assumes "\<And>e. e \<in> set (outbox_events w) \<Longrightarrow> ob_id e = i \<Longrightarrow> Q (Some e) w" and "Q None w"
  shows "wpr (get_event i) Q w"
proof (cases "find (\<lambda>e. ob_id e = i) (outbox_events w)")
  case (Some e)
  then show ?thesis using assms(1) find_Some_in [OF Some] by (simp add: wp_def get_event_find)
qed (simp add: wp_def get_event_find assms(2))

lemma wpr_outbox_audit:
  assumes "\<And>a n. id_pos w \<le> n \<Longrightarrow> Q () (w\<lparr>id_pos := n, audit_events := a\<rparr>)"
  shows "wpr (outbox_audit cfg ty actor act i pl st) Q w"
  unfolding outbox_audit_def emit_audit_def emit_event_def wp_bind wp_gets
  by (intro wpr_new_id wpr_insert_row) (simp add: assms)

lemmas settled_defs = published_event_def failed_event_def replayed_event_def cancelled_event_def unlock_def unlocked_def
  same_event_def

lemma settled_moves:
  "ob_status e = ''processing'' \<Longrightarrow> outbox_move cfg now e (published_event now ack e)"
  "ob_status e = ''processing'' \<Longrightarrow> outbox_move cfg now e (failed_event cfg now t e)"
  "ob_status e \<noteq> ''published'' \<Longrightarrow> outbox_move cfg now e (cancelled_event now e)"
  "ob_status e \<in> {''dead_letter'', ''cancelled'', ''published''} \<Longrightarrow> outbox_move cfg now e (replayed_event cfg now e)"
proof -
  assume proc: "ob_status e = ''processing''"
  show "outbox_move cfg now e (published_event now ack e)"
    by (rule outbox_move.publish [OF proc]) (simp_all add: settled_defs)
  show "outbox_move cfg now e (failed_event cfg now t e)"
  proof (cases "is_terminal e")
    case True
    then have "max 1 (ob_max_attempts e) \<le> ob_attempt_count e + 1" unfolding is_terminal_def .
    then show ?thesis
      by (rule outbox_move.bury [OF proc]) (simp_all add: True settled_defs failure_status_def)
  next
    case False
    then have "ob_attempt_count e + 1 < max 1 (ob_max_attempts e)" unfolding is_terminal_def not_le .
    then show ?thesis
      by (rule outbox_move.retry [OF proc]) (simp_all add: False settled_defs failure_status_def)
  qed
next
  assume "ob_status e \<noteq> ''published''"
  then show "outbox_move cfg now e (cancelled_event now e)"
    by (rule outbox_move.cancel) (simp_all add: settled_defs)
next
  assume "ob_status e \<in> {''dead_letter'', ''cancelled'', ''published''}"
  then show "outbox_move cfg now e (replayed_event cfg now e)"
    by (rule outbox_move.replay) (simp_all add: settled_defs)
qed

text \<open>The rows after one event is rewritten.\<close>

definition rewritten :: "OutboxEvent \<Rightarrow> gdb \<Rightarrow> OutboxEvent list" where
  "rewritten e w = update_where (\<lambda>q. ob_id q = ob_id e) (\<lambda>_. e) (outbox_events w)"

lemma wpr_record_success:
  assumes "Q False w"
    and "\<And>e n i'. e \<in> set (outbox_events w) \<Longrightarrow> ob_id e = i \<Longrightarrow> holds_lock replica token e \<Longrightarrow> id_pos w \<le> n \<Longrightarrow>
      Q True (w\<lparr>outbox_events := rewritten (published_event (clock w) ack e) w, id_pos := n,
        outbox_delivery_attempts := outbox_delivery_attempts w @ [attempt_row replica (clock w) e i'
          (if ack_duplicate ack then ''duplicate'' else ''published'') None (ack_stream ack) (ack_sequence ack)]\<rparr>)"
  shows "wpr (record_success replica i token ack) Q w"
  unfolding record_success_def
proof (rule wpr_atomically, unfold wp_bind, rule wpr_get_event, goal_cases)
  case (1 e)
  show ?case
  proof (cases "holds_lock replica token e")
    case True
    then have hold: "\<not> (\<not> holds_lock replica token e)" by simp
    show ?thesis
      unfolding put_event_def add_attempt_def option.case if_not_P [OF hold] wp_bind wp_gets wp_modify
      by (intro wpr_new_id wpr_insert_row) (use assms(2) [OF 1 True] in \<open>simp add: rewritten_def\<close>)
  qed (simp add: assms(1))
qed (simp add: assms(1))

lemma wpr_record_failure:
  assumes "Q ''stale'' w"
    and "\<And>e n i' a w'. e \<in> set (outbox_events w) \<Longrightarrow> ob_id e = i \<Longrightarrow> holds_lock replica token e \<Longrightarrow> id_pos w \<le> n \<Longrightarrow>
      w' = w\<lparr>outbox_events := rewritten (failed_event cfg (clock w) (error_text err) e) w, id_pos := n,
        outbox_delivery_attempts := outbox_delivery_attempts w @ [attempt_row replica (clock w) e i' (failure_status e)
          (Some (error_text err)) None None], audit_events := a\<rparr> \<Longrightarrow> Q (failure_status e) w'"
  shows "wpr (record_failure cfg replica i token err) Q w"
  unfolding record_failure_def
proof (rule wpr_atomically, unfold wp_bind, rule wpr_get_event, goal_cases)
  case (1 e)
  show ?case
  proof (cases "holds_lock replica token e")
    case True
    then have hold: "\<not> (\<not> holds_lock replica token e)" by simp
    note done_fail = assms(2) [OF 1 True]
    show ?thesis
      unfolding put_event_def add_attempt_def option.case if_not_P [OF hold] wp_bind wp_gets wp_modify
    proof (intro wpr_new_id wpr_insert_row, goal_cases)
      case (1 i')
      show ?case
      proof (cases "is_terminal e")
        case True
        show ?thesis
          unfolding if_P [OF True]
        proof (rule wpr_outbox_audit, unfold wp_ret, goal_cases)
          case (1 a n)
          then show ?case by (intro done_fail [where n = n and i' = i' and a = a]) (simp_all add: rewritten_def)
        qed
      next
        case False
        show ?thesis
          unfolding if_not_P [OF False] wp_ret
          by (rule done_fail [where n = "Suc (id_pos w)" and i' = i' and a = "audit_events w"]) (simp_all add: rewritten_def)
      qed
    qed
  qed (simp add: assms(1))
qed (simp add: assms(1))

lemma wpr_cancel:
  assumes "\<And>e n a. e \<in> set (outbox_events w) \<Longrightarrow> ob_id e = i \<Longrightarrow> ob_status e \<noteq> ''published'' \<Longrightarrow> id_pos w \<le> n \<Longrightarrow>
      Q (cancelled_event (clock w) e) (w\<lparr>outbox_events := rewritten (cancelled_event (clock w) e) w, id_pos := n, audit_events := a\<rparr>)"
  shows "wpr (cancel cfg replica i actor) Q w"
  unfolding cancel_def
proof (rule wpr_atomically, unfold wp_bind, rule wpr_get_event, goal_cases)
  case (1 e)
  show ?case
    unfolding put_event_def option.case wp_bind wp_gets wp_modify
    by (intro wpr_guard wpr_outbox_audit) (use assms [OF 1] in \<open>simp add: rewritten_def\<close>)
qed simp

lemma wpr_replay:
  assumes "\<And>e n a. e \<in> set (outbox_events w) \<Longrightarrow> ob_id e = i \<Longrightarrow> ob_status e \<in> {''dead_letter'', ''cancelled'', ''published''} \<Longrightarrow> id_pos w \<le> n \<Longrightarrow>
      Q (replayed_event cfg (clock w) e) (w\<lparr>outbox_events := rewritten (replayed_event cfg (clock w) e) w, id_pos := n, audit_events := a\<rparr>)"
  shows "wpr (replay cfg replica i actor reason) Q w"
  unfolding replay_def
proof (rule wpr_atomically, unfold wp_bind, rule wpr_get_event, goal_cases)
  case (1 e)
  show ?case
    unfolding put_event_def option.case wp_bind wp_gets wp_modify
    by (intro wpr_guard wpr_outbox_audit) (use assms [OF 1] in \<open>simp add: rewritten_def\<close>)
qed simp

end
