(* ===== verification/Outbox_Correct.thy ===== *)
theory Outbox_Correct
  imports Outbox_Steps Collaboration_Correct
begin

text \<open>
  The properties of the outbox publisher: locks and attempt counts of the stored events, lock
  tokens as fences against late publishers, and exactly-once recording of consumed messages.
\<close>

section \<open>The system\<close>

datatype outbox_call =
    Claim string "int option"
  | RecordSuccess string string string BrokerPublishAck
  | RecordFailure string string string "string \<times> string"
  | Replay string string "string option" "string option"
  | Cancel string string "string option"
  | Emit event_request

fun outbox_step :: "gw_settings \<Rightarrow> outbox_call \<Rightarrow> gdb \<Rightarrow> gdb" where
  "outbox_step cfg (Claim replica limit) w = snd (claim_batch cfg replica limit w)"
| "outbox_step cfg (RecordSuccess replica i token ack) w = snd (record_success replica i token ack w)"
| "outbox_step cfg (RecordFailure replica i token err) w = snd (record_failure cfg replica i token err w)"
| "outbox_step cfg (Replay replica i actor reason) w = snd (replay cfg replica i actor reason w)"
| "outbox_step cfg (Cancel replica i actor) w = snd (cancel cfg replica i actor w)"
| "outbox_step cfg (Emit ev) w = snd (atomically (emit_event cfg ev) w)"

lemma wpr_emit_event:
  assumes "\<And>a n. id_pos w \<le> n \<Longrightarrow> Q () (w\<lparr>id_pos := n, audit_events := a\<rparr>)"
    and "\<And>a n n' e. fresh_event e \<Longrightarrow> (\<forall>q \<in> set (outbox_events w). ob_id q \<noteq> ob_id e) \<Longrightarrow> id_pos w \<le> n \<Longrightarrow>
      Q () (w\<lparr>audit_events := a, id_pos := n, outbox_events := outbox_events w @ [e]\<rparr>)"
  shows "wpr (emit_event cfg ev) Q w"
proof (cases "gateway_outbox_enabled cfg")
  case True
  show ?thesis
    unfolding emit_event_def wp_bind wp_gets if_P [OF True]
  proof (intro wpr_new_id wpr_insert_row, goal_cases)
    case (1 event_id i)
    then show ?case
      using assms(2) [of "outbox_row cfg ev event_id i (clock w)"]
      by (simp add: list_ex_iff outbox_row_def fresh_event_def unlocked_def Let_def)
  qed
next
  case False
  show ?thesis
    unfolding emit_event_def wp_bind wp_gets if_not_P [OF False]
    by (intro wpr_new_id wpr_insert_row) (simp add: assms(1))
qed

lemma rolls_back_outbox:
  "rolls_back (record_success replica i token ack)" "rolls_back (record_failure cfg replica i token err)"
  "rolls_back (replay cfg replica i actor reason)" "rolls_back (cancel cfg replica i actor)"
  by (simp_all only: record_success_def record_failure_def replay_def cancel_def rolls_back_atomically)

lemma steps_rewritten:
  assumes "unique_on ob_id (outbox_events w)" and "e \<in> set (outbox_events w)" and "outbox_move cfg (clock w) e e'"
    and "outbox_events w' = rewritten e' w"
  shows "steps_events cfg w w'"
proof -
  have "outbox_moves cfg (clock w) e e'" using assms(3) by (rule r_into_rtranclp)
  then show ?thesis unfolding assms(4) rewritten_def by (rule event_rows.step_put [OF assms(1,2)])
qed

lemma outbox_steps_events:
  assumes u: "unique_on ob_id (outbox_events w)"
  shows "steps_events cfg w (outbox_step cfg c w)"
proof (cases c)
  case (Claim replica limit)
  then show ?thesis using steps_claim_batch [OF u] by simp
next
  case (RecordSuccess replica i token ack)
  have "wpr (record_success replica i token ack) (\<lambda>_. steps_events cfg w) w"
  proof (rule wpr_record_success, goal_cases)
    case (2 e n i')
    show ?case by (rule steps_rewritten [OF u 2(1) settled_moves(1)]) (use 2 in \<open>auto simp: holds_lock_def\<close>)
  qed (rule event_rows.step_refl [OF u])
  from wpr_rolls_back [where R = "steps_events cfg", OF rolls_back_outbox(1) this event_rows.step_refl [OF u]]
  show ?thesis using RecordSuccess by simp
next
  case (RecordFailure replica i token err)
  have "wpr (record_failure cfg replica i token err) (\<lambda>_. steps_events cfg w) w"
  proof (rule wpr_record_failure, goal_cases)
    case (2 e n i' a w')
    show ?case by (rule steps_rewritten [OF u 2(1) settled_moves(2)]) (use 2 in \<open>auto simp: holds_lock_def\<close>)
  qed (rule event_rows.step_refl [OF u])
  from wpr_rolls_back [where R = "steps_events cfg", OF rolls_back_outbox(2) this event_rows.step_refl [OF u]]
  show ?thesis using RecordFailure by simp
next
  case (Replay replica i actor reason)
  have "wpr (replay cfg replica i actor reason) (\<lambda>_. steps_events cfg w) w"
  proof (rule wpr_replay, goal_cases)
    case (1 e n a)
    show ?case by (rule steps_rewritten [OF u 1(1) settled_moves(4) [OF 1(3)]]) simp
  qed
  from wpr_rolls_back [where R = "steps_events cfg", OF rolls_back_outbox(3) this event_rows.step_refl [OF u]]
  show ?thesis using Replay by simp
next
  case (Cancel replica i actor)
  have "wpr (cancel cfg replica i actor) (\<lambda>_. steps_events cfg w) w"
  proof (rule wpr_cancel, goal_cases)
    case (1 e n a)
    show ?case by (rule steps_rewritten [OF u 1(1) settled_moves(3) [OF 1(3)]]) simp
  qed
  from wpr_rolls_back [where R = "steps_events cfg", OF rolls_back_outbox(4) this event_rows.step_refl [OF u]]
  show ?thesis using Cancel by simp
next
  case (Emit ev)
  have "wpr (atomically (emit_event cfg ev)) (\<lambda>_. steps_events cfg w) w"
    by (intro wpr_atomically wpr_emit_event) (simp_all add: event_rows.step_refl [OF u] event_rows.step_add [OF u])
  from wpr_rolls_back [where R = "steps_events cfg", OF rolls_back_atomically this event_rows.step_refl [OF u]]
  show ?thesis using Emit by simp
qed

text \<open>Runs, with other services that take identifiers and let time pass between the calls.\<close>

inductive outbox_run :: "gw_settings \<Rightarrow> gdb \<Rightarrow> gdb \<Rightarrow> bool" for cfg w where
  begin_run: "outbox_run cfg w w"
| call: "outbox_run cfg w u \<Longrightarrow> outbox_run cfg w (outbox_step cfg c u)"
| other: "outbox_run cfg w u \<Longrightarrow> outbox_events u' = outbox_events u \<Longrightarrow> id_src u' = id_src u \<Longrightarrow> id_pos u \<le> id_pos u' \<Longrightarrow>
    outbox_run cfg w u'"

definition outbox_inv :: "gdb \<Rightarrow> bool" where
  "outbox_inv w \<longleftrightarrow> unique_on ob_id (outbox_events w) \<and> (\<forall>e \<in> set (outbox_events w). event_ok e)"

lemma outbox_inv_step:
  assumes inv: "outbox_inv w"
  shows "outbox_inv (outbox_step cfg c w)"
proof -
  have step: "steps_events cfg w (outbox_step cfg c w)"
    using inv by (intro outbox_steps_events) (simp add: outbox_inv_def)
  have "event_ok e'" if "e' \<in> set (outbox_events (outbox_step cfg c w))" for e'
    using event_rows.step_origin [OF step that] inv outbox_moves_ok fresh_event_ok by (auto simp: outbox_inv_def)
  then show ?thesis using step by (simp add: outbox_inv_def rows_step_def)
qed

lemma outbox_inv_run: "outbox_run cfg w u \<Longrightarrow> outbox_inv w \<Longrightarrow> outbox_inv u"
proof (induction rule: outbox_run.induct)
  case (call u c)
  then show ?case by (simp add: outbox_inv_step)
next
  case (other u u')
  then show ?case by (simp add: outbox_inv_def)
qed

section \<open>Tokens\<close>

definition tokens_step :: "gdb \<Rightarrow> gdb \<Rightarrow> bool" where
  "tokens_step w w' \<longleftrightarrow> id_src w' = id_src w \<and> id_pos w \<le> id_pos w' \<and>
     (\<forall>e' \<in> set (outbox_events w'). \<forall>t. ob_lock_token e' = Some t \<longrightarrow>
        (\<exists>e \<in> set (outbox_events w). ob_lock_token e = Some t) \<or> (\<exists>k. id_pos w \<le> k \<and> k < id_pos w' \<and> t = id_src w k))"

lemma tokens_step_refl: "tokens_step w w"
  by (auto simp: tokens_step_def)

lemma tokens_stepD:
  assumes "tokens_step w w'" and "e' \<in> set (outbox_events w')" and "ob_lock_token e' = Some t"
  obtains (old) e where "e \<in> set (outbox_events w)" "ob_lock_token e = Some t"
    | (new) k where "id_pos w \<le> k" "k < id_pos w'" "t = id_src w k"
  using assms unfolding tokens_step_def by blast

lemma tokens_rewritten:
  assumes "outbox_events w' = rewritten e' w" and "ob_lock_token e' = None" and "id_src w' = id_src w"
    and "id_pos w \<le> id_pos w'"
  shows "tokens_step w w'"
  using assms by (auto simp: tokens_step_def rewritten_def set_update_where)

lemma tokens_claim:
  assumes u: "unique_on ob_id (outbox_events w)"
  shows "tokens_step w (snd (claim_batch cfg replica limit w))"
proof -
  let ?rows = "map (released cfg (clock w)) (outbox_events w)"
  let ?batch = "batch_of cfg limit (clock w) ?rows"
  let ?locked = "locked_rows replica (clock w) (id_src w) (id_pos w) ?batch"
  obtain f where f: "put_all ob_id ?locked ?rows = map f ?rows" "\<forall>e \<in> set ?rows. e \<notin> set ?batch \<longrightarrow> f e = e"
      "map f ?batch = ?locked"
    using claim_batch_map(4) [OF u] by blast
  have "(\<exists>e \<in> set (outbox_events w). ob_lock_token e = Some t) \<or>
      (\<exists>k. id_pos w \<le> k \<and> k < id_pos w + length ?batch \<and> t = id_src w k)"
    if "e' \<in> set (map f ?rows)" "ob_lock_token e' = Some t" for e' t
  proof -
    have "e' \<in> (\<lambda>e. f (released cfg (clock w) e)) ` set (outbox_events w)" using that(1) by (simp add: image_image)
    then obtain e where e: "e \<in> set (outbox_events w)" "e' = f (released cfg (clock w) e)" by blast
    show ?thesis
    proof (cases "released cfg (clock w) e \<in> set ?batch")
      case True
      then have "e' \<in> set (map f ?batch)" unfolding e(2) set_map by (rule imageI)
      from locked_rows_token [OF this [unfolded f(3)]] that(2) show ?thesis by auto
    next
      case False
      then have "e' = released cfg (clock w) e" using f(2) e by simp
      then have "ob_lock_token e = Some t" using that(2) by (auto simp: released_def split: if_splits)
      with e show ?thesis by blast
    qed
  qed
  then show ?thesis unfolding tokens_step_def by (simp add: claim_batch_eq Let_def f(1))
qed

lemma settled_tokens:
  "ob_lock_token (published_event now ack e) = None" "ob_lock_token (failed_event cfg now t e) = None"
  "ob_lock_token (replayed_event cfg now e) = None" "ob_lock_token (cancelled_event now e) = None"
  by (simp_all add: settled_defs)

lemma tokens_outbox_step:
  assumes u: "unique_on ob_id (outbox_events w)"
  shows "tokens_step w (outbox_step cfg c w)"
proof (cases c)
  case (RecordSuccess replica i token ack)
  have "wpr (record_success replica i token ack) (\<lambda>_. tokens_step w) w"
    by (rule wpr_record_success [OF tokens_step_refl], rule tokens_rewritten [OF _ settled_tokens(1)]) simp_all
  then show ?thesis
    using RecordSuccess wpr_rolls_back [where R = tokens_step, OF rolls_back_outbox(1)] tokens_step_refl by simp
next
  case (RecordFailure replica i token err)
  have "wpr (record_failure cfg replica i token err) (\<lambda>_. tokens_step w) w"
    by (rule wpr_record_failure [OF tokens_step_refl], rule tokens_rewritten [OF _ settled_tokens(2)]) simp_all
  then show ?thesis
    using RecordFailure wpr_rolls_back [where R = tokens_step, OF rolls_back_outbox(2)] tokens_step_refl by simp
next
  case (Replay replica i actor reason)
  have "wpr (replay cfg replica i actor reason) (\<lambda>_. tokens_step w) w"
    by (rule wpr_replay, rule tokens_rewritten [OF _ settled_tokens(3)]) simp_all
  then show ?thesis
    using Replay wpr_rolls_back [where R = tokens_step, OF rolls_back_outbox(3)] tokens_step_refl by simp
next
  case (Cancel replica i actor)
  have "wpr (cancel cfg replica i actor) (\<lambda>_. tokens_step w) w"
    by (rule wpr_cancel, rule tokens_rewritten [OF _ settled_tokens(4)]) simp_all
  then show ?thesis
    using Cancel wpr_rolls_back [where R = tokens_step, OF rolls_back_outbox(4)] tokens_step_refl by simp
next
  case (Emit ev)
  have "wpr (atomically (emit_event cfg ev)) (\<lambda>_. tokens_step w) w"
    by (intro wpr_atomically wpr_emit_event) (auto simp: tokens_step_def fresh_event_def unlocked_def)
  then show ?thesis
    using Emit wpr_rolls_back [where R = tokens_step, OF rolls_back_atomically] tokens_step_refl by simp
qed (simp add: tokens_claim [OF u])

text \<open>A token that was given out and locks nothing any more.\<close>

definition retired :: "string \<Rightarrow> gdb \<Rightarrow> bool" where
  "retired t w \<longleftrightarrow> (\<exists>k < id_pos w. t = id_src w k) \<and> (\<forall>e \<in> set (outbox_events w). ob_lock_token e \<noteq> Some t)"

lemma retired_step:
  assumes "tokens_step w w'" and "inj (id_src w)" and "retired t w"
  shows "retired t w'"
proof -
  have src: "id_src w' = id_src w" "id_pos w \<le> id_pos w'" using assms(1) by (auto simp: tokens_step_def)
  obtain k where k: "k < id_pos w" "t = id_src w k" using assms(3) by (auto simp: retired_def)
  have "ob_lock_token e' \<noteq> Some t" if "e' \<in> set (outbox_events w')" for e'
  proof
    assume "ob_lock_token e' = Some t"
    with assms(1) that show False
    proof (cases rule: tokens_stepD)
      case (old e)
      then show False using assms(3) by (simp add: retired_def)
    next
      case (new j)
      then have "j = k" using k assms(2) by (auto dest: injD)
      with new k show False by simp
    qed
  qed
  then show ?thesis using k src by (auto simp: retired_def intro!: exI [of _ k])
qed

lemma retired_run:
  assumes "outbox_run cfg w u" and "inj (id_src w)" and "retired t w" and "outbox_inv w"
  shows "retired t u \<and> id_src u = id_src w"
  using assms(1)
proof (induction rule: outbox_run.induct)
  case (call u c)
  have "outbox_inv u" using outbox_inv_run [OF call(1) assms(4)] .
  then have step: "tokens_step u (outbox_step cfg c u)" by (intro tokens_outbox_step) (simp add: outbox_inv_def)
  then show ?case using retired_step [OF step] call(2) assms(2) by (simp add: tokens_step_def)
next
  case (other u u')
  have "tokens_step u u'" using other by (auto simp: tokens_step_def)
  then show ?case using retired_step other(5) assms(2) by (metis other.hyps(3))
qed (simp add: assms(3))

lemma retired_refused:
  assumes "retired t w"
  shows "record_success replica i t ack w = (Inr False, w)" "record_failure cfg replica i t err w = (Inr ''stale'', w)"
proof -
  have no: "\<not> holds_lock replica t e" if "find (\<lambda>e. ob_id e = i) (outbox_events w) = Some e" for e
    using find_Some_in [OF that] assms by (auto simp: retired_def holds_lock_def)
  show "record_success replica i t ack w = (Inr False, w)" "record_failure cfg replica i t err w = (Inr ''stale'', w)"
    using no by (auto simp: record_success_def record_failure_def atomically_def bindS_def get_event_find ret_def
        split: option.splits)
qed

end
