(* ===== verification/Outbox_Run.thy ===== *)
theory Outbox_Run
  imports Outbox_Correct
begin

text \<open>
  A run of the publisher from the claim to the last recorded outcome: it ends without an error and
  settles every event it has claimed, when identifiers are not given out twice.
\<close>

section \<open>Identifiers that were given out\<close>

definition issued :: "gdb \<Rightarrow> string \<Rightarrow> bool" where
  "issued w i \<longleftrightarrow> (\<exists>k < id_pos w. i = id_src w k)"

lemma issued_next: "inj (id_src w) \<Longrightarrow> \<not> issued w (id_src w (id_pos w))"
  by (auto simp: issued_def dest: injD)

lemma issued_mono: "issued w i \<Longrightarrow> id_src w' = id_src w \<Longrightarrow> id_pos w \<le> id_pos w' \<Longrightarrow> issued w' i"
  by (auto simp: issued_def intro: order_less_le_trans)

text \<open>What recording an outcome relies on.\<close>

definition log_ok :: "gdb \<Rightarrow> bool" where
  "log_ok w \<longleftrightarrow> inj (id_src w) \<and> unique_on ob_id (outbox_events w) \<and> (\<forall>a \<in> set (audit_events w). issued w (au_id a)) \<and>
     (\<forall>a \<in> set (outbox_delivery_attempts w). issued w (oa_id a) \<and> (\<forall>e \<in> set (outbox_events w).
        oa_outbox_event_id a = ob_id e \<longrightarrow> oa_attempt_number a \<le> ob_attempt_count e))"

definition settled :: "OutboxEvent \<Rightarrow> OutboxEvent \<Rightarrow> bool" where
  "settled e e' \<longleftrightarrow> same_event e e' \<and> unlocked e' \<and> ob_attempt_count e' = ob_attempt_count e + 1 \<and>
     ob_status e' \<in> {''published'', ''retry'', ''dead_letter''}"

lemma settled_simps:
  "settled e (published_event now ack e)" "settled e (failed_event cfg now t e)"
  "ob_status (published_event now ack e) = ''published''" "ob_status (failed_event cfg now t e) = failure_status e"
  "oa_id (attempt_row replica now e i st er str sq) = i" "oa_outbox_event_id (attempt_row replica now e i st er str sq) = ob_id e"
  "oa_attempt_number (attempt_row replica now e i st er str sq) = ob_attempt_count e + 1"
  by (simp_all add: settled_def settled_defs attempt_row_def failure_status_def)

lemma log_ok_settled:
  assumes ok: "log_ok w" and e: "e \<in> set (outbox_events w)" and e': "settled e e'"
    and w': "outbox_events w' = rewritten e' w" "id_src w' = id_src w" "id_pos w < id_pos w'"
      "outbox_delivery_attempts w' = outbox_delivery_attempts w @ [a]"
      "oa_id a = id_src w (id_pos w)" "oa_outbox_event_id a = ob_id e" "oa_attempt_number a = ob_attempt_count e + 1"
      "\<forall>x \<in> set (audit_events w'). x \<in> set (audit_events w) \<or> issued w' (au_id x)"
  shows "log_ok w'"
proof -
  have id: "ob_id e' = ob_id e" "ob_attempt_count e' = ob_attempt_count e + 1"
    using e' by (auto simp: settled_def same_event_def)
  have u: "unique_on ob_id (outbox_events w)" using ok by (simp add: log_ok_def)
  have "unique_on ob_id (rewritten e' w)"
    unfolding rewritten_def by (rule unique_on_update_where [OF u]) simp
  moreover have "issued w' (oa_id a)" using w'(3,5) by (auto simp: issued_def w'(2))
  moreover have "oa_attempt_number b \<le> ob_attempt_count q"
    if b: "b \<in> set (outbox_delivery_attempts w')" and q: "q \<in> set (rewritten e' w)" and eq: "oa_outbox_event_id b = ob_id q" for b q
  proof (cases "ob_id q = ob_id e")
    case True
    then have "q = e'" using q id(1) by (auto simp: rewritten_def set_update_where)
    then show ?thesis
      using b eq ok e w' id by (fastforce simp: log_ok_def)
  next
    case False
    then have "q \<in> set (outbox_events w)" using q id(1) by (auto simp: rewritten_def set_update_where)
    then show ?thesis using b eq ok w' False by (auto simp: log_ok_def)
  qed
  ultimately show ?thesis
    using ok w' issued_mono [of w _ w'] unfolding log_ok_def by auto
qed

section \<open>Recording in a locked row\<close>

lemma find_row:
  assumes "unique_on ob_id rows" and "e \<in> set rows"
  shows "find (\<lambda>q. ob_id q = ob_id e) rows = Some e"
  using find_unique_row [of ob_id rows e] assms by auto

text \<open>No stored attempt clashes with the attempt about to be recorded.\<close>

lemma no_attempt_clash:
  assumes ok: "log_ok w" and e: "e \<in> set (outbox_events w)"
    and a: "oa_id a = id_src w (id_pos w)" "oa_outbox_event_id a = ob_id e" "oa_attempt_number a = ob_attempt_count e + 1"
  shows "\<not> list_ex (\<lambda>b. oa_id b = oa_id a \<or> oa_outbox_event_id b = oa_outbox_event_id a \<and>
    oa_attempt_number b = oa_attempt_number a) (outbox_delivery_attempts w)"
proof -
  have "inj (id_src w)" using ok by (simp add: log_ok_def)
  then show ?thesis
    using ok e a issued_next [of w] by (fastforce simp: log_ok_def list_ex_iff)
qed

lemma record_success_locked:
  assumes ok: "log_ok w" and e: "e \<in> set (outbox_events w)" and lock: "holds_lock replica t e"
  shows "\<exists>w'. record_success replica (ob_id e) t ack w = (Inr True, w') \<and> log_ok w' \<and> clock w' = clock w \<and>
    outbox_events w' = rewritten (published_event (clock w) ack e) w"
proof -
  let ?e = "published_event (clock w) ack e"
  let ?a = "attempt_row replica (clock w) e (id_src w (id_pos w)) (if ack_duplicate ack then ''duplicate'' else ''published'')
    None (ack_stream ack) (ack_sequence ack)"
  let ?w = "w\<lparr>outbox_events := rewritten ?e w, id_pos := Suc (id_pos w),
    outbox_delivery_attempts := outbox_delivery_attempts w @ [?a]\<rparr>"
  have u: "unique_on ob_id (outbox_events w)" using ok by (simp add: log_ok_def)
  have "record_success replica (ob_id e) t ack w = (Inr True, ?w)"
    using no_attempt_clash [OF ok e, of ?a] lock
    by (simp add: settled_simps record_success_def atomically_def bindS_def get_event_find find_row [OF u e] gets_def put_event_def
        modify_def new_id_def add_attempt_def insert_row_def rewritten_def ret_def)
  moreover have "log_ok ?w"
    by (rule log_ok_settled [OF ok e settled_simps(1), where a = ?a]) (simp_all add: settled_simps)
  ultimately show ?thesis by auto
qed

lemma record_failure_locked:
  assumes ok: "log_ok w" and e: "e \<in> set (outbox_events w)" and lock: "holds_lock replica t e"
  shows "\<exists>w'. record_failure cfg replica (ob_id e) t err w = (Inr (failure_status e), w') \<and> log_ok w' \<and> clock w' = clock w \<and>
    outbox_events w' = rewritten (failed_event cfg (clock w) (error_text err) e) w"
proof -
  let ?e = "failed_event cfg (clock w) (error_text err) e"
  let ?a = "attempt_row replica (clock w) e (id_src w (id_pos w)) (failure_status e) (Some (error_text err)) None None"
  let ?w = "w\<lparr>outbox_events := rewritten ?e w, id_pos := Suc (id_pos w),
    outbox_delivery_attempts := outbox_delivery_attempts w @ [?a]\<rparr>"
  have u: "unique_on ob_id (outbox_events w)" using ok by (simp add: log_ok_def)
  have ok': "log_ok ?w"
    by (rule log_ok_settled [OF ok e settled_simps(2), where a = ?a]) (simp_all add: settled_simps)
  have audit: "\<exists>w'. outbox_audit cfg ty actor act i pl st ?w = (Inr (), w') \<and> log_ok w' \<and> clock w' = clock w \<and>
      outbox_events w' = rewritten ?e w" for ty actor act i pl st
  proof -
    have "inj (id_src w)" "\<forall>x \<in> set (audit_events w). issued w (au_id x)" using ok by (auto simp: log_ok_def)
    then have fresh: "\<not> list_ex (\<lambda>x. au_id x = id_src w (Suc (id_pos w))) (audit_events w)"
      by (fastforce simp: list_ex_iff issued_def inj_eq)
    obtain x where x: "outbox_audit cfg ty actor act i pl st ?w =
        (Inr (), ?w\<lparr>id_pos := Suc (Suc (id_pos w)), audit_events := audit_events w @ [x]\<rparr>)" "au_id x = id_src w (Suc (id_pos w))"
      using fresh by (simp add: outbox_audit_def emit_audit_def emit_event_def bindS_def gets_def new_id_def insert_row_def ret_def)
    have "log_ok (?w\<lparr>id_pos := Suc (Suc (id_pos w)), audit_events := audit_events w @ [x]\<rparr>)"
      by (rule log_ok_settled [OF ok e settled_simps(2), where a = ?a]) (auto simp: settled_simps x(2) issued_def)
    with x show ?thesis by simp
  qed
  show ?thesis
  proof (cases "is_terminal e")
    case True
    let ?r = "outbox_audit cfg ''gateway.outbox.dead_lettered.v1'' (''system:'' @ replica) ''dead_lettered'' (ob_id e)
      [(''outbox_event_id'', JStr (ob_id e)), (''audit_event_id'', JStr (ob_audit_event_id e)),
       (''event_type'', JStr (ob_event_type e)), (''attempt_count'', JInt (ob_attempt_count e + 1)),
       (''last_error'', JStr (error_text err))] ''warning'' ?w"
    obtain w' where w': "?r = (Inr (), w')" "log_ok w'" "clock w' = clock w" "outbox_events w' = rewritten ?e w"
      using audit by blast
    have "record_failure cfg replica (ob_id e) t err w = (Inr (failure_status e), w')"
      using no_attempt_clash [OF ok e, of ?a] lock True w'(1)
      by (simp add: settled_simps record_failure_def atomically_def bindS_def get_event_find find_row [OF u e] gets_def
          put_event_def modify_def new_id_def add_attempt_def insert_row_def rewritten_def ret_def)
    with w' show ?thesis by blast
  next
    case False
    have "record_failure cfg replica (ob_id e) t err w = (Inr (failure_status e), ?w)"
      using no_attempt_clash [OF ok e, of ?a] lock False
      by (simp add: settled_simps record_failure_def atomically_def bindS_def get_event_find find_row [OF u e] gets_def
          put_event_def modify_def new_id_def add_attempt_def insert_row_def rewritten_def ret_def)
    with ok' show ?thesis by auto
  qed
qed

section \<open>The whole batch\<close>

definition total :: "OutboxRunResult \<Rightarrow> nat" where
  "total r = rs_published r + rs_retried r + rs_dead_lettered r"

definition ready :: "string \<Rightarrow> OutboxEvent list \<Rightarrow> gdb \<Rightarrow> bool" where
  "ready replica es w \<longleftrightarrow> log_ok w \<and> distinct es \<and> (\<forall>e \<in> set es. e \<in> set (outbox_events w) \<and> holds_lock replica (lock_text e) e)"

text \<open>How one event of the batch ends, given what the broker answers.\<close>

definition outcome :: "broker \<Rightarrow> OutboxEvent \<Rightarrow> string" where
  "outcome broker e = (case publish_row broker e of Inr ack \<Rightarrow> ''published'' | Inl err \<Rightarrow> failure_status e)"

lemma ready_step:
  assumes r: "ready replica (e # es) w" and ok: "log_ok w'" and w': "outbox_events w' = rewritten e' w" and e': "settled e e'"
  shows "ready replica es w'" and "e' \<in> set (outbox_events w')" and "e' \<notin> set es"
    and "\<And>q. q \<in> set (outbox_events w) \<Longrightarrow> q \<noteq> e \<Longrightarrow> q \<in> set (outbox_events w')"
proof -
  have id: "ob_id e' = ob_id e" using e' by (simp add: settled_def same_event_def)
  have mem: "e \<in> set (outbox_events w)" and u: "unique_on ob_id (outbox_events w)"
    using r by (auto simp: ready_def log_ok_def)
  show kept: "q \<in> set (outbox_events w')" if "q \<in> set (outbox_events w)" "q \<noteq> e" for q
    using that unique_on_eqD [OF u that(1) mem] id unfolding w' rewritten_def by (auto simp: set_update_where)
  show "ready replica es w'" using r ok kept by (auto simp: ready_def)
  show "e' \<in> set (outbox_events w')" using mem id unfolding w' rewritten_def by (force simp: set_update_where)
  have "ob_lock_token e' = None" using e' by (simp add: settled_def unlocked_def)
  then show "e' \<notin> set es" using r by (auto simp: ready_def holds_lock_def)
qed

lemma publish_rows_settle:
  assumes "ready replica es w"
  shows "\<exists>r' w'. publish_rows cfg broker replica es r w = (Inr r', w') \<and> rs_claimed r' = rs_claimed r \<and>
    total r' = total r + length es \<and>
    (\<forall>e \<in> set es. \<exists>e' \<in> set (outbox_events w'). settled e e' \<and> ob_status e' = outcome broker e) \<and>
    (\<forall>q \<in> set (outbox_events w). q \<notin> set es \<longrightarrow> q \<in> set (outbox_events w'))"
  using assms
proof (induction es arbitrary: w r)
  case Nil
  show ?case by (simp add: ret_def)
next
  case (Cons e es)
  have e: "log_ok w" "e \<in> set (outbox_events w)" "holds_lock replica (lock_text e) e"
    using Cons.prems by (auto simp: ready_def)
  have one: "\<exists>r1 w1 e'. publish_rows cfg broker replica (e # es) r w = publish_rows cfg broker replica es r1 w1 \<and>
      rs_claimed r1 = rs_claimed r \<and> total r1 = Suc (total r) \<and> log_ok w1 \<and> outbox_events w1 = rewritten e' w \<and>
      settled e e' \<and> ob_status e' = outcome broker e"
  proof (cases "publish_row broker e")
    case (Inr ack)
    obtain w1 where w1: "record_success replica (ob_id e) (lock_text e) ack w = (Inr True, w1)" "log_ok w1"
        "outbox_events w1 = rewritten (published_event (clock w) ack e) w"
      using record_success_locked [OF e] by blast
    show ?thesis
      by (rule exI [of _ "r\<lparr>rs_published := rs_published r + 1\<rparr>"], rule exI [of _ w1],
          rule exI [of _ "published_event (clock w) ack e"])
         (simp add: Inr w1 settled_simps outcome_def total_def bindS_def catchS_def ret_def)
  next
    case (Inl err)
    obtain w1 where w1: "record_failure cfg replica (ob_id e) (lock_text e) err w = (Inr (failure_status e), w1)" "log_ok w1"
        "outbox_events w1 = rewritten (failed_event cfg (clock w) (error_text err) e) w"
      using record_failure_locked [OF e] by blast
    show ?thesis
      by (rule exI [of _ "if is_terminal e then r\<lparr>rs_dead_lettered := rs_dead_lettered r + 1\<rparr>
            else r\<lparr>rs_retried := rs_retried r + 1\<rparr>"], rule exI [of _ w1],
          rule exI [of _ "failed_event cfg (clock w) (error_text err) e"])
         (simp add: Inl w1 settled_simps outcome_def total_def bindS_def ret_def failure_status_def)
  qed
  then obtain r1 w1 e' where 1: "publish_rows cfg broker replica (e # es) r w = publish_rows cfg broker replica es r1 w1"
      "rs_claimed r1 = rs_claimed r" "total r1 = Suc (total r)" "log_ok w1" "outbox_events w1 = rewritten e' w"
      "settled e e'" "ob_status e' = outcome broker e"
    by blast
  note step = ready_step [OF Cons.prems 1(4,5,6)]
  obtain r' w' where 2: "publish_rows cfg broker replica es r1 w1 = (Inr r', w')" "rs_claimed r' = rs_claimed r1"
      "total r' = total r1 + length es"
      "\<forall>e \<in> set es. \<exists>e' \<in> set (outbox_events w'). settled e e' \<and> ob_status e' = outcome broker e"
      "\<forall>q \<in> set (outbox_events w1). q \<notin> set es \<longrightarrow> q \<in> set (outbox_events w')"
    using Cons.IH [OF step(1)] by blast
  have "e' \<in> set (outbox_events w')" using 2(5) step(2,3) by blast
  with 1 2 step(4) show ?case by (intro exI [of _ r'] exI [of _ w']) auto
qed

section \<open>Claim and publish\<close>

lemma locked_rows_lock: "e' \<in> set (locked_rows replica now src n es) \<Longrightarrow> holds_lock replica (lock_text e') e'"
  by (induction es arbitrary: n) (auto simp: lock_row_def holds_lock_def lock_text_def)

lemma locked_rows_ids: "map ob_id (locked_rows replica now src n es) = map ob_id es"
  by (induction es arbitrary: n) (auto simp: lock_row_def)

lemma locked_rows_attempts:
  "map ob_attempt_count (locked_rows replica now src n es) = map ob_attempt_count es"
  by (induction es arbitrary: n) (auto simp: lock_row_def)

lemma released_simps [simp]:
  "ob_id (released cfg now e) = ob_id e" "ob_attempt_count (released cfg now e) = ob_attempt_count e"
  by (simp_all add: released_def)

lemma claim_ready:
  assumes ok: "log_ok w" and claim: "claim_batch cfg replica limit w = (Inr es, w1)"
  shows "ready replica es w1" and "clock w1 = clock w"
    and "map ob_attempt_count es = map ob_attempt_count (batch_of cfg limit (clock w) (map (released cfg (clock w)) (outbox_events w)))"
proof -
  have u: "unique_on ob_id (outbox_events w)" using ok by (simp add: log_ok_def)
  let ?rows = "map (released cfg (clock w)) (outbox_events w)"
  let ?batch = "batch_of cfg limit (clock w) ?rows"
  note map = claim_batch_map(1) [OF u, of cfg] claim_batch_map(2,3) [OF u, of cfg limit]
  obtain f where f: "put_all ob_id (locked_rows replica (clock w) (id_src w) (id_pos w) ?batch) ?rows = map f ?rows"
      "\<forall>e \<in> set ?rows. e \<notin> set ?batch \<longrightarrow> f e = e"
      "map f ?batch = locked_rows replica (clock w) (id_src w) (id_pos w) ?batch"
    using claim_batch_map(4) [OF u] by blast
  have es: "es = map f ?batch" and w1: "w1 = w\<lparr>outbox_events := map f ?rows, id_pos := id_pos w + length ?batch\<rparr>"
    using claim unfolding claim_batch_eq Let_def f(1,3) by auto
  show "clock w1 = clock w" by (simp add: w1)
  show "map ob_attempt_count es = map ob_attempt_count ?batch" unfolding es f(3) by (rule locked_rows_attempts)
  have cols: "ob_id (f e) = ob_id e \<and> ob_attempt_count (f e) = ob_attempt_count e" if "e \<in> set ?rows" for e
  proof (cases "e \<in> set ?batch")
    case True
    have "map ob_id (map f ?batch) = map ob_id ?batch" "map ob_attempt_count (map f ?batch) = map ob_attempt_count ?batch"
      unfolding f(3) by (rule locked_rows_ids, rule locked_rows_attempts)
    with True show ?thesis by (auto simp: map_eq_conv)
  next
    case False
    then have "f e = e" using bspec [OF f(2) that] by blast
    then show ?thesis by simp
  qed
  have ids: "map ob_id (map f ?rows) = map ob_id ?rows" using cols by simp
  have "unique_on ob_id (map f ?rows)" using map(1) unfolding unique_on_def ids .
  moreover have "oa_attempt_number a \<le> ob_attempt_count q"
    if a: "a \<in> set (outbox_delivery_attempts w)" and q: "q \<in> set (map f ?rows)" and eq: "oa_outbox_event_id a = ob_id q" for a q
  proof -
    obtain e where e: "e \<in> set (outbox_events w)" "q = f (released cfg (clock w) e)" using q by auto
    then have "ob_id q = ob_id e" "ob_attempt_count q = ob_attempt_count e"
      using cols [of "released cfg (clock w) e"] by simp_all
    then show ?thesis using a eq e(1) ok by (auto simp: log_ok_def)
  qed
  ultimately have log: "log_ok w1" using ok issued_mono [of w _ w1] by (auto simp: log_ok_def w1)
  have "inj_on ob_id (set ?rows)" using map(1) unfolding unique_on_def by (simp only: distinct_map)
  then have "inj_on ob_id (set ?batch)" by (rule inj_on_subset [OF _ map(3)])
  then have "distinct (map ob_id ?batch)" using map(2) by (simp only: distinct_map)
  moreover have "map ob_id es = map ob_id ?batch" unfolding es f(3) by (rule locked_rows_ids)
  ultimately have "distinct es" by (metis distinct_map)
  moreover have "set es \<subseteq> set (outbox_events w1)" using map(3) by (auto simp: es w1)
  moreover have "holds_lock replica (lock_text e) e" if "e \<in> set es" for e
    using that unfolding es f(3) by (rule locked_rows_lock)
  ultimately show "ready replica es w1" using log by (auto simp: ready_def)
qed

section \<open>Properties\<close>

lemma settled_id: "ob_id (published_event now ack e) = ob_id e" "ob_id (failed_event cfg now t e) = ob_id e"
  by (simp_all add: settled_defs)

text \<open>
  C38: Whatever replicas and operators do, in any order, a stored event is locked exactly while it
  is being processed, it never has more attempts than its maximum, an open event has attempts
  left and a dead letter has none. Every call moves an event along its life cycle only, and
  changes neither its payload nor its subject.
\<close>

theorem outbox_life_cycle:
  assumes "outbox_run cfg w0 w" and "outbox_events w0 = []" and "e \<in> set (outbox_events w)"
  shows "event_ok e \<and> (\<exists>e' \<in> set (outbox_events (outbox_step cfg c w)). outbox_moves cfg (clock w) e e' \<and> same_event e e')"
proof -
  have "outbox_inv w0" using assms(2) by (simp add: outbox_inv_def)
  then have inv: "outbox_inv w" by (rule outbox_inv_run [OF assms(1)])
  then have "steps_events cfg w (outbox_step cfg c w)" by (intro outbox_steps_events) (simp add: outbox_inv_def)
  then show ?thesis
    using event_rows.step_row [OF _ assms(3)] outbox_moves_same inv assms(3) by (fastforce simp: outbox_inv_def)
qed

definition box_request :: event_request where
  "box_request = \<lparr>ev_type = ''t'', ev_actor = ''ann'', ev_act = ''a'', ev_resource_type = ''r'',
     ev_resource_id = None, ev_payload = [], ev_owner = None, ev_status = ''success''\<rparr>"

definition box_cfg :: gw_settings where
  "box_cfg = auto_cfg\<lparr>gateway_outbox_enabled := True\<rparr>"

lemma box_emitted: "map ob_attempt_count (outbox_events (outbox_step box_cfg (Emit box_request) auto_db)) = [0]"
  by code_simp

theorem outbox_life_cycle_witness:
  "\<exists>e \<in> set (outbox_events (outbox_step box_cfg (Emit box_request) auto_db)). event_ok e"
proof -
  obtain e where e: "e \<in> set (outbox_events (outbox_step box_cfg (Emit box_request) auto_db))"
    using box_emitted by (metis list.set_intros(1) list.set_map imageE)
  have "outbox_run box_cfg auto_db (outbox_step box_cfg (Emit box_request) auto_db)"
    by (rule outbox_run.call [OF outbox_run.begin_run])
  from outbox_life_cycle [OF this _ e] e show ?thesis by (auto simp: auto_db_def)
qed

text \<open>
  C39: A claim is settled at most once. After a publisher has recorded the outcome of an event
  under its lock token, no later attempt to record a success or a failure under that token
  changes anything, whoever makes it and whatever was claimed, released or replayed in between,
  as long as identifiers are not given out twice.
\<close>

theorem claim_settled_once:
  assumes inv: "outbox_inv w" and inj: "inj (id_src w)" and out: "\<exists>k < id_pos w. token = id_src w k"
    and alone: "\<forall>e \<in> set (outbox_events w). \<forall>e' \<in> set (outbox_events w).
      ob_lock_token e = Some token \<and> ob_lock_token e' = Some token \<longrightarrow> ob_id e' = ob_id e"
    and settle: "record_success replica i token ack w = (Inr True, w1) \<or>
      record_failure cfg replica i token err w = (Inr st, w1) \<and> st \<noteq> ''stale''"
    and run: "outbox_run cfg w1 w2"
  shows "record_success replica' i' token ack' w2 = (Inr False, w2) \<and>
    record_failure cfg replica' i' token err' w2 = (Inr ''stale'', w2)"
proof -
  have "\<exists>e e'. e \<in> set (outbox_events w) \<and> ob_lock_token e = Some token \<and> outbox_events w1 = rewritten e' w \<and>
      ob_id e' = ob_id e \<and> ob_lock_token e' = None \<and> id_src w1 = id_src w \<and> id_pos w \<le> id_pos w1"
    using settle
  proof
    assume rec: "record_success replica i token ack w = (Inr True, w1)"
    have "wpr (record_success replica i token ack) (\<lambda>r w1. r \<longrightarrow> (\<exists>e e'. e \<in> set (outbox_events w) \<and>
        ob_lock_token e = Some token \<and> outbox_events w1 = rewritten e' w \<and> ob_id e' = ob_id e \<and> ob_lock_token e' = None \<and>
        id_src w1 = id_src w \<and> id_pos w \<le> id_pos w1)) w"
    proof (rule wpr_record_success, goal_cases)
      case (2 e n i')
      then show ?case
        by (intro impI exI [of _ e] exI [of _ "published_event (clock w) ack e"])
          (simp add: holds_lock_def settled_tokens settled_id)
    qed simp
    with rec show ?thesis by (auto dest: wp_InrD)
  next
    assume rec: "record_failure cfg replica i token err w = (Inr st, w1) \<and> st \<noteq> ''stale''"
    have "wpr (record_failure cfg replica i token err) (\<lambda>r w1. r \<noteq> ''stale'' \<longrightarrow> (\<exists>e e'. e \<in> set (outbox_events w) \<and>
        ob_lock_token e = Some token \<and> outbox_events w1 = rewritten e' w \<and> ob_id e' = ob_id e \<and> ob_lock_token e' = None \<and>
        id_src w1 = id_src w \<and> id_pos w \<le> id_pos w1)) w"
    proof (rule wpr_record_failure, goal_cases)
      case (2 e n i' a w')
      then show ?case
        by (intro impI exI [of _ e] exI [of _ "failed_event cfg (clock w) (error_text err) e"])
          (simp add: holds_lock_def settled_tokens settled_id)
    qed simp
    with rec show ?thesis by (auto dest: wp_InrD)
  qed
  then obtain e e' where e: "e \<in> set (outbox_events w)" "ob_lock_token e = Some token" "outbox_events w1 = rewritten e' w"
      "ob_id e' = ob_id e" "ob_lock_token e' = None" "id_src w1 = id_src w" "id_pos w \<le> id_pos w1"
    by blast
  have "ob_lock_token q \<noteq> Some token" if "q \<in> set (outbox_events w1)" for q
  proof -
    have "q = e' \<or> q \<in> set (outbox_events w) \<and> ob_id q \<noteq> ob_id e"
      using that by (auto simp: e(3,4) rewritten_def set_update_where)
    then show ?thesis using alone e(1,2,5) by fastforce
  qed
  moreover have "\<exists>k < id_pos w1. token = id_src w1 k" using out e(6,7) by (metis less_le_trans)
  ultimately have "retired token w1" by (simp add: retired_def)
  moreover have "outbox_inv w1"
  proof -
    have "w1 = outbox_step cfg (RecordSuccess replica i token ack) w \<or> w1 = outbox_step cfg (RecordFailure replica i token err) w"
      using settle by auto
    then show ?thesis using outbox_inv_step [OF inv] by blast
  qed
  ultimately have "retired token w2" using retired_run [OF run] inj e(6) by auto
  then show ?thesis by (simp add: retired_refused)
qed

definition box_event :: OutboxEvent where
  "box_event = outbox_row auto_cfg box_request ''e'' ''o1'' 1000"

definition box_db :: gdb where
  "box_db = auto_db\<lparr>id_src := (\<lambda>n. replicate n CHR ''x''), outbox_events := [box_event]\<rparr>"

definition held_db :: gdb where
  "held_db = box_db\<lparr>id_pos := 2, outbox_events := [box_event\<lparr>ob_status := ''processing'',
     ob_locked_by := Some ''rep'', ob_lock_token := Some ''x'', ob_locked_at := Some 1000\<rparr>]\<rparr>"

lemma box_ids: "inj (\<lambda>n. replicate n CHR ''x'')"
  by (rule injI) (metis length_replicate)

theorem claim_settled_once_witness:
  "\<exists>w. record_success ''rep'' ''o1'' ''x'' \<lparr>ack_stream = None, ack_sequence = None, ack_duplicate = False\<rparr> held_db = (Inr True, w) \<and>
    record_success ''rep'' ''o1'' ''x'' \<lparr>ack_stream = None, ack_sequence = None, ack_duplicate = False\<rparr> w = (Inr False, w)"
proof -
  let ?ack = "\<lparr>ack_stream = None, ack_sequence = None, ack_duplicate = False\<rparr>"
  have "fst (record_success ''rep'' ''o1'' ''x'' ?ack held_db) = Inr True" by code_simp
  then obtain w where w: "record_success ''rep'' ''o1'' ''x'' ?ack held_db = (Inr True, w)" by (metis prod.collapse)
  have ev: "list_all event_ok (outbox_events held_db)" by code_simp
  have "outbox_inv held_db"
    using ev by (simp add: outbox_inv_def held_db_def unique_on_def)
  moreover have "inj (id_src held_db)" using box_ids by (simp add: held_db_def box_db_def)
  moreover have "\<exists>k < id_pos held_db. ''x'' = id_src held_db k"
    by (rule exI [of _ 1]) (simp add: held_db_def box_db_def)
  moreover have "\<forall>e \<in> set (outbox_events held_db). \<forall>e' \<in> set (outbox_events held_db).
      ob_lock_token e = Some ''x'' \<and> ob_lock_token e' = Some ''x'' \<longrightarrow> ob_id e' = ob_id e"
    by (simp add: held_db_def)
  ultimately have "record_success ''rep'' ''o1'' ''x'' ?ack w = (Inr False, w)"
    using claim_settled_once [of held_db "''x''" "''rep''" "''o1''" ?ack w auto_cfg "(''E'', ''down'')" "''retry''" w "''rep''" "''o1''" ?ack] w
      outbox_run.begin_run by blast
  with w show ?thesis by blast
qed

text \<open>
  A consumer handles a broker message once. The first record of a message id answers true
  and every later one, with whatever subject or payload, answers false and changes nothing, as
  long as the record is kept.
\<close>

theorem mark_processed_once:
  assumes "set (processed_broker_messages (snd (mark_processed cfg m subject payload stream consumer w)))
    \<subseteq> set (processed_broker_messages w')"
  shows "fst (mark_processed cfg m subject payload stream consumer w)
      = Inr (\<not> list_ex (\<lambda>r. pm_message_id r = m) (processed_broker_messages w))
    \<and> mark_processed cfg' m subject' payload' stream' consumer' w' = (Inr False, w')"
proof -
  have first: "fst (mark_processed cfg m subject payload stream consumer w)
      = Inr (\<not> list_ex (\<lambda>r. pm_message_id r = m) (processed_broker_messages w))
    \<and> list_ex (\<lambda>r. pm_message_id r = m) (processed_broker_messages (snd (mark_processed cfg m subject payload stream consumer w)))"
    by (auto simp: mark_processed_def bindS_def gets_def ret_def on_conflict_def insert_row_def modify_def list_ex_iff find_None_iff
        split: option.splits dest: find_Some_in)
  then have "list_ex (\<lambda>r. pm_message_id r = m) (processed_broker_messages w')" using assms by (auto simp: list_ex_iff)
  then have "mark_processed cfg' m subject' payload' stream' consumer' w' = (Inr False, w')"
    by (auto simp: mark_processed_def bindS_def gets_def ret_def list_ex_iff find_None_iff split: option.splits)
  with first show ?thesis by blast
qed

theorem mark_processed_once_witness:
  "mark_processed auto_cfg ''m'' ''s'' ''p'' None None (snd (mark_processed auto_cfg ''m'' ''s'' ''p'' None None auto_db))
    = (Inr False, snd (mark_processed auto_cfg ''m'' ''s'' ''p'' None None auto_db))"
  using mark_processed_once [of auto_cfg "''m''" "''s''" "''p''" None None auto_db
      "snd (mark_processed auto_cfg ''m'' ''s'' ''p'' None None auto_db)"] by simp


lemma box_log_ok: "log_ok box_db"
  using box_ids by (simp add: log_ok_def box_db_def auto_db_def unique_on_def)

lemma box_claim:
  "\<exists>es w1. claim_batch auto_cfg ''rep'' None box_db = (Inr es, w1) \<and> length es = 1"
proof -
  have "length (batch_of auto_cfg None 1000 (map (released auto_cfg 1000) [box_event])) = 1" by code_simp
  then have "length (locked_rows replica 1000 src n (batch_of auto_cfg None 1000 (map (released auto_cfg 1000) [box_event]))) = 1"
    for replica src n by (metis length_map locked_rows_ids)
  then show ?thesis by (simp add: claim_batch_eq Let_def box_db_def auto_db_def)
qed


end
