(* ===== verification/Path_Reservations.thy ===== *)
theory Path_Reservations
  imports Gateway_Store
begin

text \<open>
  Paths and reservations of \<open>agent_coordination.py\<close>: normal relative paths, the fixed prefix of a
  glob, the reservations of a lease, which paths one covers, and when two are taken to overlap.
  \<open>fnmatch.fnmatchcase\<close> and the part of \<open>PurePosixPath\<close> the code uses are modelled with them.
\<close>

section \<open>Relative paths\<close>

fun split_slash :: "string \<Rightarrow> string list" where
  "split_slash [] = [[]]"
| "split_slash (c # cs) = (if c = CHR ''/'' then [] # split_slash cs
     else (case split_slash cs of [] \<Rightarrow> [[c]] | p # ps \<Rightarrow> (c # p) # ps))"

text \<open>The components \<open>PurePosixPath\<close> keeps: neither empty nor a single dot.\<close>

definition path_parts :: "string \<Rightarrow> string list" where
  "path_parts text = filter (\<lambda>p. p \<noteq> [] \<and> p \<noteq> ''.'') (split_slash text)"

definition normalize_relative_path :: "string \<Rightarrow> string \<Rightarrow> string res" where
  "normalize_relative_path value field =
     (let text = strip (map (\<lambda>c. if c = char_of (92 :: nat) then CHR ''/'' else c) value)
      in if text = [] \<or> text = ''.'' then Inr ''.''
         else if char_of (0 :: nat) \<in> set text then Inl (HTTPException 400 (field @ '' contains a NUL byte''))
         else if startswith text ''/'' \<or> ''..'' \<in> set (path_parts text)
         then Inl (HTTPException 400 (field @ '' must be a safe relative path''))
         else
           let normalized = (if path_parts text = [] then ''.'' else join ''/'' (path_parts text));
               normalized = (if startswith normalized ''./'' then drop 2 normalized else normalized)
           in Inr (if normalized = [] then ''.'' else normalized))"

definition rstrip_slash :: "string \<Rightarrow> string" where
  "rstrip_slash s = rev (dropWhile (\<lambda>c. c = CHR ''/'') (rev s))"

section \<open>Globs\<close>

definition is_marker :: "char \<Rightarrow> bool" where
  "is_marker c \<longleftrightarrow> c = CHR ''*'' \<or> c = CHR ''['' \<or> c = CHR ''?''"

text \<open>\<open>prefix.rsplit("/", 1)[0] if "/" in prefix else ""\<close>\<close>

definition dirname :: "string \<Rightarrow> string" where
  "dirname s = (if CHR ''/'' \<in> set s then rev (tl (dropWhile (\<lambda>c. c \<noteq> CHR ''/'') (rev s))) else [])"

definition glob_fixed_prefix :: "string \<Rightarrow> string" where
  "glob_fixed_prefix pattern =
     (if list_ex is_marker pattern then dirname (takeWhile (\<lambda>c. \<not> is_marker c) pattern) else pattern)"

text \<open>
  A bracket of a glob: single characters and spans. A span with its ends in the wrong order
  matches nothing, and an exclamation mark that comes first once such spans are gone negates.
\<close>

datatype class_atom = Single char | Span char char

fun class_atoms :: "string \<Rightarrow> class_atom list" where
  "class_atoms (c # d # e # cs) =
     (if d = CHR ''-'' then Span c e # class_atoms cs else Single c # class_atoms (d # e # cs))"
| "class_atoms cs = map Single cs"

fun live_atom :: "class_atom \<Rightarrow> bool" where
  "live_atom (Single c) = True"
| "live_atom (Span c d) = ((of_char c :: nat) \<le> of_char d)"

fun atom_matches :: "char \<Rightarrow> class_atom \<Rightarrow> bool" where
  "atom_matches x (Single c) = (x = c)"
| "atom_matches x (Span c d) = ((of_char c :: nat) \<le> of_char x \<and> (of_char x :: nat) \<le> of_char d)"

definition class_matches :: "string \<Rightarrow> char \<Rightarrow> bool" where
  "class_matches stuff x =
     (if stuff \<noteq> [] \<and> hd stuff = CHR ''!''
      then \<not> list_ex (atom_matches x) (filter live_atom (class_atoms (tl stuff)))
      else case filter live_atom (class_atoms stuff) of
        [] \<Rightarrow> False
      | a # as \<Rightarrow>
          (case a of
             Single c \<Rightarrow> if c = CHR ''!'' then \<not> list_ex (atom_matches x) as else list_ex (atom_matches x) (a # as)
           | Span c d \<Rightarrow>
               if c = CHR ''!'' then \<not> list_ex (atom_matches x) (Single CHR ''-'' # Single d # as)
               else list_ex (atom_matches x) (a # as)))"

fun close_class :: "string \<Rightarrow> string \<Rightarrow> (string \<times> string) option" where
  "close_class stuff [] = None"
| "close_class stuff (c # cs) = (if c = CHR '']'' then Some (stuff, cs) else close_class (stuff @ [c]) cs)"

text \<open>The text after an opening bracket: what is in it and what follows it, if it is closed.\<close>

definition parse_class :: "string \<Rightarrow> (string \<times> string) option" where
  "parse_class s =
     (let (bang, s) = (if s \<noteq> [] \<and> hd s = CHR ''!'' then (''!'', tl s) else ([], s))
      in if s \<noteq> [] \<and> hd s = CHR '']'' then close_class (bang @ '']'') (tl s) else close_class bang s)"

lemma close_class_shorter: "close_class stuff s = Some (stuff', rest) \<Longrightarrow> length rest < length s"
  by (induction stuff s rule: close_class.induct) (auto split: if_splits)

lemma parse_class_shorter: "parse_class s = Some (stuff, rest) \<Longrightarrow> length rest < length s"
  by (auto simp: parse_class_def Let_def split: if_splits dest!: close_class_shorter)

function glob_match :: "string \<Rightarrow> string \<Rightarrow> bool" where
  "glob_match [] s = (s = [])"
| "glob_match (p # ps) s =
     (if p = CHR ''*'' then glob_match ps s \<or> (case s of [] \<Rightarrow> False | c # cs \<Rightarrow> glob_match (p # ps) cs)
      else case s of
        [] \<Rightarrow> False
      | c # cs \<Rightarrow>
          if p = CHR ''?'' then glob_match ps cs
          else if p = CHR ''['' then
            (case parse_class ps of
               None \<Rightarrow> c = p \<and> glob_match ps cs
             | Some (stuff, rest) \<Rightarrow> class_matches stuff c \<and> glob_match rest cs)
          else c = p \<and> glob_match ps cs)"
  by pat_completeness auto

termination
  by (relation "measure (\<lambda>(p, s). length p + length s)")
    (auto simp: less_Suc_eq_le dest: parse_class_shorter)

definition fnmatchcase :: "string \<Rightarrow> string \<Rightarrow> bool" where
  "fnmatchcase name pattern = glob_match pattern name"

section \<open>Reservations\<close>

definition reservation_of :: "json \<Rightarrow> reservation res" where
  "reservation_of item = (case item of
     JObj d \<Rightarrow>
       let kind = strip (if truthy (dget d ''kind'') then py_str (dget d ''kind'') else ''path'')
       in if kind \<notin> {''path'', ''glob''} then Inl (HTTPException 400 ''reservation kind must be path or glob'')
          else bindE (normalize_relative_path (str_or_empty (dget d ''pattern'')) ''reservation.pattern'') (\<lambda>pattern.
            let kind = (if kind = ''glob'' \<and> \<not> list_ex is_marker pattern then ''path'' else kind)
            in Inr \<lparr>rs_kind = kind, rs_pattern = pattern,
                 rs_recursive = truthy (dget_or d ''recursive'' (JBool (kind = ''path'')))\<rparr>)
   | _ \<Rightarrow> Inl (HTTPException 400 ''reservation must be an object''))"

fun collect_reservations :: "reservation list \<Rightarrow> json list \<Rightarrow> reservation list res" where
  "collect_reservations result [] = Inr result"
| "collect_reservations result (item # items) =
     bindE (reservation_of item) (\<lambda>r.
     collect_reservations (if r \<in> set result then result else result @ [r]) items)"

definition normalize_reservations :: "json \<Rightarrow> reservation list res" where
  "normalize_reservations raw = (case raw of
     JList (item # items) \<Rightarrow>
       bindE (collect_reservations [] (item # items)) (\<lambda>result.
       if length result > 200 then Inl (HTTPException 400 ''too many reservations'') else Inr result)
   | _ \<Rightarrow> Inl (HTTPException 400 ''reservations must be a non-empty array''))"

definition pattern_of :: "reservation \<Rightarrow> string" where
  "pattern_of r = (if rs_pattern r = [] then ''.'' else rs_pattern r)"

definition kind_of :: "reservation \<Rightarrow> string" where
  "kind_of r = (if rs_kind r = [] then ''path'' else rs_kind r)"

definition reservation_covers_path :: "reservation \<Rightarrow> string \<Rightarrow> bool" where
  "reservation_covers_path r path =
     (if kind_of r = ''glob'' then fnmatchcase path (pattern_of r)
      else path = pattern_of r \<or>
        (rs_recursive r \<and> (pattern_of r = ''.'' \<or> startswith path (rstrip_slash (pattern_of r) @ ''/''))))"

definition path_glob_overlap :: "string \<Rightarrow> string \<Rightarrow> bool" where
  "path_glob_overlap path glob =
     (fnmatchcase path glob \<or>
      (let prefix = glob_fixed_prefix glob
       in prefix \<noteq> [] \<and> (startswith path prefix \<or> startswith prefix (rstrip_slash path @ ''/''))))"

definition reservations_overlap :: "reservation \<Rightarrow> reservation \<Rightarrow> bool" where
  "reservations_overlap left right =
     (if kind_of left = ''path'' \<and> kind_of right = ''path''
      then reservation_covers_path left (pattern_of right) \<or> reservation_covers_path right (pattern_of left)
      else if kind_of left = ''path'' then path_glob_overlap (pattern_of left) (pattern_of right)
      else if kind_of right = ''path'' then path_glob_overlap (pattern_of right) (pattern_of left)
      else
        let left_prefix = glob_fixed_prefix (pattern_of left); right_prefix = glob_fixed_prefix (pattern_of right)
        in left_prefix = [] \<or> right_prefix = [] \<or> startswith left_prefix right_prefix \<or> startswith right_prefix left_prefix)"

definition reservation_sets_overlap :: "reservation list \<Rightarrow> reservation list \<Rightarrow> bool" where
  "reservation_sets_overlap left right = list_ex (\<lambda>a. list_ex (reservations_overlap a) right) left"

end
