(* ===== verification/Agent_Coordination.thy ===== *)
theory Agent_Coordination
  imports Agent_Collaboration Path_Reservations
begin

text \<open>
  The coordination service, \<open>agent_coordination.py\<close>: resource leases with fencing tokens, the check
  of a write against them, file conflicts, handoff barriers and integrations. Lookups of rooms and
  agents are those of the collaboration service, which have the same text.
\<close>

section \<open>Arguments and lookups\<close>

definition LEASE_MODES :: "string list" where
  "LEASE_MODES = [''exclusive_write'', ''shared_read'']"

definition HANDOFF_TERMINAL :: "string list" where
  "HANDOFF_TERMINAL = [''accepted'', ''cancelled'', ''rejected'']"

definition INTEGRATION_TERMINAL :: "string list" where
  "INTEGRATION_TERMINAL = [''integrated'', ''rejected'']"

definition clamp :: "int \<Rightarrow> int \<Rightarrow> int \<Rightarrow> int" where
  "clamp minimum maximum i = max minimum (min i maximum)"

definition clamped_int :: "json \<Rightarrow> string \<Rightarrow> int \<Rightarrow> int \<Rightarrow> int res" where
  "clamped_int value field minimum maximum = (case py_int value of
     None \<Rightarrow> Inl (HTTPException 400 (field @ '' must be an integer''))
   | Some parsed \<Rightarrow> Inr (clamp minimum maximum parsed))"

text \<open>The value \<open>_optional_text\<close> gets from a request: absent, or its text.\<close>

definition jtext :: "json \<Rightarrow> string option" where
  "jtext v = (if v = JNull then None else Some (py_str v))"

definition get_lease :: "string \<Rightarrow> string \<Rightarrow> ResourceLease gw" where
  "get_lease owner_subject lease_id =
     fetch (\<lambda>l. ls_id l = lease_id \<and> ls_owner_subject l = owner_subject) resource_leases ''Resource lease not found''"

definition get_handoff :: "string \<Rightarrow> string \<Rightarrow> AgentHandoffBarrier gw" where
  "get_handoff owner_subject handoff_id =
     fetch (\<lambda>b. hb_id b = handoff_id \<and> hb_owner_subject b = owner_subject) agent_handoff_barriers
       ''Handoff barrier not found''"

definition get_integration :: "string \<Rightarrow> string \<Rightarrow> AgentIntegrationRecord gw" where
  "get_integration owner_subject integration_id =
     fetch (\<lambda>r. ig_id r = integration_id \<and> ig_owner_subject r = owner_subject) agent_integration_records
       ''Integration record not found''"

definition is_coordinator :: "CollaborationRoom \<Rightarrow> AgentInstance \<Rightarrow> bool res" where
  "is_coordinator room a =
     bindE (list_or_empty (dget (ro_policy room) ''coordinator_agent_ids'')) (\<lambda>configured.
     Inr (ag_id a \<in> set (map py_str configured) \<or> ''coordination:integrate'' \<in> set (ag_capabilities a) \<or>
       ''coordinator'' \<in> set (ag_capabilities a)))"

section \<open>Leases\<close>

definition add_lease :: "ResourceLease \<Rightarrow> unit gw" where
  "add_lease l = insert_row (\<lambda>q. ls_id q = ls_id l \<or>
       (ls_owner_subject q = ls_owner_subject l \<and> same_key (ls_idempotency_key q) (ls_idempotency_key l)) \<or>
       (ls_owner_subject q = ls_owner_subject l \<and> ls_room_id q = ls_room_id l \<and> ls_fencing_token q = ls_fencing_token l))
     resource_leases (\<lambda>w. w\<lparr>resource_leases := resource_leases w @ [l]\<rparr>)"

definition put_lease :: "ResourceLease \<Rightarrow> unit gw" where
  "put_lease l = modify (\<lambda>w. w\<lparr>resource_leases :=
     update_where (\<lambda>q. ls_id q = ls_id l) (\<lambda>_. l) (resource_leases w)\<rparr>)"

definition is_stale_lease :: "string \<Rightarrow> int \<Rightarrow> ResourceLease \<Rightarrow> bool" where
  "is_stale_lease owner_subject now l \<longleftrightarrow> ls_owner_subject l = owner_subject \<and> ls_status l = ''active'' \<and>
     ls_expires_at l \<le> now"

definition expire_stale_leases :: "string \<Rightarrow> nat gw" where
  "expire_stale_leases owner_subject =
     bindS (gets (\<lambda>w. count_where (is_stale_lease owner_subject (clock w)) (resource_leases w))) (\<lambda>changed.
     bindS (modify (\<lambda>w. w\<lparr>resource_leases := update_where (is_stale_lease owner_subject (clock w))
              (\<lambda>l. l\<lparr>ls_status := ''expired'', ls_released_at := Some (clock w), ls_updated_at := clock w\<rparr>)
              (resource_leases w)\<rparr>)) (\<lambda>_.
     ret changed))"

record ResourceLeaseAcquire =
  la_room_id :: string
  la_holder_agent_id :: string
  la_work_item_id :: "string option"
  la_origin :: string
  la_resource_id :: "string option"
  la_mode :: string
  la_reservations :: json
  la_branch_name :: "string option"
  la_worktree_path :: "string option"
  la_base_commit :: "string option"
  la_expected_head :: "string option"
  la_ttl_seconds :: int
  la_idempotency_key :: "string option"
  la_meta :: "(string \<times> json) list"

definition check_assigned :: "string \<Rightarrow> string \<Rightarrow> string \<Rightarrow> string option \<Rightarrow> unit gw" where
  "check_assigned owner_subject room_id holder_agent_id work_item_id = (case work_item_id of
     None \<Rightarrow> ret ()
   | Some i \<Rightarrow>
       bindS (fetch (\<lambda>x. wi_id x = i \<and> wi_owner_subject x = owner_subject \<and> wi_room_id x = room_id) agent_work_items
         ''Work item not found'') (\<lambda>item.
       guardS (wi_assigned_agent_id item = Some holder_agent_id \<and> wi_status item = ''in_progress'')
         (HTTPException 409 ''Work item is not actively assigned to the lease holder'')))"

text \<open>What an active lease of the room says to a new one.\<close>

definition lease_conflict ::
  "string \<Rightarrow> reservation list \<Rightarrow> string option \<Rightarrow> string option \<Rightarrow> ResourceLease \<Rightarrow> unit res" where
  "lease_conflict mode reservations branch_name worktree_path l =
     (if mode = ''shared_read'' \<and> ls_mode l = ''shared_read'' then Inr ()
      else if reservation_sets_overlap reservations (ls_reservations l)
      then Inl (HTTPException 409 (''Reservation conflicts with active lease '' @ ls_id l))
      else if branch_name \<noteq> None \<and> ls_branch_name l = branch_name
      then Inl (HTTPException 409 (''Branch is already owned by active lease '' @ ls_id l))
      else if worktree_path \<noteq> None \<and> ls_worktree_path l = worktree_path
      then Inl (HTTPException 409 (''Worktree is already owned by active lease '' @ ls_id l))
      else Inr ())"

definition room_leases :: "string \<Rightarrow> string \<Rightarrow> gdb \<Rightarrow> ResourceLease list" where
  "room_leases owner_subject room_id w =
     filter (\<lambda>l. ls_owner_subject l = owner_subject \<and> ls_room_id l = room_id) (resource_leases w)"

definition max_token :: "ResourceLease list \<Rightarrow> int" where
  "max_token leases = (case map ls_fencing_token leases of [] \<Rightarrow> 0 | t # ts \<Rightarrow> fold max ts t)"

definition reservation_json :: "reservation \<Rightarrow> json" where
  "reservation_json r = JObj [(''kind'', JStr (rs_kind r)), (''pattern'', JStr (rs_pattern r)),
     (''recursive'', JBool (rs_recursive r))]"

definition optional_path :: "string option \<Rightarrow> string option res" where
  "optional_path raw = (case raw of
     None \<Rightarrow> Inr None
   | Some p \<Rightarrow> bindE (normalize_relative_path p ''worktree_path'') (\<lambda>q. Inr (Some q)))"

text \<open>The part of \<open>acquire_lease\<close> after stale leases have been expired, up to the conflict check.\<close>

definition lease_request ::
  "string \<Rightarrow> string \<Rightarrow> string \<Rightarrow> ResourceLeaseAcquire \<Rightarrow>
     (string \<times> string \<times> string option \<times> reservation list \<times> string option \<times> string option \<times> string option \<times>
      string option \<times> string option) gw" where
  "lease_request owner_subject room_id holder_agent_id data =
     bindS (collab_room owner_subject room_id) (\<lambda>room.
     bindS (guardS (ro_status room = ''active'') (HTTPException 409 ''Collaboration room is not active'')) (\<lambda>_.
     bindS (collab_agent owner_subject holder_agent_id) (\<lambda>a.
     bindS (require_agent_in_room a room_id) (\<lambda>_.
     let mode = strip (if la_mode data = [] then ''exclusive_write'' else la_mode data)
     in bindS (guardS (mode \<in> set LEASE_MODES) (HTTPException 400 ''Unsupported resource lease mode'')) (\<lambda>_.
     bindS (liftE (required_text (la_origin data) ''origin'' 40)) (\<lambda>origin.
     bindS (liftE (optional_text (la_resource_id data) 160)) (\<lambda>resource_id.
     bindS (guardS (\<not> (origin \<noteq> ''server'' \<and> resource_id = None))
              (HTTPException 400 ''resource_id is required for non-server leases'')) (\<lambda>_.
     bindS (liftE (normalize_reservations (la_reservations data))) (\<lambda>reservations.
     bindS (liftE (optional_text (la_branch_name data) 255)) (\<lambda>branch_name.
     bindS (liftE (optional_text (la_worktree_path data) 4096)) (\<lambda>raw_worktree_path.
     bindS (liftE (optional_path raw_worktree_path)) (\<lambda>worktree_path.
     bindS (liftE (optional_text (la_base_commit data) 128)) (\<lambda>base_commit.
     bindS (liftE (optional_text (la_expected_head data) 128)) (\<lambda>expected_head.
     bindS (guardS (\<not> (mode = ''exclusive_write'' \<and> \<not> (branch_name \<noteq> None \<and> worktree_path \<noteq> None \<and> base_commit \<noteq> None)))
              (HTTPException 400 ''exclusive_write leases require branch_name, worktree_path, and base_commit'')) (\<lambda>_.
     bindS (guardS (\<not> (mode = ''exclusive_write'' \<and> worktree_path = Some ''.''))
              (HTTPException 400 ''exclusive_write worktree_path must identify an isolated subdirectory'')) (\<lambda>_.
     bindS (liftE (optional_text (la_work_item_id data) 36)) (\<lambda>work_item_id.
     bindS (check_assigned owner_subject room_id holder_agent_id work_item_id) (\<lambda>_.
     ret (mode, origin, resource_id, reservations, branch_name, worktree_path, base_commit, expected_head,
       work_item_id)))))))))))))))))))"

definition acquire_lease :: "gw_settings \<Rightarrow> string \<Rightarrow> ResourceLeaseAcquire \<Rightarrow> ResourceLease gw" where
  "acquire_lease cfg owner_subject data =
     bindS (liftE (required_text (la_room_id data) ''room_id'' 36)) (\<lambda>room_id.
     bindS (liftE (required_text (la_holder_agent_id data) ''holder_agent_id'' 36)) (\<lambda>holder_agent_id.
     bindS (liftE (optional_text (la_idempotency_key data) 160)) (\<lambda>idempotency_key.
     bindS (find_key resource_leases ls_owner_subject ls_idempotency_key owner_subject idempotency_key) (\<lambda>existing.
     case existing of Some l \<Rightarrow> ret l | None \<Rightarrow>
     bindS (expire_stale_leases owner_subject) (\<lambda>_.
     atomically (
     bindS (lease_request owner_subject room_id holder_agent_id data)
       (\<lambda>(mode, origin, resource_id, reservations, branch_name, worktree_path, base_commit, expected_head, work_item_id).
     bindS (gets (room_leases owner_subject room_id)) (\<lambda>leases.
     bindS (liftE (forE (lease_conflict mode reservations branch_name worktree_path)
              (filter (\<lambda>l. ls_status l = ''active'') leases))) (\<lambda>_.
     bindS (gets clock) (\<lambda>now.
     bindS (liftE (safe_dict (la_meta data) ''lease meta'')) (\<lambda>meta.
     bindS new_id (\<lambda>i.
     let l = \<lparr>ls_id = i, ls_owner_subject = owner_subject, ls_room_id = room_id, ls_holder_agent_id = holder_agent_id,
           ls_work_item_id = work_item_id, ls_origin = origin, ls_resource_id = resource_id, ls_mode = mode,
           ls_reservations = reservations, ls_fencing_token = max_token leases + 1, ls_status = ''active'',
           ls_branch_name = branch_name, ls_worktree_path = worktree_path, ls_base_commit = base_commit,
           ls_expected_head = expected_head, ls_idempotency_key = idempotency_key, ls_meta = meta,
           ls_acquired_at = now, ls_renewed_at = now,
           ls_expires_at = now + seconds (clamp 30 3600 (la_ttl_seconds data)), ls_released_at = None,
           ls_created_at = now, ls_updated_at = now\<rparr>
     in bindS (add_lease l) (\<lambda>_.
     bindS (note_event cfg owner_subject ''gateway.resource_lease.acquired.v1'' ''acquired'' ''resource_lease'' i
              [(''lease_id'', JStr i), (''room_id'', JStr room_id), (''holder_agent_id'', JStr holder_agent_id),
               (''origin'', JStr origin), (''resource_id'', jopt resource_id), (''mode'', JStr mode),
               (''reservations'', JList (map reservation_json reservations)),
               (''fencing_token'', JInt (ls_fencing_token l)), (''branch_name'', jopt branch_name),
               (''worktree_path'', jopt worktree_path)] ''success'') (\<lambda>_.
     ret l))))))))))))))"

definition list_leases :: "string \<Rightarrow> string option \<Rightarrow> string option \<Rightarrow> string option \<Rightarrow> ResourceLease list gw" where
  "list_leases owner_subject room_id status holder_agent_id =
     bindS (expire_stale_leases owner_subject) (\<lambda>_.
     bindS (case room_id of Some (c # cs) \<Rightarrow> bindS (collab_room owner_subject (c # cs)) (\<lambda>_. ret ()) | _ \<Rightarrow> ret ()) (\<lambda>_.
     bindS (case holder_agent_id of Some (c # cs) \<Rightarrow> bindS (collab_agent owner_subject (c # cs)) (\<lambda>_. ret ()) | _ \<Rightarrow> ret ()) (\<lambda>_.
     gets (\<lambda>w. take 500 (sort_key (\<lambda>l. - ls_created_at l) (filter (\<lambda>l. ls_owner_subject l = owner_subject \<and>
       (case room_id of Some (c # cs) \<Rightarrow> ls_room_id l = c # cs | _ \<Rightarrow> True) \<and>
       (case status of Some (c # cs) \<Rightarrow> ls_status l = c # cs | _ \<Rightarrow> True) \<and>
       (case holder_agent_id of Some (c # cs) \<Rightarrow> ls_holder_agent_id l = c # cs | _ \<Rightarrow> True)) (resource_leases w)))))))"

definition renew_lease :: "gw_settings \<Rightarrow> string \<Rightarrow> string \<Rightarrow> string \<Rightarrow> int \<Rightarrow> int \<Rightarrow> ResourceLease gw" where
  "renew_lease cfg owner_subject lease_id holder_agent_id fencing_token ttl_seconds =
     bindS (expire_stale_leases owner_subject) (\<lambda>_.
     atomically (
     bindS (get_lease owner_subject lease_id) (\<lambda>l.
     bindS (guardS (ls_status l = ''active'') (HTTPException 409 ''Resource lease is not active'')) (\<lambda>_.
     bindS (guardS (\<not> (ls_holder_agent_id l \<noteq> holder_agent_id \<or> ls_fencing_token l \<noteq> fencing_token))
              (HTTPException 409 ''Lease holder or fencing token is stale'')) (\<lambda>_.
     bindS (collab_agent owner_subject holder_agent_id) (\<lambda>_.
     bindS (gets clock) (\<lambda>now.
     let l = l\<lparr>ls_renewed_at := now, ls_expires_at := now + seconds (clamp 30 3600 ttl_seconds), ls_updated_at := now\<rparr>
     in bindS (put_lease l) (\<lambda>_.
     bindS (note_event cfg owner_subject ''gateway.resource_lease.renewed.v1'' ''renewed'' ''resource_lease'' (ls_id l)
              [(''lease_id'', JStr (ls_id l)), (''room_id'', JStr (ls_room_id l)),
               (''holder_agent_id'', JStr (ls_holder_agent_id l)), (''fencing_token'', JInt (ls_fencing_token l)),
               (''expires_at'', JStr (isoformat (ls_expires_at l)))] ''success'') (\<lambda>_.
     ret l)))))))))"

definition release_lease :: "gw_settings \<Rightarrow> string \<Rightarrow> string \<Rightarrow> string \<Rightarrow> int \<Rightarrow> bool \<Rightarrow> ResourceLease gw" where
  "release_lease cfg owner_subject lease_id actor_agent_id fencing_token force = atomically (
     bindS (get_lease owner_subject lease_id) (\<lambda>l.
     bindS (collab_room owner_subject (ls_room_id l)) (\<lambda>room.
     bindS (collab_agent owner_subject actor_agent_id) (\<lambda>actor.
     if ls_status l \<noteq> ''active'' then ret l else
     bindS (guardS (ls_fencing_token l = fencing_token) (HTTPException 409 ''Fencing token is stale'')) (\<lambda>_.
     bindS (if actor_agent_id = ls_holder_agent_id l then ret True
            else if force then liftE (is_coordinator room actor) else ret False) (\<lambda>allowed.
     bindS (guardS allowed (HTTPException 403 ''Only the holder or a coordinator can release this lease'')) (\<lambda>_.
     bindS (gets clock) (\<lambda>now.
     let l = l\<lparr>ls_status := (if force \<and> actor_agent_id \<noteq> ls_holder_agent_id l then ''revoked'' else ''released''),
           ls_released_at := Some now, ls_updated_at := now\<rparr>
     in bindS (put_lease l) (\<lambda>_.
     bindS (note_event cfg owner_subject ''gateway.resource_lease.released.v1'' (ls_status l) ''resource_lease'' (ls_id l)
              [(''lease_id'', JStr (ls_id l)), (''room_id'', JStr (ls_room_id l)),
               (''holder_agent_id'', JStr (ls_holder_agent_id l)), (''actor_agent_id'', JStr actor_agent_id),
               (''fencing_token'', JInt (ls_fencing_token l)), (''status'', JStr (ls_status l))] ''success'') (\<lambda>_.
     ret l))))))))))"

end
