(* ===== verification/Coordination_Handoff.thy ===== *)
theory Coordination_Handoff
  imports Agent_Coordination
begin

text \<open>
  The second half of \<open>agent_coordination.py\<close>: the check of a write against the leases, conflicts
  between recorded file changes, handoff barriers and integrations.
\<close>

section \<open>Writes\<close>

text \<open>The path below the worktree of a lease, if it is in there.\<close>

definition relative_to :: "string \<Rightarrow> string \<Rightarrow> string option" where
  "relative_to root normalized =
     (if root = ''.'' then Some normalized
      else if normalized = root then Some ''.''
      else if startswith normalized (rstrip_slash root @ ''/'') then Some (drop (length (rstrip_slash root) + 1) normalized)
      else None)"

fun select_covering :: "string \<Rightarrow> ResourceLease list \<Rightarrow> ResourceLease list res" where
  "select_covering normalized [] = Inr []"
| "select_covering normalized (l # ls) =
     bindE (normalize_relative_path (case ls_worktree_path l of Some (c # cs) \<Rightarrow> c # cs | _ \<Rightarrow> ''.'')
              ''lease.worktree_path'') (\<lambda>root.
     bindE (select_covering normalized ls) (\<lambda>rest.
     Inr (case relative_to root normalized of
        None \<Rightarrow> rest
      | Some relative \<Rightarrow>
          if list_ex (\<lambda>r. reservation_covers_path r relative) (ls_reservations l) then l # rest else rest)))"

definition covering_leases :: "string \<Rightarrow> string \<Rightarrow> string option \<Rightarrow> string \<Rightarrow> ResourceLease list gw" where
  "covering_leases owner_subject origin resource_id path =
     bindS (expire_stale_leases owner_subject) (\<lambda>_.
     bindS (liftE (normalize_relative_path path ''path'')) (\<lambda>normalized.
     bindS (gets (\<lambda>w. filter (\<lambda>l. ls_owner_subject l = owner_subject \<and> ls_origin l = origin \<and>
         ls_resource_id l = resource_id \<and> ls_status l = ''active'' \<and> ls_mode l = ''exclusive_write'')
       (resource_leases w))) (\<lambda>leases.
     liftE (select_covering normalized leases))))"

record WriteLeaseContext =
  wl_room_id :: string
  wl_agent_id :: string
  wl_lease_id :: string
  wl_fencing_token :: int
  wl_base_commit :: string
  wl_branch_name :: string
  wl_worktree_path :: string
  wl_expected_head :: "string option"
  wl_expected_sha256 :: "string option"
  wl_expected_absent :: bool

text \<open>\<open>any(data.get(name) not in {None, ""} ...)\<close>: arrays and objects cannot be looked up in a set.\<close>

fun supplied_guard :: "json list \<Rightarrow> bool res" where
  "supplied_guard [] = Inr False"
| "supplied_guard (v # vs) = (case v of
     JList _ \<Rightarrow> Inl (ValueError ''unhashable'')
   | JObj _ \<Rightarrow> Inl (ValueError ''unhashable'')
   | _ \<Rightarrow> if v = JNull \<or> v = JStr [] then supplied_guard vs else Inr True)"

definition GUARD_FIELDS :: "string list" where
  "GUARD_FIELDS = [''lease_id'', ''agent_id'', ''room_id'', ''fencing_token'', ''branch_name'', ''worktree_path'',
     ''base_commit'']"

definition write_context :: "(string \<times> json) list \<Rightarrow> ResourceLease list \<Rightarrow> WriteLeaseContext res" where
  "write_context data covering =
     bindE (required_text (str_or_empty (dget data ''lease_id'')) ''lease_id'' 36) (\<lambda>lease_id.
     bindE (required_text (str_or_empty (dget data ''agent_id'')) ''agent_id'' 36) (\<lambda>agent_id.
     bindE (required_text (str_or_empty (dget data ''room_id'')) ''room_id'' 36) (\<lambda>room_id.
     bindE (clamped_int (dget data ''fencing_token'') ''fencing_token'' 1 (2 ^ 63 - 1)) (\<lambda>fencing_token.
     case find (\<lambda>l. ls_id l = lease_id) covering of
       None \<Rightarrow> Inl (HTTPException 409 ''Write path is reserved by another active lease'')
     | Some l \<Rightarrow>
         bindE (ensure (ls_room_id l = room_id \<and> ls_holder_agent_id l = agent_id \<and> ls_fencing_token l = fencing_token)
                  (HTTPException 409 ''Lease holder, room, or fencing token is stale'')) (\<lambda>_.
         bindE (required_text (str_or_empty (dget data ''branch_name'')) ''branch_name'' 255) (\<lambda>branch_name.
         bindE (required_text (str_or_empty (dget data ''worktree_path'')) ''worktree_path'' 4096) (\<lambda>worktree_path.
         bindE (required_text (str_or_empty (dget data ''base_commit'')) ''base_commit'' 128) (\<lambda>base_commit.
         bindE (ensure (ls_branch_name l = Some branch_name \<and> ls_worktree_path l = Some worktree_path \<and>
                   ls_base_commit l = Some base_commit)
                  (HTTPException 409 ''Branch, worktree, or base commit does not match the active lease'')) (\<lambda>_.
         bindE (optional_text (jtext (dget data ''expected_sha256'')) 64) (\<lambda>expected_sha256.
         let expected_absent = truthy (dget data ''expected_absent'')
         in bindE (ensure ((expected_sha256 \<noteq> None) \<noteq> expected_absent)
                     (HTTPException 400 ''Exactly one of expected_sha256 or expected_absent is required'')) (\<lambda>_.
         Inr \<lparr>wl_room_id = room_id, wl_agent_id = agent_id, wl_lease_id = lease_id, wl_fencing_token = fencing_token,
           wl_base_commit = base_commit, wl_branch_name = branch_name, wl_worktree_path = worktree_path,
           wl_expected_head = ls_expected_head l, wl_expected_sha256 = expected_sha256,
           wl_expected_absent = expected_absent\<rparr>)))))))))))"

definition validate_write_context ::
  "string \<Rightarrow> string \<Rightarrow> string option \<Rightarrow> string \<Rightarrow> (string \<times> json) list \<Rightarrow> WriteLeaseContext option gw" where
  "validate_write_context owner_subject origin resource_id path data =
     bindS (covering_leases owner_subject origin resource_id path) (\<lambda>covering.
     if covering = [] then
       bindS (liftE (supplied_guard (map (dget data) GUARD_FIELDS))) (\<lambda>supplied.
       bindS (guardS (\<not> supplied) (HTTPException 409 ''No active lease covers the requested write path'')) (\<lambda>_.
       ret None))
     else bindS (liftE (write_context data covering)) (\<lambda>context. ret (Some context)))"

section \<open>Conflicts of file changes\<close>

definition fromkeys :: "string list \<Rightarrow> string list" where
  "fromkeys ids = rev (remdups (rev ids))"

fun find_changes :: "FileChangeSet list \<Rightarrow> string list \<Rightarrow> FileChangeSet list res" where
  "find_changes rows [] = Inr []"
| "find_changes rows (i # ids) = (case find (\<lambda>c. fc_id c = i) rows of
     None \<Rightarrow> Inl (HTTPException 404 (''File change not found: '' @ i))
   | Some c \<Rightarrow> bindE (find_changes rows ids) (\<lambda>cs. Inr (c # cs)))"

definition in_room :: "string option \<Rightarrow> FileChangeSet \<Rightarrow> bool" where
  "in_room room_id c \<longleftrightarrow> (case room_id of Some (x # xs) \<Rightarrow> fc_room_id c = Some (x # xs) | _ \<Rightarrow> True)"

definition changes :: "string \<Rightarrow> string list \<Rightarrow> string option \<Rightarrow> FileChangeSet list gw" where
  "changes owner_subject ids room_id =
     bindS (gets (\<lambda>w. filter (\<lambda>c. fc_owner_subject c = owner_subject \<and> in_room room_id c) (file_change_sets w))) (\<lambda>rows.
     liftE (find_changes rows (fromkeys (filter (\<lambda>i. i \<noteq> []) ids))))"

text \<open>\<open>int(hunk.get(new, hunk.get(old, 1)) or 1)\<close>\<close>

definition hunk_int :: "(string \<times> json) list \<Rightarrow> string \<Rightarrow> string \<Rightarrow> int res" where
  "hunk_int hunk new old =
     (let v = dget_or hunk new (dget_or hunk old (JInt 1))
      in if \<not> truthy v then Inr 1 else case py_int v of None \<Rightarrow> Inl (ValueError ''int'') | Some i \<Rightarrow> Inr i)"

fun hunk_ranges :: "json list \<Rightarrow> (int \<times> int) list option res" where
  "hunk_ranges [] = Inr (Some [])"
| "hunk_ranges (h # hs) = (case h of
     JObj hunk \<Rightarrow>
       bindE (hunk_int hunk ''new_start'' ''old_start'') (\<lambda>start.
       bindE (hunk_int hunk ''new_count'' ''old_count'') (\<lambda>count.
       bindE (hunk_ranges hs) (\<lambda>rest.
       Inr (map_option (Cons (start, start + max count 1 - 1)) rest))))
   | _ \<Rightarrow> Inr None)"

definition changed_ranges :: "FileChangeSet \<Rightarrow> (int \<times> int) list option res" where
  "changed_ranges c =
     (if fc_suppressed c \<or> fc_truncated c \<or> truthy (dget (fc_diff_json c) ''suppressed'') \<or>
         truthy (dget (fc_diff_json c) ''truncated'') then Inr None
      else bindE (list_or_empty (dget (fc_diff_json c) ''hunks'')) (\<lambda>hunks.
        if hunks = [] then Inr None else hunk_ranges hunks))"

definition ranges_overlap :: "(int \<times> int) list \<Rightarrow> (int \<times> int) list \<Rightarrow> bool" where
  "ranges_overlap left right =
     list_ex (\<lambda>(a_start, a_end). list_ex (\<lambda>(b_start, b_end). max a_start b_start \<le> min a_end b_end) right) left"

definition logical_change_path :: "FileChangeSet \<Rightarrow> string res" where
  "logical_change_path c =
     bindE (normalize_relative_path (fc_path c) ''path'') (\<lambda>physical.
     case fc_worktree_path c of
       Some (x # xs) \<Rightarrow>
         bindE (normalize_relative_path (x # xs) ''change.worktree_path'') (\<lambda>root.
         Inr (if physical = root then ''.''
              else let prefix = rstrip_slash root @ ''/''
                   in if startswith physical prefix then drop (length prefix) physical else physical))
     | _ \<Rightarrow> Inr physical)"

definition share_namespace :: "FileChangeSet \<Rightarrow> FileChangeSet \<Rightarrow> bool" where
  "share_namespace left right \<longleftrightarrow>
     (fc_room_id left \<notin> {None, Some []} \<and> fc_room_id left = fc_room_id right) \<or>
     (fc_origin left = fc_origin right \<and> fc_resource_id left = fc_resource_id right)"

record conflict =
  cf_severity :: string
  cf_reason :: string
  cf_candidate :: FileChangeSet
  cf_comparison :: FileChangeSet
  cf_path :: string
  cf_comparison_path :: string

definition stale_precondition :: "FileChangeSet \<Rightarrow> FileChangeSet \<Rightarrow> bool" where
  "stale_precondition candidate other \<longleftrightarrow> fc_before_sha256 candidate \<notin> {None, Some []} \<and>
     fc_after_sha256 other \<notin> {None, Some []} \<and> fc_before_sha256 candidate \<noteq> fc_after_sha256 other"

text \<open>Severity and reason of two changes of the same path.\<close>

definition same_path_conflict :: "FileChangeSet \<Rightarrow> FileChangeSet \<Rightarrow> (string \<times> string) res" where
  "same_path_conflict candidate other =
     bindE (changed_ranges candidate) (\<lambda>left_ranges.
     bindE (changed_ranges other) (\<lambda>right_ranges.
     Inr (if stale_precondition candidate other then (''hard'', ''stale_file_precondition'')
          else case (left_ranges, right_ranges) of
            (Some l, Some r) \<Rightarrow>
              if ranges_overlap l r then (''hard'', ''overlapping_diff_hunks'')
              else (''potential'', ''same_path_non_overlapping_hunks'')
          | _ \<Rightarrow> (''hard'', ''same_path_with_incomplete_diff_evidence''))))"

definition conflict_of :: "FileChangeSet \<Rightarrow> FileChangeSet \<Rightarrow> conflict option res" where
  "conflict_of candidate other =
     bindE (logical_change_path candidate) (\<lambda>candidate_path.
     bindE (logical_change_path other) (\<lambda>other_path.
     let found = (\<lambda>(severity, reason). Some \<lparr>cf_severity = severity, cf_reason = reason, cf_candidate = candidate,
           cf_comparison = other, cf_path = candidate_path, cf_comparison_path = other_path\<rparr>)
     in if \<not> share_namespace candidate other then Inr None
        else if candidate_path = other_path then bindE (same_path_conflict candidate other) (\<lambda>c. Inr (found c))
        else if startswith candidate_path (rstrip_slash other_path @ ''/'') \<or>
                startswith other_path (rstrip_slash candidate_path @ ''/'')
        then Inr (found (''potential'', ''parent_child_path_overlap''))
        else Inr None))"

fun conflicts_of :: "(string \<times> string) list \<Rightarrow> (FileChangeSet \<times> FileChangeSet) list \<Rightarrow> conflict list res" where
  "conflicts_of seen [] = Inr []"
| "conflicts_of seen ((candidate, other) # pairs) =
     (let pair = (fc_id candidate, fc_id other)
      in if pair \<in> set seen \<or> fc_id candidate = fc_id other then conflicts_of seen pairs
         else bindE (conflict_of candidate other) (\<lambda>found.
           bindE (conflicts_of (pair # seen) pairs) (\<lambda>rest.
           Inr (case found of None \<Rightarrow> rest | Some c \<Rightarrow> c # rest))))"

record conflict_report =
  rp_conflicts :: "conflict list"
  rp_candidate_change_ids :: "string list"
  rp_comparison_change_ids :: "string list"

definition hard_count :: "conflict_report \<Rightarrow> nat" where
  "hard_count r = count_where (\<lambda>c. cf_severity c = ''hard'') (rp_conflicts r)"

definition report_safe :: "conflict_report \<Rightarrow> bool" where
  "report_safe r \<longleftrightarrow> hard_count r = 0"

definition conflict_json :: "conflict \<Rightarrow> json" where
  "conflict_json c = JObj
     [(''severity'', JStr (cf_severity c)), (''reason'', JStr (cf_reason c)),
      (''candidate_change_id'', JStr (fc_id (cf_candidate c))), (''comparison_change_id'', JStr (fc_id (cf_comparison c))),
      (''path'', JStr (cf_path c)), (''comparison_path'', JStr (cf_comparison_path c)),
      (''candidate_agent_id'', jopt (fc_agent_id (cf_candidate c))),
      (''comparison_agent_id'', jopt (fc_agent_id (cf_comparison c))),
      (''candidate_lease_id'', jopt (fc_lease_id (cf_candidate c))),
      (''comparison_lease_id'', jopt (fc_lease_id (cf_comparison c)))]"

definition report_json :: "conflict_report \<Rightarrow> (string \<times> json) list" where
  "report_json r =
     [(''safe'', JBool (report_safe r)), (''hard_conflict_count'', JInt (int (hard_count r))),
      (''potential_conflict_count'', JInt (int (count_where (\<lambda>c. cf_severity c = ''potential'') (rp_conflicts r)))),
      (''conflicts'', JList (map conflict_json (rp_conflicts r))),
      (''candidate_change_ids'', JList (map JStr (rp_candidate_change_ids r))),
      (''comparison_change_ids'', JList (map JStr (rp_comparison_change_ids r)))]"

definition recent_changes :: "string \<Rightarrow> string option \<Rightarrow> string list \<Rightarrow> gdb \<Rightarrow> FileChangeSet list" where
  "recent_changes owner_subject room_id candidate_ids w =
     filter (\<lambda>c. fc_id c \<notin> set candidate_ids) (take 2000 (sort_key (\<lambda>c. - fc_created_at c)
       (filter (\<lambda>c. fc_owner_subject c = owner_subject \<and> in_room room_id c) (file_change_sets w))))"

definition detect_conflicts ::
  "string \<Rightarrow> string list \<Rightarrow> string list option \<Rightarrow> string option \<Rightarrow> conflict_report gw" where
  "detect_conflicts owner_subject candidate_change_ids comparison_change_ids room_id =
     bindS (changes owner_subject candidate_change_ids room_id) (\<lambda>candidates.
     bindS (case comparison_change_ids of
              None \<Rightarrow> gets (recent_changes owner_subject room_id (map fc_id candidates))
            | Some ids \<Rightarrow> changes owner_subject ids room_id) (\<lambda>comparisons.
     bindS (liftE (conflicts_of [] (List.product candidates comparisons))) (\<lambda>conflicts.
     ret \<lparr>rp_conflicts = conflicts, rp_candidate_change_ids = map fc_id candidates,
       rp_comparison_change_ids = map fc_id comparisons\<rparr>)))"

section \<open>Handoff barriers\<close>

definition add_handoff :: "AgentHandoffBarrier \<Rightarrow> unit gw" where
  "add_handoff b = insert_row (\<lambda>q. hb_id q = hb_id b \<or>
       (hb_owner_subject q = hb_owner_subject b \<and> same_key (hb_idempotency_key q) (hb_idempotency_key b)))
     agent_handoff_barriers (\<lambda>w. w\<lparr>agent_handoff_barriers := agent_handoff_barriers w @ [b]\<rparr>)"

definition put_handoff :: "AgentHandoffBarrier \<Rightarrow> unit gw" where
  "put_handoff b = modify (\<lambda>w. w\<lparr>agent_handoff_barriers :=
     update_where (\<lambda>q. hb_id q = hb_id b) (\<lambda>_. b) (agent_handoff_barriers w)\<rparr>)"

record AgentHandoffCreate =
  hc_room_id :: string
  hc_source_agent_id :: string
  hc_target_agent_id :: string
  hc_lease_id :: string
  hc_expected_fencing_token :: int
  hc_required_change_ids :: "string list"
  hc_summary :: string
  hc_payload :: "(string \<times> json) list"
  hc_idempotency_key :: "string option"

definition of_lease :: "ResourceLease \<Rightarrow> FileChangeSet \<Rightarrow> bool" where
  "of_lease l c \<longleftrightarrow> fc_lease_id c = Some (ls_id l) \<and> fc_fencing_token c = Some (ls_fencing_token l)"

definition create_handoff :: "gw_settings \<Rightarrow> string \<Rightarrow> AgentHandoffCreate \<Rightarrow> AgentHandoffBarrier gw" where
  "create_handoff cfg owner_subject data = atomically (
     bindS (liftE (required_text (hc_room_id data) ''room_id'' 36)) (\<lambda>room_id.
     bindS (liftE (required_text (hc_source_agent_id data) ''source_agent_id'' 36)) (\<lambda>source_agent_id.
     bindS (liftE (required_text (hc_target_agent_id data) ''target_agent_id'' 36)) (\<lambda>target_agent_id.
     bindS (liftE (required_text (hc_lease_id data) ''lease_id'' 36)) (\<lambda>lease_id.
     bindS (liftE (optional_text (hc_idempotency_key data) 160)) (\<lambda>idempotency_key.
     bindS (find_key agent_handoff_barriers hb_owner_subject hb_idempotency_key owner_subject idempotency_key) (\<lambda>existing.
     case existing of Some b \<Rightarrow> ret b | None \<Rightarrow>
     bindS (collab_room owner_subject room_id) (\<lambda>_.
     bindS (collab_agent owner_subject source_agent_id) (\<lambda>source.
     bindS (collab_agent owner_subject target_agent_id) (\<lambda>target.
     bindS (require_agent_in_room source room_id) (\<lambda>_.
     bindS (require_agent_in_room target room_id) (\<lambda>_.
     bindS (get_lease owner_subject lease_id) (\<lambda>l.
     let expected_token = clamp 1 (2 ^ 63 - 1) (hc_expected_fencing_token data)
     in bindS (guardS (ls_room_id l = room_id \<and> ls_holder_agent_id l = source_agent_id \<and> ls_fencing_token l = expected_token)
              (HTTPException 409 ''Handoff lease context is stale'')) (\<lambda>_.
     bindS (guardS (ls_status l = ''active'') (HTTPException 409 ''Handoff requires an active source lease'')) (\<lambda>_.
     let change_ids = filter (\<lambda>i. i \<noteq> []) (hc_required_change_ids data)
     in bindS (changes owner_subject change_ids (Some room_id)) (\<lambda>found.
     bindS (guardS (list_all (of_lease l) found)
              (HTTPException 409 ''Handoff changes do not belong to the source lease and fence'')) (\<lambda>_.
     bindS new_id (\<lambda>i.
     bindS (liftE (safe_dict (hc_payload data) ''handoff payload'')) (\<lambda>payload.
     bindS (gets clock) (\<lambda>now.
     let b = \<lparr>hb_id = i, hb_owner_subject = owner_subject, hb_room_id = room_id, hb_source_agent_id = source_agent_id,
           hb_target_agent_id = target_agent_id, hb_lease_id = lease_id, hb_expected_fencing_token = expected_token,
           hb_required_change_ids = change_ids, hb_summary = take 10000 (hc_summary data), hb_payload = payload,
           hb_status = ''open'', hb_conflict_report = [], hb_idempotency_key = idempotency_key, hb_ready_at = None,
           hb_accepted_at = None, hb_cancelled_at = None, hb_created_at = now, hb_updated_at = now\<rparr>
     in bindS (add_handoff b) (\<lambda>_.
     bindS (note_event cfg owner_subject ''gateway.agent.handoff.created.v1'' ''created'' ''agent_handoff_barrier'' i
              [(''handoff_id'', JStr i), (''room_id'', JStr room_id), (''source_agent_id'', JStr source_agent_id),
               (''target_agent_id'', JStr target_agent_id), (''lease_id'', JStr lease_id),
               (''expected_fencing_token'', JInt expected_token),
               (''required_change_ids'', JList (map JStr change_ids))] ''success'') (\<lambda>_.
     ret b))))))))))))))))))))))"

definition mark_handoff_ready :: "gw_settings \<Rightarrow> string \<Rightarrow> string \<Rightarrow> string \<Rightarrow> AgentHandoffBarrier gw" where
  "mark_handoff_ready cfg owner_subject handoff_id source_agent_id = atomically (
     bindS (get_handoff owner_subject handoff_id) (\<lambda>b.
     bindS (guardS (hb_source_agent_id b = source_agent_id)
              (HTTPException 403 ''Only the source agent can mark this handoff ready'')) (\<lambda>_.
     if hb_status b \<in> set HANDOFF_TERMINAL then ret b else
     bindS (get_lease owner_subject (hb_lease_id b)) (\<lambda>l.
     bindS (guardS (ls_fencing_token l = hb_expected_fencing_token b)
              (HTTPException 409 ''Handoff fencing token is stale'')) (\<lambda>_.
     bindS (changes owner_subject (hb_required_change_ids b) (Some (hb_room_id b))) (\<lambda>found.
     bindS (guardS (list_all (of_lease l) found)
              (HTTPException 409 ''Handoff evidence no longer matches the source fence'')) (\<lambda>_.
     bindS (gets clock) (\<lambda>now.
     let b = b\<lparr>hb_status := ''ready'', hb_ready_at := Some now, hb_updated_at := now\<rparr>
     in bindS (put_handoff b) (\<lambda>_.
     bindS (note_event cfg owner_subject ''gateway.agent.handoff.ready.v1'' ''ready'' ''agent_handoff_barrier'' (hb_id b)
              [(''handoff_id'', JStr (hb_id b)), (''room_id'', JStr (hb_room_id b)),
               (''source_agent_id'', JStr (hb_source_agent_id b)), (''target_agent_id'', JStr (hb_target_agent_id b)),
               (''lease_id'', JStr (hb_lease_id b)),
               (''required_change_ids'', JList (map JStr (hb_required_change_ids b)))] ''success'') (\<lambda>_.
     ret b))))))))))"

text \<open>A blocked barrier is committed before the error is raised.\<close>

definition accept_handoff ::
  "gw_settings \<Rightarrow> string \<Rightarrow> string \<Rightarrow> string \<Rightarrow> string list option \<Rightarrow> AgentHandoffBarrier gw" where
  "accept_handoff cfg owner_subject handoff_id target_agent_id comparison_change_ids =
     bindS (atomically (
       bindS (get_handoff owner_subject handoff_id) (\<lambda>b.
       bindS (guardS (hb_target_agent_id b = target_agent_id)
                (HTTPException 403 ''Only the target agent can accept this handoff'')) (\<lambda>_.
       if hb_status b = ''accepted'' then ret (True, b) else
       bindS (guardS (hb_status b = ''ready'') (HTTPException 409 ''Handoff is not ready'')) (\<lambda>_.
       bindS (get_lease owner_subject (hb_lease_id b)) (\<lambda>l.
       bindS (guardS (ls_status l \<noteq> ''active'')
                (HTTPException 409 ''Source lease must be released before handoff acceptance'')) (\<lambda>_.
       bindS (detect_conflicts owner_subject (hb_required_change_ids b) comparison_change_ids (Some (hb_room_id b))) (\<lambda>report.
       bindS (gets clock) (\<lambda>now.
       let b = b\<lparr>hb_conflict_report := report_json report, hb_updated_at := now\<rparr>
       in if \<not> report_safe report then
            bindS (put_handoff (b\<lparr>hb_status := ''blocked''\<rparr>)) (\<lambda>_. ret (False, b))
          else
            let b = b\<lparr>hb_status := ''accepted'', hb_accepted_at := Some now\<rparr>
            in bindS (put_handoff b) (\<lambda>_.
            bindS (note_event cfg owner_subject ''gateway.agent.handoff.accepted.v1'' ''accepted'' ''agent_handoff_barrier'' (hb_id b)
                     [(''handoff_id'', JStr (hb_id b)), (''room_id'', JStr (hb_room_id b)),
                      (''source_agent_id'', JStr (hb_source_agent_id b)), (''target_agent_id'', JStr (hb_target_agent_id b)),
                      (''conflict_report'', JObj (hb_conflict_report b))] ''success'') (\<lambda>_.
            ret (True, b))))))))))))
     (\<lambda>(accepted, b).
     if accepted then ret b else raise (HTTPException 409 ''Handoff is blocked by hard file conflicts''))"

definition list_handoffs :: "string \<Rightarrow> string option \<Rightarrow> string option \<Rightarrow> AgentHandoffBarrier list gw" where
  "list_handoffs owner_subject room_id status =
     bindS (case room_id of Some (c # cs) \<Rightarrow> bindS (collab_room owner_subject (c # cs)) (\<lambda>_. ret ()) | _ \<Rightarrow> ret ()) (\<lambda>_.
     gets (\<lambda>w. take 500 (sort_key (\<lambda>b. - hb_created_at b) (filter (\<lambda>b. hb_owner_subject b = owner_subject \<and>
       (case room_id of Some (c # cs) \<Rightarrow> hb_room_id b = c # cs | _ \<Rightarrow> True) \<and>
       (case status of Some (c # cs) \<Rightarrow> hb_status b = c # cs | _ \<Rightarrow> True)) (agent_handoff_barriers w)))))"

section \<open>Integrations\<close>

definition add_integration :: "AgentIntegrationRecord \<Rightarrow> unit gw" where
  "add_integration r = insert_row (\<lambda>q. ig_id q = ig_id r \<or>
       (ig_owner_subject q = ig_owner_subject r \<and> same_key (ig_idempotency_key q) (ig_idempotency_key r)))
     agent_integration_records (\<lambda>w. w\<lparr>agent_integration_records := agent_integration_records w @ [r]\<rparr>)"

definition put_integration :: "AgentIntegrationRecord \<Rightarrow> unit gw" where
  "put_integration r = modify (\<lambda>w. w\<lparr>agent_integration_records :=
     update_where (\<lambda>q. ig_id q = ig_id r) (\<lambda>_. r) (agent_integration_records w)\<rparr>)"

record AgentIntegrationCreate =
  in_room_id :: string
  in_coordinator_agent_id :: string
  in_target_branch :: string
  in_expected_target_head :: string
  in_candidate_change_ids :: "string list"
  in_comparison_change_ids :: "string list"
  in_source_lease_ids :: "string list"
  in_idempotency_key :: "string option"

definition check_source_lease :: "string \<Rightarrow> string \<Rightarrow> string \<Rightarrow> unit gw" where
  "check_source_lease owner_subject room_id lease_id =
     bindS (get_lease owner_subject lease_id) (\<lambda>l.
     guardS (\<not> (ls_room_id l \<noteq> room_id \<or> ls_status l = ''active''))
       (HTTPException 409 ''Integration source leases must belong to the room and be released''))"

definition create_integration :: "gw_settings \<Rightarrow> string \<Rightarrow> AgentIntegrationCreate \<Rightarrow> AgentIntegrationRecord gw" where
  "create_integration cfg owner_subject data = atomically (
     bindS (liftE (required_text (in_room_id data) ''room_id'' 36)) (\<lambda>room_id.
     bindS (liftE (required_text (in_coordinator_agent_id data) ''coordinator_agent_id'' 36)) (\<lambda>coordinator_agent_id.
     bindS (liftE (optional_text (in_idempotency_key data) 160)) (\<lambda>idempotency_key.
     bindS (find_key agent_integration_records ig_owner_subject ig_idempotency_key owner_subject idempotency_key) (\<lambda>existing.
     case existing of Some r \<Rightarrow> ret r | None \<Rightarrow>
     bindS (collab_room owner_subject room_id) (\<lambda>room.
     bindS (collab_agent owner_subject coordinator_agent_id) (\<lambda>coordinator.
     bindS (require_agent_in_room coordinator room_id) (\<lambda>_.
     bindS (liftE (is_coordinator room coordinator)) (\<lambda>allowed.
     bindS (guardS allowed (HTTPException 403 ''Agent is not a room coordinator'')) (\<lambda>_.
     let candidate_change_ids = filter (\<lambda>i. i \<noteq> []) (in_candidate_change_ids data);
         comparison_change_ids = filter (\<lambda>i. i \<noteq> []) (in_comparison_change_ids data);
         source_lease_ids = filter (\<lambda>i. i \<noteq> []) (in_source_lease_ids data)
     in bindS (forS (check_source_lease owner_subject room_id) source_lease_ids) (\<lambda>_.
     bindS (detect_conflicts owner_subject candidate_change_ids
              (if comparison_change_ids = [] then None else Some comparison_change_ids) (Some room_id)) (\<lambda>report.
     bindS new_id (\<lambda>i.
     bindS (liftE (required_text (in_target_branch data) ''target_branch'' 255)) (\<lambda>target_branch.
     bindS (liftE (required_text (in_expected_target_head data) ''expected_target_head'' 128)) (\<lambda>expected_target_head.
     bindS (gets clock) (\<lambda>now.
     let r = \<lparr>ig_id = i, ig_owner_subject = owner_subject, ig_room_id = room_id,
           ig_coordinator_agent_id = coordinator_agent_id, ig_target_branch = target_branch,
           ig_expected_target_head = expected_target_head, ig_candidate_change_ids = candidate_change_ids,
           ig_comparison_change_ids = comparison_change_ids, ig_source_lease_ids = source_lease_ids,
           ig_status = (if \<not> report_safe report then ''blocked'' else ''review''),
           ig_conflict_report = report_json report, ig_decision = [], ig_integrated_commit = None,
           ig_idempotency_key = idempotency_key, ig_version = 1, ig_created_at = now, ig_updated_at = now,
           ig_completed_at = None\<rparr>
     in bindS (add_integration r) (\<lambda>_.
     bindS (note_event cfg owner_subject ''gateway.agent.integration.created.v1'' ''created'' ''agent_integration_record'' i
              [(''integration_id'', JStr i), (''room_id'', JStr room_id),
               (''coordinator_agent_id'', JStr coordinator_agent_id), (''target_branch'', JStr target_branch),
               (''expected_target_head'', JStr expected_target_head), (''status'', JStr (ig_status r)),
               (''conflict_report'', JObj (ig_conflict_report r))] ''success'') (\<lambda>_.
     ret r))))))))))))))))))"

record AgentIntegrationUpdate =
  iu_coordinator_agent_id :: string
  iu_expected_version :: int
  iu_status :: string
  iu_observed_target_head :: "string option"
  iu_decision :: "(string \<times> json) list"
  iu_integrated_commit :: "string option"

definition complete_integration :: "gw_settings \<Rightarrow> string \<Rightarrow> string \<Rightarrow> AgentIntegrationUpdate \<Rightarrow> AgentIntegrationRecord gw" where
  "complete_integration cfg owner_subject integration_id data = atomically (
     let status = iu_status data
     in bindS (guardS (status \<in> {''approved'', ''integrated'', ''rejected''})
              (HTTPException 400 ''Unsupported integration status'')) (\<lambda>_.
     bindS (get_integration owner_subject integration_id) (\<lambda>r.
     bindS (collab_room owner_subject (ig_room_id r)) (\<lambda>room.
     bindS (collab_agent owner_subject (iu_coordinator_agent_id data)) (\<lambda>coordinator.
     bindS (if ig_coordinator_agent_id r \<noteq> iu_coordinator_agent_id data then ret False
            else liftE (is_coordinator room coordinator)) (\<lambda>allowed.
     bindS (guardS allowed (HTTPException 403 ''Only the assigned coordinator can update this integration'')) (\<lambda>_.
     bindS (guardS (ig_version r = iu_expected_version data) (HTTPException 409 ''Integration version conflict'')) (\<lambda>_.
     if ig_status r \<in> set INTEGRATION_TERMINAL then ret r else
     bindS (guardS (\<not> (status \<in> {''approved'', ''integrated''} \<and> \<not> truthy (dget (ig_conflict_report r) ''safe'')))
              (HTTPException 409 ''Integration has unresolved hard conflicts'')) (\<lambda>_.
     bindS (liftE (optional_text (iu_observed_target_head data) 128)) (\<lambda>observed_head.
     bindS (guardS (\<not> (status \<in> {''approved'', ''integrated''} \<and> observed_head = None))
              (HTTPException 400 ''observed_target_head is required'')) (\<lambda>_.
     bindS (guardS (\<not> (status \<in> {''approved'', ''integrated''} \<and> observed_head \<noteq> Some (ig_expected_target_head r)))
              (HTTPException 409 ''Integration target head is stale'')) (\<lambda>_.
     bindS (liftE (optional_text (iu_integrated_commit data) 128)) (\<lambda>commit.
     bindS (guardS (\<not> (status = ''integrated'' \<and> commit = None)) (HTTPException 400 ''integrated_commit is required'')) (\<lambda>_.
     bindS (liftE (safe_dict (iu_decision data) ''integration decision'')) (\<lambda>decision.
     bindS (gets clock) (\<lambda>now.
     let r = r\<lparr>ig_status := status, ig_decision := decision, ig_integrated_commit := commit,
           ig_version := ig_version r + 1, ig_updated_at := now,
           ig_completed_at := (if status \<in> set INTEGRATION_TERMINAL then Some now else ig_completed_at r)\<rparr>
     in bindS (put_integration r) (\<lambda>_.
     bindS (note_event cfg owner_subject ''gateway.agent.integration.updated.v1'' status ''agent_integration_record'' (ig_id r)
              [(''integration_id'', JStr (ig_id r)), (''room_id'', JStr (ig_room_id r)),
               (''coordinator_agent_id'', JStr (ig_coordinator_agent_id r)), (''status'', JStr status),
               (''version'', JInt (ig_version r)), (''observed_target_head'', jopt observed_head),
               (''integrated_commit'', jopt commit)] ''success'') (\<lambda>_.
     ret r))))))))))))))))))"

definition list_integrations :: "string \<Rightarrow> string option \<Rightarrow> string option \<Rightarrow> AgentIntegrationRecord list gw" where
  "list_integrations owner_subject room_id status =
     bindS (case room_id of Some (c # cs) \<Rightarrow> bindS (collab_room owner_subject (c # cs)) (\<lambda>_. ret ()) | _ \<Rightarrow> ret ()) (\<lambda>_.
     gets (\<lambda>w. take 500 (sort_key (\<lambda>r. - ig_created_at r) (filter (\<lambda>r. ig_owner_subject r = owner_subject \<and>
       (case room_id of Some (c # cs) \<Rightarrow> ig_room_id r = c # cs | _ \<Rightarrow> True) \<and>
       (case status of Some (c # cs) \<Rightarrow> ig_status r = c # cs | _ \<Rightarrow> True)) (agent_integration_records w)))))"

end
