(* ===== verification/Reservation_Overlap.thy ===== *)
theory Reservation_Overlap
  imports Path_Reservations "HOL-Library.Sublist"
begin

text \<open>
  What the path arithmetic of \<open>agent_coordination.py\<close> guarantees: stored patterns are safe relative
  paths, and the overlap test finds every common path except in the cases named \<open>blind\<close>.
\<close>

section \<open>Normal paths\<close>

definition safe_path :: "string \<Rightarrow> bool" where
  "safe_path p \<longleftrightarrow> p = ''.'' \<or> (\<forall>c \<in> set (split_slash p). c \<notin> {[], ''.'', ''..''})"

lemma split_slash_neq [simp]: "split_slash s \<noteq> []"
  by (induction s) (auto split: list.splits)

lemma split_slash_parts: "p \<in> set (split_slash s) \<Longrightarrow> CHR ''/'' \<notin> set p"
  by (induction s arbitrary: p) (auto split: list.splits if_splits)

lemma split_slash_plain: "CHR ''/'' \<notin> set x \<Longrightarrow> split_slash x = [x]"
  by (induction x) auto

lemma split_slash_append: "CHR ''/'' \<notin> set x \<Longrightarrow> split_slash (x @ CHR ''/'' # y) = x # split_slash y"
  by (induction x) auto

lemma split_slash_snoc: "split_slash (x @ ''/'') = split_slash x @ [[]]"
  by (induction x) (auto split: list.splits)

lemma split_slash_join:
  "ps \<noteq> [] \<Longrightarrow> \<forall>p \<in> set ps. CHR ''/'' \<notin> set p \<Longrightarrow> split_slash (join ''/'' ps) = ps"
  by (induction "''/''" ps rule: join.induct) (auto simp: split_slash_plain split_slash_append)

lemma path_parts_props:
  "p \<in> set (path_parts t) \<Longrightarrow> p \<noteq> [] \<and> p \<noteq> ''.'' \<and> CHR ''/'' \<notin> set p"
  using split_slash_parts by (auto simp: path_parts_def)

lemma join_path_parts: "path_parts t \<noteq> [] \<Longrightarrow> split_slash (join ''/'' (path_parts t)) = path_parts t"
  using path_parts_props by (intro split_slash_join) auto

lemma startswith_prefix: "startswith s p \<longleftrightarrow> prefix p s"
  by (auto simp: startswith_iff prefix_def)

lemma join_no_dot: "path_parts t \<noteq> [] \<Longrightarrow> \<not> startswith (join ''/'' (path_parts t)) ''./''"
proof
  assume ne: "path_parts t \<noteq> []" and "startswith (join ''/'' (path_parts t)) ''./''"
  then obtain u where "join ''/'' (path_parts t) = ''.'' @ CHR ''/'' # u" by (auto simp: startswith_iff)
  then have "path_parts t = ''.'' # split_slash u"
    using join_path_parts [OF ne] split_slash_append [of "''.''" u] by simp
  then show False using path_parts_props [of "''.''" t] by simp
qed

text \<open>The text whose components a path is made of.\<close>

definition path_text :: "string \<Rightarrow> string" where
  "path_text value = strip (map (\<lambda>c. if c = char_of (92 :: nat) then CHR ''/'' else c) value)"

lemma normalized_parts:
  assumes "normalize_relative_path value field = Inr p"
  shows "p = (if path_parts (path_text value) = [] then ''.'' else join ''/'' (path_parts (path_text value)))"
    and "''..'' \<notin> set (path_parts (path_text value))"
proof -
  have dot: "path_parts [] = []" "path_parts ''.'' = []" by (simp_all add: path_parts_def)
  have ne: "join ''/'' (path_parts t) \<noteq> []" if "path_parts t \<noteq> []" for t
    using that join_path_parts [OF that] path_parts_props [of "[]" t] by (metis split_slash.simps(1) list.set_intros(1))
  have single: "\<not> startswith ''.'' ''./''" by (simp add: startswith_def)
  show "p = (if path_parts (path_text value) = [] then ''.'' else join ''/'' (path_parts (path_text value)))"
    using assms dot single ne [of "path_text value"] join_no_dot [of "path_text value"]
    unfolding normalize_relative_path_def path_text_def [symmetric]
    by (auto simp: Let_def split: if_splits)
  show "''..'' \<notin> set (path_parts (path_text value))"
    using assms dot unfolding normalize_relative_path_def path_text_def [symmetric]
    by (auto simp: Let_def split: if_splits)
qed

lemma normalized_safe:
  assumes "normalize_relative_path v f = Inr p"
  shows "safe_path p"
proof (cases "path_parts (path_text v) = []")
  case True
  then show ?thesis using normalized_parts(1) [OF assms] by (simp add: safe_path_def)
next
  case False
  then have "split_slash p = path_parts (path_text v)"
    using normalized_parts(1) [OF assms] join_path_parts by simp
  moreover have "c \<notin> {[], ''.'', ''..''}" if "c \<in> set (path_parts (path_text v))" for c
    using path_parts_props [OF that] normalized_parts(2) [OF assms] that by blast
  ultimately show ?thesis by (simp add: safe_path_def)
qed

lemma safe_path_normal:
  assumes "safe_path p"
  shows "p \<noteq> []" and "rstrip_slash p = p"
proof -
  show ne: "p \<noteq> []" using assms by (cases p) (simp_all add: safe_path_def)
  have "last p \<noteq> CHR ''/''"
  proof
    assume l: "last p = CHR ''/''"
    then have "[] \<in> set (split_slash p)" using ne split_slash_snoc [of "butlast p"] by (metis append_butlast_last_id in_set_conv_decomp)
    then show False using assms l by (auto simp: safe_path_def)
  qed
  then show "rstrip_slash p = p" using ne by (cases p rule: rev_cases) (auto simp: rstrip_slash_def)
qed

section \<open>Globs\<close>

lemma glob_literal: "glob_match g s \<Longrightarrow> prefix (takeWhile (\<lambda>c. \<not> is_marker c) g) s"
proof (induction g s rule: glob_match.induct)
  case (2 p ps s)
  then show ?case by (cases "is_marker p") (auto simp: is_marker_def split: list.splits)
qed simp

lemma prefix_dirname: "prefix (dirname s) s"
proof -
  have "suffix (tl (dropWhile (\<lambda>c. c \<noteq> CHR ''/'') (rev s))) (rev s)"
    by (metis suffix_dropWhile suffix_order.trans suffix_tl)
  then have "prefix (rev (tl (dropWhile (\<lambda>c. c \<noteq> CHR ''/'') (rev s)))) s" by (metis suffix_to_prefix rev_rev_ident)
  then show ?thesis by (simp add: dirname_def)
qed

lemma glob_prefix: "glob_match g s \<Longrightarrow> prefix (glob_fixed_prefix g) s"
proof -
  assume m: "glob_match g s"
  note lit = glob_literal [OF m]
  show "prefix (glob_fixed_prefix g) s"
  proof (cases "list_ex is_marker g")
    case True
    then show ?thesis using prefix_order.trans [OF prefix_dirname lit] by (simp add: glob_fixed_prefix_def)
  next
    case False
    then have all: "takeWhile (\<lambda>c. \<not> is_marker c) g = g" by (simp add: list_ex_iff)
    show ?thesis using lit False unfolding all by (simp add: glob_fixed_prefix_def)
  qed
qed

section \<open>Overlaps\<close>

definition well_reserved :: "reservation \<Rightarrow> bool" where
  "well_reserved r \<longleftrightarrow> rs_kind r \<in> {''path'', ''glob''} \<and> safe_path (rs_pattern r)"

lemma well_reserved_simps:
  assumes "well_reserved r"
  shows "pattern_of r = rs_pattern r" "kind_of r = rs_kind r" "rstrip_slash (rs_pattern r) = rs_pattern r" "rs_pattern r \<noteq> []"
  using assms safe_path_normal by (auto simp: well_reserved_def pattern_of_def kind_of_def)

text \<open>The pairs for which the overlap test does not look at the paths below the left pattern.\<close>

definition blind :: "reservation \<Rightarrow> reservation \<Rightarrow> bool" where
  "blind l r \<longleftrightarrow> rs_kind l = ''path'' \<and> rs_recursive l \<and> rs_kind r = ''glob'' \<and>
     (rs_pattern l = ''.'' \<or> glob_fixed_prefix (rs_pattern r) = [])"

lemma reservations_overlap_sym: "reservations_overlap l r \<longleftrightarrow> reservations_overlap r l"
  by (auto simp: reservations_overlap_def Let_def)

lemma reservation_sets_overlap_sym: "reservation_sets_overlap ls rs \<longleftrightarrow> reservation_sets_overlap rs ls"
  using reservations_overlap_sym by (auto simp: reservation_sets_overlap_def list_ex_iff)

lemma covers_path:
  assumes "well_reserved r" "rs_kind r = ''path''"
  shows "reservation_covers_path r x \<longleftrightarrow> x = rs_pattern r \<or>
    (rs_recursive r \<and> (rs_pattern r = ''.'' \<or> prefix (rs_pattern r @ ''/'') x))"
  using well_reserved_simps [OF assms(1)] assms(2) by (simp add: reservation_covers_path_def startswith_prefix)

lemma covers_glob:
  assumes "well_reserved r" "rs_kind r = ''glob''"
  shows "reservation_covers_path r x \<longleftrightarrow> glob_match (rs_pattern r) x"
  using well_reserved_simps [OF assms(1)] assms(2) by (simp add: reservation_covers_path_def fnmatchcase_def)

lemma slash_below:
  assumes "prefix (p @ ''/'') x" "prefix (q @ ''/'') x"
  shows "p = q \<or> prefix (p @ ''/'') q \<or> prefix (q @ ''/'') p"
proof -
  have "prefix (p @ ''/'') (q @ ''/'') \<or> prefix (q @ ''/'') (p @ ''/'')"
    using assms by (rule prefix_same_cases)
  then show ?thesis by (auto simp: prefix_snoc)
qed

lemma path_path_overlap:
  assumes "well_reserved l" "well_reserved r" "rs_kind l = ''path''" "rs_kind r = ''path''"
  shows "reservations_overlap l r \<longleftrightarrow> (\<exists>x. reservation_covers_path l x \<and> reservation_covers_path r x)"
proof -
  have self: "reservation_covers_path l (rs_pattern l)" "reservation_covers_path r (rs_pattern r)"
    using assms covers_path by simp_all
  have eq: "reservations_overlap l r \<longleftrightarrow> reservation_covers_path l (rs_pattern r) \<or> reservation_covers_path r (rs_pattern l)"
    using assms well_reserved_simps by (simp add: reservations_overlap_def)
  have "reservation_covers_path l (rs_pattern r) \<or> reservation_covers_path r (rs_pattern l)"
    if "reservation_covers_path l x" "reservation_covers_path r x" for x
    using that covers_path [OF assms(1,3)] covers_path [OF assms(2,4)] slash_below [of "rs_pattern l" x "rs_pattern r"] by metis
  then show ?thesis using eq self by blast
qed

lemma path_glob_overlaps:
  assumes "well_reserved l" "well_reserved r" "rs_kind l = ''path''" "rs_kind r = ''glob''"
    and "reservation_covers_path l x" "reservation_covers_path r x" and "\<not> blind l r"
  shows "path_glob_overlap (rs_pattern l) (rs_pattern r)"
proof (cases "x = rs_pattern l")
  case True
  then show ?thesis using assms(6) covers_glob [OF assms(2,4)] by (simp add: path_glob_overlap_def fnmatchcase_def)
next
  case False
  then have rec: "rs_recursive l" and below: "rs_pattern l = ''.'' \<or> prefix (rs_pattern l @ ''/'') x"
    using assms(5) covers_path [OF assms(1,3)] by auto
  then have pre: "glob_fixed_prefix (rs_pattern r) \<noteq> []" and below: "prefix (rs_pattern l @ ''/'') x"
    using assms(3,4,7) by (auto simp: blind_def)
  have "prefix (glob_fixed_prefix (rs_pattern r)) x" using assms(6) covers_glob [OF assms(2,4)] glob_prefix by simp
  from prefix_same_cases [OF this below]
  have "prefix (glob_fixed_prefix (rs_pattern r)) (rs_pattern l) \<or> prefix (rs_pattern l @ ''/'') (glob_fixed_prefix (rs_pattern r))"
    by (auto simp: prefix_snoc)
  then show ?thesis
    using pre well_reserved_simps(3) [OF assms(1)] by (auto simp: path_glob_overlap_def startswith_prefix Let_def)
qed

lemma overlap_found:
  assumes "well_reserved l" "well_reserved r" and "reservation_covers_path l x" "reservation_covers_path r x"
    and "\<not> blind l r" "\<not> blind r l"
  shows "reservations_overlap l r"
proof -
  note simps = well_reserved_simps [OF assms(1)] well_reserved_simps [OF assms(2)]
  consider "rs_kind l = ''path''" "rs_kind r = ''path''" | "rs_kind l = ''path''" "rs_kind r = ''glob''"
    | "rs_kind l = ''glob''" "rs_kind r = ''path''" | "rs_kind l = ''glob''" "rs_kind r = ''glob''"
    using assms(1,2) by (auto simp: well_reserved_def)
  then show ?thesis
  proof cases
    case 1
    then show ?thesis using path_path_overlap [OF assms(1,2)] assms(3,4) by blast
  next
    case 2
    then show ?thesis using path_glob_overlaps [OF assms(1,2) 2 assms(3,4,5)] simps by (simp add: reservations_overlap_def)
  next
    case 3
    then show ?thesis using path_glob_overlaps [OF assms(2,1) 3(2,1) assms(4,3,6)] simps by (simp add: reservations_overlap_def)
  next
    case 4
    then have "prefix (glob_fixed_prefix (rs_pattern l)) x" "prefix (glob_fixed_prefix (rs_pattern r)) x"
      using assms covers_glob glob_prefix by blast+
    then show ?thesis
      using 4 simps prefix_same_cases by (fastforce simp: reservations_overlap_def Let_def startswith_prefix)
  qed
qed

end
