(* ===== verification/Coordination_Leases.thy ===== *)
theory Coordination_Leases
  imports Coordination_Handoff Reservation_Overlap Collaboration_Commands
begin

text \<open>
  The leases of a room under every call of the coordination service: a lease keeps what it was
  granted, it is never active again once it has ended, fencing tokens grow, and active leases that
  are not both shared stay apart.
\<close>

section \<open>Leases and their moves\<close>

definition same_grant :: "ResourceLease \<Rightarrow> ResourceLease \<Rightarrow> bool" where
  "same_grant l l' \<longleftrightarrow> ls_id l' = ls_id l \<and> ls_owner_subject l' = ls_owner_subject l \<and> ls_room_id l' = ls_room_id l \<and>
     ls_holder_agent_id l' = ls_holder_agent_id l \<and> ls_origin l' = ls_origin l \<and> ls_resource_id l' = ls_resource_id l \<and>
     ls_mode l' = ls_mode l \<and> ls_reservations l' = ls_reservations l \<and> ls_fencing_token l' = ls_fencing_token l \<and>
     ls_branch_name l' = ls_branch_name l \<and> ls_worktree_path l' = ls_worktree_path l \<and>
     ls_base_commit l' = ls_base_commit l"

definition lease_move :: "ResourceLease \<Rightarrow> ResourceLease \<Rightarrow> bool" where
  "lease_move l l' \<longleftrightarrow> same_grant l l' \<and> (ls_status l \<noteq> ''active'' \<longrightarrow> l' = l) \<and>
     ls_status l' \<in> {ls_status l, ''expired'', ''released'', ''revoked''}"

lemma lease_move_refl [simp]: "lease_move l l"
  by (simp add: lease_move_def same_grant_def)

lemma lease_move_trans: "lease_move a b \<Longrightarrow> lease_move b c \<Longrightarrow> lease_move a c"
  by (auto simp: lease_move_def same_grant_def)

definition apart :: "ResourceLease \<Rightarrow> ResourceLease \<Rightarrow> bool" where
  "apart l l' \<longleftrightarrow> (ls_mode l = ''shared_read'' \<and> ls_mode l' = ''shared_read'') \<or>
     (\<not> reservation_sets_overlap (ls_reservations l) (ls_reservations l') \<and>
      (ls_branch_name l = None \<or> ls_branch_name l' \<noteq> ls_branch_name l) \<and>
      (ls_worktree_path l = None \<or> ls_worktree_path l' \<noteq> ls_worktree_path l))"

lemma apart_sym: "apart l l' \<longleftrightarrow> apart l' l"
  using reservation_sets_overlap_sym by (auto simp: apart_def)

definition same_room :: "ResourceLease \<Rightarrow> ResourceLease \<Rightarrow> bool" where
  "same_room l l' \<longleftrightarrow> ls_owner_subject l' = ls_owner_subject l \<and> ls_room_id l' = ls_room_id l"

definition lease_order :: "ResourceLease \<Rightarrow> ResourceLease \<Rightarrow> bool" where
  "lease_order l l' \<longleftrightarrow> (same_room l l' \<longrightarrow> ls_fencing_token l < ls_fencing_token l' \<and>
     (ls_status l = ''active'' \<and> ls_status l' = ''active'' \<longrightarrow> apart l l'))"

definition lease_ok :: "ResourceLease \<Rightarrow> bool" where
  "lease_ok l \<longleftrightarrow> 1 \<le> ls_fencing_token l \<and> ls_mode l \<in> set LEASE_MODES \<and> ls_reservations l \<noteq> [] \<and>
     list_all well_reserved (ls_reservations l) \<and>
     (ls_mode l = ''exclusive_write'' \<longrightarrow> ls_branch_name l \<noteq> None \<and> ls_base_commit l \<noteq> None \<and>
        (\<exists>p. ls_worktree_path l = Some p \<and> safe_path p \<and> p \<noteq> ''.''))"

definition lease_inv :: "gdb \<Rightarrow> bool" where
  "lease_inv w \<longleftrightarrow> unique_on ls_id (resource_leases w) \<and> sorted_wrt lease_order (resource_leases w) \<and>
     list_all lease_ok (resource_leases w)"

definition lease_step :: "gdb \<Rightarrow> gdb \<Rightarrow> bool" where
  "lease_step w w' \<longleftrightarrow> (lease_inv w \<longrightarrow> lease_inv w' \<and>
     (\<forall>l \<in> set (resource_leases w). \<exists>l' \<in> set (resource_leases w'). lease_move l l'))"

lemma lease_step_same: "resource_leases w' = resource_leases w \<Longrightarrow> lease_step w w'"
  by (auto simp: lease_step_def lease_inv_def intro: lease_move_refl)

lemma lease_step_trans: "lease_step u v \<Longrightarrow> lease_step v w \<Longrightarrow> lease_step u w"
  unfolding lease_step_def by (meson lease_move_trans)

interpretation leases: store_relation lease_step
  by unfold_locales (auto intro: lease_step_same lease_step_trans simp: only_events_def)

lemma lease_order_move:
  assumes "lease_order l q" "lease_move l l'" "lease_move q q'"
  shows "lease_order l' q'"
proof -
  have "ls_status l = ''active''" if "ls_status l' = ''active''" using assms(2) that by (auto simp: lease_move_def)
  moreover have "ls_status q = ''active''" if "ls_status q' = ''active''" using assms(3) that by (auto simp: lease_move_def)
  ultimately show ?thesis
    using assms unfolding lease_move_def same_grant_def lease_order_def same_room_def apart_def by metis
qed

lemma lease_step_rows:
  assumes "resource_leases w' = map f (resource_leases w)"
    and "\<And>l. l \<in> set (resource_leases w) \<Longrightarrow> unique_on ls_id (resource_leases w) \<Longrightarrow> lease_move l (f l)"
  shows "lease_step w w'"
  unfolding lease_step_def
proof
  assume inv: "lease_inv w"
  then have u: "unique_on ls_id (resource_leases w)" by (simp add: lease_inv_def)
  have mv: "lease_move l (f l)" if "l \<in> set (resource_leases w)" for l using assms(2) [OF that u] .
  have "map ls_id (resource_leases w') = map ls_id (resource_leases w)"
    using mv by (simp add: assms(1) lease_move_def same_grant_def)
  then have "unique_on ls_id (resource_leases w')" using u by (simp add: unique_on_def)
  moreover have "sorted_wrt lease_order (resource_leases w')"
    unfolding assms(1) sorted_wrt_map
    by (rule sorted_wrt_mono_rel [of _ lease_order]) (use inv mv lease_order_move in \<open>auto simp: lease_inv_def\<close>)
  moreover have "lease_ok (f l)" if "l \<in> set (resource_leases w)" for l
    using mv [OF that] inv that by (auto simp: lease_inv_def list_all_iff lease_ok_def lease_move_def same_grant_def)
  ultimately show "lease_inv w' \<and> (\<forall>l \<in> set (resource_leases w). \<exists>l' \<in> set (resource_leases w'). lease_move l l')"
    using mv by (auto simp: lease_inv_def list_all_iff assms(1))
qed

lemma lease_step_put:
  assumes "l \<in> set (resource_leases w)"
    and "resource_leases w' = update_where (\<lambda>q. ls_id q = ls_id l) (\<lambda>_. l') (resource_leases w)" and "lease_move l l'"
  shows "lease_step w w'"
proof (rule lease_step_rows [OF assms(2) [unfolded update_where_def]])
  fix q
  assume "q \<in> set (resource_leases w)" "unique_on ls_id (resource_leases w)"
  then have "q = l" if "ls_id q = ls_id l" using that assms(1) unique_on_eqD by metis
  then show "lease_move q (if ls_id q = ls_id l then l' else q)" using assms(3) by auto
qed

lemma lease_step_add:
  assumes "resource_leases w' = resource_leases w @ [l]"
    and "lease_inv w \<Longrightarrow> lease_ok l" and "\<forall>q \<in> set (resource_leases w). ls_id q \<noteq> ls_id l"
    and "\<And>q. q \<in> set (resource_leases w) \<Longrightarrow> lease_order q l"
  shows "lease_step w w'"
  using assms unfolding lease_step_def lease_inv_def by (auto intro: lease_move_refl)

section \<open>Acquiring\<close>

lemma reservation_of_well: "reservation_of item = Inr r \<Longrightarrow> well_reserved r"
  by (auto simp: reservation_of_def Let_def well_reserved_def split: json.splits if_splits dest: normalized_safe)

lemma collect_reservations_well:
  "collect_reservations acc items = Inr rs \<Longrightarrow> list_all well_reserved acc \<Longrightarrow> distinct acc \<Longrightarrow>
    list_all well_reserved rs \<and> distinct rs \<and> set acc \<subseteq> set rs \<and> (items \<noteq> [] \<longrightarrow> rs \<noteq> [])"
proof (induction items arbitrary: acc)
  case (Cons item items)
  then obtain r where r: "reservation_of item = Inr r"
    "collect_reservations (if r \<in> set acc then acc else acc @ [r]) items = Inr rs" by auto
  have "list_all well_reserved rs \<and> distinct rs \<and> set (if r \<in> set acc then acc else acc @ [r]) \<subseteq> set rs"
    using Cons.IH [OF r(2)] Cons.prems(2,3) reservation_of_well [OF r(1)] by auto
  then show ?case by (auto split: if_splits)
qed simp

lemma normalize_reservations_well:
  assumes "normalize_reservations raw = Inr rs"
  shows "list_all well_reserved rs \<and> rs \<noteq> [] \<and> distinct rs \<and> length rs \<le> 200"
proof -
  obtain item items where raw: "raw = JList (item # items)"
    using assms by (auto simp: normalize_reservations_def split: json.splits list.splits)
  then show ?thesis
    using assms collect_reservations_well [of "[]" "item # items" rs]
    by (auto simp: normalize_reservations_def split: if_splits simp del: collect_reservations.simps)
qed

lemma fold_max_ge: "(t :: int) \<le> fold max ts t \<and> (\<forall>x \<in> set ts. x \<le> fold max ts t)"
proof (induction ts arbitrary: t)
  case (Cons a ts)
  show ?case using Cons.IH [of "max a t"] by simp
qed simp

lemma max_token_ge: "l \<in> set leases \<Longrightarrow> ls_fencing_token l \<le> max_token leases"
  using fold_max_ge by (cases leases) (auto simp: max_token_def)

lemma max_token_nonneg: "list_all lease_ok leases \<Longrightarrow> 0 \<le> max_token leases"
  using max_token_ge [of "hd leases" leases] by (cases leases) (auto simp: lease_ok_def max_token_def)

lemma lease_conflict_apart:
  "lease_conflict (ls_mode n) (ls_reservations n) (ls_branch_name n) (ls_worktree_path n) l = Inr () \<longleftrightarrow> apart l n"
  by (subst apart_sym) (auto simp: lease_conflict_def apart_def)

lemma wpr_lease_request:
  assumes "\<And>mode origin resource_id rs branch worktree base head item. mode \<in> set LEASE_MODES \<Longrightarrow>
      list_all well_reserved rs \<Longrightarrow> rs \<noteq> [] \<Longrightarrow>
      (mode = ''exclusive_write'' \<Longrightarrow> branch \<noteq> None \<and> base \<noteq> None \<and> (\<exists>p. worktree = Some p \<and> safe_path p \<and> p \<noteq> ''.'')) \<Longrightarrow>
      Q (mode, origin, resource_id, rs, branch, worktree, base, head, item) w"
  shows "wpr (lease_request owner room_id holder data) Q w"
  unfolding lease_request_def collab_room_def collab_agent_def require_agent_in_room_def wp_bind Let_def
proof (intro wpr_fetch wpr_guard wpr_lift, goal_cases)
  case (1 room a origin resource_id rs branch raw worktree base head item)
  have path: "\<exists>p. worktree = Some p \<and> safe_path p" if "worktree \<noteq> None"
    using 1 that normalized_safe by (auto simp: optional_path_def split: option.splits)
  have granted: "Q (strip (if la_mode data = [] then ''exclusive_write'' else la_mode data), origin, resource_id, rs, branch,
      worktree, base, head, item) w"
    by (rule assms) (use 1 path normalize_reservations_well [of "la_reservations data" rs] in auto)
  have "wpr (check_assigned owner room_id holder item) (\<lambda>_ w'. w' = w) w"
    unfolding check_assigned_def by (cases item) (auto intro!: wpr_fetch)
  then show ?case by (rule wpr_mono) (simp add: granted)
qed

lemma keeps_expire: "keeps lease_step (expire_stale_leases owner)"
  unfolding expire_stale_leases_def
proof (intro leases.keeps_store, goal_cases)
  case (1 n w)
  show ?case
    by (rule lease_step_rows [where f = "\<lambda>l. if is_stale_lease owner (clock w) l then
          l\<lparr>ls_status := ''expired'', ls_released_at := Some (clock w), ls_updated_at := clock w\<rparr> else l"])
       (auto simp: update_where_def lease_move_def same_grant_def is_stale_lease_def)
qed

lemma keeps_transaction: "(\<And>w. wpr m (\<lambda>_. lease_step w) w) \<Longrightarrow> keeps lease_step (atomically m)"
  by (intro keeps_wpr rolls_back_atomically wpr_atomically lease_step_same refl)

lemma keeps_acquire_lease: "keeps lease_step (acquire_lease cfg owner data)"
  unfolding acquire_lease_def find_key_def
proof (intro leases.keeps_bind leases.keeps_lift leases.keeps_option leases.keeps_ret leases.keeps_query_one keeps_expire
    keeps_transaction, goal_cases)
  case (1 room_id holder key x n w)
  show ?case
    unfolding wp_bind
  proof (rule wpr_lease_request, unfold prod.case wp_bind wp_gets Let_def, intro wpr_lift wpr_new_id, goal_cases)
    case (1 mode origin resource_id rs branch worktree base head item u meta i)
    note req = 1
    let ?leases = "room_leases owner room_id w"
    have free: "apart q l" if "q \<in> set ?leases" "ls_status q = ''active''" "ls_mode l = mode" "ls_reservations l = rs"
        "ls_branch_name l = branch" "ls_worktree_path l = worktree" for q l
      using 1(5) that lease_conflict_apart [of l q] by auto
    show ?case
      unfolding add_lease_def
    proof (intro wpr_insert_row wpr_note_event, unfold wp_ret, rule lease_step_add, simp, goal_cases)
      case (1 a b n)
      then have "0 \<le> max_token ?leases"
        by (intro max_token_nonneg) (auto simp: lease_inv_def room_leases_def list_all_iff)
      then show ?case using req by (simp add: lease_ok_def)
    next
      case (3 a b n q)
      then show ?case
        using free [of q] max_token_ge [of q ?leases]
        by (auto simp: lease_order_def same_room_def room_leases_def)
    qed (auto simp: list_ex_iff)
  qed
qed

section \<open>The other calls\<close>

lemma keeps_renew_lease: "keeps lease_step (renew_lease cfg owner i holder token ttl)"
  unfolding renew_lease_def get_lease_def collab_agent_def put_lease_def
proof (intro leases.keeps_bind keeps_expire keeps_transaction, unfold wp_bind, intro wpr_fetch wpr_guard, goal_cases)
  case (1 x w l)
  show ?case
    unfolding wp_gets Let_def wp_bind wp_modify wp_ret
    by (rule wpr_note_event, rule lease_step_put [OF 1(1)], simp) (use 1 in \<open>simp add: lease_move_def same_grant_def\<close>)
qed

lemma keeps_release_lease: "keeps lease_step (release_lease cfg owner i actor token force)"
  unfolding release_lease_def get_lease_def collab_agent_def collab_room_def put_lease_def
proof (intro keeps_transaction, unfold wp_bind, intro wpr_fetch, goal_cases)
  case (1 w l room a)
  have move: "lease_move l (l\<lparr>ls_status := st, ls_released_at := Some (clock w), ls_updated_at := clock w\<rparr>)"
    if "ls_status l = ''active''" "st \<in> {''revoked'', ''released''}" for st
    using that by (auto simp: lease_move_def same_grant_def)
  show ?case
  proof (cases "ls_status l \<noteq> ''active''")
    case False
    have ended: "lease_step w w'" if "resource_leases w' = update_where (\<lambda>q. ls_id q = ls_id l)
        (\<lambda>_. l\<lparr>ls_status := st, ls_released_at := Some (clock w), ls_updated_at := clock w\<rparr>) (resource_leases w)"
        "st \<in> {''revoked'', ''released''}" for st w'
      using lease_step_put [OF 1(1) that(1) move] False that(2) by simp
    show ?thesis
      unfolding if_not_P [OF False] wp_bind
      by (intro wpr_guard) (auto simp: Let_def split: sum.splits intro!: wpr_note_event intro: ended)
  qed (simp add: lease_step_same)
qed

interpretation lease_table: untouched resource_leases
  by unfold_locales simp

lemmas coord_lookup_defs = collab_agent_def collab_room_def require_agent_in_room_def get_lease_def get_handoff_def
  get_integration_def find_key_def note_event_def changes_def detect_conflicts_def check_source_lease_def

lemmas coord_write_defs = add_handoff_def put_handoff_def add_integration_def put_integration_def

lemma leases_handoffs:
  "keeps (same resource_leases) (create_handoff cfg owner hc)"
  "keeps (same resource_leases) (mark_handoff_ready cfg owner i agent)"
  "keeps (same resource_leases) (accept_handoff cfg owner i agent ids)"
  unfolding create_handoff_def mark_handoff_ready_def accept_handoff_def coord_lookup_defs coord_write_defs
  by (intro lease_table.keeps_store sameI; simp)+

lemma leases_integrations:
  "keeps (same resource_leases) (create_integration cfg owner ic)"
  "keeps (same resource_leases) (complete_integration cfg owner i iu)"
  "keeps (same resource_leases) (detect_conflicts owner ids ids' room_id)"
  "keeps (same resource_leases) (list_handoffs owner room_id status)"
  "keeps (same resource_leases) (list_integrations owner room_id status)"
  unfolding create_integration_def complete_integration_def list_handoffs_def list_integrations_def coord_lookup_defs
    coord_write_defs
  by (intro lease_table.keeps_store sameI; simp)+

lemma keeps_list_leases: "keeps lease_step (list_leases owner room_id status holder)"
  unfolding list_leases_def collab_room_def collab_agent_def by (intro leases.keeps_store keeps_expire)

lemma keeps_validate_write: "keeps lease_step (validate_write_context owner origin resource_id path data)"
  unfolding validate_write_context_def covering_leases_def by (intro leases.keeps_store keeps_expire)

section \<open>Runs\<close>

datatype coord_call =
    AcquireLease string ResourceLeaseAcquire
  | ListLeases string "string option" "string option" "string option"
  | RenewLease string string string int int
  | ReleaseLease string string string int bool
  | ValidateWrite string string "string option" string "(string \<times> json) list"
  | DetectConflicts string "string list" "string list option" "string option"
  | CreateHandoff string AgentHandoffCreate
  | MarkHandoffReady string string string
  | AcceptHandoff string string string "string list option"
  | ListHandoffs string "string option" "string option"
  | CreateIntegration string AgentIntegrationCreate
  | CompleteIntegration string string AgentIntegrationUpdate
  | ListIntegrations string "string option" "string option"

fun coord_step :: "gw_settings \<Rightarrow> coord_call \<Rightarrow> gdb \<Rightarrow> gdb" where
  "coord_step cfg (AcquireLease owner data) w = snd (acquire_lease cfg owner data w)"
| "coord_step cfg (ListLeases owner room_id status holder) w = snd (list_leases owner room_id status holder w)"
| "coord_step cfg (RenewLease owner i holder token ttl) w = snd (renew_lease cfg owner i holder token ttl w)"
| "coord_step cfg (ReleaseLease owner i actor token force) w = snd (release_lease cfg owner i actor token force w)"
| "coord_step cfg (ValidateWrite owner origin resource_id path data) w =
     snd (validate_write_context owner origin resource_id path data w)"
| "coord_step cfg (DetectConflicts owner ids ids' room_id) w = snd (detect_conflicts owner ids ids' room_id w)"
| "coord_step cfg (CreateHandoff owner data) w = snd (create_handoff cfg owner data w)"
| "coord_step cfg (MarkHandoffReady owner i agent) w = snd (mark_handoff_ready cfg owner i agent w)"
| "coord_step cfg (AcceptHandoff owner i agent ids) w = snd (accept_handoff cfg owner i agent ids w)"
| "coord_step cfg (ListHandoffs owner room_id status) w = snd (list_handoffs owner room_id status w)"
| "coord_step cfg (CreateIntegration owner data) w = snd (create_integration cfg owner data w)"
| "coord_step cfg (CompleteIntegration owner i data) w = snd (complete_integration cfg owner i data w)"
| "coord_step cfg (ListIntegrations owner room_id status) w = snd (list_integrations owner room_id status w)"

text \<open>Calls of this service, with any steps of others that leave the leases alone in between.\<close>

inductive coord_run :: "gw_settings \<Rightarrow> gdb \<Rightarrow> gdb \<Rightarrow> bool" for cfg w0 where
  begin_run: "coord_run cfg w0 w0"
| call: "coord_run cfg w0 w \<Longrightarrow> coord_run cfg w0 (coord_step cfg c w)"
| other: "coord_run cfg w0 w \<Longrightarrow> resource_leases w' = resource_leases w \<Longrightarrow> coord_run cfg w0 w'"

lemma coord_step_leases: "lease_step w (coord_step cfg c w)"
  by (cases c)
     (simp_all add: keeps_def [THEN iffD1, rule_format] keeps_acquire_lease keeps_list_leases keeps_renew_lease
        keeps_release_lease keeps_validate_write lease_step_same leases_handoffs [THEN same_after]
        leases_integrations [THEN same_after])

lemma coord_run_leases: "coord_run cfg w0 w \<Longrightarrow> lease_step w0 w"
  by (induction rule: coord_run.induct) (auto intro: lease_step_same lease_step_trans coord_step_leases)

end
