(* ===== verification/Coordination_Correct.thy ===== *)
theory Coordination_Correct
  imports Coordination_Leases Collaboration_Correct
begin

text \<open>
  The properties of the coordination service: what the overlap test finds, leases that exclude each
  other, writes under a valid lease only, handoffs without hard conflicts.
\<close>

section \<open>Overlaps\<close>

definition cover :: "string \<Rightarrow> string \<Rightarrow> bool \<Rightarrow> reservation" where
  "cover kind pattern recursive = \<lparr>rs_kind = kind, rs_pattern = pattern, rs_recursive = recursive\<rparr>"

text \<open>
  C30: Two path reservations are taken to overlap exactly when some path is covered by both. In
  every other combination with globs a common path is found too, except between a recursive path
  and a glob when the path is the root or the glob has no fixed directory in front.
\<close>

theorem overlap_exact:
  assumes "well_reserved l" and "well_reserved r"
  shows "(rs_kind l = ''path'' \<and> rs_kind r = ''path'' \<longrightarrow>
      (reservations_overlap l r \<longleftrightarrow> (\<exists>x. reservation_covers_path l x \<and> reservation_covers_path r x))) \<and>
    (\<not> reservations_overlap l r \<and> \<not> blind l r \<and> \<not> blind r l \<longrightarrow>
      \<not> (\<exists>x. reservation_covers_path l x \<and> reservation_covers_path r x))"
  using path_path_overlap [OF assms] overlap_found [OF assms] by blast

theorem overlap_exact_witness:
  "\<not> (\<exists>x. reservation_covers_path (cover ''path'' ''docs'' True) x \<and>
      reservation_covers_path (cover ''glob'' ''src/*.py'' False) x) \<and>
   (\<exists>x. reservation_covers_path (cover ''path'' ''src'' True) x \<and> reservation_covers_path (cover ''path'' ''src/a'' False) x)"
proof -
  have ok: "well_reserved (cover ''path'' ''docs'' True)" "well_reserved (cover ''glob'' ''src/*.py'' False)"
    "well_reserved (cover ''path'' ''src'' True)" "well_reserved (cover ''path'' ''src/a'' False)"
    "\<not> reservations_overlap (cover ''path'' ''docs'' True) (cover ''glob'' ''src/*.py'' False)"
    "\<not> blind (cover ''path'' ''docs'' True) (cover ''glob'' ''src/*.py'' False)"
    "\<not> blind (cover ''glob'' ''src/*.py'' False) (cover ''path'' ''docs'' True)"
    "reservations_overlap (cover ''path'' ''src'' True) (cover ''path'' ''src/a'' False)"
    by code_simp+
  have "rs_kind (cover ''path'' ''src'' True) = ''path''" "rs_kind (cover ''path'' ''src/a'' False) = ''path''"
    by (simp_all add: cover_def)
  then show ?thesis using overlap_exact [OF ok(1,2)] overlap_exact [OF ok(3,4)] ok(5-8) by blast
qed

text \<open>The two cases the test misses.\<close>

lemma root_overlap_missed:
  "\<not> reservations_overlap (cover ''path'' ''.'' True) (cover ''glob'' ''src/*.py'' False) \<and>
   reservation_covers_path (cover ''path'' ''.'' True) ''src/a.py'' \<and>
   reservation_covers_path (cover ''glob'' ''src/*.py'' False) ''src/a.py''"
  by code_simp

lemma free_glob_overlap_missed:
  "\<not> reservations_overlap (cover ''path'' ''src'' True) (cover ''glob'' ''*.py'' False) \<and>
   reservation_covers_path (cover ''path'' ''src'' True) ''src/a.py'' \<and>
   reservation_covers_path (cover ''glob'' ''*.py'' False) ''src/a.py''"
  by code_simp

text \<open>Normalising is not idempotent: a blank after a leading dot component is kept the first time.\<close>

lemma normalize_not_idempotent:
  "normalize_relative_path ''./ a'' ''path'' = Inr '' a'' \<and> normalize_relative_path '' a'' ''path'' = Inr ''a''"
  by code_simp

section \<open>Exclusive leases\<close>

lemma coord_inv:
  assumes "coord_run cfg w0 w" and "resource_leases w0 = []"
  shows "lease_inv w"
proof -
  have "lease_inv w0" using assms(2) by (simp add: lease_inv_def)
  then show ?thesis using coord_run_leases [OF assms(1)] by (simp add: lease_step_def)
qed

lemma lease_pairD:
  assumes inv: "lease_inv w" and mem: "l \<in> set (resource_leases w)" "l' \<in> set (resource_leases w)" "l \<noteq> l'" and room: "same_room l l'"
  shows "ls_fencing_token l \<noteq> ls_fencing_token l'" and "ls_status l = ''active'' \<Longrightarrow> ls_status l' = ''active'' \<Longrightarrow> apart l l'"
proof -
  have "lease_order l l' \<or> lease_order l' l"
  proof -
    obtain i j where ij: "i < length (resource_leases w)" "l = resource_leases w ! i" "j < length (resource_leases w)" "l' = resource_leases w ! j"
      using mem(1,2) by (auto simp: in_set_conv_nth)
    have "i < j \<or> j < i" using ij mem(3) by (metis linorder_neqE_nat)
    then show ?thesis using ij inv sorted_wrt_nth_less unfolding lease_inv_def by metis
  qed
  moreover have "same_room l' l" using room by (simp add: same_room_def)
  ultimately have "ls_fencing_token l < ls_fencing_token l' \<and> (ls_status l = ''active'' \<and> ls_status l' = ''active'' \<longrightarrow> apart l l') \<or>
      ls_fencing_token l' < ls_fencing_token l \<and> (ls_status l = ''active'' \<and> ls_status l' = ''active'' \<longrightarrow> apart l l')"
    using room apart_sym [of l l'] by (auto simp: lease_order_def)
  then show "ls_fencing_token l \<noteq> ls_fencing_token l'" "ls_status l = ''active'' \<Longrightarrow> ls_status l' = ''active'' \<Longrightarrow> apart l l'"
    by auto
qed

text \<open>
  C27: Whatever the service is asked to do, in any order, two active leases of a room that are not
  both shared have different branches and worktrees and no reservation of one is taken to overlap
  one of the other; outside the blind spots of the overlap test no path is reserved by both. No
  two leases of a room, active or not, have the same fencing token.
\<close>

theorem leases_exclusive:
  assumes run: "coord_run cfg w0 w" "resource_leases w0 = []"
    and mem: "l \<in> set (resource_leases w)" "l' \<in> set (resource_leases w)" "l \<noteq> l'" "same_room l l'"
  shows "ls_fencing_token l \<noteq> ls_fencing_token l' \<and>
    (ls_status l = ''active'' \<and> ls_status l' = ''active'' \<and> \<not> (ls_mode l = ''shared_read'' \<and> ls_mode l' = ''shared_read'') \<longrightarrow>
      (ls_branch_name l = None \<or> ls_branch_name l' \<noteq> ls_branch_name l) \<and>
      (ls_worktree_path l = None \<or> ls_worktree_path l' \<noteq> ls_worktree_path l) \<and>
      (\<forall>r \<in> set (ls_reservations l). \<forall>r' \<in> set (ls_reservations l'). \<not> reservations_overlap r r' \<and>
         (\<forall>x. reservation_covers_path r x \<and> reservation_covers_path r' x \<longrightarrow> blind r r' \<or> blind r' r)))"
proof -
  have inv: "lease_inv w" by (rule coord_inv [OF run])
  note pair = lease_pairD [OF inv mem]
  have well: "well_reserved r" if "r \<in> set (ls_reservations l) \<or> r \<in> set (ls_reservations l')" for r
    using that inv mem(1,2) by (auto simp: lease_inv_def lease_ok_def list_all_iff)
  have "\<not> reservations_overlap r r'" if "apart l l'" "\<not> (ls_mode l = ''shared_read'' \<and> ls_mode l' = ''shared_read'')"
      "r \<in> set (ls_reservations l)" "r' \<in> set (ls_reservations l')" for r r'
    using that by (auto simp: apart_def reservation_sets_overlap_def list_ex_iff)
  then show ?thesis using pair well overlap_found by (auto simp: apart_def) metis+
qed

definition lab_lease :: "string \<Rightarrow> string \<Rightarrow> string \<Rightarrow> ResourceLeaseAcquire" where
  "lab_lease agent tree pattern = \<lparr>la_room_id = ''r1'', la_holder_agent_id = agent, la_work_item_id = None, la_origin = ''server'',
     la_resource_id = None, la_mode = [], la_reservations = JList [JObj [(''pattern'', JStr pattern)]],
     la_branch_name = Some tree, la_worktree_path = Some tree, la_base_commit = Some ''c0'', la_expected_head = None,
     la_ttl_seconds = 300, la_idempotency_key = None, la_meta = []\<rparr>"

definition lab_row :: "string \<Rightarrow> string \<Rightarrow> string \<Rightarrow> string \<Rightarrow> int \<Rightarrow> ResourceLease" where
  "lab_row i agent tree pattern token = \<lparr>ls_id = i, ls_owner_subject = ''ann'', ls_room_id = ''r1'', ls_holder_agent_id = agent,
     ls_work_item_id = None, ls_origin = ''server'', ls_resource_id = None, ls_mode = ''exclusive_write'',
     ls_reservations = [cover ''path'' pattern True], ls_fencing_token = token, ls_status = ''active'',
     ls_branch_name = Some tree, ls_worktree_path = Some tree, ls_base_commit = Some ''c0'', ls_expected_head = None,
     ls_idempotency_key = None, ls_meta = [], ls_acquired_at = 1000, ls_renewed_at = 1000, ls_expires_at = 300001000,
     ls_released_at = None, ls_created_at = 1000, ls_updated_at = 1000\<rparr>"

definition lab_at :: "ResourceLease list \<Rightarrow> nat \<Rightarrow> gdb" where
  "lab_at leases n = lab_db\<lparr>resource_leases := leases, id_pos := n\<rparr>"

definition lab_docs :: ResourceLease where
  "lab_docs = lab_row ''0'' ''a1'' ''wt1'' ''docs'' 1"

definition lab_src :: ResourceLease where
  "lab_src = lab_row ''2'' ''a2'' ''wt2'' ''src'' 2"

definition lab_leased :: gdb where
  "lab_leased = lab_at [lab_docs, lab_src] 4"

lemma lab_acquire_runs:
  "resource_leases (coord_step auto_cfg (AcquireLease ''ann'' (lab_lease ''a1'' ''wt1'' ''docs'')) lab_db) = [lab_docs]"
  "resource_leases (coord_step auto_cfg (AcquireLease ''ann'' (lab_lease ''a2'' ''wt2'' ''src'')) (lab_at [lab_docs] 2)) = [lab_docs, lab_src]"
  by code_simp+

lemma lab_run_at:
  assumes "coord_run cfg w0 w" and "resource_leases (coord_step cfg c w) = leases"
  shows "coord_run cfg w0 (lab_at leases n)"
  by (rule coord_run.other [OF coord_run.call [OF assms(1), of c]]) (use assms in \<open>simp add: lab_at_def\<close>)

lemma lab_leased_run: "coord_run auto_cfg lab_db lab_leased" "resource_leases lab_db = []"
proof -
  show "coord_run auto_cfg lab_db lab_leased"
    unfolding lab_leased_def
    by (rule lab_run_at [OF lab_run_at [OF coord_run.begin_run lab_acquire_runs(1)] lab_acquire_runs(2)])
qed (simp add: lab_db_def auto_db_def)

lemma lab_leased_rows:
  "map (\<lambda>l. (ls_id l, ls_owner_subject l, ls_room_id l, ls_status l, ls_mode l)) (resource_leases lab_leased) =
     [(''0'', ''ann'', ''r1'', ''active'', ''exclusive_write''), (''2'', ''ann'', ''r1'', ''active'', ''exclusive_write'')]"
  by code_simp

theorem leases_exclusive_witness:
  "\<exists>l l'. l \<in> set (resource_leases lab_leased) \<and> l' \<in> set (resource_leases lab_leased) \<and> l \<noteq> l' \<and>
     ls_fencing_token l \<noteq> ls_fencing_token l' \<and> ls_worktree_path l' \<noteq> ls_worktree_path l"
proof -
  obtain l l' where rows: "resource_leases lab_leased = [l, l']"
    using lab_leased_rows by (auto simp: map_eq_Cons_conv)
  then have cols: "ls_id l = ''0''" "ls_id l' = ''2''" "same_room l l'" "ls_status l = ''active''" "ls_status l' = ''active''"
      "ls_mode l = ''exclusive_write''" "l \<noteq> l'"
    using lab_leased_rows by (auto simp: same_room_def)
  have "ls_worktree_path l \<noteq> None"
    using coord_inv [OF lab_leased_run] rows cols(6) by (auto simp: lease_inv_def lease_ok_def)
  then show ?thesis
    using leases_exclusive [OF lab_leased_run _ _ cols(7,3)] rows cols(4-6) by (intro exI [of _ l] exI [of _ l']) (auto simp: cols(7))
qed

section \<open>Writes\<close>

definition covers_write :: "ResourceLease \<Rightarrow> string \<Rightarrow> bool" where
  "covers_write l p \<longleftrightarrow> (\<exists>root relative.
     normalize_relative_path (case ls_worktree_path l of Some (c # cs) \<Rightarrow> c # cs | _ \<Rightarrow> ''.'') ''lease.worktree_path'' = Inr root \<and>
     relative_to root p = Some relative \<and> (\<exists>r \<in> set (ls_reservations l). reservation_covers_path r relative))"

lemma select_covering_set: "select_covering p ls = Inr cs \<Longrightarrow> set cs = {l \<in> set ls. covers_write l p}"
proof (induction ls arbitrary: cs)
  case (Cons l ls)
  then obtain root rest where r: "normalize_relative_path (case ls_worktree_path l of Some (c # cs) \<Rightarrow> c # cs | _ \<Rightarrow> ''.'') ''lease.worktree_path'' = Inr root"
      "select_covering p ls = Inr rest"
      "cs = (case relative_to root p of None \<Rightarrow> rest
        | Some relative \<Rightarrow> if list_ex (\<lambda>r. reservation_covers_path r relative) (ls_reservations l) then l # rest else rest)"
    by auto
  have "covers_write l p \<longleftrightarrow> (\<exists>relative. relative_to root p = Some relative \<and> list_ex (\<lambda>r. reservation_covers_path r relative) (ls_reservations l))"
    using r(1) by (simp add: covers_write_def list_ex_iff)
  then show ?case using r(3) Cons.IH [OF r(2)] by (auto split: option.splits)
qed simp

text \<open>A lease that guards a path of a resource now.\<close>

definition guards :: "string \<Rightarrow> string \<Rightarrow> string option \<Rightarrow> string \<Rightarrow> int \<Rightarrow> ResourceLease \<Rightarrow> bool" where
  "guards owner origin resource_id p now l \<longleftrightarrow> ls_owner_subject l = owner \<and> ls_origin l = origin \<and> ls_resource_id l = resource_id \<and>
     ls_status l = ''active'' \<and> ls_mode l = ''exclusive_write'' \<and> now < ls_expires_at l \<and> covers_write l p"

lemma active_after_expiry:
  assumes "ls_owner_subject l = owner" "ls_status l = ''active''"
  shows "l \<in> set (update_where (is_stale_lease owner now) (\<lambda>l. l\<lparr>ls_status := ''expired'', ls_released_at := t, ls_updated_at := u\<rparr>) rows) \<longleftrightarrow>
    l \<in> set rows \<and> now < ls_expires_at l"
  using in_update_where_keep [of "\<lambda>l. ls_status l = ''active''" "\<lambda>l. l\<lparr>ls_status := ''expired'', ls_released_at := t, ls_updated_at := u\<rparr>"
      l "is_stale_lease owner now" rows] assms
  by (simp add: is_stale_lease_def not_le)

lemma wpr_covering_leases:
  assumes "\<And>p cs w'. normalize_relative_path path ''path'' = Inr p \<Longrightarrow>
    set cs = {l \<in> set (resource_leases w). guards owner origin resource_id p (clock w) l} \<Longrightarrow> Q cs w'"
  shows "wpr (covering_leases owner origin resource_id path) Q w"
  unfolding covering_leases_def expire_stale_leases_def wp_bind wp_gets wp_modify wp_ret
proof (intro wpr_lift, goal_cases)
  case (1 p cs)
  have "set cs = {l \<in> set (resource_leases w). guards owner origin resource_id p (clock w) l}"
    unfolding select_covering_set [OF 1(2)] guards_def using active_after_expiry by auto
  then show ?case by (rule assms [OF 1(1)])
qed

text \<open>The context a write gets from its lease.\<close>

definition context_of :: "ResourceLease \<Rightarrow> WriteLeaseContext \<Rightarrow> bool" where
  "context_of l c \<longleftrightarrow> ls_id l = wl_lease_id c \<and> ls_room_id l = wl_room_id c \<and> ls_holder_agent_id l = wl_agent_id c \<and>
     ls_fencing_token l = wl_fencing_token c \<and> ls_branch_name l = Some (wl_branch_name c) \<and>
     ls_worktree_path l = Some (wl_worktree_path c) \<and> ls_base_commit l = Some (wl_base_commit c) \<and>
     ls_expected_head l = wl_expected_head c \<and> (wl_expected_sha256 c = None) = wl_expected_absent c"

lemma write_context_lease:
  assumes "write_context data cs = Inr c"
  shows "\<exists>l \<in> set cs. context_of l c"
proof (cases "find (\<lambda>l. ls_id l = strip (str_or_empty (dget data ''lease_id''))) cs")
  case None
  with assms show ?thesis by (auto simp: write_context_def)
next
  case (Some l)
  then have "l \<in> set cs" "ls_id l = strip (str_or_empty (dget data ''lease_id''))" using find_Some_in by fastforce+
  with assms Some show ?thesis by (intro bexI [of _ l]) (auto simp: write_context_def context_of_def Let_def)
qed

lemma supplied_guard_False: "supplied_guard vs = Inr False \<longleftrightarrow> list_all (\<lambda>v. v \<in> {JNull, JStr []}) vs"
  by (induction vs) (auto split: json.splits)

lemma wpr_validate_write:
  assumes "\<And>p. normalize_relative_path path ''path'' = Inr p \<Longrightarrow>
      \<forall>l \<in> set (resource_leases w). \<not> guards owner origin resource_id p (clock w) l \<Longrightarrow>
      list_all (\<lambda>k. dget data k \<in> {JNull, JStr []}) GUARD_FIELDS \<Longrightarrow> Q None"
    and "\<And>p l c. normalize_relative_path path ''path'' = Inr p \<Longrightarrow> l \<in> set (resource_leases w) \<Longrightarrow>
      guards owner origin resource_id p (clock w) l \<Longrightarrow> context_of l c \<Longrightarrow> Q (Some c)"
  shows "wpr (validate_write_context owner origin resource_id path data) (\<lambda>r _. Q r) w"
  unfolding validate_write_context_def wp_bind
proof (rule wpr_covering_leases, goal_cases)
  case (1 p cs w')
  show ?case
  proof (cases "cs = []")
    case True
    have "Q None" if "supplied_guard (map (dget data) GUARD_FIELDS) = Inr False"
      by (rule assms(1) [OF 1(1)]) (use 1(2) True that supplied_guard_False in \<open>auto simp: list_all_iff\<close>)
    then show ?thesis using True by (auto split: sum.splits)
  next
    case False
    have "Q (Some c)" if "write_context data cs = Inr c" for c
      using write_context_lease [OF that] assms(2) [OF 1(1)] 1(2) by blast
    then show ?thesis using False by (auto split: sum.splits)
  qed
qed


definition lab_write :: "(string \<times> json) list" where
  "lab_write = [(''lease_id'', JStr ''0''), (''agent_id'', JStr ''a1''), (''room_id'', JStr ''r1''), (''fencing_token'', JInt 1),
     (''branch_name'', JStr ''wt1''), (''worktree_path'', JStr ''wt1''), (''base_commit'', JStr ''c0''),
     (''expected_absent'', JBool True)]"

lemma lab_write_run:
  "answers (validate_write_context ''ann'' ''server'' None ''wt1/docs/x.md'' lab_write lab_leased)
     (\<lambda>r w'. case r of Some c \<Rightarrow> wl_lease_id c = ''0'' | None \<Rightarrow> False)"
  by code_simp



definition lab_ended :: ResourceLease where
  "lab_ended = lab_docs\<lparr>ls_status := ''released'', ls_released_at := Some 1000\<rparr>"

definition lab_released :: gdb where
  "lab_released = lab_at [lab_ended, lab_src] 5"

definition lab_again :: gdb where
  "lab_again = lab_at [lab_ended, lab_src, lab_row ''5'' ''a2'' ''wt1'' ''docs'' 3] 7"

definition lab_rewrite :: "(string \<times> json) list" where
  "lab_rewrite = [(''lease_id'', JStr ''5''), (''agent_id'', JStr ''a2''), (''room_id'', JStr ''r1''), (''fencing_token'', JInt 3),
     (''branch_name'', JStr ''wt1''), (''worktree_path'', JStr ''wt1''), (''base_commit'', JStr ''c0''),
     (''expected_absent'', JBool True)]"

lemma lab_release_runs:
  "resource_leases (coord_step auto_cfg (ReleaseLease ''ann'' ''0'' ''a1'' 1 False) lab_leased) = [lab_ended, lab_src]"
  "resource_leases (coord_step auto_cfg (AcquireLease ''ann'' (lab_lease ''a2'' ''wt1'' ''docs'')) lab_released) =
     [lab_ended, lab_src, lab_row ''5'' ''a2'' ''wt1'' ''docs'' 3]"
  "answers (validate_write_context ''ann'' ''server'' None ''wt1/docs/x.md'' lab_rewrite lab_again)
     (\<lambda>r w'. case r of Some c \<Rightarrow> wl_lease_id c = ''5'' | None \<Rightarrow> False)"
  by code_simp+

lemma lab_release_coord: "coord_run auto_cfg lab_db lab_released" "coord_run auto_cfg lab_released lab_again"
  unfolding lab_released_def lab_again_def
  by (rule lab_run_at [OF lab_leased_run(1) lab_release_runs(1)],
      rule lab_run_at [OF coord_run.begin_run lab_release_runs(2) [unfolded lab_released_def]])


text \<open>
  Worktrees of different leases may be nested: the same file is then guarded by two exclusive
  leases of one room, each under its own path.
\<close>

lemma nested_worktrees_share_path:
  "let l = lab_row ''0'' ''a1'' ''wt'' ''b'' 1;
       w = lab_at [l] 2
   in case acquire_lease auto_cfg ''ann'' (lab_lease ''a2'' ''wt/b'' ''x'') w of
        (Inr l', w') \<Rightarrow> map ls_id (case covering_leases ''ann'' ''server'' None ''wt/b/x/f'' w' of (Inr ls, _) \<Rightarrow> ls | _ \<Rightarrow> []) = [''0'', ''2'']
      | _ \<Rightarrow> False"
  by code_simp

end
