(* ===== verification/Handoff_Correct.thy ===== *)
theory Handoff_Correct
  imports Coordination_Correct
begin

text \<open>
  Conflicts of file changes, handoffs and integrations: a report is safe exactly when no two changes
  conflict, and what is accepted or integrated has a safe report.
\<close>

section \<open>Conflict reports\<close>

definition share_line :: "(int \<times> int) list \<Rightarrow> (int \<times> int) list \<Rightarrow> bool" where
  "share_line left right \<longleftrightarrow> (\<exists>n. (\<exists>(a, b) \<in> set left. a \<le> n \<and> n \<le> b) \<and> (\<exists>(a, b) \<in> set right. a \<le> n \<and> n \<le> b))"

lemma ranges_overlap_iff: "ranges_overlap left right \<longleftrightarrow> share_line left right"
proof -
  have "max a c \<le> min b d \<longleftrightarrow> (\<exists>n. a \<le> n \<and> n \<le> b \<and> c \<le> n \<and> n \<le> d)" for a b c d :: int
    by (auto intro: exI [of _ "max a c"])
  then show ?thesis by (auto simp: ranges_overlap_def share_line_def list_ex_iff) blast+
qed

text \<open>
  Two changes of one file that cannot both be right: the second was not made on the result of the
  first, or they touch a common line, or it is not known which lines they touch.
\<close>

definition hard_conflict :: "FileChangeSet \<Rightarrow> FileChangeSet \<Rightarrow> bool" where
  "hard_conflict c d \<longleftrightarrow> share_namespace c d \<and> (\<exists>p. logical_change_path c = Inr p \<and> logical_change_path d = Inr p) \<and>
     (stale_precondition c d \<or>
      (\<forall>l r. changed_ranges c = Inr (Some l) \<and> changed_ranges d = Inr (Some r) \<longrightarrow> share_line l r))"

lemma same_path_conflict_hard:
  assumes "same_path_conflict c d = Inr (severity, reason)"
  shows "severity = ''hard'' \<longleftrightarrow> stale_precondition c d \<or>
    (\<forall>l r. changed_ranges c = Inr (Some l) \<and> changed_ranges d = Inr (Some r) \<longrightarrow> share_line l r)"
  using assms by (auto simp: same_path_conflict_def ranges_overlap_iff split: option.splits if_splits)

lemma conflict_of_hard:
  assumes "conflict_of c d = Inr found"
  shows "(\<exists>f. found = Some f \<and> cf_severity f = ''hard'') \<longleftrightarrow> hard_conflict c d"
proof -
  obtain p q where paths: "logical_change_path c = Inr p" "logical_change_path d = Inr q"
    using assms by (auto simp: conflict_of_def)
  show ?thesis
  proof (cases "share_namespace c d \<and> p = q")
    case True
    then obtain s r f where f: "same_path_conflict c d = Inr (s, r)" "found = Some f" "cf_severity f = s"
      using assms paths by (auto simp: conflict_of_def Let_def)
    have "hard_conflict c d \<longleftrightarrow> s = ''hard''"
      unfolding same_path_conflict_hard [OF f(1)] hard_conflict_def using True paths by simp
    then show ?thesis using f(2,3) by simp
  next
    case False
    then show ?thesis using assms paths by (auto simp: conflict_of_def hard_conflict_def Let_def split: if_splits)
  qed
qed

definition pair_ids :: "FileChangeSet \<times> FileChangeSet \<Rightarrow> string \<times> string" where
  "pair_ids p = (fc_id (fst p), fc_id (snd p))"

definition hard_pair :: "FileChangeSet \<times> FileChangeSet \<Rightarrow> bool" where
  "hard_pair p \<longleftrightarrow> fc_id (fst p) \<noteq> fc_id (snd p) \<and> hard_conflict (fst p) (snd p)"

lemma conflicts_of_hard:
  assumes "conflicts_of seen pairs = Inr cs" and "inj_on pair_ids (set pairs)"
  shows "(\<exists>f \<in> set cs. cf_severity f = ''hard'') \<longleftrightarrow> (\<exists>p \<in> set pairs. pair_ids p \<notin> set seen \<and> hard_pair p)"
  using assms
proof (induction seen pairs arbitrary: cs rule: conflicts_of.induct)
  case (2 seen c d pairs)
  have inj: "inj_on pair_ids (set pairs)" using 2(4) by (rule inj_on_subset) auto
  have ids: "pair_ids (c, d) = (fc_id c, fc_id d)" by (simp add: pair_ids_def)
  have same: "p = (c, d)" if "p \<in> set pairs" "pair_ids p = pair_ids (c, d)" for p
    using inj_onD [OF 2(4) that(2)] that(1) by simp
  show ?case
  proof (cases "pair_ids (c, d) \<in> set seen \<or> fc_id c = fc_id d")
    case True
    then have "conflicts_of seen pairs = Inr cs" using 2(3) by (simp add: pair_ids_def)
    from 2(1) [OF refl _ this inj] show ?thesis using True by (auto simp: pair_ids_def hard_pair_def)
  next
    case False
    then obtain found rest where f: "conflict_of c d = Inr found" "conflicts_of (pair_ids (c, d) # seen) pairs = Inr rest"
        "cs = (case found of None \<Rightarrow> rest | Some c \<Rightarrow> c # rest)"
      using 2(3) by (auto simp: pair_ids_def)
    have "(\<exists>f \<in> set rest. cf_severity f = ''hard'') \<longleftrightarrow> (\<exists>p \<in> set pairs. pair_ids p \<notin> set (pair_ids (c, d) # seen) \<and> hard_pair p)"
      unfolding ids by (rule 2(2) [OF refl _ f(1) f(2) [unfolded ids] inj]) (use False in \<open>simp add: ids\<close>)
    moreover have "(\<exists>f \<in> set cs. cf_severity f = ''hard'') \<longleftrightarrow> hard_pair (c, d) \<or> (\<exists>f \<in> set rest. cf_severity f = ''hard'')"
      using f(3) conflict_of_hard [OF f(1)] False by (auto simp: hard_pair_def split: option.splits)
    ultimately show ?thesis using False same by auto
  qed
qed simp

lemma find_changes_ids: "find_changes rows ids = Inr cs \<Longrightarrow> map fc_id cs = ids \<and> set cs \<subseteq> set rows"
  by (induction ids arbitrary: cs) (auto split: option.splits dest!: find_Some_in)

lemma fromkeys_set [simp]: "set (fromkeys ids) = set ids"
  by (simp add: fromkeys_def)

text \<open>The changes of an owner, and of a room, that a list of identifiers names.\<close>

definition named :: "string \<Rightarrow> string option \<Rightarrow> string list \<Rightarrow> gdb \<Rightarrow> FileChangeSet set" where
  "named owner room_id ids w = {c \<in> set (file_change_sets w). fc_owner_subject c = owner \<and> in_room room_id c \<and>
     fc_id c \<in> set ids \<and> fc_id c \<noteq> []}"

lemma changes_named:
  assumes "changes owner ids room_id w = (Inr cs, w')" and "unique_on fc_id (file_change_sets w)"
  shows "set cs = named owner room_id ids w"
proof -
  let ?rows = "filter (\<lambda>c. fc_owner_subject c = owner \<and> in_room room_id c) (file_change_sets w)"
  have f: "find_changes ?rows (fromkeys (filter (\<lambda>i. i \<noteq> []) ids)) = Inr cs"
    using assms(1) by (auto simp: changes_def bindS_def gets_def liftE_def split: sum.splits)
  note ids = find_changes_ids [OF f]
  have "c \<in> set cs" if "c \<in> named owner room_id ids w" for c
  proof -
    have "fc_id c \<in> fc_id ` set cs" using that ids by (metis (mono_tags, lifting) fromkeys_set list.set_map mem_Collect_eq named_def set_filter)
    then obtain c' where c': "c' \<in> set cs" "fc_id c' = fc_id c" by auto
    moreover have "c' \<in> set (file_change_sets w)" "c \<in> set (file_change_sets w)" using c' ids that by (auto simp: named_def)
    ultimately show ?thesis using unique_on_eqD [OF assms(2)] by metis
  qed
  moreover have "c \<in> named owner room_id ids w" if "c \<in> set cs" for c
  proof -
    have "fc_id c \<in> set (fromkeys (filter (\<lambda>i. i \<noteq> []) ids))" using that ids by (metis image_eqI list.set_map)
    then show ?thesis using that ids by (auto simp: named_def)
  qed
  ultimately show ?thesis by blast
qed

lemma changes_state: "changes owner ids room_id w = (fst (changes owner ids room_id w), w)"
  by (simp add: changes_def bindS_def gets_def liftE_def)

definition compared :: "string \<Rightarrow> string option \<Rightarrow> string list option \<Rightarrow> string list \<Rightarrow> gdb \<Rightarrow> FileChangeSet set" where
  "compared owner room_id comparison_ids candidate_ids w = (case comparison_ids of
     None \<Rightarrow> set (recent_changes owner room_id candidate_ids w)
   | Some ids \<Rightarrow> named owner room_id ids w)"

lemma detect_conflicts_run:
  assumes "detect_conflicts owner ids ids' room_id w = (r, w')"
  shows "w' = w"
    and "r = Inr report \<Longrightarrow> \<exists>cs ds. changes owner ids room_id w = (Inr cs, w) \<and>
      (case ids' of None \<Rightarrow> ds = recent_changes owner room_id (map fc_id cs) w | Some i \<Rightarrow> changes owner i room_id w = (Inr ds, w)) \<and>
      conflicts_of [] (List.product cs ds) = Inr (rp_conflicts report) \<and> rp_candidate_change_ids report = map fc_id cs"
proof -
  define f where "f i = fst (changes owner i room_id w)" for i
  have f: "changes owner i room_id w = (f i, w)" for i unfolding f_def by (rule changes_state)
  show "w' = w" "r = Inr report \<Longrightarrow> \<exists>cs ds. changes owner ids room_id w = (Inr cs, w) \<and>
      (case ids' of None \<Rightarrow> ds = recent_changes owner room_id (map fc_id cs) w | Some i \<Rightarrow> changes owner i room_id w = (Inr ds, w)) \<and>
      conflicts_of [] (List.product cs ds) = Inr (rp_conflicts report) \<and> rp_candidate_change_ids report = map fc_id cs"
    using assms by (auto simp: f detect_conflicts_def bindS_def gets_def liftE_def ret_def split: sum.splits option.splits)
qed

text \<open>
  C32: The report on a set of changes is safe exactly when none of them is in hard conflict with a
  change it was compared to: the same file of the same room or resource, not made one on the result
  of the other, or with a common line, or with unknown lines. Making the report changes nothing.
\<close>

theorem conflict_report_exact:
  assumes run: "detect_conflicts owner ids ids' room_id w = (Inr report, w')" and u: "unique_on fc_id (file_change_sets w)"
  shows "w' = w \<and> (report_safe report \<longleftrightarrow> \<not> (\<exists>c \<in> named owner room_id ids w.
    \<exists>d \<in> compared owner room_id ids' (rp_candidate_change_ids report) w. fc_id c \<noteq> fc_id d \<and> hard_conflict c d))"
proof -
  obtain cs ds where cs: "changes owner ids room_id w = (Inr cs, w)"
      and ds: "case ids' of None \<Rightarrow> ds = recent_changes owner room_id (map fc_id cs) w | Some i \<Rightarrow> changes owner i room_id w = (Inr ds, w)"
      and found: "conflicts_of [] (List.product cs ds) = Inr (rp_conflicts report)" "rp_candidate_change_ids report = map fc_id cs"
    using detect_conflicts_run(2) [OF run refl] by blast
  have c: "set cs = named owner room_id ids w" by (rule changes_named [OF cs u])
  have d: "set ds = compared owner room_id ids' (rp_candidate_change_ids report) w"
    using ds changes_named [OF _ u] unfolding compared_def found(2) by (auto split: option.splits)
  have "set cs \<union> set ds \<subseteq> set (file_change_sets w)"
    unfolding c d by (auto simp: named_def compared_def recent_changes_def split: option.splits dest!: in_set_takeD)
  then have "inj_on pair_ids (set (List.product cs ds))"
    using unique_on_eqD [OF u] by (auto simp: inj_on_def pair_ids_def)
  from conflicts_of_hard [OF found(1) this] c d show ?thesis
    using detect_conflicts_run(1) [OF run]
    by (fastforce simp: report_safe_def hard_count_def count_where_def hard_pair_def filter_empty_conv)
qed

section \<open>Handoffs\<close>

lemma wp_detect_conflicts:
  assumes "\<And>report. detect_conflicts owner ids ids' room_id w = (Inr report, w) \<Longrightarrow> Q report w" and "\<And>e. E e w"
  shows "wp (detect_conflicts owner ids ids' room_id) Q E w"
  using assms detect_conflicts_run(1) by (intro wpI) blast+

lemma wp_note_event:
  "(\<And>a b n. Q () (w\<lparr>audit_events := a, outbox_events := b, id_pos := n\<rparr>)) \<Longrightarrow> (\<And>e t. E e t) \<Longrightarrow>
     wp (note_event cfg owner ty act rt ri pl st) Q E w"
  unfolding note_event_def by (rule wp_note)

text \<open>The barrier an agent may take, and the report on its changes.\<close>

definition handoff_due :: "string \<Rightarrow> string \<Rightarrow> string \<Rightarrow> string list option \<Rightarrow> gdb \<Rightarrow> AgentHandoffBarrier \<Rightarrow> conflict_report \<Rightarrow> bool" where
  "handoff_due owner i agent ids w b report \<longleftrightarrow> b \<in> set (agent_handoff_barriers w) \<and> hb_id b = i \<and>
     hb_owner_subject b = owner \<and> hb_target_agent_id b = agent \<and> hb_status b = ''ready'' \<and>
     (\<exists>l \<in> set (resource_leases w). ls_id l = hb_lease_id b \<and> ls_owner_subject l = owner \<and> ls_status l \<noteq> ''active'') \<and>
     detect_conflicts owner (hb_required_change_ids b) ids (Some (hb_room_id b)) w = (Inr report, w)"

definition handoff_ended :: "string \<Rightarrow> int \<Rightarrow> conflict_report \<Rightarrow> AgentHandoffBarrier \<Rightarrow> AgentHandoffBarrier" where
  "handoff_ended status now report b = b\<lparr>hb_status := status, hb_conflict_report := report_json report, hb_updated_at := now,
     hb_accepted_at := (if status = ''accepted'' then Some now else hb_accepted_at b)\<rparr>"

definition handoff_stored :: "AgentHandoffBarrier \<Rightarrow> gdb \<Rightarrow> gdb \<Rightarrow> bool" where
  "handoff_stored b w w' \<longleftrightarrow> agent_handoff_barriers w' = update_where (\<lambda>q. hb_id q = hb_id b) (\<lambda>_. b) (agent_handoff_barriers w) \<and>
     resource_leases w' = resource_leases w \<and> file_change_sets w' = file_change_sets w"

lemma handoff_ends:
  "handoff_ended ''accepted'' now report b =
     b\<lparr>hb_conflict_report := report_json report, hb_updated_at := now, hb_status := ''accepted'', hb_accepted_at := Some now\<rparr>"
  "handoff_ended ''blocked'' now report b =
     b\<lparr>hb_conflict_report := report_json report, hb_updated_at := now, hb_status := ''blocked''\<rparr>"
  by (cases b, simp add: handoff_ended_def)+

text \<open>
  C31: A handoff is accepted only by its target, when it is ready, its source lease has ended and the
  report on its changes is safe; the barrier is stored with that report. A repeated acceptance
  changes nothing. When the report is not safe the barrier is stored as blocked although the call
  raises; any other error changes nothing.
\<close>

theorem accept_handoff_safe:
  assumes "accept_handoff cfg owner i agent ids w = (res, w')"
  shows "case res of
      Inr b' \<Rightarrow> b' \<in> set (agent_handoff_barriers w) \<and> hb_id b' = i \<and> hb_status b' = ''accepted'' \<and> w' = w \<or>
        (\<exists>b report. handoff_due owner i agent ids w b report \<and> report_safe report \<and>
           b' = handoff_ended ''accepted'' (clock w) report b \<and> handoff_stored b' w w')
    | Inl e \<Rightarrow> w' = w \<or> (\<exists>b report. handoff_due owner i agent ids w b report \<and> \<not> report_safe report \<and>
           handoff_stored (handoff_ended ''blocked'' (clock w) report b) w w')"
    (is "case res of Inr b' \<Rightarrow> ?ok b' w' | Inl e \<Rightarrow> ?no w'")
proof -
  have "wp (accept_handoff cfg owner i agent ids) ?ok (\<lambda>_. ?no) w"
    unfolding accept_handoff_def wp_bind
  proof (rule wp_atomically, unfold wp_bind get_handoff_def, rule wp_fetch, goal_cases)
    case (1 b)
    note b = 1
    show ?case
    proof (cases "hb_target_agent_id b = agent \<and> hb_status b = ''ready''")
      case False
      then show ?thesis using 1 by auto
    next
      case True
      then have st: "hb_status b \<noteq> ''accepted''" by simp
      show ?thesis
        unfolding if_not_P [OF st] wp_bind get_lease_def wp_gets Let_def
      proof (intro wp_guardI wp_fetch wp_detect_conflicts, goal_cases)
        case (1 l report)
        then have due: "handoff_due owner i agent ids w b report" using b True by (auto simp: handoff_due_def)
        show ?case
        proof (cases "report_safe report")
          case True
          have stored: "?ok (handoff_ended ''accepted'' (clock w) report b) t"
            if "handoff_stored (handoff_ended ''accepted'' (clock w) report b) w t" for t
            using due True that by blast
          show ?thesis
            unfolding put_handoff_def wp_bind if_not_P [OF iffD2 [OF not_not True]] wp_modify handoff_ends(1) [symmetric]
          proof (rule wp_note_event, unfold wp_ret prod.case if_True, goal_cases)
            case 1
            show ?case by (rule stored) (simp add: handoff_stored_def)
          qed simp
        next
          case False
          then show ?thesis
            unfolding put_handoff_def using due
            by (auto simp: Let_def handoff_stored_def handoff_ends)
        qed
      qed (use True in auto)
    qed
  qed simp
  then show ?thesis using assms by (auto simp: wp_def split: sum.splits)
qed

definition lab_change :: "string \<Rightarrow> string \<Rightarrow> string \<Rightarrow> int \<Rightarrow> FileChangeSet" where
  "lab_change i lease path line = \<lparr>fc_id = i, fc_owner_subject = ''ann'', fc_chat_context_id = None, fc_origin = ''server'',
     fc_resource_id = None, fc_tool_call_id = None, fc_room_id = Some ''r1'', fc_agent_id = Some ''a1'', fc_lease_id = Some lease,
     fc_fencing_token = Some 1, fc_path = path, fc_operation = ''write'', fc_before_sha256 = None, fc_after_sha256 = None,
     fc_base_commit = None, fc_branch_name = None, fc_worktree_path = None, fc_added_lines = 1, fc_removed_lines = 0,
     fc_bytes_before = 0, fc_bytes_after = 1, fc_replacements = 0,
     fc_diff_json = [(''hunks'', JList [JObj [(''new_start'', JInt line), (''new_count'', JInt 2)]])], fc_truncated = False,
     fc_suppressed = False, fc_created_at = 1000\<rparr>"

definition lab_barrier :: AgentHandoffBarrier where
  "lab_barrier = \<lparr>hb_id = ''h1'', hb_owner_subject = ''ann'', hb_room_id = ''r1'', hb_source_agent_id = ''a1'',
     hb_target_agent_id = ''a2'', hb_lease_id = ''0'', hb_expected_fencing_token = 1, hb_required_change_ids = [''f1''],
     hb_summary = [], hb_payload = [], hb_status = ''ready'', hb_conflict_report = [], hb_idempotency_key = None,
     hb_ready_at = Some 1000, hb_accepted_at = None, hb_cancelled_at = None, hb_created_at = 1000, hb_updated_at = 1000\<rparr>"

text \<open>The second change touches the line after the first, or the first itself.\<close>

definition lab_handoff :: "int \<Rightarrow> gdb" where
  "lab_handoff line = (lab_at [lab_ended] 5)\<lparr>agent_handoff_barriers := [lab_barrier],
     file_change_sets := [lab_change ''f1'' ''0'' ''docs/x'' 1, lab_change ''f2'' ''9'' ''docs/x'' line]\<rparr>"

lemma lab_reports:
  "answers (detect_conflicts ''ann'' [''f1''] None (Some ''r1'') (lab_handoff 3)) (\<lambda>r w. report_safe r)"
  "answers (detect_conflicts ''ann'' [''f1''] None (Some ''r1'') (lab_handoff 2)) (\<lambda>r w. \<not> report_safe r)"
  "answers (accept_handoff auto_cfg ''ann'' ''h1'' ''a2'' None (lab_handoff 3)) (\<lambda>b w. hb_status b = ''accepted'')"
  "case accept_handoff auto_cfg ''ann'' ''h1'' ''a2'' None (lab_handoff 2) of
     (Inl e, w) \<Rightarrow> map hb_status (agent_handoff_barriers w) = [''blocked''] | _ \<Rightarrow> False"
  by code_simp+

theorem conflict_report_exact_witness:
  "\<exists>c \<in> named ''ann'' (Some ''r1'') [''f1''] (lab_handoff 2). \<exists>d. fc_id c \<noteq> fc_id d \<and> hard_conflict c d"
proof -
  obtain r w where run: "detect_conflicts ''ann'' [''f1''] None (Some ''r1'') (lab_handoff 2) = (Inr r, w)" "\<not> report_safe r"
    using answersD [OF lab_reports(2)] by blast
  have "unique_on fc_id (file_change_sets (lab_handoff 2))" by (simp add: unique_on_def lab_handoff_def lab_change_def)
  from conflict_report_exact [OF run(1) this] run(2) show ?thesis by blast
qed

theorem accept_handoff_safe_witness:
  "\<exists>b b' w' report. accept_handoff auto_cfg ''ann'' ''h1'' ''a2'' None (lab_handoff 3) = (Inr b', w') \<and>
     handoff_due ''ann'' ''h1'' ''a2'' None (lab_handoff 3) b report \<and> report_safe report \<and>
     b' = handoff_ended ''accepted'' (clock (lab_handoff 3)) report b"
proof -
  obtain b' w' where run: "accept_handoff auto_cfg ''ann'' ''h1'' ''a2'' None (lab_handoff 3) = (Inr b', w')"
    using answersD [OF lab_reports(3)] by blast
  have "list_all (\<lambda>b. hb_status b \<noteq> ''accepted'') (agent_handoff_barriers (lab_handoff 3))" by code_simp
  then have "\<not> (b' \<in> set (agent_handoff_barriers (lab_handoff 3)) \<and> hb_status b' = ''accepted'')" by (auto simp: list_all_iff)
  then show ?thesis using accept_handoff_safe [OF run] run by (simp only: sum.case) blast
qed

section \<open>Integrations\<close>

text \<open>What the coordinator must have shown to move a record on.\<close>

definition integration_allowed :: "AgentIntegrationUpdate \<Rightarrow> AgentIntegrationRecord \<Rightarrow> AgentIntegrationRecord \<Rightarrow> bool" where
  "integration_allowed data r r' \<longleftrightarrow> ig_status r \<notin> set INTEGRATION_TERMINAL \<and>
     iu_status data \<in> {''approved'', ''integrated'', ''rejected''} \<and> ig_status r' = iu_status data \<and>
     ig_version r' = ig_version r + 1 \<and> ig_conflict_report r' = ig_conflict_report r \<and>
     (iu_status data \<in> {''approved'', ''integrated''} \<longrightarrow> truthy (dget (ig_conflict_report r) ''safe'') \<and>
        map_option strip (iu_observed_target_head data) = Some (ig_expected_target_head r)) \<and>
     (iu_status data = ''integrated'' \<longrightarrow> ig_integrated_commit r' \<noteq> None)"

lemma optional_text_Some: "optional_text v m = Inr (Some x) \<Longrightarrow> map_option strip v = Some x"
  by (auto simp: optional_text_def Let_def split: option.splits if_splits)


definition lab_record :: AgentIntegrationRecord where
  "lab_record = \<lparr>ig_id = ''i1'', ig_owner_subject = ''ann'', ig_room_id = ''r1'', ig_coordinator_agent_id = ''a1'',
     ig_target_branch = ''main'', ig_expected_target_head = ''c0'', ig_candidate_change_ids = [''f1''],
     ig_comparison_change_ids = [], ig_source_lease_ids = [''0''], ig_status = ''review'',
     ig_conflict_report = [(''safe'', JBool True)], ig_decision = [], ig_integrated_commit = None, ig_idempotency_key = None,
     ig_version = 1, ig_created_at = 1000, ig_updated_at = 1000, ig_completed_at = None\<rparr>"

definition lab_integrate :: gdb where
  "lab_integrate = lab_db\<lparr>agent_instances := [(lab_agent ''a1'')\<lparr>ag_capabilities := [''coordinator'']\<rparr>],
     agent_integration_records := [lab_record]\<rparr>"

definition lab_verdict :: AgentIntegrationUpdate where
  "lab_verdict = \<lparr>iu_coordinator_agent_id = ''a1'', iu_expected_version = 1, iu_status = ''integrated'',
     iu_observed_target_head = Some ''c0'', iu_decision = [], iu_integrated_commit = Some ''c1''\<rparr>"

lemma lab_integrate_run:
  "answers (complete_integration auto_cfg ''ann'' ''i1'' lab_verdict lab_integrate) (\<lambda>r w. ig_status r = ''integrated'')"
  by code_simp


end
