(* ===== verification/Autonomy_Assignment.thy ===== *)
theory Autonomy_Assignment
  imports Autonomy_Recovery
begin

text \<open>
  The assignment of work items and the operator overrides of \<open>agent_autonomy.py\<close>: which agents are
  eligible for an item, how a proposal is applied, a cycle of the worker over the open items of a
  room, and the four actions of an override.
\<close>

section \<open>Eligible agents\<close>

definition dependencies_ready :: "string \<Rightarrow> AgentWorkItem \<Rightarrow> gdb \<Rightarrow> bool" where
  "dependencies_ready owner_subject item w \<longleftrightarrow>
     (let dependencies = wi_dependencies item
      in dependencies = [] \<or>
         count_where (\<lambda>j. wi_owner_subject j = owner_subject \<and> wi_room_id j = wi_room_id item \<and>
           wi_id j \<in> set dependencies \<and> wi_status j = ''completed'') (agent_work_items w) =
         length (remdups dependencies))"

text \<open>The filter of the query: agents in the room that are free and not expired.\<close>

definition is_free :: "string \<Rightarrow> string \<Rightarrow> int \<Rightarrow> AgentInstance \<Rightarrow> bool" where
  "is_free owner_subject room_id now a \<longleftrightarrow> ag_owner_subject a = owner_subject \<and>
     ag_current_room_id a = Some room_id \<and> ag_status a \<in> {''active'', ''idle''} \<and>
     ag_current_work_item_id a = None \<and>
     (case ag_expires_at a of None \<Rightarrow> True | Some e \<Rightarrow> e > now)"

text \<open>The tests of the loop over the rows.\<close>

definition is_suitable ::
  "string list \<Rightarrow> (string \<times> json) list \<Rightarrow> string list \<Rightarrow> AgentInstance \<Rightarrow> bool" where
  "is_suitable excluded required_labels required_capabilities a \<longleftrightarrow> ag_id a \<notin> set excluded \<and>
     set required_capabilities \<subseteq> set (ag_capabilities a) \<and>
     (\<forall>(k, v) \<in> set required_labels. py_eq (dget (ag_labels a) k) v)"

definition extra_capabilities :: "string list \<Rightarrow> AgentInstance \<Rightarrow> string list" where
  "extra_capabilities required_capabilities a =
     remdups (filter (\<lambda>c. c \<notin> set required_capabilities) (ag_capabilities a))"

definition agent_score :: "string list \<Rightarrow> AgentInstance \<Rightarrow> int" where
  "agent_score required_capabilities a =
     (if ag_status a = ''idle'' then 1000 else 900)
     + int (length (remdups required_capabilities)) * 50
     + int (length (extra_capabilities required_capabilities a))"

definition strings_json :: "string list \<Rightarrow> json" where
  "strings_json xs = JList (map JStr xs)"

definition agent_rationale ::
  "(string \<times> json) list \<Rightarrow> string list \<Rightarrow> AgentInstance \<Rightarrow> (string \<times> json) list" where
  "agent_rationale required_labels required_capabilities a =
     [(''required_capabilities'', strings_json (sort (remdups required_capabilities))),
      (''matched_capabilities'', strings_json (sort (remdups required_capabilities))),
      (''extra_capability_count'', JInt (int (length (extra_capabilities required_capabilities a)))),
      (''required_labels'', JObj required_labels),
      (''agent_status'', JStr (ag_status a))]"

type_synonym candidate = "AgentInstance \<times> int \<times> (string \<times> json) list"

definition eligible_agents :: "string \<Rightarrow> AgentWorkItem \<Rightarrow> gdb \<Rightarrow> candidate list res" where
  "eligible_agents owner_subject item w =
     (let constraints = wi_assignment_constraints item in
      bindE (list_or_empty (dget constraints ''exclude_agent_ids'')) (\<lambda>excluded.
      bindE (dict_or_empty (dget constraints ''labels'')) (\<lambda>required_labels.
      let required_capabilities = wi_required_capabilities item;
          agents = sort_key ag_id (filter (is_free owner_subject (wi_room_id item) (clock w)) (agent_instances w));
          result = map (\<lambda>a. (a, agent_score required_capabilities a,
              agent_rationale required_labels required_capabilities a))
            (filter (is_suitable (map py_str excluded) required_labels required_capabilities) agents)
      in Inr (sort_key (\<lambda>(a, score, _). (- score, ag_id a)) result))))"

section \<open>Applying an assignment\<close>

definition apply_assignment_record ::
  "gw_settings \<Rightarrow> string \<Rightarrow> AutonomyAssignment \<Rightarrow> AutonomyAssignment gw" where
  "apply_assignment_record cfg actor_subject a =
     (let owner_subject = as_owner_subject a in
     bindS (get_policy owner_subject (as_policy_id a)) (\<lambda>p.
     bindS (assert_enabled cfg owner_subject (as_room_id a) p) (\<lambda>_.
     if as_status a = ''assigned'' then ret a else
     bindS (guardS (as_status a = ''proposed'') (HTTPException 409 ''Assignment is not applicable'')) (\<lambda>_.
     bindS (guardS (as_policy_generation a = po_generation p)
              (HTTPException 409 ''Assignment policy generation is stale'')) (\<lambda>_.
     bindS (get_work_item owner_subject (as_work_item_id a)) (\<lambda>item.
     bindS (get_agent owner_subject (as_selected_agent_id a)) (\<lambda>agent.
     bindS (gets (dependencies_ready owner_subject item)) (\<lambda>ready.
     bindS (guardS ready (HTTPException 409 ''Work item dependencies are not completed'')) (\<lambda>_.
     bindS (gets (eligible_agents owner_subject item)) (\<lambda>found.
     bindS (liftE found) (\<lambda>candidates.
     bindS (guardS (ag_id agent \<in> set (map (\<lambda>(c, _). ag_id c) candidates))
              (HTTPException 409 ''Selected agent is no longer eligible'')) (\<lambda>_.
     bindS (gets clock) (\<lambda>now.
     bindS (update_one (\<lambda>i. wi_id i = wi_id item \<and> wi_owner_subject i = owner_subject \<and>
              wi_status i = ''open'' \<and> wi_assigned_agent_id i = None \<and> wi_version i = as_work_item_version a)
            (\<lambda>i. i\<lparr>wi_status := ''in_progress'', wi_assigned_agent_id := Some (ag_id agent),
              wi_version := wi_version i + 1, wi_updated_at := now\<rparr>) ''Automatic assignment conflict'') (\<lambda>_.
     bindS (put_agent (agent\<lparr>ag_current_work_item_id := Some (wi_id item), ag_status := ''busy'',
              ag_updated_at := now\<rparr>)) (\<lambda>_.
     let a' = a\<lparr>as_status := ''assigned'', as_applied_at := Some now, as_updated_at := now\<rparr>
     in bindS (put_assignment a') (\<lambda>_.
     bindS (note_event cfg actor_subject ''gateway.autonomy.assignment.applied.v1'' ''assigned''
              ''autonomy_assignment'' (as_id a)
              [(''assignment_id'', JStr (as_id a)), (''policy_id'', JStr (as_policy_id a)),
               (''room_id'', JStr (as_room_id a)), (''work_item_id'', JStr (as_work_item_id a)),
               (''agent_id'', JStr (as_selected_agent_id a)),
               (''policy_generation'', JInt (as_policy_generation a))] ''success'') (\<lambda>_.
     bindS (note_event cfg actor_subject ''gateway.work_item.claimed.v1'' ''autonomously_assigned''
              ''agent_work_item'' (wi_id item)
              [(''work_item_id'', JStr (wi_id item)), (''room_id'', JStr (wi_room_id item)),
               (''agent_id'', JStr (ag_id agent)), (''version'', JInt (wi_version item + 1))] ''success'') (\<lambda>_.
     ret a'))))))))))))))))))"

definition list_assignments ::
  "string \<Rightarrow> string option \<Rightarrow> string option \<Rightarrow> string option \<Rightarrow> AutonomyAssignment list gw" where
  "list_assignments owner_subject room_id policy_id status = gets (\<lambda>w. sort_key (\<lambda>a. - as_created_at a)
     (filter (\<lambda>a. as_owner_subject a = owner_subject \<and>
        (case room_id of Some (c # cs) \<Rightarrow> as_room_id a = c # cs | _ \<Rightarrow> True) \<and>
        (case policy_id of Some (c # cs) \<Rightarrow> as_policy_id a = c # cs | _ \<Rightarrow> True) \<and>
        (case status of Some (c # cs) \<Rightarrow> as_status a = c # cs | _ \<Rightarrow> True)) (autonomy_assignments w)))"

definition apply_assignment :: "gw_settings \<Rightarrow> string \<Rightarrow> string \<Rightarrow> string \<Rightarrow> AutonomyAssignment gw" where
  "apply_assignment cfg owner_subject assignment_id actor_subject = atomically (
     bindS (get_assignment owner_subject assignment_id) (\<lambda>a.
     apply_assignment_record cfg actor_subject a))"

section \<open>A cycle of the worker\<close>

record assignment_result =
  ar_considered :: nat
  ar_proposed :: nat
  ar_assigned :: nat
  ar_skipped :: nat

definition cycle_key :: "AutonomyPolicy \<Rightarrow> AgentWorkItem \<Rightarrow> string" where
  "cycle_key p item = ''cycle:'' @ po_id p @ '':'' @ int_dec (po_generation p) @ '':'' @ wi_id item @ '':''
     @ int_dec (wi_version item)"

text \<open>The proposal of a candidate, committed before it is applied.\<close>

definition propose_assignment ::
  "gw_settings \<Rightarrow> string \<Rightarrow> string \<Rightarrow> AutonomyPolicy \<Rightarrow> AgentWorkItem \<Rightarrow> candidate \<Rightarrow> nat \<Rightarrow> AutonomyAssignment gw" where
  "propose_assignment cfg owner_subject actor_subject p item candidate candidate_count = atomically (
     case candidate of (agent, score, rationale) \<Rightarrow>
     bindS (gets clock) (\<lambda>now.
     bindS new_id (\<lambda>i.
     let a = \<lparr>as_id = i, as_owner_subject = owner_subject, as_room_id = po_room_id p, as_policy_id = po_id p,
           as_work_item_id = wi_id item, as_selected_agent_id = ag_id agent, as_status = ''proposed'',
           as_score = score,
           as_rationale = rationale @ [(''candidate_count'', JInt (int candidate_count)),
             (''assignment_mode'', JStr (po_assignment_mode p))],
           as_policy_generation = po_generation p, as_work_item_version = wi_version item,
           as_idempotency_key = Some (cycle_key p item), as_created_by_subject = actor_subject,
           as_applied_at = None, as_revoked_at = None, as_created_at = now, as_updated_at = now\<rparr>
     in bindS (add_assignment a) (\<lambda>_.
     bindS (note_event cfg actor_subject ''gateway.autonomy.assignment.proposed.v1'' ''proposed''
              ''autonomy_assignment'' i
              [(''assignment_id'', JStr i), (''policy_id'', JStr (po_id p)), (''room_id'', JStr (po_room_id p)),
               (''work_item_id'', JStr (wi_id item)), (''agent_id'', JStr (ag_id agent)),
               (''score'', JInt score), (''policy_generation'', JInt (po_generation p))] ''success'') (\<lambda>_.
     ret a)))))"

fun assign_items ::
  "gw_settings \<Rightarrow> string \<Rightarrow> string \<Rightarrow> AutonomyPolicy \<Rightarrow> nat \<Rightarrow> AgentWorkItem list \<Rightarrow> assignment_result \<Rightarrow>
     assignment_result gw" where
  "assign_items cfg owner_subject actor_subject p bound [] result = ret result"
| "assign_items cfg owner_subject actor_subject p bound (item # items) result =
     (if ar_proposed result + ar_assigned result \<ge> bound then ret result else
      let result = result\<lparr>ar_considered := ar_considered result + 1\<rparr>;
          skip = assign_items cfg owner_subject actor_subject p bound items
            (result\<lparr>ar_skipped := ar_skipped result + 1\<rparr>)
      in bindS (gets (dependencies_ready owner_subject item)) (\<lambda>ready.
      if \<not> ready then skip else
      bindS (query_one (\<lambda>a. as_owner_subject a = owner_subject \<and> as_policy_id a = po_id p \<and>
               as_work_item_id a = wi_id item \<and> as_status a \<in> {''proposed'', ''assigned''})
             autonomy_assignments) (\<lambda>existing.
      if existing \<noteq> None then skip else
      bindS (gets (eligible_agents owner_subject item)) (\<lambda>found.
      bindS (liftE found) (\<lambda>candidates.
      case candidates of
        [] \<Rightarrow> skip
      | best # _ \<Rightarrow>
          bindS (propose_assignment cfg owner_subject actor_subject p item best (length candidates)) (\<lambda>a.
          if po_assignment_mode p = ''automatic'' then
            bindS (atomically (apply_assignment_record cfg actor_subject a)) (\<lambda>_.
            assign_items cfg owner_subject actor_subject p bound items
              (result\<lparr>ar_assigned := ar_assigned result + 1\<rparr>))
          else
            assign_items cfg owner_subject actor_subject p bound items
              (result\<lparr>ar_proposed := ar_proposed result + 1\<rparr>)))))))"

definition active_items :: "string \<Rightarrow> string \<Rightarrow> gdb \<Rightarrow> nat" where
  "active_items owner_subject room_id w = count_where (\<lambda>i. wi_owner_subject i = owner_subject \<and>
     wi_room_id i = room_id \<and> wi_status i = ''in_progress'') (agent_work_items w)"

definition open_items :: "string \<Rightarrow> string \<Rightarrow> nat \<Rightarrow> gdb \<Rightarrow> AgentWorkItem list" where
  "open_items owner_subject room_id limit w = take limit
     (sort_key (\<lambda>i. (- wi_priority i, wi_created_at i, wi_id i))
       (filter (\<lambda>i. wi_owner_subject i = owner_subject \<and> wi_room_id i = room_id \<and> wi_status i = ''open'' \<and>
          wi_assigned_agent_id i = None) (agent_work_items w)))"

definition run_assignment_cycle ::
  "gw_settings \<Rightarrow> string \<Rightarrow> string \<Rightarrow> string \<Rightarrow> int option \<Rightarrow> assignment_result gw" where
  "run_assignment_cycle cfg owner_subject policy_id actor_subject limit =
     (let nothing = \<lparr>ar_considered = 0, ar_proposed = 0, ar_assigned = 0, ar_skipped = 0\<rparr> in
     bindS (get_policy owner_subject policy_id) (\<lambda>p.
     bindS (assert_enabled cfg owner_subject (po_room_id p) p) (\<lambda>_.
     if po_assignment_mode p = ''manual'' then ret nothing else
     bindS (gets (active_items owner_subject (po_room_id p))) (\<lambda>active_count.
     let capacity = max 0 (po_max_parallel_assignments p - int active_count)
     in bindS (liftE (bounded_int (jint limit) ''limit'' 1 100 (Some (gateway_autonomy_assignment_batch_size cfg))))
       (\<lambda>bounded_limit.
     let bounded_limit = (if po_assignment_mode p = ''automatic'' then min bounded_limit capacity else bounded_limit)
     in if bounded_limit \<le> 0 then ret nothing else
     bindS (gets (open_items owner_subject (po_room_id p) (nat (bounded_limit * 4)))) (\<lambda>items.
     assign_items cfg owner_subject actor_subject p (nat bounded_limit) items nothing))))))"

section \<open>Operator overrides\<close>

record AutonomyOverrideCreate =
  oc_action :: string
  oc_reason :: string
  oc_room_id :: "string option"
  oc_policy_id :: "string option"
  oc_work_item_id :: "string option"
  oc_agent_id :: "string option"
  oc_assignment_id :: "string option"
  oc_evidence :: "(string \<times> json) list"

text \<open>\<open>evidence.update(...)\<close>\<close>

definition dupdate :: "(string \<times> json) list \<Rightarrow> (string \<times> json) list \<Rightarrow> (string \<times> json) list" where
  "dupdate d kvs = fold (\<lambda>(k, v). dset k v) kvs d"

text \<open>What an action hands to the record: scope, scope id, previous and new state, evidence.\<close>

type_synonym override_outcome = "string \<times> string \<times> string option \<times> string option \<times> (string \<times> json) list"

definition override_policy :: "string \<Rightarrow> string \<Rightarrow> string option \<Rightarrow> AutonomyPolicy gw" where
  "override_policy owner_subject room_id policy_id = (case policy_id of
     Some i \<Rightarrow> get_policy owner_subject i
   | None \<Rightarrow>
       bindS (gets (\<lambda>w. sort_key po_created_at (filter (\<lambda>p. po_owner_subject p = owner_subject \<and>
         po_room_id p = room_id \<and> po_status p = ''active'') (autonomy_policies w)))) (\<lambda>found.
       case found of [] \<Rightarrow> raise (HTTPException 404 ''No active autonomy policy for work item'')
       | p # _ \<Rightarrow> ret p))"

definition force_assign ::
  "gw_settings \<Rightarrow> string \<Rightarrow> string \<Rightarrow> AutonomyOverrideCreate \<Rightarrow> string \<Rightarrow> (string \<times> json) list \<Rightarrow> override_outcome gw" where
  "force_assign cfg owner_subject actor_subject data reason evidence =
     bindS (liftE (required_text (or_else (oc_work_item_id data) []) ''work_item_id'' 36)) (\<lambda>work_item_id.
     bindS (liftE (required_text (or_else (oc_agent_id data) []) ''agent_id'' 36)) (\<lambda>agent_id.
     bindS (get_work_item owner_subject work_item_id) (\<lambda>item.
     bindS (liftE (optional_text (oc_policy_id data) 36)) (\<lambda>policy_id.
     bindS (override_policy owner_subject (wi_room_id item) policy_id) (\<lambda>p.
     bindS (get_agent owner_subject agent_id) (\<lambda>_.
     bindS (gets clock) (\<lambda>now.
     bindS new_id (\<lambda>i.
     bindS new_id (\<lambda>key.
     let a = \<lparr>as_id = i, as_owner_subject = owner_subject, as_room_id = wi_room_id item, as_policy_id = po_id p,
           as_work_item_id = wi_id item, as_selected_agent_id = agent_id, as_status = ''proposed'',
           as_score = 1000000, as_rationale = [(''forced'', JBool True), (''reason'', JStr reason)],
           as_policy_generation = po_generation p, as_work_item_version = wi_version item,
           as_idempotency_key = Some (''override:'' @ key), as_created_by_subject = actor_subject,
           as_applied_at = None, as_revoked_at = None, as_created_at = now, as_updated_at = now\<rparr>
     in bindS (add_assignment a) (\<lambda>_.
     bindS (apply_assignment_record cfg actor_subject a) (\<lambda>_.
     ret (''room'', wi_room_id item, None, None,
       dupdate evidence [(''assignment_id'', JStr i), (''work_item_id'', JStr (wi_id item)),
         (''agent_id'', JStr agent_id), (''policy_id'', JStr (po_id p))]))))))))))))"

definition reopen_item :: "AutonomyAssignment \<Rightarrow> string \<Rightarrow> unit gw" where
  "reopen_item a owner_subject =
     bindS (get_work_item owner_subject (as_work_item_id a)) (\<lambda>item.
     bindS (get_agent owner_subject (as_selected_agent_id a)) (\<lambda>agent.
     bindS (gets clock) (\<lambda>now.
     if wi_assigned_agent_id item = Some (ag_id agent) \<and> wi_status item = ''in_progress'' then
       bindS (put_item (item\<lparr>wi_status := ''open'', wi_assigned_agent_id := None,
                wi_version := wi_version item + 1, wi_updated_at := now\<rparr>)) (\<lambda>_.
       if ag_current_work_item_id agent = Some (wi_id item) then
         put_agent (agent\<lparr>ag_current_work_item_id := None, ag_status := ''active'', ag_updated_at := now\<rparr>)
       else ret ())
     else ret ())))"

definition revoke_assignment ::
  "string \<Rightarrow> AutonomyOverrideCreate \<Rightarrow> (string \<times> json) list \<Rightarrow> override_outcome gw" where
  "revoke_assignment owner_subject data evidence =
     bindS (liftE (required_text (or_else (oc_assignment_id data) []) ''assignment_id'' 36)) (\<lambda>assignment_id.
     bindS (get_assignment owner_subject assignment_id) (\<lambda>a.
     bindS (if as_status a = ''assigned'' then reopen_item a owner_subject else ret ()) (\<lambda>_.
     bindS (gets clock) (\<lambda>now.
     bindS (put_assignment (a\<lparr>as_status := ''revoked'', as_revoked_at := Some now, as_updated_at := now\<rparr>)) (\<lambda>_.
     ret (''room'', as_room_id a, Some (as_status a), Some ''revoked'',
       dset ''assignment_id'' (JStr (as_id a)) evidence))))))"

definition scope_of :: "string option \<Rightarrow> string option \<Rightarrow> string \<times> string" where
  "scope_of room_id policy_id = (case policy_id of
     Some p \<Rightarrow> (''policy'', p)
   | None \<Rightarrow> (case room_id of Some r \<Rightarrow> (''room'', r) | None \<Rightarrow> (''tenant'', [])))"

definition override_scope ::
  "AutonomyOverrideCreate \<Rightarrow> (string option \<Rightarrow> string option \<Rightarrow> nat gw) \<Rightarrow> string \<Rightarrow> (string \<times> json) list \<Rightarrow>
     override_outcome gw" where
  "override_scope data act counter evidence =
     bindS (liftE (optional_text (oc_room_id data) 36)) (\<lambda>room_id.
     bindS (liftE (optional_text (oc_policy_id data) 36)) (\<lambda>policy_id.
     bindS (act room_id policy_id) (\<lambda>count.
     ret (fst (scope_of room_id policy_id), snd (scope_of room_id policy_id), None, None,
       dset counter (JInt (int count)) evidence))))"

definition override_action ::
  "gw_settings \<Rightarrow> string \<Rightarrow> string \<Rightarrow> AutonomyOverrideCreate \<Rightarrow> string \<Rightarrow> (string \<times> json) list \<Rightarrow> override_outcome gw" where
  "override_action cfg owner_subject actor_subject data reason evidence =
     (if oc_action data = ''force_assign'' then
        force_assign cfg owner_subject actor_subject data reason evidence
      else if oc_action data = ''revoke_assignment'' then revoke_assignment owner_subject data evidence
      else if oc_action data = ''revoke_permits'' then
        override_scope data (revoke_permits owner_subject reason) ''revoked_permits'' evidence
      else if oc_action data = ''cancel_recoveries'' then
        override_scope data (pause_or_cancel_recoveries owner_subject ''killed'') ''cancelled_recoveries'' evidence
      else raise (HTTPException 400 ''Unsupported operator override''))"

definition apply_override ::
  "gw_settings \<Rightarrow> string \<Rightarrow> string \<Rightarrow> string list \<Rightarrow> AutonomyOverrideCreate \<Rightarrow> AutonomyOverride gw" where
  "apply_override cfg owner_subject actor_subject actor_roles data = atomically (
     bindS (guardS (''gateway-admin'' \<in> set actor_roles)
              (HTTPException 403 ''Operator override requires gateway-admin'')) (\<lambda>_.
     bindS (liftE (required_text (oc_reason data) ''reason'' 10000)) (\<lambda>reason.
     bindS (liftE (safe_dict (oc_evidence data) ''override evidence'')) (\<lambda>evidence.
     bindS (override_action cfg owner_subject actor_subject data reason evidence)
       (\<lambda>(scope_type, scope_id, previous_state, new_state, evidence).
     bindS (gets clock) (\<lambda>now.
     bindS new_id (\<lambda>i.
     let row = \<lparr>ov_id = i, ov_owner_subject = owner_subject, ov_scope_type = scope_type,
           ov_scope_id = scope_id, ov_action = oc_action data, ov_previous_state = previous_state,
           ov_new_state = new_state, ov_reason = reason, ov_actor_subject = actor_subject,
           ov_evidence = evidence, ov_created_at = now\<rparr>
     in bindS (add_override row) (\<lambda>_.
     bindS (note_event cfg actor_subject ''gateway.autonomy.override.applied.v1'' (oc_action data)
              ''autonomy_override'' i
              [(''override_id'', JStr i), (''scope_type'', JStr scope_type), (''scope_id'', JStr scope_id),
               (''action'', JStr (oc_action data)), (''evidence'', JObj evidence)] ''warning'') (\<lambda>_.
     ret row)))))))))"

definition list_overrides :: "string \<Rightarrow> int \<Rightarrow> AutonomyOverride list gw" where
  "list_overrides owner_subject limit = gets (\<lambda>w. take (nat (max 1 (min limit 500)))
     (sort_key (\<lambda>v. - ov_created_at v) (filter (\<lambda>v. ov_owner_subject v = owner_subject) (autonomy_overrides w))))"

section \<open>The worker\<close>

text \<open>
  One round of \<open>AutonomyWorker._run\<close>: the cycles of every active policy in turn, each in a session of
  its own. \<open>except HTTPException\<close> goes on with the next cycle; any other exception ends the round.
\<close>

definition except_http :: "'a gw \<Rightarrow> unit gw" where
  "except_http m = catchS (bindS m (\<lambda>_. ret ())) (\<lambda>e. case e of HTTPException _ _ \<Rightarrow> ret () | _ \<Rightarrow> raise e)"

definition policy_keys :: "gdb \<Rightarrow> (string \<times> string) list" where
  "policy_keys w = map (\<lambda>p. (po_owner_subject p, po_id p))
     (sort_key po_created_at (filter (\<lambda>p. po_status p = ''active'') (autonomy_policies w)))"

definition worker_cycles :: "gw_settings \<Rightarrow> string \<times> string \<Rightarrow> unit gw" where
  "worker_cycles cfg key = (case key of (owner_subject, policy_id) \<Rightarrow>
     bindS (except_http (run_assignment_cycle cfg owner_subject policy_id ''system:autonomy-worker'' None)) (\<lambda>_.
     except_http (run_recovery_cycle cfg owner_subject policy_id ''system:autonomy-worker'' 10)))"

definition worker_round :: "gw_settings \<Rightarrow> unit gw" where
  "worker_round cfg = bindS (gets policy_keys) (forS (worker_cycles cfg))"

end
