(* ===== verification/Work_Board.thy ===== *)
theory Work_Board
  imports Autonomy_Assignment Collaboration_Items Recovery_Cycle
begin

text \<open>
  The work items of all services as one abstract board, a map from identifiers to status, holder
  and version, with four steps. Every call of the collaboration service, every assignment, cycle
  of the worker and override implements steps of the board; what optimistic locking promises is
  proved once, of the board.
\<close>

section \<open>The board\<close>

type_synonym slot = "string \<times> string option \<times> int"

type_synonym board = "string \<rightharpoonup> slot"

definition slot_of :: "AgentWorkItem \<Rightarrow> slot" where
  "slot_of i = (wi_status i, wi_assigned_agent_id i, wi_version i)"

definition board_of :: "AgentWorkItem list \<Rightarrow> board" where
  "board_of items = map_of (map (\<lambda>i. (wi_id i, slot_of i)) items)"

abbreviation board :: "gdb \<Rightarrow> board" where
  "board w \<equiv> board_of (agent_work_items w)"

inductive slot_move :: "slot \<Rightarrow> slot \<Rightarrow> bool" where
  claim: "slot_move (''open'', None, v) (''in_progress'', Some a, v + 1)"
| progress: "st \<in> set WORK_ITEM_STATUSES \<Longrightarrow> st \<noteq> ''open'' \<Longrightarrow> slot_move (st0, Some a, v) (st, Some a, v + 1)"
| reopen: "slot_move (''in_progress'', Some a, v) (''open'', None, v + 1)"

inductive board_step :: "board \<Rightarrow> board \<Rightarrow> bool" where
  create: "b i = None \<Longrightarrow> board_step b (b(i \<mapsto> (''open'', None, 1)))"
| move: "b i = Some s \<Longrightarrow> slot_move s s' \<Longrightarrow> board_step b (b(i \<mapsto> s'))"

inductive_cases slot_moveE: "slot_move s s'"
inductive_cases board_stepE: "board_step b b'"

subsection \<open>What the board promises\<close>

text \<open>An item is open exactly when nobody holds it.\<close>

definition board_ok :: "board \<Rightarrow> bool" where
  "board_ok b \<longleftrightarrow> (\<forall>i st h v. b i = Some (st, h, v) \<longrightarrow> (st = ''open'' \<longleftrightarrow> h = None))"

lemma slot_move_ok: "slot_move s s' \<Longrightarrow> (fst s' = ''open'' \<longleftrightarrow> fst (snd s') = None)"
  by (auto elim: slot_moveE)

lemma board_step_ok: "board_step b b' \<Longrightarrow> board_ok b \<Longrightarrow> board_ok b'"
  by (erule board_stepE) (auto simp: board_ok_def dest: slot_move_ok)

lemma board_run_ok: "board_step\<^sup>*\<^sup>* b b' \<Longrightarrow> board_ok b \<Longrightarrow> board_ok b'"
  by (induction rule: rtranclp_induct) (auto dest: board_step_ok)

text \<open>Versions only grow, and a slot with the version it had has not been touched.\<close>

definition slot_later :: "slot \<Rightarrow> slot \<Rightarrow> bool" where
  "slot_later s s' \<longleftrightarrow> s' = s \<or> snd (snd s) < snd (snd s')"

lemma slot_move_later: "slot_move s s' \<Longrightarrow> snd (snd s) < snd (snd s')"
  by (auto elim: slot_moveE)

lemma board_step_later: "board_step b b' \<Longrightarrow> b i = Some s \<Longrightarrow> \<exists>s'. b' i = Some s' \<and> slot_later s s'"
  using slot_move_later by (elim board_stepE) (auto simp: slot_later_def simp del: split_paired_Ex)

lemma board_run_later: "board_step\<^sup>*\<^sup>* b b' \<Longrightarrow> b i = Some s \<Longrightarrow> \<exists>s'. b' i = Some s' \<and> slot_later s s'"
proof (induction rule: rtranclp_induct)
  case (step c d)
  then obtain s' where "c i = Some s'" "slot_later s s'" by blast
  moreover obtain s'' where "d i = Some s''" "slot_later s' s''" using board_step_later [OF step(2) calculation(1)] by blast
  ultimately show ?case by (auto simp: slot_later_def)
qed (auto simp: slot_later_def)

section \<open>Rows and slots\<close>

lemma board_of_Some:
  "unique_on wi_id items \<Longrightarrow> board_of items i = Some s \<longleftrightarrow> (\<exists>r \<in> set items. wi_id r = i \<and> slot_of r = s)"
  unfolding board_of_def unique_on_def by (subst map_of_eq_Some_iff) (auto simp: comp_def image_iff)

lemma board_of_None: "board_of items i = None \<longleftrightarrow> (\<forall>r \<in> set items. wi_id r \<noteq> i)"
  unfolding board_of_def by (force simp: map_of_eq_None_iff)

lemma board_of_at: "unique_on wi_id items \<Longrightarrow> r \<in> set items \<Longrightarrow> board_of items (wi_id r) = Some (slot_of r)"
  by (auto simp: board_of_Some)

lemma board_of_snoc: "board_of items (wi_id r) = None \<Longrightarrow> board_of (items @ [r]) = (board_of items)(wi_id r \<mapsto> slot_of r)"
  unfolding board_of_def by (rule ext) (simp add: map_add_def split: option.splits)

lemma map_of_replaced:
  assumes "distinct (map k rows)" and "r \<in> set rows" and "\<And>q. k (g q) = k q"
    and "\<And>q. q \<in> set rows \<Longrightarrow> q \<noteq> r \<Longrightarrow> g q = q"
  shows "map_of (map (\<lambda>q. (k q, s q)) (map g rows)) = (map_of (map (\<lambda>q. (k q, s q)) rows))(k r \<mapsto> s (g r))"
  using assms
proof (induction rows)
  case (Cons a rows)
  show ?case
  proof (cases "a = r")
    case True
    have "g q = q" if "q \<in> set rows" for q
      using Cons.prems(1,4) that True by (metis distinct.simps(2) image_eqI list.set_intros(2) list.set_map list.simps(9))
    then have "map ((\<lambda>q. (k q, s q)) \<circ> g) rows = map (\<lambda>q. (k q, s q)) rows" by simp
    from arg_cong [OF this, of map_of] show ?thesis using True Cons.prems(3) by (simp add: fun_eq_iff)
  next
    case False
    then have "g a = a" using Cons.prems(4) by simp
    moreover have "k a \<noteq> k r" using False Cons.prems(1,2) by (auto simp: image_iff)
    moreover have "map_of (map (\<lambda>q. (k q, s q)) (map g rows)) = (map_of (map (\<lambda>q. (k q, s q)) rows))(k r \<mapsto> s (g r))"
      using Cons.prems False by (intro Cons.IH) auto
    ultimately show ?thesis by (auto simp: fun_eq_iff)
  qed
qed simp

lemma board_of_update:
  assumes "unique_on wi_id items" and "r \<in> set items" and "P r" and "\<And>q. P q \<Longrightarrow> wi_id (f q) = wi_id q"
    and "\<And>q. q \<in> set items \<Longrightarrow> P q \<Longrightarrow> q = r"
  shows "board_of (update_where P f items) = (board_of items)(wi_id r \<mapsto> slot_of (f r))"
proof -
  let ?g = "\<lambda>q. if P q then f q else q"
  have "map_of (map (\<lambda>q. (wi_id q, slot_of q)) (map ?g items)) =
      (map_of (map (\<lambda>q. (wi_id q, slot_of q)) items))(wi_id r \<mapsto> slot_of (?g r))"
  proof (rule map_of_replaced)
    show "distinct (map wi_id items)" using assms(1) by (simp add: unique_on_def)
    show "wi_id (?g q) = wi_id q" for q using assms(4) by simp
    show "?g q = q" if "q \<in> set items" "q \<noteq> r" for q using assms(5) [OF that(1)] that(2) by (cases "P q") simp_all
  qed (rule assms(2))
  then show ?thesis unfolding update_where_def board_of_def if_P [OF assms(3)] .
qed

section \<open>Calls as steps of the board\<close>

definition on_board :: "gdb \<Rightarrow> gdb \<Rightarrow> bool" where
  "on_board w w' \<longleftrightarrow> (unique_on wi_id (agent_work_items w) \<longrightarrow>
     unique_on wi_id (agent_work_items w') \<and> board_step\<^sup>*\<^sup>* (board w) (board w'))"

lemma on_board_same: "agent_work_items w' = agent_work_items w \<Longrightarrow> on_board w w'"
  by (simp add: on_board_def)

interpretation on_board: store_relation on_board
  by unfold_locales (auto simp: on_board_def only_events_def)

lemma count_one_row:
  assumes "count_where P rows = 1"
  obtains r where "r \<in> set rows" and "P r" and "\<And>q. q \<in> set rows \<Longrightarrow> P q \<Longrightarrow> q = r"
proof -
  obtain r where r: "filter P rows = [r]" using assms by (auto simp: count_where_def length_Suc_conv)
  then have "set (filter P rows) = {r}" by simp
  then have "q \<in> set rows \<and> P q \<longleftrightarrow> q = r" for q by auto
  then show ?thesis using that by blast
qed

lemma on_board_update_one:
  assumes id: "\<And>r. wi_id (f r) = wi_id r" and move: "\<And>r. sel r \<Longrightarrow> slot_move (slot_of r) (slot_of (f r))"
  shows "keeps on_board (update_one sel f d)"
proof (rule keeps_wp)
  fix w
  have "on_board w (w\<lparr>agent_work_items := update_where sel f (agent_work_items w)\<rparr>)"
    if one: "count_where sel (agent_work_items w) = 1"
    unfolding on_board_def
  proof (intro impI conjI)
    assume u: "unique_on wi_id (agent_work_items w)"
    show "unique_on wi_id (agent_work_items (w\<lparr>agent_work_items := update_where sel f (agent_work_items w)\<rparr>))"
      using unique_on_update_where [OF u] id by simp
    obtain r where r: "r \<in> set (agent_work_items w)" "sel r" "\<And>q. q \<in> set (agent_work_items w) \<Longrightarrow> sel q \<Longrightarrow> q = r"
      by (rule count_one_row [OF one]) (rule that)
    have "board_step (board w) ((board w)(wi_id r \<mapsto> slot_of (f r)))"
      by (rule board_step.move [where b = "board w", OF board_of_at [OF u r(1)] move [OF r(2)]])
    then show "board_step\<^sup>*\<^sup>* (board w) (board (w\<lparr>agent_work_items := update_where sel f (agent_work_items w)\<rparr>))"
      using board_of_update [where P = sel and f = f, OF u r(1,2) id r(3)] by simp
  qed
  then show "wp (update_one sel f d) (\<lambda>_. on_board w) (\<lambda>_. on_board w) w"
    by (auto simp: update_one_def on_board_same)
qed

lemma on_board_put:
  assumes r: "r \<in> set (agent_work_items w)" and id: "wi_id r' = wi_id r" and move: "slot_move (slot_of r) (slot_of r')"
    and items: "agent_work_items w' = update_where (\<lambda>q. wi_id q = wi_id r') (\<lambda>_. r') (agent_work_items w)"
  shows "on_board w w'"
  unfolding on_board_def
proof (intro impI conjI)
  assume u: "unique_on wi_id (agent_work_items w)"
  show "unique_on wi_id (agent_work_items w')"
    unfolding items by (rule unique_on_update_where [OF u]) simp
  have "board_step (board w) ((board w)(wi_id r \<mapsto> slot_of r'))"
    by (rule board_step.move [where b = "board w", OF board_of_at [OF u r] move])
  moreover have "board w' = (board w)(wi_id r \<mapsto> slot_of r')"
    unfolding items using id by (intro board_of_update [OF u r]) (auto intro: unique_on_eqD [OF u _ r])
  ultimately show "board_step\<^sup>*\<^sup>* (board w) (board w')" by simp
qed

lemma on_board_add_item:
  assumes "slot_of i = (''open'', None, 1)"
  shows "keeps on_board (add_item i)"
proof (rule keeps_wp)
  fix w
  have "on_board w (w\<lparr>agent_work_items := agent_work_items w @ [i]\<rparr>)"
    if new: "\<forall>j \<in> set (agent_work_items w). wi_id j \<noteq> wi_id i"
  proof -
    have none: "board w (wi_id i) = None" using new by (simp add: board_of_None)
    from board_step.create [where b = "board w", OF this] show ?thesis
      using new unfolding on_board_def by (simp add: board_of_snoc [OF none] assms r_into_rtranclp)
  qed
  then show "wp (add_item i) (\<lambda>_. on_board w) (\<lambda>_. on_board w) w"
    by (auto simp: add_item_def wp_def insert_row_def list_ex_iff on_board_same)
qed

lemma on_board_guarded: "(c \<Longrightarrow> keeps on_board m) \<Longrightarrow> keeps on_board (bindS (guardS c e) (\<lambda>_. m))"
  by (cases c) (simp_all add: keeps_def guardS_def bindS_def ret_def raise_def on_board.rel_refl)

subsection \<open>The collaboration service\<close>

lemma on_board_deliveries: "keeps on_board (add_deliveries owner m now as)"
  by (induction as) (auto simp: write_defs intro!: on_board.keeps_store on_board_same)

lemma on_board_agents:
  "keeps on_board (register_agent cfg owner rg)"
  "keeps on_board (list_agents owner room_id)"
  "keeps on_board (heartbeat_agent cfg owner i ht)"
  "keeps on_board (unregister_agent cfg owner i)"
  "keeps on_board (create_room cfg owner rm)"
  "keeps on_board (join_room cfg owner rid i)"
  unfolding register_agent_def list_agents_def heartbeat_agent_def unregister_agent_def create_room_def
    join_room_def lookup_defs write_defs
  by (intro on_board.keeps_store on_board_same; simp)+

lemma on_board_messages:
  "keeps on_board (send_message cfg owner mc)"
  "keeps on_board (read_inbox owner i limit cursor)"
  "keeps on_board (ack_message cfg owner i m)"
  unfolding send_message_def store_message_def read_inbox_def ack_message_def find_sent_def message_recipients_def
    lookup_defs write_defs [unfolded add_delivery_def]
  by (intro on_board.keeps_store on_board_deliveries on_board_same; simp)+

lemma on_board_commands:
  "keeps on_board (issue_command cfg owner ic)"
  "keeps on_board (list_commands owner i status limit)"
  "keeps on_board (ack_command cfg owner i c)"
  "keeps on_board (accept_command cfg owner i c)"
  "keeps on_board (reject_command cfg owner i c error)"
  "keeps on_board (complete_command cfg owner i c cs result error)"
  "keeps on_board (cancel_command cfg owner i c)"
  unfolding issue_command_def list_commands_def ack_command_def accept_command_def reject_command_def
    complete_command_def cancel_command_def check_receipt_def lookup_defs write_defs
  by (intro on_board.keeps_store on_board_same; simp)+

lemma on_board_create_work_item: "keeps on_board (create_work_item cfg owner wc)"
  unfolding create_work_item_def lookup_defs Let_def
  by (intro on_board.keeps_store on_board_add_item on_board_same) (simp_all add: slot_of_def)

lemma on_board_claim_work_item: "keeps on_board (claim_work_item cfg owner i item v)"
  unfolding claim_work_item_def lookup_defs put_agent_def
  by (intro on_board.keeps_store on_board_update_one on_board_same)
     (auto simp: slot_of_def intro: slot_move.claim)

lemma on_board_update_work_item: "keeps on_board (update_work_item cfg owner i item v wu)"
  unfolding update_work_item_def lookup_defs put_agent_def Let_def
  by (rule on_board.keeps_atomically, (rule on_board.keeps_bind, rule on_board.keeps_fetch)+,
      rule on_board.keeps_bind, rule on_board.keeps_guard, rule on_board.keeps_bind, rule on_board.keeps_guard,
      rule on_board_guarded, intro on_board.keeps_store on_board_update_one on_board_same)
     (auto simp: slot_of_def intro: slot_move.progress)

lemmas on_board_collaboration = on_board_agents on_board_messages on_board_commands on_board_create_work_item
  on_board_claim_work_item on_board_update_work_item

lemma on_board_list_work_items: "keeps on_board (list_work_items owner rid status limit)"
  unfolding list_work_items_def lookup_defs by (intro on_board.keeps_store)

lemma on_board_collab: "on_board w (collab_step cfg c w)"
  by (cases c) (simp_all add: on_board_collaboration [unfolded keeps_def] on_board_list_work_items [unfolded keeps_def])

subsection \<open>Assignments and overrides\<close>

lemma on_board_read_only: "(\<And>w. snd (m w) = w) \<Longrightarrow> keeps on_board m"
  by (simp add: keeps_def on_board.rel_refl)

lemma snd_assert_enabled: "snd (assert_enabled cfg owner room_id p w) = w"
  using wp_assert_enabled [of "\<lambda>_ t. t = w" w "\<lambda>_ t. t = w" cfg owner room_id p]
  by (cases "assert_enabled cfg owner room_id p w") (simp add: wp_def split: sum.splits)

lemma on_board_assert_enabled: "keeps on_board (assert_enabled cfg owner room_id p)"
  by (intro on_board_read_only snd_assert_enabled)

lemmas assignment_defs = get_policy_def get_agent_def get_work_item_def get_assignment_def note_event_def
  add_assignment_def put_assignment_def add_override_def

lemma on_board_apply: "keeps on_board (apply_assignment_record cfg actor a)"
  unfolding apply_assignment_record_def assignment_defs put_agent_def Let_def
  by (intro on_board.keeps_store on_board_assert_enabled on_board_update_one on_board_same)
     (auto simp: slot_of_def intro: slot_move.claim)

lemma on_board_propose: "keeps on_board (propose_assignment cfg owner actor p item c n)"
  unfolding propose_assignment_def assignment_defs Let_def
  by (intro on_board.keeps_store on_board_same) simp

lemma on_board_assign_items: "keeps on_board (assign_items cfg owner actor p bound items result)"
proof (induction items arbitrary: result)
  case (Cons item items)
  then show ?case
    unfolding assign_items.simps Let_def
    by (intro on_board.keeps_store on_board_propose on_board_apply)
qed (simp add: on_board.keeps_ret)

lemma on_board_cycle: "keeps on_board (run_assignment_cycle cfg owner policy_id actor limit)"
  unfolding run_assignment_cycle_def assignment_defs Let_def
  by (intro on_board.keeps_store on_board_assert_enabled on_board_assign_items)

lemma on_board_reopen: "keeps on_board (reopen_item a owner)"
proof (rule keeps_wp)
  fix w
  have "on_board w (w\<lparr>agent_work_items := update_where (\<lambda>q. wi_id q = as_work_item_id a) (\<lambda>_. i\<lparr>wi_status := ''open'',
      wi_assigned_agent_id := None, wi_version := wi_version i + 1, wi_updated_at := clock w\<rparr>) (agent_work_items w),
      agent_instances := as\<rparr>)"
    if "i \<in> set (agent_work_items w)" "wi_status i = ''in_progress''" "wi_assigned_agent_id i = Some h"
      "wi_id i = as_work_item_id a" for i h as
    by (rule on_board_put [OF that(1), where r' = "i\<lparr>wi_status := ''open'', wi_assigned_agent_id := None,
          wi_version := wi_version i + 1, wi_updated_at := clock w\<rparr>"]) (simp_all add: slot_of_def that slot_move.reopen)
  note this [of _ _ "agent_instances w"] this
  then show "wp (reopen_item a owner) (\<lambda>_. on_board w) (\<lambda>_. on_board w) w"
    unfolding reopen_item_def get_work_item_def get_agent_def put_item_def put_agent_def
    by (auto intro!: wp_fetch simp: on_board.rel_refl)
qed

lemma on_board_override: "keeps on_board (apply_override cfg owner actor roles data)"
  unfolding apply_override_def override_action_def force_assign_def revoke_assignment_def override_scope_def override_policy_def
    assignment_defs Let_def
  by (intro on_board.keeps_store on_board_apply on_board_reopen on_board_same) 
     (simp_all add: revoke_permits_def pause_or_cancel_recoveries_def Let_def keeps_def on_board_same)

subsection \<open>The worker\<close>

lemma on_board_except_http: "keeps on_board m \<Longrightarrow> keeps on_board (except_http m)"
  unfolding except_http_def by (intro on_board.keeps_catch on_board.keeps_bind on_board.keeps_ret)
    (auto split: err.splits intro: on_board.keeps_ret on_board.keeps_raise)

lemma on_board_recover_loops: "keeps on_board (recover_loops cfg owner actor p c now loops result)"
proof (induction loops arbitrary: result)
  case (Cons l loops)
  then show ?case
    unfolding recover_loops.simps note_event_def put_loop_def Let_def
    by (intro on_board.keeps_store on_board_commands(1) on_board_same) simp_all
qed (simp add: on_board.keeps_ret)

lemma on_board_recovery_cycle: "keeps on_board (run_recovery_cycle cfg owner policy_id actor limit)"
  unfolding run_recovery_cycle_def assignment_defs
  by (intro on_board.keeps_store on_board_assert_enabled on_board_recover_loops)

lemma on_board_worker: "keeps on_board (worker_round cfg)"
  unfolding worker_round_def worker_cycles_def
  by (intro on_board.keeps_store on_board_except_http on_board_cycle on_board_recovery_cycle)

section \<open>Runs\<close>

datatype work_call =
    Collaboration collab_call
  | ApplyAssignment string string string
  | AssignmentCycle string string string "int option"
  | RecoveryCycle string string string int
  | Override string string "string list" AutonomyOverrideCreate
  | WorkerRound

fun work_step :: "gw_settings \<Rightarrow> work_call \<Rightarrow> gdb \<Rightarrow> gdb" where
  "work_step cfg (Collaboration c) w = collab_step cfg c w"
| "work_step cfg (ApplyAssignment owner i actor) w = snd (apply_assignment cfg owner i actor w)"
| "work_step cfg (AssignmentCycle owner policy_id actor limit) w =
     snd (run_assignment_cycle cfg owner policy_id actor limit w)"
| "work_step cfg (RecoveryCycle owner policy_id actor limit) w =
     snd (run_recovery_cycle cfg owner policy_id actor limit w)"
| "work_step cfg (Override owner actor roles data) w = snd (apply_override cfg owner actor roles data w)"
| "work_step cfg WorkerRound w = snd (worker_round cfg w)"

text \<open>Calls in any order, with calls of the services that have no work items between them.\<close>

inductive work_run :: "gw_settings \<Rightarrow> gdb \<Rightarrow> gdb \<Rightarrow> bool" for cfg w where
  begin_work: "work_run cfg w w"
| work: "work_run cfg w u \<Longrightarrow> work_run cfg w (work_step cfg c u)"
| elsewhere: "work_run cfg w u \<Longrightarrow> agent_work_items u' = agent_work_items u \<Longrightarrow> work_run cfg w u'"

lemma on_board_apply_assignment: "keeps on_board (apply_assignment cfg owner i actor)"
  unfolding apply_assignment_def get_assignment_def by (intro on_board.keeps_store on_board_apply)

lemma on_board_work: "on_board w (work_step cfg c w)"
  by (cases c) (simp_all add: on_board_collab on_board_apply_assignment [unfolded keeps_def]
      on_board_cycle [unfolded keeps_def] on_board_recovery_cycle [unfolded keeps_def]
      on_board_override [unfolded keeps_def] on_board_worker [unfolded keeps_def])

lemma on_board_run: "work_run cfg w w' \<Longrightarrow> on_board w w'"
proof (induction rule: work_run.induct)
  case (work u c)
  then show ?case using on_board.rel_trans on_board_work by blast
next
  case (elsewhere u u')
  then show ?case using on_board.rel_trans on_board_same by blast
qed (rule on_board.rel_refl)

end
