(* ===== verification/Assignment_Correct.thy ===== *)
theory Assignment_Correct
  imports Work_Board Collaboration_Correct
begin

text \<open>
  What an assignment checks before it is applied, how far a cycle of the worker goes, and what an
  operator override does.
\<close>

section \<open>Eligible agents\<close>

definition suits :: "AgentWorkItem \<Rightarrow> AgentInstance \<Rightarrow> bool" where
  "suits i g \<longleftrightarrow> (\<exists>excluded labels.
     list_or_empty (dget (wi_assignment_constraints i) ''exclude_agent_ids'') = Inr excluded \<and>
     dict_or_empty (dget (wi_assignment_constraints i) ''labels'') = Inr labels \<and>
     is_suitable (map py_str excluded) labels (wi_required_capabilities i) g)"

lemma eligible_agentsD:
  assumes "eligible_agents owner i w = Inr cs" and "c \<in> set cs"
  shows "fst c \<in> set (agent_instances w)" "is_free owner (wi_room_id i) (clock w) (fst c)" "suits i (fst c)"
  using assms by (auto simp: eligible_agents_def Let_def suits_def)

section \<open>Applying an assignment\<close>

text \<open>Everything an assignment rests on when it is applied.\<close>

definition permitted :: "gw_settings \<Rightarrow> gdb \<Rightarrow> AutonomyAssignment \<Rightarrow> AutonomyPolicy \<Rightarrow> bool" where
  "permitted cfg w a p \<longleftrightarrow> p \<in> set (autonomy_policies w) \<and> po_id p = as_policy_id a \<and>
     po_owner_subject p = as_owner_subject a \<and> po_status p = ''active'' \<and> po_generation p = as_policy_generation a \<and>
     (\<exists>v. fst (control_snapshot cfg (as_owner_subject a) (Some (as_room_id a)) (Some (po_id p)) w) = Inr v \<and> cv_enabled v)"

definition assignable :: "gdb \<Rightarrow> AutonomyAssignment \<Rightarrow> AgentWorkItem \<Rightarrow> AgentInstance \<Rightarrow> bool" where
  "assignable w a i g \<longleftrightarrow> i \<in> set (agent_work_items w) \<and> wi_id i = as_work_item_id a \<and>
     wi_owner_subject i = as_owner_subject a \<and> wi_status i = ''open'' \<and> wi_assigned_agent_id i = None \<and>
     wi_version i = as_work_item_version a \<and> dependencies_completed (agent_work_items w) i \<and>
     g \<in> set (agent_instances w) \<and> ag_id g = as_selected_agent_id a \<and>
     is_free (as_owner_subject a) (wi_room_id i) (clock w) g \<and> suits i g"

definition busy_agent :: "string \<Rightarrow> int \<Rightarrow> AgentInstance \<Rightarrow> AgentInstance" where
  "busy_agent item now g = g\<lparr>ag_current_work_item_id := Some item, ag_status := ''busy'', ag_updated_at := now\<rparr>"

definition applied :: "int \<Rightarrow> AutonomyAssignment \<Rightarrow> AutonomyAssignment" where
  "applied now a = a\<lparr>as_status := ''assigned'', as_applied_at := Some now, as_updated_at := now\<rparr>"

text \<open>The three rows an assignment changes.\<close>

definition assigns :: "gdb \<Rightarrow> AutonomyAssignment \<Rightarrow> AgentWorkItem \<Rightarrow> AgentInstance \<Rightarrow> gdb \<Rightarrow> bool" where
  "assigns w a i g w' \<longleftrightarrow>
     agent_work_items w' = update_where (\<lambda>j. wi_id j = wi_id i) (claimed_item (ag_id g) (clock w)) (agent_work_items w) \<and>
     agent_instances w' = update_where (\<lambda>h. ag_id h = ag_id g) (\<lambda>_. busy_agent (wi_id i) (clock w) g) (agent_instances w) \<and>
     autonomy_assignments w' = update_where (\<lambda>b. as_id b = as_id a) (\<lambda>_. applied (clock w) a) (autonomy_assignments w)"

lemma dependencies_ready_done: "dependencies_ready owner i w = dependencies_done owner i w"
  by (simp add: dependencies_ready_def dependencies_done_def Let_def)

lemma wpr_apply_assignment_record:
  assumes u: "unique_on wi_id (agent_work_items w)" and ua: "unique_on ag_id (agent_instances w)"
    and already: "as_status a = ''assigned'' \<Longrightarrow> Q a w"
    and assign: "\<And>p i g w'. as_status a = ''proposed'' \<Longrightarrow> permitted cfg w a p \<Longrightarrow> assignable w a i g \<Longrightarrow>
      assigns w a i g w' \<Longrightarrow> Q (applied (clock w) a) w'"
  shows "wpr (apply_assignment_record cfg actor a) Q w"
  unfolding apply_assignment_record_def get_policy_def Let_def wp_bind
proof (intro wpr_fetch wpr_assert_enabled_run, goal_cases)
  case (1 p v)
  note enabled = 1
  show ?case
  proof (cases "as_status a = ''assigned''")
    case False
    show ?thesis
      unfolding if_not_P [OF False] wp_bind wp_gets get_work_item_def get_agent_def
    proof (intro wpr_guard wpr_fetch wpr_lift wpr_update_one, goal_cases)
      case (1 i g cs)
      note i = 1(4) and g = 1(5,6) and cs = 1(8,9)
      let ?sel = "\<lambda>j. wi_id j = wi_id i \<and> wi_owner_subject j = as_owner_subject a \<and> wi_status j = ''open'' \<and>
        wi_assigned_agent_id j = None \<and> wi_version j = as_work_item_version a"
      obtain r where r: "r \<in> set (agent_work_items w)" "?sel r"
        by (rule count_one_row [OF 1(10)]) (rule that)
      have "r = i" using unique_on_eqD [OF u r(1)] r(2) 1(3) by blast
      with r have i': "i \<in> set (agent_work_items w)" "?sel i" by auto
      have rows: "update_where ?sel (\<lambda>j. j\<lparr>wi_status := ''in_progress'', wi_assigned_agent_id := Some (ag_id g),
          wi_version := wi_version j + 1, wi_updated_at := clock w\<rparr>) (agent_work_items w) =
          update_where (\<lambda>j. wi_id j = wi_id i) (claimed_item (ag_id g) (clock w)) (agent_work_items w)"
        using update_where_unique [where P = ?sel, OF u i'] by (simp add: claimed_item_def [abs_def])
      have "dependencies_completed (agent_work_items w) i"
        using dependencies_done_iff [OF u, of i "as_owner_subject a"] 1(7) i'(2) by (simp add: dependencies_ready_done)
      moreover obtain c where c: "c \<in> set cs" "ag_id (fst c) = ag_id g" using cs(2) by auto
      have "fst c = g" using unique_on_eqD [OF ua eligible_agentsD(1) [OF cs(1) c(1)] 1(5)] c(2) by simp
      then have "is_free (as_owner_subject a) (wi_room_id i) (clock w) g" "suits i g"
        using eligible_agentsD(2,3) [OF cs(1) c(1)] by simp_all
      ultimately have "assignable w a i g" unfolding assignable_def using i' 1(4,5,6) by auto
      moreover have "permitted cfg w a p" unfolding permitted_def using enabled 1(2) by auto
      ultimately have Q: "Q (applied (clock w) a) w'" if "assigns w a i g w'" for w'
        using assign [OF 1(1) _ _ that] by blast
      show ?case
        unfolding rows put_agent_def put_assignment_def wp_modify wp_ret
        by (intro wpr_note_event, unfold wp_ret applied_def [symmetric], rule Q)
           (simp add: assigns_def busy_agent_def applied_def)
    qed
  qed (simp add: already)
qed

lemma unapplied_assignment:
  assumes "as_status a = ''proposed''" and "assignable w a i g" and "assigns w a i g w'"
    and "unique_on wi_id (agent_work_items w)"
  shows "board w' = (board w)(wi_id i \<mapsto> (''in_progress'', Some (ag_id g), wi_version i + 1))"
  using assms board_of_update [where P = "\<lambda>j. wi_id j = wi_id i" and f = "claimed_item (ag_id g) (clock w)"
      and r = i and items = "agent_work_items w"] unique_on_eqD [of wi_id "agent_work_items w" _ i]
  by (auto simp: assigns_def assignable_def claimed_item_def slot_of_def)

section \<open>The limit of a cycle\<close>

lemma count_update_where: "count_where Q (update_where P f rows) \<le> count_where Q rows + count_where P rows"
  by (induction rows) (auto simp: count_where_def update_where_def)

lemma count_update_one: "count_where P rows = 1 \<Longrightarrow> count_where Q (update_where P f rows) \<le> count_where Q rows + 1"
  using count_update_where [of Q P f rows] by simp

lemma wp_atomic: "wpr m Q w \<Longrightarrow> wp (atomically m) Q (\<lambda>_ t. t = w) w"
  by (auto simp: wp_def atomically_def split: prod.splits sum.splits)

lemma wpr_apply_active:
  "wpr (apply_assignment_record cfg actor a) (\<lambda>_ t. active_items owner room t \<le> active_items owner room w + 1) w"
  unfolding apply_assignment_record_def get_policy_def get_work_item_def get_agent_def Let_def wp_bind
proof (intro wpr_fetch wpr_assert_enabled, goal_cases)
  case (1 p v)
  show ?case
  proof (cases "as_status a = ''assigned''")
    case False
    show ?thesis
      unfolding if_not_P [OF False] wp_bind wp_gets put_agent_def put_assignment_def wp_modify wp_ret
    proof (intro wpr_guard wpr_fetch wpr_lift wpr_update_one wpr_note_event, goal_cases)
      case (1 i g cs)
      show ?case using count_update_one [OF 1(10)] by (simp add: active_items_def)
    qed
  qed simp
qed

interpretation work_items: untouched agent_work_items
  by unfold_locales simp

lemma propose_items: "keeps (same agent_work_items) (propose_assignment cfg owner actor p item c n)"
  unfolding propose_assignment_def assignment_defs Let_def
  by (intro work_items.keeps_store sameI) simp

text \<open>The counters of a cycle, and the room it has left.\<close>

definition counts_ok :: "nat \<Rightarrow> assignment_result \<Rightarrow> bool" where
  "counts_ok bound r \<longleftrightarrow> ar_considered r = ar_proposed r + ar_assigned r + ar_skipped r \<and>
     ar_proposed r + ar_assigned r \<le> bound"

lemma wp_query_one: "(\<And>r. Q r w) \<Longrightarrow> (\<And>e. E e w) \<Longrightarrow> wp (query_one P table) Q E w"
  by (simp add: query_one_def split: sum.splits)

lemma wp_ifI: "(c \<Longrightarrow> wp a Q E w) \<Longrightarrow> (\<not> c \<Longrightarrow> wp b Q E w) \<Longrightarrow> wp (if c then a else b) Q E w"
  by simp

lemma wp_listI:
  "(xs = [] \<Longrightarrow> wp a Q E w) \<Longrightarrow> (\<And>y ys. xs = y # ys \<Longrightarrow> wp (f y ys) Q E w) \<Longrightarrow>
     wp (case xs of [] \<Rightarrow> a | y # ys \<Rightarrow> f y ys) Q E w"
  by (cases xs) simp_all

lemmas wp_rules = wp_bind [THEN iffD2] wp_gets [THEN iffD2] wp_ret [THEN iffD2] wp_ifI wp_query_one wp_liftI wp_listI

lemma wp_assign_items:
  assumes "counts_ok bound r" and "active_items owner' room w + (bound - (ar_proposed r + ar_assigned r)) \<le> M"
  shows "wp (assign_items cfg owner actor p bound items r) (\<lambda>r t. counts_ok bound r \<and> active_items owner' room t \<le> M)
    (\<lambda>_ t. active_items owner' room t \<le> M) w"
  using assms
proof (induction items arbitrary: r w)
  case (Cons item items)
  let ?r = "r\<lparr>ar_considered := ar_considered r + 1\<rparr>"
  show ?case
  proof (cases "ar_proposed r + ar_assigned r \<ge> bound")
    case False
    have E: "active_items owner' room w \<le> M" using Cons.prems(2) by simp
    have skip: "wp (assign_items cfg owner actor p bound items (?r\<lparr>ar_skipped := ar_skipped ?r + 1\<rparr>))
        (\<lambda>r t. counts_ok bound r \<and> active_items owner' room t \<le> M) (\<lambda>_ t. active_items owner' room t \<le> M) w"
      using Cons.prems by (intro Cons.IH) (simp_all add: counts_ok_def)
    have go: "wp (assign_items cfg owner actor p bound items (?r\<lparr>ar_proposed := ar_proposed r + x, ar_assigned := ar_assigned r + y\<rparr>))
        (\<lambda>r t. counts_ok bound r \<and> active_items owner' room t \<le> M) (\<lambda>_ t. active_items owner' room t \<le> M) t"
      if "x + y = 1" "active_items owner' room t \<le> active_items owner' room w + 1" for x y t
      using Cons.prems that False by (intro Cons.IH) (simp_all add: counts_ok_def)
    have best: "wp (propose_assignment cfg owner actor p item c n) (\<lambda>a t. wp (if po_assignment_mode p = ''automatic'' then
          bindS (atomically (apply_assignment_record cfg actor a)) (\<lambda>_. assign_items cfg owner actor p bound items
            (?r\<lparr>ar_assigned := ar_assigned ?r + 1\<rparr>))
        else assign_items cfg owner actor p bound items (?r\<lparr>ar_proposed := ar_proposed ?r + 1\<rparr>))
        (\<lambda>r t. counts_ok bound r \<and> active_items owner' room t \<le> M) (\<lambda>_ t. active_items owner' room t \<le> M) t)
        (\<lambda>_ t. active_items owner' room t \<le> M) w" for c n
    proof (rule wp_keeps [OF propose_items], goal_cases)
      case (1 a t)
      then have t: "active_items owner' room t = active_items owner' room w"
        by (simp add: same_def active_items_def)
      have "wp (atomically (apply_assignment_record cfg actor a)) (\<lambda>_ t. wp (assign_items cfg owner actor p bound items
            (?r\<lparr>ar_assigned := ar_assigned ?r + 1\<rparr>)) (\<lambda>r t. counts_ok bound r \<and> active_items owner' room t \<le> M)
            (\<lambda>_ t. active_items owner' room t \<le> M) t) (\<lambda>_ t. active_items owner' room t \<le> M) t"
        by (rule wp_mono [OF wp_atomic [OF wpr_apply_active [where owner = owner' and room = room]]]) (use go [of 0 1] t E in auto)
      then show ?case using go [of 1 0 t] t by simp
    qed (use E in \<open>simp add: same_def active_items_def\<close>)
    show ?thesis
      unfolding assign_items.simps if_not_P [OF False] Let_def
      by (intro wp_rules skip best E)
  qed (use Cons.prems in simp)
qed simp

lemma suggest_items:
  "po_assignment_mode p \<noteq> ''automatic'' \<Longrightarrow> keeps (same agent_work_items) (assign_items cfg owner actor p bound items r)"
proof (induction items arbitrary: r)
  case (Cons item items)
  show ?case
    unfolding assign_items.simps Let_def if_not_P [OF Cons.prems]
    by (intro work_items.keeps_store propose_items Cons.IH Cons.prems)
qed (simp add: work_items.keeps_ret)

lemma wp_fetch_unique:
  assumes "unique_on k (table w)" and "r \<in> set (table w)" and "P r" and "\<And>x. P x \<Longrightarrow> k x = k r" and "Q r w"
  shows "wp (fetch P table d) Q E w"
proof -
  have "one_or_none P (table w) = Inr (Some r)"
    by (rule unique_on_one_or_none [where k = k]) (rule assms(1-4), assumption?)+
  then show ?thesis using assms(5) by (simp add: fetch_def query_one_def)
qed

lemma wp_both:
  "wp m P E w \<Longrightarrow> wp m Q F w \<Longrightarrow> wp m (\<lambda>x t. P x t \<and> Q x t) (\<lambda>e t. E e t \<and> F e t) w"
  by (auto simp: wp_def split: prod.splits sum.splits)

text \<open>A state a cycle of policy \<open>p\<close> may leave when it started in \<open>w\<close>.\<close>

definition in_limits :: "AutonomyPolicy \<Rightarrow> gdb \<Rightarrow> gdb \<Rightarrow> bool" where
  "in_limits p w t \<longleftrightarrow> int (active_items (po_owner_subject p) (po_room_id p) t) \<le>
      max (int (active_items (po_owner_subject p) (po_room_id p) w)) (po_max_parallel_assignments p) \<and>
     (po_assignment_mode p \<noteq> ''automatic'' \<longrightarrow> agent_work_items t = agent_work_items w)"

lemma assign_in_limits:
  assumes "bound \<le> 100" and "po_assignment_mode p = ''automatic'' \<Longrightarrow>
      int (active_items (po_owner_subject p) (po_room_id p) w) + int bound \<le> po_max_parallel_assignments p"
  shows "wp (assign_items cfg (po_owner_subject p) actor p bound items \<lparr>ar_considered = 0, ar_proposed = 0, ar_assigned = 0, ar_skipped = 0\<rparr>)
    (\<lambda>r t. counts_ok 100 r \<and> in_limits p w t) (\<lambda>_. in_limits p w) w"
proof -
  let ?M = "active_items (po_owner_subject p) (po_room_id p) w + bound"
  have counts: "wp (assign_items cfg (po_owner_subject p) actor p bound items \<lparr>ar_considered = 0, ar_proposed = 0, ar_assigned = 0, ar_skipped = 0\<rparr>)
      (\<lambda>r t. counts_ok bound r \<and> active_items (po_owner_subject p) (po_room_id p) t \<le> ?M)
      (\<lambda>_ t. active_items (po_owner_subject p) (po_room_id p) t \<le> ?M) w"
    by (rule wp_assign_items) (simp_all add: counts_ok_def)
  show ?thesis
  proof (cases "po_assignment_mode p = ''automatic''")
    case True
    show ?thesis
      by (rule wp_mono [OF counts]) (use assms(1) assms(2) [OF True] True in \<open>auto simp: counts_ok_def in_limits_def\<close>)
  next
    case False
    have "wp (assign_items cfg (po_owner_subject p) actor p bound items \<lparr>ar_considered = 0, ar_proposed = 0, ar_assigned = 0, ar_skipped = 0\<rparr>)
        (\<lambda>_. same agent_work_items w) (\<lambda>_. same agent_work_items w) w"
      by (rule wp_keeps [OF suggest_items [OF False]])
    from wp_both [OF counts this] show ?thesis
      by (rule wp_mono) (use assms(1) in \<open>auto simp: counts_ok_def in_limits_def same_def active_items_def\<close>)
  qed
qed

lemma wp_run_assignment_cycle:
  assumes u: "unique_on po_id (autonomy_policies w)" and p: "p \<in> set (autonomy_policies w)"
  shows "wp (run_assignment_cycle cfg (po_owner_subject p) (po_id p) actor limit)
    (\<lambda>r t. counts_ok 100 r \<and> in_limits p w t) (\<lambda>_. in_limits p w) w"
  unfolding run_assignment_cycle_def get_policy_def Let_def wp_bind
proof (rule wp_fetch_unique [where k = po_id and r = p], goal_cases)
  case 5
  have E: "in_limits p w w" by (simp add: in_limits_def)
  let ?bound = "\<lambda>n. if po_assignment_mode p = ''automatic''
    then min n (max 0 (po_max_parallel_assignments p - int (active_items (po_owner_subject p) (po_room_id p) w))) else n"
  have bound: "nat (?bound n) \<le> 100"
      "po_assignment_mode p = ''automatic'' \<Longrightarrow> int (active_items (po_owner_subject p) (po_room_id p) w) + int (nat (?bound n)) \<le>
        po_max_parallel_assignments p"
    if "bounded_int v f 1 100 d = Inr n" "\<not> ?bound n \<le> 0" for n v f d
    using bounded_int_Inr [OF that(1)] that(2) by (auto simp: min_def max_def split: if_splits)
  show ?case
    by (intro wp_assert_enabled wp_rules E assign_in_limits bound) (simp_all add: counts_ok_def E)
qed (use u p in auto)

section \<open>Overrides\<close>

lemma control_snapshot_cong:
  assumes "clock w' = clock w" and "autonomy_control_states w' = autonomy_control_states w"
  shows "fst (control_snapshot cfg owner room_id policy_id w') = fst (control_snapshot cfg owner room_id policy_id w)"
proof -
  have "fst (snapshot_loop now scopes acc w') = fst (snapshot_loop now scopes acc w)" for now scopes acc
  proof (induction scopes arbitrary: acc)
    case (Cons sc scopes)
    obtain a b c where "sc = (a, b, c)" by (cases sc)
    moreover obtain e r g where "acc = (e, r, g)" by (cases acc)
    ultimately show ?case
      using Cons assms(2) by (simp add: control_row_def query_one_def bindS_def gets_def liftE_def ret_def Let_def
          split: sum.splits option.splits)
  qed (simp add: ret_def)
  note this [of "clock w" "control_scopes owner room_id policy_id" "(''enabled'', None, [])"]
  then show ?thesis
    using assms(1) by (auto simp: control_snapshot_def bindS_def gets_def ret_def split: prod.splits sum.splits)
qed

lemma permitted_cong:
  assumes "permitted cfg w' a p" and "clock w' = clock w" and "autonomy_control_states w' = autonomy_control_states w"
    and "autonomy_policies w' = autonomy_policies w"
  shows "permitted cfg w a p"
  using assms(1) unfolding permitted_def control_snapshot_cong [OF assms(2,3)] assms(4) .

lemma update_last:
  "\<forall>r \<in> set rows. k r \<noteq> c \<Longrightarrow> k x = c \<Longrightarrow> update_where (\<lambda>r. k r = c) (\<lambda>_. y) (rows @ [x]) = rows @ [y]"
  using update_where_none [of rows "\<lambda>r. k r = c" "\<lambda>_. y"] by (simp add: update_where_def)

text \<open>What each action leaves behind.\<close>

definition forced :: "gw_settings \<Rightarrow> string \<Rightarrow> gdb \<Rightarrow> gdb \<Rightarrow> bool" where
  "forced cfg owner w w' \<longleftrightarrow> (\<exists>a p i g. as_owner_subject a = owner \<and> permitted cfg w a p \<and> assignable w a i g \<and>
     agent_work_items w' = update_where (\<lambda>j. wi_id j = wi_id i) (claimed_item (ag_id g) (clock w)) (agent_work_items w) \<and>
     autonomy_assignments w' = autonomy_assignments w @ [applied (clock w) a])"

definition withdrawn :: "string \<Rightarrow> gdb \<Rightarrow> gdb \<Rightarrow> bool" where
  "withdrawn owner w w' \<longleftrightarrow> (\<exists>a \<in> set (autonomy_assignments w). as_owner_subject a = owner \<and>
     autonomy_assignments w' = update_where (\<lambda>b. as_id b = as_id a) (\<lambda>_. a\<lparr>as_status := ''revoked'',
       as_revoked_at := Some (clock w), as_updated_at := clock w\<rparr>) (autonomy_assignments w) \<and>
     (as_status a = ''assigned'' \<longrightarrow> (\<forall>i \<in> set (agent_work_items w'). wi_id i = as_work_item_id a \<longrightarrow>
        \<not> (wi_status i = ''in_progress'' \<and> wi_assigned_agent_id i = Some (as_selected_agent_id a)))))"

definition scope_cleared :: "AutonomyOverrideCreate \<Rightarrow> (string option \<Rightarrow> string option \<Rightarrow> bool) \<Rightarrow> bool" where
  "scope_cleared data cleared \<longleftrightarrow> (\<exists>room policy. optional_text (oc_room_id data) 36 = Inr room \<and>
     optional_text (oc_policy_id data) 36 = Inr policy \<and> cleared room policy)"

definition override_effect :: "gw_settings \<Rightarrow> string \<Rightarrow> AutonomyOverrideCreate \<Rightarrow> gdb \<Rightarrow> gdb \<Rightarrow> bool" where
  "override_effect cfg owner data w w' \<longleftrightarrow>
     (if oc_action data = ''force_assign'' then forced cfg owner w w'
      else if oc_action data = ''revoke_assignment'' then withdrawn owner w w'
      else if oc_action data = ''revoke_permits'' then scope_cleared data (\<lambda>room policy.
        \<forall>p \<in> set (execution_permits w'). \<not> revocable owner room policy w' p)
      else oc_action data = ''cancel_recoveries'' \<and> scope_cleared data (\<lambda>room policy.
        \<forall>l \<in> set (recovery_loops w'). \<not> restrictable owner room policy l))"

lemma wpr_override_policy: "(\<And>p. Q p w) \<Longrightarrow> wpr (override_policy owner room_id policy_id) Q w"
  unfolding override_policy_def get_policy_def by (auto intro!: wpr_fetch split: option.splits list.splits)

lemma wpr_force_assign:
  assumes u: "unique_on wi_id (agent_work_items w)" and ua: "unique_on ag_id (agent_instances w)"
  shows "wpr (force_assign cfg owner actor data reason evidence) (\<lambda>_ t. forced cfg owner w t) w"
  unfolding force_assign_def get_work_item_def get_agent_def add_assignment_def Let_def wp_bind wp_gets
proof (intro wpr_lift wpr_fetch wpr_override_policy wpr_new_id wpr_insert_row, goal_cases)
  case (1 item_id agent_id i policy_id p g n k)
  let ?a = "\<lparr>as_id = n, as_owner_subject = owner, as_room_id = wi_room_id i, as_policy_id = po_id p,
    as_work_item_id = wi_id i, as_selected_agent_id = agent_id, as_status = ''proposed'', as_score = 1000000,
    as_rationale = [(''forced'', JBool True), (''reason'', JStr reason)], as_policy_generation = po_generation p,
    as_work_item_version = wi_version i, as_idempotency_key = Some (''override:'' @ k), as_created_by_subject = actor,
    as_applied_at = None, as_revoked_at = None, as_created_at = clock w, as_updated_at = clock w\<rparr>"
  have new: "\<forall>b \<in> set (autonomy_assignments w). as_id b \<noteq> n" using 1 by (auto simp: list_ex_iff)
  show ?case
  proof (rule wpr_apply_assignment_record, goal_cases)
    case (4 p' i' g' w')
    have "permitted cfg w ?a p'"
      by (rule permitted_cong [OF 4(2)]) simp_all
    moreover have "assignable w ?a i' g'" using 4(3) by (simp add: assignable_def)
    moreover have "agent_work_items w' = update_where (\<lambda>j. wi_id j = wi_id i') (claimed_item (ag_id g') (clock w)) (agent_work_items w)"
      using 4(4) by (simp add: assigns_def)
    moreover have "autonomy_assignments w' = autonomy_assignments w @ [applied (clock w) ?a]"
      using 4(4) new by (simp add: assigns_def update_last del: update_where_append)
    moreover have "as_owner_subject ?a = owner" by simp
    ultimately show ?case unfolding forced_def wp_ret by blast
  qed (use u ua in simp_all)
qed

lemma wpr_reopen_item:
  assumes u: "unique_on wi_id (agent_work_items w)" and ua: "unique_on ag_id (agent_instances w)"
  shows "wpr (reopen_item a owner) (\<lambda>_ t. clock t = clock w \<and> autonomy_assignments t = autonomy_assignments w \<and>
    (\<forall>i \<in> set (agent_work_items t). wi_id i = as_work_item_id a \<longrightarrow>
       \<not> (wi_status i = ''in_progress'' \<and> wi_assigned_agent_id i = Some (as_selected_agent_id a)))) w"
  unfolding reopen_item_def get_work_item_def get_agent_def wp_bind wp_gets put_item_def put_agent_def
proof (intro wpr_fetch, goal_cases)
  case (1 i g)
  have only: "j = i" if "j \<in> set (agent_work_items w)" "wi_id j = as_work_item_id a" for j
    using unique_on_eqD [OF u that(1) 1(1)] that(2) 1(2) by simp
  let ?i = "i\<lparr>wi_status := ''open'', wi_assigned_agent_id := None, wi_version := wi_version i + 1, wi_updated_at := clock w\<rparr>"
  have kept: "wi_status j = ''open''"
    if "j \<in> set (update_where (\<lambda>q. wi_id q = wi_id ?i) (\<lambda>_. ?i) (agent_work_items w))" "wi_id j = as_work_item_id a" for j
    using that(1)
  proof (cases rule: in_update_where)
    case kept
    then show ?thesis using that(2) 1(2) by simp
  qed simp
  have left: "\<not> (wi_status j = ''in_progress'' \<and> wi_assigned_agent_id j = Some (as_selected_agent_id a))"
    if "\<not> (wi_assigned_agent_id i = Some (ag_id g) \<and> wi_status i = ''in_progress'')"
      "j \<in> set (agent_work_items w)" "wi_id j = as_work_item_id a" for j
    using only [OF that(2,3)] that(1) 1(4) by auto
  show ?case
  proof (cases "wi_assigned_agent_id i = Some (ag_id g) \<and> wi_status i = ''in_progress''")
    case True
    obtain rows where rows: "rows = update_where (\<lambda>q. wi_id q = wi_id ?i) (\<lambda>_. ?i) (agent_work_items w)" by simp
    show ?thesis
      using kept unfolding if_P [OF True] wp_bind wp_modify rows [symmetric] by auto
  next
    case False
    show ?thesis unfolding if_not_P [OF False] wp_ret using left [OF False] by blast
  qed
qed

lemma wpr_revoke_assignment:
  assumes u: "unique_on wi_id (agent_work_items w)" and ua: "unique_on ag_id (agent_instances w)"
  shows "wpr (revoke_assignment owner data evidence) (\<lambda>_ t. withdrawn owner w t) w"
  unfolding revoke_assignment_def get_assignment_def wp_bind
proof (intro wpr_lift wpr_fetch, goal_cases)
  case (1 i a)
  show ?case
  proof (cases "as_status a = ''assigned''")
    case True
    show ?thesis
      unfolding if_P [OF True] put_assignment_def wp_bind wp_gets wp_modify wp_ret
      by (rule wpr_mono [OF wpr_reopen_item [OF u ua]]) (use 1 in \<open>auto simp: withdrawn_def intro!: bexI [of _ a]\<close>)
  next
    case False
    then show ?thesis
      using 1 by (auto simp: put_assignment_def withdrawn_def intro!: bexI [of _ a])
  qed
qed

lemma wpr_override_scope:
  assumes "\<And>room policy. wpr (act room policy) (\<lambda>_ t. P t room policy) w"
  shows "wpr (override_scope data act counter evidence) (\<lambda>_ t. scope_cleared data (P t)) w"
  unfolding override_scope_def wp_bind
proof (intro wpr_lift, goal_cases)
  case (1 room policy)
  show ?case
    by (rule wpr_mono [OF assms]) (use 1 in \<open>auto simp: scope_cleared_def\<close>)
qed

lemma override_permits:
  "wpr (revoke_permits owner reason room policy) (\<lambda>_ t. \<forall>p \<in> set (execution_permits t). \<not> revocable owner room policy t p) w"
  by (simp add: wp_def revoke_permits_eq) (auto elim: in_update_where)

lemma override_recoveries:
  "wpr (pause_or_cancel_recoveries owner ''killed'' room policy)
     (\<lambda>_ t. \<forall>l \<in> set (recovery_loops t). \<not> restrictable owner room policy l) w"
  by (simp add: wp_def pause_or_cancel_eq) (auto elim!: in_update_where dest: stop_stopped)

lemma wpr_both: "wpr m P w \<Longrightarrow> wpr m Q w \<Longrightarrow> wpr m (\<lambda>x t. P x t \<and> Q x t) w"
  by (auto simp: wp_def split: prod.splits sum.splits)

interpretation overrides: untouched autonomy_overrides
  by unfold_locales simp

lemma same_assert_enabled: "keeps (same t) (assert_enabled cfg owner room_id p)"
  by (simp add: keeps_def same_def snd_assert_enabled)

lemma overrides_apply: "keeps (same autonomy_overrides) (apply_assignment_record cfg actor a)"
  unfolding apply_assignment_record_def assignment_defs update_one_def put_agent_def Let_def
  by (intro overrides.keeps_store same_assert_enabled sameI; simp)

lemma overrides_action: "keeps (same autonomy_overrides) (override_action cfg owner actor data reason evidence)"
  unfolding override_action_def force_assign_def revoke_assignment_def override_scope_def override_policy_def
    reopen_item_def assignment_defs put_item_def put_agent_def Let_def
  by (intro overrides.keeps_store overrides_apply sameI)
     (simp_all add: revoke_permits_def pause_or_cancel_recoveries_def Let_def keeps_def same_def)

lemma wpr_override_action:
  assumes u: "unique_on wi_id (agent_work_items w)" and ua: "unique_on ag_id (agent_instances w)"
  shows "wpr (override_action cfg owner actor data reason evidence) (\<lambda>_ t. override_effect cfg owner data w t) w"
  unfolding override_action_def override_effect_def
  using wpr_force_assign [OF u ua] wpr_revoke_assignment [OF u ua]
    wpr_override_scope [of "revoke_permits owner reason", OF override_permits]
    wpr_override_scope [of "pause_or_cancel_recoveries owner ''killed''", OF override_recoveries]
  by (auto intro!: wp_ifI)

section \<open>Properties\<close>

definition lab_policy :: "string \<Rightarrow> AutonomyPolicy" where
  "lab_policy mode = auto_policy\<lparr>po_assignment_mode := mode\<rparr>"

definition lab_work :: "string \<Rightarrow> gdb" where
  "lab_work mode = lab_db\<lparr>autonomy_policies := [lab_policy mode]\<rparr>"

definition lab_proposal :: AutonomyAssignment where
  "lab_proposal = \<lparr>as_id = ''s1'', as_owner_subject = ''ann'', as_room_id = ''r1'', as_policy_id = ''p1'',
     as_work_item_id = ''t1'', as_selected_agent_id = ''a1'', as_status = ''proposed'', as_score = 900,
     as_rationale = [], as_policy_generation = 1, as_work_item_version = 1, as_idempotency_key = None,
     as_created_by_subject = ''ann'', as_applied_at = None, as_revoked_at = None, as_created_at = 0, as_updated_at = 0\<rparr>"

definition lab_proposed :: gdb where
  "lab_proposed = lab_work ''suggest''\<lparr>autonomy_assignments := [lab_proposal]\<rparr>"

definition lab_force :: AutonomyOverrideCreate where
  "lab_force = \<lparr>oc_action = ''force_assign'', oc_reason = ''urgent'', oc_room_id = None, oc_policy_id = None,
     oc_work_item_id = Some ''t1'', oc_agent_id = Some ''a2'', oc_assignment_id = None, oc_evidence = []\<rparr>"

lemma lab_unique:
  "unique_on wi_id (agent_work_items (lab_work mode))" "unique_on ag_id (agent_instances (lab_work mode))"
  by (simp_all add: lab_work_def lab_db_def lab_item_def lab_agent_def auto_agent_def unique_on_def)

lemma lab_apply_run:
  "answers (apply_assignment auto_cfg ''ann'' ''s1'' ''ann'' lab_proposed) (\<lambda>a w'. as_status a = ''assigned'')"
  by code_simp

lemma lab_cycle_run:
  "answers (run_assignment_cycle auto_cfg ''ann'' ''p1'' ''worker'' None (lab_work ''automatic''))
     (\<lambda>r w'. ar_assigned r = 1 \<and> active_items ''ann'' ''r1'' w' = 1)"
  by code_simp

lemma lab_force_run:
  "answers (apply_override auto_cfg ''ann'' ''root'' [''gateway-admin''] lab_force (lab_work ''manual''))
     (\<lambda>v w'. length (autonomy_assignments w') = 1)"
  by code_simp

text \<open>
  C24: An assignment that is not yet applied is applied only when its policy is active, in the
  generation it was proposed under and not paused or killed for its room; its work item is open,
  unassigned, at the recorded version, with all dependencies completed; and the selected agent is in
  the room of the item, free, not expired, not excluded, and has the capabilities and labels the item asks for. Then
  exactly the item, the agent and the assignment change. Applying it again changes nothing.
\<close>

theorem apply_assignment_sound:
  assumes u: "unique_on wi_id (agent_work_items w)" and ua: "unique_on ag_id (agent_instances w)"
    and run: "apply_assignment cfg owner aid actor w = (Inr a', w')"
  shows "\<exists>a \<in> set (autonomy_assignments w). as_id a = aid \<and> as_owner_subject a = owner \<and>
    (as_status a = ''assigned'' \<and> a' = a \<and> w' = w \<or>
     as_status a = ''proposed'' \<and> a' = applied (clock w) a \<and>
     (\<exists>p i g. permitted cfg w a p \<and> assignable w a i g \<and> assigns w a i g w'))"
proof -
  have "wpr (apply_assignment cfg owner aid actor) (\<lambda>a' w'. \<exists>a \<in> set (autonomy_assignments w).
      as_id a = aid \<and> as_owner_subject a = owner \<and> (as_status a = ''assigned'' \<and> a' = a \<and> w' = w \<or>
      as_status a = ''proposed'' \<and> a' = applied (clock w) a \<and>
      (\<exists>p i g. permitted cfg w a p \<and> assignable w a i g \<and> assigns w a i g w'))) w"
    unfolding apply_assignment_def get_assignment_def
    by (rule wpr_atomically, unfold wp_bind, intro wpr_fetch wpr_apply_assignment_record u ua) blast+
  then show ?thesis using run by (rule wp_InrD)
qed

theorem apply_assignment_sound_witness:
  "\<exists>a' w'. apply_assignment auto_cfg ''ann'' ''s1'' ''ann'' lab_proposed = (Inr a', w') \<and>
     as_applied_at a' = Some 1000 \<and> (\<exists>i g. assignable lab_proposed lab_proposal i g)"
proof -
  have u: "unique_on wi_id (agent_work_items lab_proposed)" "unique_on ag_id (agent_instances lab_proposed)"
    using lab_unique by (simp_all add: lab_proposed_def)
  have rows: "autonomy_assignments lab_proposed = [lab_proposal]" "clock lab_proposed = 1000"
    by (simp_all add: lab_proposed_def lab_work_def lab_db_def auto_db_def)
  have "as_status lab_proposal = ''proposed''" by (simp add: lab_proposal_def)
  then show ?thesis
    using answersD [OF lab_apply_run] apply_assignment_sound [OF u] by (fastforce simp: rows applied_def)
qed

text \<open>
  C25: Whatever it answers, a cycle of the worker never takes the number of items in progress in the
  room of its policy above the limit of the policy; under any mode but the automatic one it touches
  no work item. A cycle that returns has counted every item it considered once, as proposed,
  assigned or skipped, and has made at most a hundred proposals.
\<close>

theorem cycle_within_limits:
  assumes u: "unique_on po_id (autonomy_policies w)" and p: "p \<in> set (autonomy_policies w)"
    and run: "run_assignment_cycle cfg (po_owner_subject p) (po_id p) actor limit w = (r, w')"
  shows "int (active_items (po_owner_subject p) (po_room_id p) w') \<le>
      max (int (active_items (po_owner_subject p) (po_room_id p) w)) (po_max_parallel_assignments p) \<and>
    (po_assignment_mode p \<noteq> ''automatic'' \<longrightarrow> agent_work_items w' = agent_work_items w) \<and>
    (\<forall>n. r = Inr n \<longrightarrow> ar_considered n = ar_proposed n + ar_assigned n + ar_skipped n \<and>
      ar_proposed n + ar_assigned n \<le> 100)"
proof -
  have "in_limits p w w' \<and> (\<forall>n. r = Inr n \<longrightarrow> counts_ok 100 n)"
    using wp_run_assignment_cycle [OF u p, of cfg actor limit] run by (auto simp: wp_def split: sum.splits)
  then show ?thesis by (simp add: in_limits_def counts_ok_def)
qed

theorem cycle_within_limits_witness:
  "\<exists>n w'. run_assignment_cycle auto_cfg ''ann'' ''p1'' ''worker'' None (lab_work ''automatic'') = (Inr n, w') \<and>
     ar_assigned n = 1 \<and> ar_considered n = 1 + ar_proposed n + ar_skipped n \<and> int (active_items ''ann'' ''r1'' w') \<le> 1"
proof -
  have p: "unique_on po_id (autonomy_policies (lab_work ''automatic''))"
      "lab_policy ''automatic'' \<in> set (autonomy_policies (lab_work ''automatic''))"
    by (simp_all add: lab_work_def unique_on_def)
  have cols: "po_owner_subject (lab_policy m) = ''ann''" "po_id (lab_policy m) = ''p1''" "po_room_id (lab_policy m) = ''r1''"
      "po_max_parallel_assignments (lab_policy m) = 1" for m
    by (simp_all add: lab_policy_def auto_policy_def)
  have idle: "active_items ''ann'' ''r1'' (lab_work ''automatic'') = 0" by code_simp
  obtain n w' where run: "run_assignment_cycle auto_cfg ''ann'' ''p1'' ''worker'' None (lab_work ''automatic'') = (Inr n, w')"
      "ar_assigned n = 1"
    using answersD [OF lab_cycle_run] by blast
  from cycle_within_limits [OF p, unfolded cols idle, OF run(1)] run show ?thesis by auto
qed



section \<open>Suggestions that get in the way\<close>

text \<open>
  A suggestion that an operator revokes leaves its idempotency key behind while the item stays open at
  its version: the next cycle proposes the item under the same key, and the unique
  constraint ends the cycle with an error nobody handles. The worker goes on to the next policy only
  after an \<open>HTTPException\<close>, so the policies behind this one, of whatever owner, get no cycle either.
\<close>

definition lab_withdraw :: AutonomyOverrideCreate where
  "lab_withdraw = \<lparr>oc_action = ''revoke_assignment'', oc_reason = ''not him'', oc_room_id = None, oc_policy_id = None,
     oc_work_item_id = None, oc_agent_id = None, oc_assignment_id = Some ''0'', oc_evidence = []\<rparr>"

definition bob_policy :: AutonomyPolicy where
  "bob_policy = lab_policy ''automatic''\<lparr>po_id := ''p2'', po_owner_subject := ''bob'', po_room_id := ''r2'', po_created_at := 1\<rparr>"

definition lab_two :: gdb where
  "lab_two = (lab_work ''suggest'')\<lparr>autonomy_policies := [lab_policy ''suggest'', bob_policy],
     agent_instances := [lab_agent ''a1'', (lab_agent ''b1'')\<lparr>ag_owner_subject := ''bob'', ag_current_room_id := Some ''r2''\<rparr>],
     agent_work_items := [lab_item ''t1'' ''open'' [], (lab_item ''t2'' ''open'' [])\<lparr>wi_owner_subject := ''bob'', wi_room_id := ''r2''\<rparr>]\<rparr>"

definition lab_revoked :: gdb where
  "lab_revoked = snd (apply_override auto_cfg ''ann'' ''root'' [''gateway-admin''] lab_withdraw
     (snd (run_assignment_cycle auto_cfg ''ann'' ''p1'' ''worker'' None lab_two)))"

lemma revoked_suggestion_ends_round:
  "fst (run_assignment_cycle auto_cfg ''ann'' ''p1'' ''worker'' None lab_revoked) = Inl IntegrityError"
  "fst (worker_round auto_cfg lab_revoked) = Inl IntegrityError"
  "map wi_status (agent_work_items (snd (worker_round auto_cfg lab_revoked))) = [''open'', ''open'']"
  "map wi_status (agent_work_items (snd (worker_round auto_cfg lab_two))) = [''open'', ''in_progress'']"
  by code_simp+

text \<open>
  A suggestion made under an older generation of the policy can no longer be applied, and while it
  stands the item is skipped by every later cycle.
\<close>

lemma stale_suggestion_blocks:
  "answers (run_assignment_cycle auto_cfg ''ann'' ''p1'' ''worker'' None
       (lab_proposed\<lparr>autonomy_policies := [(lab_policy ''automatic'')\<lparr>po_generation := 2\<rparr>]\<rparr>))
     (\<lambda>r w'. ar_skipped r = 1 \<and> ar_assigned r = 0)"
  "fst (apply_assignment auto_cfg ''ann'' ''s1'' ''ann''
       (lab_proposed\<lparr>autonomy_policies := [(lab_policy ''automatic'')\<lparr>po_generation := 2\<rparr>]\<rparr>)) =
     Inl (HTTPException 409 ''Assignment policy generation is stale'')"
  by code_simp+

end
