(* ===== verification/Spec2Isabelle.thy ===== *)
theory Spec2Isabelle
  imports Chat_Context_Correct Command_Policy_Correct Autonomy_Stop Recovery_Correct Outbox_Run Handoff_Correct Assignment_Correct
begin

text \<open>
  This development models the agent services of the gateway API,
  \<open>src/services/gateway-api/gateway_api\<close>, and proves what makes them safe to run: who may make an
  agent execute a tool, how autonomous work is stopped, how agents exchange messages, commands and
  work items, how events leave the database, and how a conversation is tied to its context code.

  \<^bold>\<open>The parts and how they interact.\<close> All services work on one database session. The chat context
  service leases short codes to conversations; the MCP layer admits a tool call only under such a
  code. The collaboration service keeps agents, rooms, messages, commands and work items. A command
  that runs a tool is privileged: the autonomy service asks for an approval bound to the hash of the
  command, counts votes, issues a single-use permit under the current policy and control
  generations, lets the executor claim it, and records a receipt; the collaboration service accepts
  and completes the command only on those records. Recovery loops issue such commands again after a
  failure, and assignments hand open work items to eligible agents under the limits of a policy.
  Every service writes an audit event in the same transaction; with the outbox on, the
  event is also queued, and the publisher hands it to the broker.

  \<^bold>\<open>Theories and sources.\<close>
  \<^item> \<open>Gateway_Prelude\<close>: named collections, lemmas on lists and rows, the errors (\<open>err\<close>) and result
    types. \<open>State_Result\<close>: the state and error monad of a service call (\<open>gw\<close>), its weakest
    precondition rules, \<open>atomically\<close> (a session that rolls back on an exception), \<open>on_conflict\<close>
    (\<open>except IntegrityError\<close>). \<open>Py_Values\<close>: JSON values, \<open>str\<close>, \<open>strip\<close>, truthiness, dicts in
    insertion order.
  \<^item> \<open>Gateway_Models\<close>: the rows of \<open>models.py\<close> as records, the settings, and the database
    \<open>gdb\<close> with its clock and source of identifiers. \<open>Gateway_Store\<close>: queries, inserts with unique
    constraints, \<open>emit_event\<close> of \<open>events.py\<close>, argument checks. \<open>Store_Frames\<close>: which tables a call
    leaves alone and how rows move, as the locales \<open>store_relation\<close>, \<open>untouched\<close> and \<open>row_moves\<close>,
    which the components interpret for their own tables.
  \<^item> \<open>Command_Policy\<close>, \<open>Command_Policy_Correct\<close>: \<open>agent_command_policy.py\<close>, and what an emitted
    event records.
  \<^item> \<open>Chat_Context\<close>, \<open>Chat_Context_Invariant\<close>, \<open>Chat_Context_Calls\<close>, \<open>Chat_Context_Correct\<close>:
    \<open>chat_context.py\<close>, the admission of tools in \<open>mcp_chat_context.py\<close> and the writing endpoints of
    \<open>routers/chat_contexts.py\<close>.
  \<^item> \<open>Autonomy_Policy\<close> (policies and controls), \<open>Autonomy_Approval\<close> (requests and votes),
    \<open>Autonomy_Permit\<close> (permits and receipts): \<open>agent_autonomy.py\<close>. \<open>Autonomy_Safety\<close>,
    \<open>Autonomy_Calls\<close>, \<open>Autonomy_Control\<close>, \<open>Autonomy_Correct\<close>, \<open>Autonomy_Stop\<close>: the invariant, the
    calls as a step relation, and the properties.
  \<^item> \<open>Agent_Collaboration\<close>: \<open>agent_collaboration.py\<close>. \<open>Collaboration_Commands\<close>,
    \<open>Collaboration_Messages\<close>, \<open>Collaboration_Items\<close>, \<open>Collaboration_Correct\<close>: the life cycle of
    commands, the message log, work items, and the properties.
  \<^item> \<open>Autonomy_Recovery\<close>, \<open>Recovery_Cycle\<close>, \<open>Recovery_Correct\<close>: the recovery loops of
    \<open>agent_autonomy.py\<close> on top of the commands of the collaboration service.
  \<^item> \<open>Autonomy_Assignment\<close>: assignments, overrides and the worker of \<open>agent_autonomy.py\<close>. \<open>Work_Board\<close>: the
    work items as an abstract board that the calls of both services implement.
    \<open>Assignment_Correct\<close>: what an assignment checks, the limits of a cycle, the effect of an override.
  \<^item> \<open>Path_Reservations\<close> (paths, globs, reservations), \<open>Agent_Coordination\<close> (leases),
    \<open>Coordination_Handoff\<close> (writes, conflicts, handoffs, integrations): \<open>agent_coordination.py\<close>.
    \<open>Reservation_Overlap\<close>, \<open>Coordination_Leases\<close>, \<open>Coordination_Correct\<close>, \<open>Handoff_Correct\<close>: what the
    overlap test finds, the leases under every call, and the properties.
  \<^item> \<open>Outbox\<close>, \<open>Outbox_Steps\<close>, \<open>Outbox_Correct\<close>, \<open>Outbox_Run\<close>: \<open>outbox.py\<close> with the broker as a
    parameter.

  \<^bold>\<open>How the state corresponds.\<close> A table is the list of its rows in insertion order, a row a record
  with the columns of the class in \<open>models.py\<close> under a two-letter prefix, a time a number of
  microseconds. A service method is a function of its arguments to a \<open>gw\<close> computation: it reads and
  writes the database and answers a value or an \<open>err\<close>, one constructor per exception the code raises.
  Methods that commit more than once are several \<open>atomically\<close> blocks in a row. The calls of a
  component form a datatype; a step runs one call, and the invariants are proved for every state that
  any sequence of steps reaches, so that requests of different users interleave freely at the
  granularity of a call.

  \<^bold>\<open>What is shown.\<close> Autonomy: a receipt rests on a consumed permit, an approved request for the same
  payload and a quorum of voters; a claim checks everything it should; a pause or kill leaves nothing
  running and lets nothing start. Commands, messages and work items: life cycles, a gapless log,
  delivery, exclusive claims; the work items refine one abstract board, whose versions fence every change.
  Assignments: only what policy, controls, item and agent allow, within the limit of the policy; overrides are
  recorded and do no more than they say. Leases: exclusive and
  fenced, writes only under a valid lease, handoffs and integrations without hard conflicts.
  Recovery: bounded attempts, bounded back-off, the stop switch. Outbox:
  bounded attempts, a claim is settled at most once, a run settles what it claims. Chat contexts:
  unique live codes, sound admission, round trips. Command policy: the checks agree with their
  declarative meaning.

  \<^bold>\<open>Fuel and termination.\<close> Every definition is total. The one loop of the code with a budget,
  the allocation of a code, recurses on the number of attempts the settings allow; every other loop
  of the code runs over a finite list of rows and is structural recursion. Matching a glob, which
  backtracks at a star, terminates by the length of pattern and text together.

  \<^bold>\<open>Simplifications.\<close> A call reads the clock once, where the code calls \<open>utcnow\<close> more than once within
  a request. Queries see the rows a transaction has added. Unique and check constraints are
  modelled; foreign keys and column lengths are not. Characters are code points below 256. Retry delays given in
  fractions of a second are microseconds. SHA-256, HMAC, the random source, the source of
  identifiers and the broker are parameters. Request bodies are the records of \<open>dto.py\<close>, after
  pydantic has checked their types.

  \<^bold>\<open>Not modelled.\<close> The projection of approvals to AFFiNE and telemetry (both off by default); the timer of the
  autonomy worker and the metrics of \<open>agent_autonomy.py\<close>; replicas, realtime routes, metrics and timers of the outbox worker; MCP
  federation, upstream servers and OAuth, which are network protocols; routers, authentication, thin
  clients, usage accounting and migrations, which are I/O around the services. The pending
  approval requests that the MCP broker stores appear as an environment step of the autonomy
  component.
\<close>

section \<open>Work items across the services\<close>

text \<open>
  C22: The work items implement an abstract board, a map from identifiers to status, holder and version:
  every call of the collaboration service, every assignment, cycle of the worker and override
  is a sequence of steps of the board, each of which creates an open item, claims an open one,
  moves a held one on under its holder, or reopens one that is in progress, and counts the version up by one.
\<close>

theorem work_board_refined:
  assumes "unique_on wi_id (agent_work_items w)"
  shows "board_step\<^sup>*\<^sup>* (board_of (agent_work_items w)) (board_of (agent_work_items (work_step cfg call w))) \<and>
    unique_on wi_id (agent_work_items (work_step cfg call w))"
  using on_board_work [of w cfg call] assms by (simp add: on_board_def)

theorem work_board_refined_witness:
  "board_step\<^sup>*\<^sup>* (board_of (agent_work_items (lab_work ''automatic'')))
     (board_of (agent_work_items (work_step auto_cfg (AssignmentCycle ''ann'' ''p1'' ''worker'' None) (lab_work ''automatic''))))"
  using work_board_refined [OF lab_unique(1)] by blast

text \<open>
  C23: The version of a work item fences it: in any run of the services no item is lost, an item is open
  exactly when nobody holds it, versions never go back, and an item with the version it had
  earlier has kept its status and its holder.
\<close>

theorem item_version_fences:
  assumes run: "work_run cfg w w'" and u: "unique_on wi_id (agent_work_items w)"
    and ok: "\<forall>i \<in> set (agent_work_items w). wi_status i = ''open'' \<longleftrightarrow> wi_assigned_agent_id i = None"
  shows "(\<forall>i \<in> set (agent_work_items w'). wi_status i = ''open'' \<longleftrightarrow> wi_assigned_agent_id i = None) \<and>
    (\<forall>i \<in> set (agent_work_items w). \<exists>j \<in> set (agent_work_items w'). wi_id j = wi_id i \<and> wi_version i \<le> wi_version j \<and>
       (wi_version j = wi_version i \<longrightarrow> wi_status j = wi_status i \<and> wi_assigned_agent_id j = wi_assigned_agent_id i))"
proof -
  have u': "unique_on wi_id (agent_work_items w')" and steps: "board_step\<^sup>*\<^sup>* (board w) (board w')"
    using on_board_run [OF run] u by (simp_all add: on_board_def)
  have "board_ok (board w)" using ok unfolding board_ok_def board_of_Some [OF u] by (auto simp: slot_of_def)
  then have ok': "board_ok (board w')" by (rule board_run_ok [OF steps])
  have "wi_status i = ''open'' \<longleftrightarrow> wi_assigned_agent_id i = None" if "i \<in> set (agent_work_items w')" for i
    using ok' board_of_at [OF u' that] unfolding board_ok_def slot_of_def by blast
  moreover have "\<exists>j \<in> set (agent_work_items w'). wi_id j = wi_id i \<and> wi_version i \<le> wi_version j \<and>
      (wi_version j = wi_version i \<longrightarrow> wi_status j = wi_status i \<and> wi_assigned_agent_id j = wi_assigned_agent_id i)"
    if i: "i \<in> set (agent_work_items w)" for i
  proof -
    obtain s where s: "board w' (wi_id i) = Some s" "slot_later (slot_of i) s"
      using board_run_later [OF steps board_of_at [OF u i]] by blast
    then obtain j where j: "j \<in> set (agent_work_items w')" "wi_id j = wi_id i" "slot_of j = s"
      unfolding board_of_Some [OF u'] by blast
    have "wi_version i \<le> wi_version j \<and> (wi_version j = wi_version i \<longrightarrow>
        wi_status j = wi_status i \<and> wi_assigned_agent_id j = wi_assigned_agent_id i)"
      using s(2) unfolding j(3) [symmetric] slot_later_def slot_of_def by auto
    with j show ?thesis by blast
  qed
  ultimately show ?thesis by blast
qed

theorem item_version_fences_witness:
  "list_all (\<lambda>i. wi_status i = ''open'' \<longleftrightarrow> wi_assigned_agent_id i = None)
     (agent_work_items (work_step auto_cfg WorkerRound lab_two))"
proof -
  have "unique_on wi_id (agent_work_items lab_two)"
      "\<forall>i \<in> set (agent_work_items lab_two). wi_status i = ''open'' \<longleftrightarrow> wi_assigned_agent_id i = None"
    by (simp_all add: lab_two_def lab_item_def unique_on_def)
  from item_version_fences [OF work_run.work [OF work_run.begin_work] this] show ?thesis
    unfolding list_all_iff by blast
qed

end
